(* ===== verification/Dex_Prelude.thy ===== *)
theory Dex_Prelude
  imports Main "HOL-Library.Word"
begin

section \<open>Prelude: Go results, effects and shared lemmas\<close>

text \<open>
  What every component of the agent's model shares: Go's error values, the three ways a
  Go call can end (a value, an error value, a panic), effectful operations that thread a
  state, and the lemma collections the component theories rely on.
\<close>

named_theorems go_iff \<open>when a composed Go call returns a value, an error, or panics\<close>
named_theorems keeps_intros \<open>how an invariant passes through composed operations\<close>

type_synonym bytes = string
type_synonym u32 = "32 word"
type_synonym u64 = "64 word"

subsection \<open>Errors\<close>

text \<open>
  An error made in this repository is a call of \<open>fmt.Errorf\<close> or \<open>errors.New\<close>:
  \<open>Errorf\<close> keeps the format text of the source and its arguments (\<open>%s\<close>/\<open>%v\<close>,
  \<open>%q\<close>, \<open>%d\<close>, \<open>%w\<close>, and \<open>%v\<close> of a list). \<open>Foreign\<close> is an error value that
  comes from a package outside the repository.
\<close>

datatype err =
    Errorf string "earg list"
  | Foreign string
and earg =
    AS string
  | AQ string
  | AD int
  | AW err
  | AV "string list"

text \<open>How a Go call ends. A panic is not an error value: no \<open>if err != nil\<close> sees it.\<close>

datatype 'a go = Ok (the_ok: 'a) | Err (the_err: err) | Panics

fun go_bind :: "'a go \<Rightarrow> ('a \<Rightarrow> 'b go) \<Rightarrow> 'b go" where
  "go_bind (Ok a) f = f a"
| "go_bind (Err e) f = Err e"
| "go_bind Panics f = Panics"

text \<open>\<open>fmt.Errorf("text: %w", err)\<close> around the error of a call, the value untouched.\<close>

fun wrap_err :: "(err \<Rightarrow> err) \<Rightarrow> 'a go \<Rightarrow> 'a go" where
  "wrap_err w (Ok a) = Ok a"
| "wrap_err w (Err e) = Err (w e)"
| "wrap_err w Panics = Panics"

fun is_ok :: "'a go \<Rightarrow> bool" where
  "is_ok (Ok a) = True"
| "is_ok (Err e) = False"
| "is_ok Panics = False"

lemma go_bind_eq_Ok [go_iff]: "go_bind m f = Ok b \<longleftrightarrow> (\<exists>a. m = Ok a \<and> f a = Ok b)"
  by (cases m) auto

lemma go_bind_eq_Err [go_iff]:
  "go_bind m f = Err e \<longleftrightarrow> m = Err e \<or> (\<exists>a. m = Ok a \<and> f a = Err e)"
  by (cases m) auto

lemma go_bind_eq_Panics [go_iff]:
  "go_bind m f = Panics \<longleftrightarrow> m = Panics \<or> (\<exists>a. m = Ok a \<and> f a = Panics)"
  by (cases m) auto

lemma wrap_err_eq_Ok [go_iff]: "wrap_err w m = Ok a \<longleftrightarrow> m = Ok a"
  by (cases m) auto

lemma wrap_err_eq_Err [go_iff]: "wrap_err w m = Err e \<longleftrightarrow> (\<exists>e'. m = Err e' \<and> e = w e')"
  by (cases m) auto

lemma wrap_err_eq_Panics [go_iff]: "wrap_err w m = Panics \<longleftrightarrow> m = Panics"
  by (cases m) auto

lemma is_ok_iff: "is_ok m \<longleftrightarrow> (\<exists>a. m = Ok a)"
  by (cases m) auto

text \<open>
  A loop that converts each element and stops at the first error, wrapped with the index
  it happened at.
\<close>

fun go_map_from :: "nat \<Rightarrow> (nat \<Rightarrow> err \<Rightarrow> err) \<Rightarrow> ('a \<Rightarrow> 'b go) \<Rightarrow> 'a list \<Rightarrow> 'b list go" where
  "go_map_from i w f [] = Ok []"
| "go_map_from i w f (x # xs) =
     go_bind (wrap_err (w i) (f x)) (\<lambda>y.
     go_bind (go_map_from (Suc i) w f xs) (\<lambda>ys. Ok (y # ys)))"

lemma go_map_from_Ok_iff:
  "go_map_from i w f xs = Ok ys \<longleftrightarrow> list_all2 (\<lambda>x y. f x = Ok y) xs ys"
proof (induction xs arbitrary: i ys)
  case Nil
  then show ?case by auto
next
  case (Cons x xs)
  then show ?case by (auto simp: go_iff list_all2_Cons1)
qed

lemma go_map_from_no_panic:
  "(\<And>x. f x \<noteq> Panics) \<Longrightarrow> go_map_from i w f xs \<noteq> Panics"
  by (induction xs arbitrary: i) (auto simp: go_iff)

subsection \<open>Operations with effects\<close>

text \<open>
  An operation on a state, in explicit state passing: the state changes made before an
  error or a panic remain.
\<close>

type_synonym ('s, 'a) act = "'s \<Rightarrow> 'a go \<times> 's"

definition act_ret :: "'a go \<Rightarrow> ('s, 'a) act" where
  "act_ret r = (\<lambda>s. (r, s))"

definition act_bind :: "('s, 'a) act \<Rightarrow> ('a \<Rightarrow> ('s, 'b) act) \<Rightarrow> ('s, 'b) act" where
  "act_bind m f = (\<lambda>s. case m s of
     (Ok a, s') \<Rightarrow> f a s'
   | (Err e, s') \<Rightarrow> (Err e, s')
   | (Panics, s') \<Rightarrow> (Panics, s'))"

definition act_wrap :: "(err \<Rightarrow> err) \<Rightarrow> ('s, 'a) act \<Rightarrow> ('s, 'a) act" where
  "act_wrap w m = (\<lambda>s. case m s of (r, s') \<Rightarrow> (wrap_err w r, s'))"

lemma act_ret_apply [simp]: "act_ret r s = (r, s)"
  by (simp add: act_ret_def)

lemma act_bind_Ok_iff [go_iff]:
  "act_bind m f s = (Ok b, s2) \<longleftrightarrow> (\<exists>a s1. m s = (Ok a, s1) \<and> f a s1 = (Ok b, s2))"
  by (auto simp: act_bind_def split: prod.splits go.splits)

lemma act_wrap_Ok_iff [go_iff]: "act_wrap w m s = (Ok a, s') \<longleftrightarrow> m s = (Ok a, s')"
  by (auto simp: act_wrap_def go_iff split: prod.splits)

lemma act_bind_eval [simp]:
  "m s = (Ok a, s') \<Longrightarrow> act_bind m f s = f a s'"
  "m s = (Err e, s') \<Longrightarrow> act_bind m f s = (Err e, s')"
  "m s = (Panics, s') \<Longrightarrow> act_bind m f s = (Panics, s')"
  by (simp_all add: act_bind_def)

lemma act_bind_ret [simp]: "act_bind (act_ret (Ok a)) f = f a"
  by (rule ext) simp

lemma act_bind_assoc: "act_bind (act_bind m f) g = act_bind m (\<lambda>a. act_bind (f a) g)"
  by (rule ext) (simp add: act_bind_def split: prod.split go.split)

text \<open>A bound call stops where its first half does not return a value, and the rest is not run.\<close>

lemma act_bind_cases:
  assumes "act_bind m f s = (r, s')"
  obtains (runs) a s1 where "m s = (Ok a, s1)" "f a s1 = (r, s')"
    | (stops) q where "m s = (q, s')" "\<not> is_ok q" "\<not> is_ok r"
  using assms by (auto simp: act_bind_def split: prod.splits go.splits)

lemma act_ret_bind_cases:
  assumes "act_bind (act_wrap w (act_ret q)) f s = (r, s')"
  obtains (runs) a where "q = Ok a" "f a s = (r, s')" | (stops) "s' = s" "\<not> is_ok r"
  using assms by (cases q) (auto simp: act_bind_def act_wrap_def)

text \<open>\<open>keeps R m\<close>: from any state, \<open>m\<close> ends in an \<open>R\<close>-later one, however it ends.\<close>

definition keeps :: "('s \<Rightarrow> 's \<Rightarrow> bool) \<Rightarrow> ('s, 'a) act \<Rightarrow> bool" where
  "keeps R m \<longleftrightarrow> (\<forall>s. R s (snd (m s)))"

lemma keepsI: "(\<And>s. R s (snd (m s))) \<Longrightarrow> keeps R m"
  by (simp add: keeps_def)

lemma keepsD: "keeps R m \<Longrightarrow> m s = (r, s') \<Longrightarrow> R s s'"
  by (metis keeps_def snd_conv)

lemma keeps_wrap [keeps_intros]: "keeps R m \<Longrightarrow> keeps R (act_wrap w m)"
  by (auto simp: keeps_def act_wrap_def split: prod.splits) (metis snd_conv)

text \<open>
  A contract between the states before and after an operation that composes: reflexive
  and transitive. Its operations compose in any order, over any number of calls.
\<close>

locale effect_contract =
  fixes R :: "'s \<Rightarrow> 's \<Rightarrow> bool"
  assumes R_refl: "R s s"
    and R_trans: "R s t \<Longrightarrow> R t u \<Longrightarrow> R s u"
begin

lemma keeps_ret: "keeps R (act_ret r)"
  by (simp add: keeps_def R_refl)

lemma keeps_bind:
  assumes "keeps R m" and "\<And>a. keeps R (f a)"
  shows "keeps R (act_bind m f)"
proof (rule keepsI)
  fix s
  obtain r s1 where m: "m s = (r, s1)" by force
  with assms(1) have R1: "R s s1" by (rule keepsD)
  show "R s (snd (act_bind m f s))"
  proof (cases r)
    case (Ok a)
    have "R s1 (snd (f a s1))" using assms(2) by (simp add: keeps_def)
    with R1 show ?thesis by (auto simp: m Ok intro: R_trans)
  qed (use m R1 in auto)
qed

lemma keeps_if:
  "keeps R m \<Longrightarrow> keeps R n \<Longrightarrow> keeps R (if b then m else n)"
  by simp

text \<open>A run: a sequence of operations, each of which may succeed, fail or panic.\<close>

lemma fold_keeps:
  assumes "\<And>m. m \<in> set ms \<Longrightarrow> keeps R m"
  shows "R s (fold (\<lambda>m s. snd (m s)) ms s)"
  using assms
proof (induction ms arbitrary: s)
  case Nil
  then show ?case by (simp add: R_refl)
next
  case (Cons m ms)
  have "R s (snd (m s))" using Cons.prems by (simp add: keeps_def)
  moreover have "R (snd (m s)) (fold (\<lambda>m s. snd (m s)) ms (snd (m s)))"
    using Cons by simp
  ultimately show ?case by (auto intro: R_trans)
qed

end

text \<open>Preservation of a state predicate is such a contract.\<close>

abbreviation stays :: "('s \<Rightarrow> bool) \<Rightarrow> 's \<Rightarrow> 's \<Rightarrow> bool" where
  "stays P \<equiv> (\<lambda>s t. P s \<longrightarrow> P t)"

interpretation stays: effect_contract "stays P" for P :: "'s \<Rightarrow> bool"
  by unfold_locales auto

subsection \<open>Go maps with ordered or bounded iteration\<close>

text \<open>
  A Go map whose size, order or iteration matters. The interface the clients rely on:
  reading after a write, and keys.
\<close>

locale dict =
  fixes empty_d :: "'m"
    and get_d :: "'m \<Rightarrow> 'k \<Rightarrow> 'v option"
    and put_d :: "'k \<Rightarrow> 'v \<Rightarrow> 'm \<Rightarrow> 'm"
    and wf_d :: "'m \<Rightarrow> bool"
  assumes get_empty: "get_d empty_d k = None"
    and wf_empty: "wf_d empty_d"
    and wf_put: "wf_d m \<Longrightarrow> wf_d (put_d k v m)"
    and get_put: "wf_d m \<Longrightarrow> get_d (put_d k v m) k' = (if k' = k then Some v else get_d m k')"
begin

lemma wf_fold: "wf_d m \<Longrightarrow> wf_d (fold (\<lambda>(k, v). put_d k v) kvs m)"
  by (induction kvs arbitrary: m) (auto simp: wf_put)

lemma get_fold:
  "wf_d m \<Longrightarrow> get_d (fold (\<lambda>(k, v). put_d k v) kvs m) k =
     (case map_of (rev kvs) k of Some v \<Rightarrow> Some v | None \<Rightarrow> get_d m k)"
proof (induction kvs arbitrary: m)
  case Nil
  then show ?case by simp
next
  case (Cons kv kvs)
  then show ?case
    by (cases kv) (auto simp: wf_put get_put map_add_def split: option.splits)
qed

lemma wf_of_pairs: "wf_d (fold (\<lambda>(k, v). put_d k v) kvs empty_d)"
  by (simp add: wf_fold wf_empty)

text \<open>Filling a map pair by pair keeps the last value given for each key.\<close>

lemma get_of_pairs: "get_d (fold (\<lambda>(k, v). put_d k v) kvs empty_d) k = map_of (rev kvs) k"
  by (simp add: get_fold wf_empty get_empty split: option.splits)

end

end
