(* ===== verification/Chain_Msgs.thy ===== *)
theory Chain_Msgs
  imports Dex_Prelude
begin

section \<open>Chain messages, accounts and broadcasts\<close>

text \<open>
  The protobuf values the agent builds and the answers it gets from a chain, with the fields the
  source sets or reads. The types themselves are declared in the chain's packages; what those
  packages compute (packing, basic validation, marshalling) is an argument of the definitions
  that use it.
\<close>

record sdk_coin =
  co_Denom :: string
  co_Amount :: int

record pb_Pricing =
  pp_PerCall :: "sdk_coin list"
  pp_Unit :: string

record pb_Limits =
  pl_SpendLimitTotal :: "sdk_coin list"
  pl_SpendLimitDaily :: "sdk_coin list"
  pl_SvcSpendLimitTotal :: "sdk_coin list"
  pl_SvcSpendLimitDaily :: "sdk_coin list"
  pl_Denoms :: "string list"
  pl_Actions :: "string list"
  pl_Skills :: "string list"
  pl_Contracts :: "string list"
  pl_Subaccounts :: "u32 list"
  pl_MaxDepth :: u32
  pl_MaxTokenTtlSeconds :: u32

record register_agent =
  ra_Owner :: string
  ra_AgentId :: string
  ra_Operator :: string
  ra_PublicKey :: bytes
  ra_Endpoint :: string
  ra_CapabilityHash :: bytes
  ra_Capabilities :: "string list"
  ra_Pricing :: "pb_Pricing option"
  ra_InitialBond :: sdk_coin
  ra_Metadata :: string

record update_agent =
  ua_Owner :: string
  ua_AgentId :: string
  ua_PublicKey :: bytes
  ua_Endpoint :: string
  ua_CapabilityHash :: bytes
  ua_Capabilities :: "string list"
  ua_Pricing :: "pb_Pricing option"
  ua_Metadata :: string

text \<open>A packed message: its type URL, its bytes, and the value it was packed from.\<close>

datatype 'm any = Any (any_type_url: string) (any_bytes: bytes) (any_cached: 'm)

datatype sdk_msg =
    MsgRegisterAgent register_agent
  | MsgUpdateAgent update_agent
  | MsgDepositBond (mb_owner: string) (mb_agent: string) (mb_amount: sdk_coin)
  | MsgWithdrawBond (mw_owner: string) (mw_agent: string) (mw_amount: sdk_coin)
  | MsgDeregisterAgent (md_owner: string) (md_agent: string)
  | MsgCreateDelegation (mc_delegator: string) (mc_agent: string) (mc_limits: pb_Limits) (mc_expires: int)
  | MsgUpdateDelegation (mu_delegator: string) (mu_root: bytes) (mu_limits: pb_Limits) (mu_expires: int)
  | MsgPauseDelegation (mp_delegator: string) (mp_root: bytes)
  | MsgResumeDelegation (mr_delegator: string) (mr_root: bytes)
  | MsgRevokeDelegation (mv_delegator: string) (mv_root: bytes)
  | MsgRevokeToken (mt_delegator: string) (mt_root: bytes) (mt_token: bytes)
  | MsgAgentExecDelegated (mx_executor: string) (mx_agent: string) (mx_tokens: "bytes list")
      (mx_inner: "sdk_msg any")
  | OtherMsg (mo_type_url: string) (mo_bytes: bytes)

record AccountInfo =
  ai_AccountNumber :: u64
  ai_Sequence :: u64

record BroadcastResult =
  bc_TxHash :: string
  bc_Code :: u32
  bc_RawLog :: string

text \<open>An agent of the registry, with the fields the agent reads.\<close>

record registered_agent =
  rg_AgentId :: string
  rg_PublicKey :: bytes
  rg_Status :: string
  rg_Bond :: string
  rg_Endpoint :: string
  rg_CapabilityHash :: bytes

end
