(* ===== verification/Agent_World.thy ===== *)
theory Agent_World
  imports Chain_Msgs
begin

section \<open>Time, effects, and caches bounded in time\<close>

text \<open>
  What the stateful services share. External answers vary with time: every call that leaves the
  process (a query, a broadcast, the clock) happens at a step of its own, counted by \<open>w_tick\<close>, and
  the answer is a function of that step. Two further effects are logged in order: what is read
  and sent under the operator's account, and the lock that orders them.
\<close>

datatype event =
    LockSeq
  | UnlockSeq
  | ReadAccount string
  | Broadcast bytes "BroadcastResult go"

record world =
  w_tick :: nat
  w_log :: "event list"

text \<open>One external call at the current step.\<close>

definition ask :: "(nat \<Rightarrow> 'a go) \<Rightarrow> ('s world_scheme, 'a) act" where
  "ask f = (\<lambda>s. (f (w_tick s), s\<lparr>w_tick := Suc (w_tick s)\<rparr>))"

definition now_at :: "(nat \<Rightarrow> int) \<Rightarrow> ('s world_scheme, int) act" where
  "now_at clock = ask (\<lambda>t. Ok (clock t))"

definition emit :: "event \<Rightarrow> ('s world_scheme, unit) act" where
  "emit e = (\<lambda>s. (Ok (), s\<lparr>w_log := w_log s @ [e]\<rparr>))"

text \<open>
  \<open>seqMu.Lock(); defer seqMu.Unlock()\<close> around the rest of a function: the lock is released
  however the rest ends.
\<close>

definition with_seq :: "('s world_scheme, 'a) act \<Rightarrow> ('s world_scheme, 'a) act" where
  "with_seq m = (\<lambda>s. case m (s\<lparr>w_log := w_log s @ [LockSeq]\<rparr>) of
     (r, s') \<Rightarrow> (r, s'\<lparr>w_log := w_log s' @ [UnlockSeq]\<rparr>))"

lemma ask_apply [simp]: "ask f s = (f (w_tick s), s\<lparr>w_tick := Suc (w_tick s)\<rparr>)"
  by (simp add: ask_def)

lemma now_at_apply [simp]: "now_at c s = (Ok (c (w_tick s)), s\<lparr>w_tick := Suc (w_tick s)\<rparr>)"
  by (simp add: now_at_def)

lemma emit_apply [simp]: "emit e s = (Ok (), s\<lparr>w_log := w_log s @ [e]\<rparr>)"
  by (simp add: emit_def)

text \<open>The events an operation adds.\<close>

definition new_events :: "'s world_scheme \<Rightarrow> 's world_scheme \<Rightarrow> event list" where
  "new_events s s' = drop (length (w_log s)) (w_log s')"

definition sent :: "event list \<Rightarrow> bytes set" where
  "sent es = {raw. \<exists>r. Broadcast raw r \<in> set es}"

lemma sent_simps [simp]:
  "sent [] = {}" "sent (LockSeq # es) = sent es" "sent (UnlockSeq # es) = sent es"
  "sent (ReadAccount a # es) = sent es" "sent (Broadcast raw r # es) = insert raw (sent es)"
  "sent (es @ es') = sent es \<union> sent es'"
  by (auto simp: sent_def)

text \<open>An operation that is silent (sends nothing, reads no account).\<close>

definition silent :: "('s world_scheme, 'a) act \<Rightarrow> bool" where
  "silent m \<longleftrightarrow> keeps (\<lambda>s s'. w_log s' = w_log s) m"

interpretation same_log: effect_contract "\<lambda>s s'. w_log s' = w_log s"
  by unfold_locales auto

lemma silentD: "silent m \<Longrightarrow> m s = (r, s') \<Longrightarrow> w_log s' = w_log s"
  unfolding silent_def by (drule keepsD)

lemma silent_intros [keeps_intros]:
  "silent (act_ret r)" "silent (ask q)" "silent (now_at c)"
  "silent m \<Longrightarrow> (\<And>a. silent (g a)) \<Longrightarrow> silent (act_bind m g)"
  "silent m \<Longrightarrow> silent (act_wrap w m)"
  by (auto simp: silent_def same_log.keeps_ret intro: same_log.keeps_bind keeps_wrap keepsI)

subsection \<open>Who calls\<close>

text \<open>
  A tenant as the policy engine knows it (\<open>policy.TenantPolicy\<close>), one of the self-service store, and what a request's context
  carries for the tools: the tenant it authenticated as, its session and the client's address.
\<close>

record TenantPolicy =
  tp_TenantID :: string
  tp_Owner :: string
  tp_AllowedSubaccounts :: "u32 set"
  tp_KillSwitch :: bool

record TenantContext =
  tc_TenantID :: string
  tc_Owner :: string

text \<open>A tenant of the self-service store (\<open>auth.TenantRecord\<close>).\<close>

record TenantRecord =
  tn_TenantID :: string
  tn_Owner :: string
  tn_AllowedSubaccounts :: "u32 set"
  tn_KillSwitch :: bool

record ToolCtx =
  cx_Tenant :: "TenantContext option"
  cx_Session :: "string option"
  cx_IP :: "string option"

definition no_ctx :: ToolCtx where
  "no_ctx = \<lparr>cx_Tenant = None, cx_Session = None, cx_IP = None\<rparr>"

definition ErrNoTenant :: err where "ErrNoTenant = Foreign ''tools.ErrNoTenant''"

subsection \<open>A slot of a cache that trusts an answer for \<open>ttl\<close> seconds\<close>

text \<open>
  The discipline both caches of the service follow for one key: a read returns the stored answer
  when the clock says it is younger than the bound, and otherwise asks, stores the answer with the
  clock read after it arrived, and returns it; a failed question stores nothing.
\<close>

locale ttl_cache =
  fixes slot :: "'s \<Rightarrow> ('v \<times> int) option"
    and tick :: "'s \<Rightarrow> nat"
    and clock :: "nat \<Rightarrow> int"
    and question :: "nat \<Rightarrow> 'v go"
    and ttl :: "'s \<Rightarrow> int"
    and read :: "('s, 'v) act"
  assumes read_cases: "read s = (r, s') \<Longrightarrow>
      (\<exists>v t. slot s = Some (v, t) \<and> clock (tick s) - t < ttl s \<and> r = Ok v \<and> slot s' = slot s \<and>
             tick s' = Suc (tick s)) \<or>
      (\<exists>k \<in> {tick s, Suc (tick s)}. \<exists>v. question k = Ok v \<and> r = Ok v \<and>
             slot s' = Some (v, clock (Suc k)) \<and> tick s' = Suc (Suc k)) \<or>
      (\<exists>k \<in> {tick s, Suc (tick s)}. (\<forall>v. question k \<noteq> Ok v) \<and> (\<forall>v. r \<noteq> Ok v) \<and>
             slot s' = slot s \<and> tick s' = Suc k)"
    and read_reuses: "slot s = Some (v, t) \<Longrightarrow> clock (tick s) - t < ttl s \<Longrightarrow> fst (read s) = Ok v"
begin

text \<open>The stored answer was given at a past step, and its stamp is the clock of the next one.\<close>

definition honest :: "'s \<Rightarrow> bool" where
  "honest s \<longleftrightarrow> (\<forall>v t. slot s = Some (v, t) \<longrightarrow>
     (\<exists>k. Suc k < tick s \<and> question k = Ok v \<and> t = clock (Suc k)))"

lemma honest_empty: "slot s = None \<Longrightarrow> honest s"
  by (simp add: honest_def)

lemma honest_later: "honest s \<Longrightarrow> slot s' = slot s \<Longrightarrow> tick s \<le> tick s' \<Longrightarrow> honest s'"
  unfolding honest_def by (metis order_less_le_trans)

lemma read_honest:
  assumes "honest s"
  shows "honest (snd (read s))"
proof -
  obtain r s' where rd: "read s = (r, s')" by force
  from read_cases [OF this] have "honest s'"
  proof (elim disjE exE bexE conjE)
    fix v t assume "slot s' = slot s" "tick s' = Suc (tick s)"
    with assms show ?thesis by (auto intro: honest_later)
  next
    fix k v assume "k \<in> {tick s, Suc (tick s)}" "question k = Ok v"
      "slot s' = Some (v, clock (Suc k))" "tick s' = Suc (Suc k)"
    then show ?thesis by (auto simp: honest_def)
  next
    fix k assume "k \<in> {tick s, Suc (tick s)}" "slot s' = slot s" "tick s' = Suc k"
    with assms show ?thesis by (auto intro: honest_later)
  qed
  with rd show ?thesis by simp
qed

text \<open>
  What a read returns was the answer at some step \<open>k\<close>: a step of this very read, or one whose stamp
  is less than the bound before the clock at this read.
\<close>

lemma read_fresh:
  assumes "honest s" and "read s = (Ok v, s')"
  shows "\<exists>k. question k = Ok v \<and>
    (tick s \<le> k \<and> k < tick s' \<or> Suc k < tick s \<and> clock (tick s) - clock (Suc k) < ttl s)"
  using read_cases [OF assms(2)]
proof (elim disjE exE bexE conjE)
  fix v' t assume "slot s = Some (v', t)" "clock (tick s) - t < ttl s" "Ok v = Ok v'"
  with assms(1) show ?thesis by (fastforce simp: honest_def)
next
  fix k v' assume "k \<in> {tick s, Suc (tick s)}" "question k = Ok v'" "Ok v = Ok v'" "tick s' = Suc (Suc k)"
  then show ?thesis by (intro exI [of _ k]) auto
qed simp

text \<open>Two reads within the bound of a stored answer give that answer: no further question.\<close>

lemma read_stable:
  "slot s = Some (v, t) \<Longrightarrow> clock (tick s) - t < ttl s \<Longrightarrow> \<exists>s'. read s = (Ok v, s')"
  using read_reuses by (metis prod.collapse)

end

end
