(* ===== verification/Go_Text.thy ===== *)
theory Go_Text
  imports Dex_Prelude "HOL-Library.Char_ord" "HOL-Library.List_Lexorder" "HOL-Library.Sublist"
begin

section \<open>The text functions of Go's standard library the agent uses\<close>

text \<open>
  Byte strings and the functions of \<open>encoding/hex\<close>, \<open>encoding/base64\<close>, \<open>net/url\<close>,
  \<open>strings\<close> and \<open>path/filepath\<close> (Unix) that the agent's code calls, with their
  round trips. A Go string is a byte sequence: a HOL \<open>string\<close>, one \<open>char\<close> per byte.
\<close>

subsection \<open>Codecs\<close>

text \<open>What a client of an encoding needs: what was encoded is read back.\<close>

locale codec =
  fixes enc :: "'a \<Rightarrow> string" and dec :: "string \<Rightarrow> 'a go"
  assumes dec_enc: "dec (enc x) = Ok x"
begin

lemma enc_inject: "enc x = enc y \<longleftrightarrow> x = y"
  by (metis dec_enc go.inject(1))

lemma inj_enc: "inj enc"
  by (rule injI) (simp add: enc_inject)

end

text \<open>A byte as a number, with the bounds of its digits.\<close>

lemma byte_lt: "(of_char c :: nat) < 256"
  by simp

lemma byte_digits:
  "(of_char a :: nat) div 4 < 64"
  "(of_char a :: nat) div 16 < 16"
  "(of_char a :: nat) div 64 < 4"
  "(of_char a :: nat) div 16 div 16 = 0"
  "(of_char a :: nat) div 16 mod 16 = of_char a div 16"
  "(of_char a :: nat) div 64 div 4 = 0"
  "(of_char a :: nat) div 64 mod 4 = of_char a div 64"
  using byte_lt [of a] by (simp_all add: less_mult_imp_div_less)

subsection \<open>Hexadecimal\<close>

definition hex_digits :: string where
  "hex_digits = ''0123456789abcdef''"

fun unhex :: "char \<Rightarrow> nat option" where
  "unhex c =
     (let n = of_char c in
      if 48 \<le> n \<and> n \<le> 57 then Some (n - 48)
      else if 97 \<le> n \<and> n \<le> 102 then Some (n - 87)
      else if 65 \<le> n \<and> n \<le> 70 then Some (n - 55)
      else None)"

declare unhex.simps [simp del]

fun hex_encode :: "bytes \<Rightarrow> string" where
  "hex_encode [] = []"
| "hex_encode (c # cs) =
     hex_digits ! (of_char c div 16) # hex_digits ! (of_char c mod 16) # hex_encode cs"

fun hex_decode :: "string \<Rightarrow> bytes go" where
  "hex_decode [] = Ok []"
| "hex_decode [a] =
     (if unhex a = None then Err (Foreign ''encoding/hex: invalid byte'')
      else Err (Foreign ''encoding/hex: odd length hex string''))"
| "hex_decode (a # b # cs) =
     (case (unhex a, unhex b) of
        (Some h, Some l) \<Rightarrow> go_bind (hex_decode cs) (\<lambda>r. Ok (char_of (16 * h + l) # r))
      | _ \<Rightarrow> Err (Foreign ''encoding/hex: invalid byte''))"

lemma less_16: "(k :: nat) < 16 \<Longrightarrow> k \<in> {0, 1, 2, 3, 4, 5, 6, 7, 8, 9, 10, 11, 12, 13, 14, 15}"
  by (simp add: numeral_eq_Suc less_Suc_eq disj_ac)

lemma unhex_digit: "k < 16 \<Longrightarrow> unhex (hex_digits ! k) = Some k"
  using less_16 [of k] by (auto simp: hex_digits_def unhex.simps)

lemma hex_decode_encode: "hex_decode (hex_encode bs) = Ok bs"
  by (induction bs) (simp_all add: unhex_digit byte_digits)

lemma length_hex_encode: "length (hex_encode bs) = 2 * length bs"
  by (induction bs) auto

lemma hex_decode_no_panic: "hex_decode s \<noteq> Panics"
  by (induction s rule: hex_decode.induct) (auto simp: go_iff split: option.splits)

lemma hex_decode_length: "hex_decode s = Ok bs \<Longrightarrow> length s = 2 * length bs"
  by (induction s arbitrary: bs rule: hex_decode.induct)
    (auto simp: go_iff split: option.splits if_splits)

interpretation hex: codec hex_encode hex_decode
  by unfold_locales (rule hex_decode_encode)

subsection \<open>Base64\<close>

definition b64_common :: string where
  "b64_common = ''ABCDEFGHIJKLMNOPQRSTUVWXYZabcdefghijklmnopqrstuvwxyz0123456789''"

definition b64_std :: string where "b64_std = b64_common @ ''+/''"
definition b64_url :: string where "b64_url = b64_common @ ''-_''"

fun index_of :: "string \<Rightarrow> char \<Rightarrow> nat option" where
  "index_of [] c = None"
| "index_of (a # as) c = (if a = c then Some 0 else map_option Suc (index_of as c))"

fun b64_encode :: "string \<Rightarrow> bytes \<Rightarrow> string" where
  "b64_encode al [] = []"
| "b64_encode al [a] =
     (let n = of_char a in [al ! (n div 4), al ! (n mod 4 * 16), CHR ''='', CHR ''=''])"
| "b64_encode al [a, b] =
     (let m = of_char a; n = of_char b in
      [al ! (m div 4), al ! (m mod 4 * 16 + n div 16), al ! (n mod 16 * 4), CHR ''=''])"
| "b64_encode al (a # b # c # cs) =
     (let m = of_char a; n = of_char b; k = of_char c in
      al ! (m div 4) # al ! (m mod 4 * 16 + n div 16) # al ! (n mod 16 * 4 + k div 64) #
      al ! (k mod 64) # b64_encode al cs)"

definition b64_corrupt :: err where
  "b64_corrupt = Foreign ''illegal base64 data''"

fun b64_quads :: "string \<Rightarrow> string \<Rightarrow> bytes go" where
  "b64_quads al [] = Ok []"
| "b64_quads al (a # b # c # d # rest) =
     (case (index_of al a, index_of al b) of
        (Some i, Some j) \<Rightarrow>
          (if d = CHR ''='' \<and> c = CHR ''='' then
             (if rest = [] then Ok [char_of (i * 4 + j div 16)] else Err b64_corrupt)
           else if d = CHR ''='' then
             (case index_of al c of
                Some k \<Rightarrow>
                  (if rest = [] then Ok [char_of (i * 4 + j div 16), char_of (j mod 16 * 16 + k div 4)]
                   else Err b64_corrupt)
              | None \<Rightarrow> Err b64_corrupt)
           else
             (case (index_of al c, index_of al d) of
                (Some k, Some l) \<Rightarrow>
                  go_bind (b64_quads al rest) (\<lambda>r.
                  Ok (char_of (i * 4 + j div 16) # char_of (j mod 16 * 16 + k div 4) #
                      char_of (k mod 4 * 64 + l) # r))
              | _ \<Rightarrow> Err b64_corrupt))
      | _ \<Rightarrow> Err b64_corrupt)"
| "b64_quads al _ = Err b64_corrupt"

text \<open>
  \<open>base64.Encoding.DecodeString\<close>: carriage returns and newlines are skipped; padding is
  required; the unused low bits of the last character are not checked (the non-strict mode).
\<close>

definition b64_decode :: "string \<Rightarrow> string \<Rightarrow> bytes go" where
  "b64_decode al s = b64_quads al (filter (\<lambda>c. c \<noteq> CHR 0x0A \<and> c \<noteq> CHR 0x0D) s)"

lemma index_of_nth: "distinct al \<Longrightarrow> k < length al \<Longrightarrow> index_of al (al ! k) = Some k"
proof (induction al arbitrary: k)
  case Nil
  then show ?case by simp
next
  case (Cons a al)
  then show ?case by (cases k) auto
qed

text \<open>A 64-character alphabet that avoids the padding and the skipped characters.\<close>

definition b64_alphabet :: "string \<Rightarrow> bool" where
  "b64_alphabet al \<longleftrightarrow> length al = 64 \<and> distinct al \<and>
     CHR ''='' \<notin> set al \<and> CHR 0x0A \<notin> set al \<and> CHR 0x0D \<notin> set al"

lemma b64_alphabet_std: "b64_alphabet b64_std"
  by (simp add: b64_alphabet_def b64_std_def b64_common_def)

lemma b64_alphabet_url: "b64_alphabet b64_url"
  by (simp add: b64_alphabet_def b64_url_def b64_common_def)

lemma b64_alphabet_nth:
  assumes "b64_alphabet al" and "k < 64"
  shows "index_of al (al ! k) = Some k" "al ! k \<noteq> CHR ''=''" "al ! k \<in> set al"
  using assms by (auto simp: b64_alphabet_def index_of_nth in_set_conv_nth)

lemma b64_sextets:
  "(m :: nat) mod 4 * 16 < 64"
  "m mod 4 * 16 + of_char b div 16 < 64"
  "(n :: nat) mod 16 * 4 < 64"
  "n mod 16 * 4 + of_char c div 64 < 64"
  "(k :: nat) mod 64 < 64"
proof -
  have m: "m mod 4 < 4" and n: "n mod 16 < 16" by simp_all
  then show "m mod 4 * 16 < 64" and "n mod 16 * 4 < 64" by linarith+
  show "m mod 4 * 16 + of_char b div 16 < 64" "n mod 16 * 4 + of_char c div 64 < 64"
    using m n byte_digits(2) [of b] byte_digits(3) [of c] by linarith+
qed simp

lemma set_b64_encode:
  assumes "b64_alphabet al"
  shows "set (b64_encode al bs) \<subseteq> insert (CHR ''='') (set al)"
  using assms
  by (induction al bs rule: b64_encode.induct)
    (simp_all add: Let_def b64_alphabet_nth b64_sextets byte_digits)

lemma b64_quads_encode: "b64_alphabet al \<Longrightarrow> b64_quads al (b64_encode al bs) = Ok bs"
proof (induction al bs rule: b64_encode.induct)
  case (2 al a)
  then show ?case
    by (simp add: Let_def b64_alphabet_nth b64_sextets byte_digits)
next
  case (3 al a b)
  then show ?case
    by (simp add: Let_def b64_alphabet_nth b64_sextets byte_digits)
next
  case (4 al a b c cs)
  then show ?case
    by (simp add: Let_def b64_alphabet_nth b64_sextets byte_digits)
qed simp

lemma b64_decode_encode:
  assumes "b64_alphabet al"
  shows "b64_decode al (b64_encode al bs) = Ok bs"
proof -
  have "filter (\<lambda>c. c \<noteq> CHR 0x0A \<and> c \<noteq> CHR 0x0D) (b64_encode al bs) = b64_encode al bs"
    using set_b64_encode [OF assms, of bs] assms
    by (intro filter_True) (auto simp: b64_alphabet_def)
  then show ?thesis
    by (simp add: b64_decode_def b64_quads_encode assms)
qed

lemma b64_decode_no_panic: "b64_decode al s \<noteq> Panics"
proof -
  have "b64_quads al t \<noteq> Panics" for t
    by (induction al t rule: b64_quads.induct)
      (auto simp: go_iff b64_corrupt_def split: option.splits)
  then show ?thesis by (simp add: b64_decode_def)
qed

interpretation b64std: codec "b64_encode b64_std" "b64_decode b64_std"
  by unfold_locales (simp add: b64_decode_encode b64_alphabet_std)

interpretation b64url: codec "b64_encode b64_url" "b64_decode b64_url"
  by unfold_locales (simp add: b64_decode_encode b64_alphabet_url)

subsection \<open>Path segments of a URL\<close>

definition hex_upper :: string where
  "hex_upper = ''0123456789ABCDEF''"

definition is_alnum :: "char \<Rightarrow> bool" where
  "is_alnum c = (let n = of_char c :: nat in
     48 \<le> n \<and> n \<le> 57 \<or> 65 \<le> n \<and> n \<le> 90 \<or> 97 \<le> n \<and> n \<le> 122)"

text \<open>The characters \<open>url.PathEscape\<close> leaves as they are.\<close>

definition path_safe :: "char \<Rightarrow> bool" where
  "path_safe c \<longleftrightarrow> is_alnum c \<or> c \<in> set ''-_.~$&+:=@''"

fun path_escape :: "string \<Rightarrow> string" where
  "path_escape [] = []"
| "path_escape (c # cs) =
     (if path_safe c then c # path_escape cs
      else CHR ''%'' # hex_upper ! (of_char c div 16) # hex_upper ! (of_char c mod 16) #
           path_escape cs)"

text \<open>\<open>url.PathUnescape\<close>, what the server at the other end of the path does.\<close>

fun path_unescape :: "string \<Rightarrow> string go" where
  "path_unescape [] = Ok []"
| "path_unescape (c # cs) =
     (if c = CHR ''%'' then
        (case cs of
           a # b # rest \<Rightarrow>
             (case (unhex a, unhex b) of
                (Some h, Some l) \<Rightarrow> go_bind (path_unescape rest) (\<lambda>r. Ok (char_of (16 * h + l) # r))
              | _ \<Rightarrow> Err (Foreign ''invalid URL escape''))
         | _ \<Rightarrow> Err (Foreign ''invalid URL escape''))
      else go_bind (path_unescape cs) (\<lambda>r. Ok (c # r)))"

lemma hex_upper_nth:
  "k < 16 \<Longrightarrow> unhex (hex_upper ! k) = Some k \<and> is_alnum (hex_upper ! k)"
  using less_16 [of k] by (auto simp: hex_upper_def unhex.simps is_alnum_def)

lemma path_unescape_escape: "path_unescape (path_escape s) = Ok s"
proof (induction s)
  case (Cons c cs)
  show ?case
  proof (cases "path_safe c")
    case True
    then have "c \<noteq> CHR ''%''" by (auto simp: path_safe_def is_alnum_def)
    with True Cons show ?thesis by simp
  next
    case False
    with Cons show ?thesis by (simp add: hex_upper_nth byte_digits)
  qed
qed simp

interpretation urlpath: codec path_escape path_unescape
  by unfold_locales (rule path_unescape_escape)

lemma path_escape_chars: "set (path_escape s) \<subseteq> insert (CHR ''%'') (Collect path_safe)"
proof (induction s)
  case (Cons c s)
  have "path_safe (hex_upper ! k)" if "k < 16" for k
    using hex_upper_nth [OF that] by (simp add: path_safe_def)
  with Cons show ?case by (simp add: byte_digits)
qed simp

lemma path_escape_clean: "c \<in> set (path_escape s) \<Longrightarrow> c \<notin> set ''/?#; ''"
  using path_escape_chars [of s] by (auto simp: path_safe_def is_alnum_def)

text \<open>The URL-safe base64 alphabet needs no escaping in a path.\<close>

lemma b64_url_clean: "c \<in> set (b64_encode b64_url bs) \<Longrightarrow> path_safe c"
proof -
  have "\<forall>c \<in> insert (CHR ''='') (set b64_url). path_safe c"
    by (simp add: b64_url_def b64_common_def path_safe_def is_alnum_def)
  then show "c \<in> set (b64_encode b64_url bs) \<Longrightarrow> path_safe c"
    using set_b64_encode [OF b64_alphabet_url, of bs] by blast
qed

subsection \<open>The \<open>strings\<close> package\<close>

definition has_prefix :: "string \<Rightarrow> string \<Rightarrow> bool" where
  "has_prefix s p \<longleftrightarrow> take (length p) s = p"

text \<open>\<open>strings.CutPrefix\<close>: the rest and whether the prefix was there.\<close>

definition cut_prefix :: "string \<Rightarrow> string \<Rightarrow> string \<times> bool" where
  "cut_prefix s p = (if has_prefix s p then (drop (length p) s, True) else (s, False))"

lemma has_prefix_append [simp]: "has_prefix (p @ s) p"
  by (simp add: has_prefix_def)

lemma cut_prefix_True: "cut_prefix s p = (r, True) \<longleftrightarrow> s = p @ r"
  by (auto simp: cut_prefix_def has_prefix_def) (metis append_take_drop_id)

text \<open>\<open>strings.Split\<close> with a one-byte separator, and \<open>strings.Join\<close>.\<close>

fun split_on :: "char \<Rightarrow> string \<Rightarrow> string list" where
  "split_on c [] = [[]]"
| "split_on c (x # xs) =
     (if x = c then [] # split_on c xs
      else (case split_on c xs of [] \<Rightarrow> [[x]] | y # ys \<Rightarrow> (x # y) # ys))"

fun join_with :: "string \<Rightarrow> string list \<Rightarrow> string" where
  "join_with sep [] = []"
| "join_with sep [x] = x"
| "join_with sep (x # y # xs) = x @ sep @ join_with sep (y # xs)"

lemma split_on_nonempty: "split_on c s \<noteq> []"
  by (induction s) (auto split: list.splits)

lemma split_on_none: "c \<notin> set s \<Longrightarrow> split_on c s = [s]"
  by (induction s) auto

lemma split_on_one: "c \<notin> set i \<Longrightarrow> c \<notin> set d \<Longrightarrow> split_on c (i @ c # d) = [i, d]"
  by (induction i) (auto simp: split_on_none)

lemma join_split_on: "join_with [c] (split_on c s) = s"
proof (induction s)
  case (Cons x s)
  then show ?case
  proof (cases "split_on c s")
    case Nil
    then show ?thesis by (simp add: split_on_nonempty)
  next
    case (Cons y ys)
    with \<open>join_with [c] (split_on c s) = s\<close> show ?thesis by (cases ys) auto
  qed
qed simp

text \<open>
  \<open>strings.TrimSpace\<close>: \<open>space_head\<close> drops one leading white-space rune (ASCII white space,
  or the UTF-8 bytes of a Unicode one) and \<open>space_last\<close> one trailing rune of the reversed
  string.
\<close>

definition ascii_space :: "char \<Rightarrow> bool" where
  "ascii_space c = (c \<in> {CHR 0x09, CHR 0x0A, CHR 0x0B, CHR 0x0C, CHR 0x0D, CHR 0x20})"

definition space2 :: "char \<Rightarrow> char \<Rightarrow> bool" where
  "space2 a b \<longleftrightarrow> a = CHR 0xC2 \<and> (b = CHR 0x85 \<or> b = CHR 0xA0)"

definition space3 :: "char \<Rightarrow> char \<Rightarrow> char \<Rightarrow> bool" where
  "space3 a b c \<longleftrightarrow>
     (let k = of_char c :: nat in
      a = CHR 0xE1 \<and> b = CHR 0x9A \<and> k = 128 \<or>
      a = CHR 0xE2 \<and> b = CHR 0x80 \<and> (128 \<le> k \<and> k \<le> 138 \<or> k = 168 \<or> k = 169 \<or> k = 175) \<or>
      a = CHR 0xE2 \<and> b = CHR 0x81 \<and> k = 159 \<or>
      a = CHR 0xE3 \<and> b = CHR 0x80 \<and> k = 128)"

fun trim_left :: "string \<Rightarrow> string" where
  "trim_left [] = []"
| "trim_left (a # s) =
     (if ascii_space a then trim_left s
      else (case s of
              [] \<Rightarrow> [a]
            | b # s' \<Rightarrow>
                if space2 a b then trim_left s'
                else (case s' of
                        [] \<Rightarrow> a # s
                      | c # s'' \<Rightarrow> if space3 a b c then trim_left s'' else a # s)))"

fun trim_last :: "string \<Rightarrow> string" where
  "trim_last [] = []"
| "trim_last (a # s) =
     (if ascii_space a then trim_last s
      else (case s of
              [] \<Rightarrow> [a]
            | b # s' \<Rightarrow>
                if space2 b a then trim_last s'
                else (case s' of
                        [] \<Rightarrow> a # s
                      | c # s'' \<Rightarrow> if space3 c b a then trim_last s'' else a # s)))"

definition trim_space :: "string \<Rightarrow> string" where
  "trim_space s = rev (trim_last (rev (trim_left s)))"

lemma trim_space_Nil [simp]: "trim_space [] = []"
  by (simp add: trim_space_def)

definition to_upper_ascii :: "char \<Rightarrow> char" where
  "to_upper_ascii c =
     (let n = of_char c :: nat in if 97 \<le> n \<and> n \<le> 122 then char_of (n - 32) else c)"

subsection \<open>Decimal digits\<close>

definition is_digit :: "char \<Rightarrow> bool" where
  "is_digit c = (48 \<le> (of_char c :: nat) \<and> (of_char c :: nat) \<le> 57)"

fun digits_val :: "nat \<Rightarrow> string \<Rightarrow> nat option" where
  "digits_val acc [] = Some acc"
| "digits_val acc (c # cs) =
     (if is_digit c then digits_val (10 * acc + (of_char c - 48)) cs else None)"

text \<open>\<open>strconv.ParseUint(lit, 10, 64)\<close> on a number literal, before the range check.\<close>

definition lit_nat :: "string \<Rightarrow> nat option" where
  "lit_nat s = (if s = [] then None else digits_val 0 s)"

lemma digits_val_append:
  "digits_val acc (xs @ ys) = Option.bind (digits_val acc xs) (\<lambda>a. digits_val a ys)"
  by (induction xs arbitrary: acc) auto

lemma digits_val_zeros: "digits_val a (replicate z (CHR ''0'')) = Some (a * 10 ^ z)"
  by (induction z arbitrary: a) (auto simp: is_digit_def)

lemma digits_val_dot: "CHR ''.'' \<in> set s \<Longrightarrow> digits_val acc s = None"
  by (induction s arbitrary: acc) (auto simp: is_digit_def)

text \<open>Printing an integer that is not negative, and reading it back.\<close>

function dec_digits :: "int \<Rightarrow> string" where
  "dec_digits n = (if n < 10 then [char_of (48 + n)]
     else dec_digits (n div 10) @ [char_of (48 + n mod 10)])"
  by pat_completeness auto
termination
  by (relation "measure nat") auto

declare dec_digits.simps [simp del]

lemma digit_char:
  assumes "0 \<le> d" and "d < 10"
  shows "(of_char (char_of (48 + d :: int)) :: nat) = 48 + nat d"
proof -
  have "(of_char (char_of (48 + d :: int)) :: int) = 48 + d" using assms by simp
  then show ?thesis by (metis assms(1) nat_add_distrib nat_numeral nat_of_char zero_le_numeral of_int_of_char nat_int of_nat_of_char)
qed

lemma nat_div_mod10: "0 \<le> n \<Longrightarrow> 10 * nat (n div 10) + nat (n mod 10) = nat n"
  by (simp add: nat_div_distrib nat_mod_distrib)

lemma digits_val_dec: "0 \<le> n \<Longrightarrow> digits_val 0 (dec_digits n) = Some (nat n)"
proof (induction n rule: dec_digits.induct)
  case (1 n)
  show ?case
  proof (cases "n < 10")
    case True
    then show ?thesis using "1.prems"
      by (subst dec_digits.simps) (simp add: is_digit_def digit_char)
  next
    case False
    with 1 have "digits_val 0 (dec_digits (n div 10)) = Some (nat (n div 10))" by simp
    with False "1.prems" show ?thesis
      by (subst dec_digits.simps)
        (simp add: digits_val_append digit_char is_digit_def nat_div_mod10)
  qed
qed

lemma dec_digits_nonempty [simp]: "dec_digits n \<noteq> []"
  by (subst dec_digits.simps) simp

subsection \<open>File paths\<close>

definition is_abs :: "string \<Rightarrow> bool" where
  "is_abs p \<longleftrightarrow> has_prefix p ''/''"

text \<open>
  \<open>filepath.Clean\<close>: empty and \<open>.\<close> elements vanish, \<open>..\<close> removes the element before it
  (at the root it vanishes), kept here as the reversed list of elements.
\<close>

fun clean_parts :: "bool \<Rightarrow> string list \<Rightarrow> string list \<Rightarrow> string list" where
  "clean_parts rooted out [] = rev out"
| "clean_parts rooted out (x # xs) =
     (if x = [] \<or> x = ''.'' then clean_parts rooted out xs
      else if x = ''..'' then
        (case out of
           [] \<Rightarrow> clean_parts rooted (if rooted then [] else [''..'']) xs
         | y # ys \<Rightarrow>
             if y = ''..'' then clean_parts rooted (''..'' # out) xs
             else clean_parts rooted ys xs)
      else clean_parts rooted (x # out) xs)"

definition path_clean :: "string \<Rightarrow> string" where
  "path_clean p =
     (let rooted = is_abs p;
          body = join_with ''/'' (clean_parts rooted [] (split_on (CHR ''/'') p))
      in if rooted then CHR ''/'' # body else if body = [] then ''.'' else body)"

text \<open>\<open>filepath.Dir\<close>: everything up to the last separator, cleaned.\<close>

definition path_dir :: "string \<Rightarrow> string" where
  "path_dir p = path_clean (rev (dropWhile (\<lambda>c. c \<noteq> CHR ''/'') (rev p)))"

definition path_join :: "string \<Rightarrow> string \<Rightarrow> string" where
  "path_join a b =
     (let es = dropWhile (\<lambda>e. e = []) [a, b]
      in if es = [] then [] else path_clean (join_with ''/'' es))"

lemma path_clean_abs: "is_abs p \<Longrightarrow> is_abs (path_clean p)"
  by (simp add: path_clean_def is_abs_def has_prefix_def)

lemma path_dir_abs: "is_abs p \<Longrightarrow> is_abs (path_dir p)"
proof -
  assume "is_abs p"
  then obtain q where p: "p = CHR ''/'' # q" by (cases p) (auto simp: is_abs_def has_prefix_def)
  let ?d = "dropWhile (\<lambda>c. c \<noteq> CHR ''/'') (rev p)"
  have "suffix ?d (rev p)" by (rule suffix_dropWhile)
  moreover have "?d \<noteq> []" by (simp add: p)
  ultimately have "last ?d = CHR ''/''"
    by (metis p last_rev list.sel(1) suffix_def last_append)
  then have "is_abs (rev ?d)" using \<open>?d \<noteq> []\<close>
    by (cases "rev ?d") (auto simp: is_abs_def has_prefix_def last_rev [symmetric] hd_rev)
  then show ?thesis by (simp add: path_dir_def path_clean_abs)
qed

lemma path_join_abs: "is_abs a \<Longrightarrow> is_abs (path_join a b)"
proof -
  assume "is_abs a"
  then obtain q where a: "a = CHR ''/'' # q" by (cases a) (auto simp: is_abs_def has_prefix_def)
  then have "path_join a b = path_clean (a @ ''/'' @ b)" by (simp add: path_join_def)
  moreover have "is_abs (a @ ''/'' @ b)" by (simp add: a is_abs_def has_prefix_def)
  ultimately show ?thesis by (simp add: path_clean_abs)
qed

end
