(* ===== verification/Agent_Config.thy ===== *)
theory Agent_Config
  imports Dex_Prelude Go_Text
begin

section \<open>The agent's configuration\<close>

text \<open>
  \<open>internal/config/config.go\<close>: the TOML schema as nested records, the defaults, the
  resolution of relative paths against the file's directory, and validation. The TOML
  decoder, \<open>common.IsHexAddress\<close>, \<open>math.NewIntFromString\<close> and
  \<open>time.ParseDuration\<close> are arguments.
\<close>

subsection \<open>The schema\<close>

record DEXChainConfig =
  dc_ID :: string
  dc_GrpcAddr :: string
  dc_CometRPCURL :: string
  dc_IndexerBaseURL :: string
  dc_EVMRPCURL :: string

record AgentChainConfig =
  ac_ID :: string
  ac_RestURL :: string

record SwapConfig =
  sw_UniswapRouterAddr :: string
  sw_WSVPAddr :: string

record OracleConfig =
  or_FeedAddr :: string

record LendoraConfig =
  le_ComptrollerAddr :: string

record EVMForeignChain =
  fc_ChainID :: u64
  fc_RPCURL :: string
  fc_BridgeAddr :: string

record BridgeConfig =
  br_Addr :: string
  br_RoutesPath :: string
  br_SourceChainID :: u64
  br_ForeignChains :: "EVMForeignChain list"

record EVMConfig =
  ev_Swap :: SwapConfig
  ev_Oracle :: OracleConfig
  ev_Lendora :: LendoraConfig
  ev_Bridge :: BridgeConfig

record CacheConfig =
  ca_MarketsRefresh :: int

record LimitsConfig =
  li_DepositMaxUSDC :: u64
  li_WithdrawMaxUSDC :: u64
  li_TransferMaxUSDC :: u64
  li_DailyWithdrawCapUSDC :: u64

record FeeConfig =
  fe_Denom :: string
  fe_Amount :: string
  fe_GasLimit :: u64

record Operator =
  op_KeyFile :: string
  op_Capabilities :: "string list"
  op_Metadata :: string

record Config =
  cf_DEXChain :: DEXChainConfig
  cf_AgentChain :: AgentChainConfig
  cf_ListenAddr :: string
  cf_PublicURL :: string
  cf_EVM :: EVMConfig
  cf_FaucetBaseURL :: string
  cf_TransferOutCapPath :: string
  cf_BroadcastMode :: string
  cf_Cache :: CacheConfig
  cf_Limits :: LimitsConfig
  cf_Fee :: FeeConfig
  cf_Operator :: Operator

definition AgentChain_Enabled :: "AgentChainConfig \<Rightarrow> bool" where
  "AgentChain_Enabled a \<longleftrightarrow> ac_RestURL a \<noteq> []"

text \<open>A duration is its number of nanoseconds; \<open>parse_duration\<close> is \<open>time.ParseDuration\<close>.\<close>

definition Duration_UnmarshalText :: "(string \<Rightarrow> int go) \<Rightarrow> bytes \<Rightarrow> int go" where
  "Duration_UnmarshalText parse_duration b =
     wrap_err (\<lambda>e. Errorf ''parse duration %q: %w'' [AQ b, AW e]) (parse_duration b)"

subsection \<open>Defaults\<close>

definition DefaultFeeDenom :: string where "DefaultFeeDenom = ''asvp''"
definition DefaultFeeAmount :: string where "DefaultFeeAmount = ''25000000000000000''"
definition DefaultFeeGasLimit :: u64 where "DefaultFeeGasLimit = 1000000"

definition fee_applyDefaults :: "FeeConfig \<Rightarrow> FeeConfig" where
  "fee_applyDefaults f =
     (let f = (if fe_Denom f = [] then f\<lparr>fe_Denom := DefaultFeeDenom\<rparr> else f);
          f = (if fe_Amount f = [] then f\<lparr>fe_Amount := DefaultFeeAmount\<rparr> else f)
      in if fe_GasLimit f = 0 then f\<lparr>fe_GasLimit := DefaultFeeGasLimit\<rparr> else f)"

definition ApplyDefaults :: "Config \<Rightarrow> Config" where
  "ApplyDefaults c =
     (let c = (if cf_BroadcastMode c = [] then c\<lparr>cf_BroadcastMode := ''server''\<rparr> else c);
          c = (if cf_PublicURL c = [] \<and> cf_ListenAddr c \<noteq> []
               then c\<lparr>cf_PublicURL := ''http://localhost'' @ cf_ListenAddr c\<rparr> else c)
      in c\<lparr>cf_Fee := fee_applyDefaults (cf_Fee c)\<rparr>)"

subsection \<open>Validation\<close>

definition fee_validate :: "(string \<Rightarrow> int option) \<Rightarrow> FeeConfig \<Rightarrow> unit go" where
  "fee_validate new_int f =
     (if fe_Denom f = [] then Err (Errorf ''fee.denom is required'' []) else
      case new_int (fe_Amount f) of
        None \<Rightarrow> Err (Errorf ''fee.amount %q is not a valid integer'' [AQ (fe_Amount f)])
      | Some amt \<Rightarrow>
        if amt < 0 then Err (Errorf ''fee.amount %q must be non-negative'' [AQ (fe_Amount f)])
        else Ok ())"

definition validateSwap :: "(string \<Rightarrow> bool) \<Rightarrow> Config \<Rightarrow> unit go" where
  "validateSwap is_hex c =
     (let sw = ev_Swap (cf_EVM c) in
      if sw_UniswapRouterAddr sw = [] \<and> sw_WSVPAddr sw = [] then Ok () else
      if sw_UniswapRouterAddr sw = [] \<or> sw_WSVPAddr sw = []
      then Err (Errorf ''evm.swap.uniswap_router_addr and evm.swap.wsvp_addr must be set together'' [])
      else if \<not> is_hex (sw_UniswapRouterAddr sw)
      then Err (Errorf ''evm.swap.uniswap_router_addr %q is not a valid 0x address'' [AQ (sw_UniswapRouterAddr sw)])
      else if \<not> is_hex (sw_WSVPAddr sw)
      then Err (Errorf ''evm.swap.wsvp_addr %q is not a valid 0x address'' [AQ (sw_WSVPAddr sw)])
      else if dc_EVMRPCURL (cf_DEXChain c) = []
      then Err (Errorf ''dex_chain.evm_rpc_url is required when evm.swap addresses are set'' [])
      else Ok ())"

definition validateOracle :: "(string \<Rightarrow> bool) \<Rightarrow> Config \<Rightarrow> unit go" where
  "validateOracle is_hex c =
     (let feed = or_FeedAddr (ev_Oracle (cf_EVM c)) in
      if feed = [] then Ok () else
      if \<not> is_hex feed then Err (Errorf ''evm.oracle.feed_addr %q is not a valid 0x address'' [AQ feed])
      else if dc_EVMRPCURL (cf_DEXChain c) = []
      then Err (Errorf ''dex_chain.evm_rpc_url is required when evm.oracle.feed_addr is set'' [])
      else Ok ())"

definition validateLendora :: "(string \<Rightarrow> bool) \<Rightarrow> Config \<Rightarrow> unit go" where
  "validateLendora is_hex c =
     (let addr = le_ComptrollerAddr (ev_Lendora (cf_EVM c)) in
      if addr = [] then Ok () else
      if \<not> is_hex addr then Err (Errorf ''evm.lendora.comptroller_addr %q is not a valid 0x address'' [AQ addr])
      else if dc_EVMRPCURL (cf_DEXChain c) = []
      then Err (Errorf ''dex_chain.evm_rpc_url is required when evm.lendora.comptroller_addr is set'' [])
      else Ok ())"

definition validateBridge :: "(string \<Rightarrow> bool) \<Rightarrow> Config \<Rightarrow> unit go" where
  "validateBridge is_hex c =
     (let b = ev_Bridge (cf_EVM c);
          cnt = (0 :: nat);
          cnt = (if br_Addr b \<noteq> [] then cnt + 1 else cnt);
          cnt = (if br_RoutesPath b \<noteq> [] then cnt + 1 else cnt);
          cnt = (if br_SourceChainID b \<noteq> 0 then cnt + 1 else cnt)
      in if cnt = 0 then Ok () else
         if cnt \<noteq> 3 then Err (Errorf ''evm.bridge.addr, evm.bridge.routes_path and evm.bridge.source_chain_id must be set together'' [])
         else if \<not> is_hex (br_Addr b)
         then Err (Errorf ''evm.bridge.addr %q is not a valid 0x address'' [AQ (br_Addr b)])
         else if dc_EVMRPCURL (cf_DEXChain c) = []
         then Err (Errorf ''dex_chain.evm_rpc_url is required when the bridge is configured'' [])
         else Ok ())"

text \<open>The loop of \<open>validateForeignChains\<close>; \<open>seen\<close> is the code's map of declared ids.\<close>

fun foreign_chains_from :: "(string \<Rightarrow> bool) \<Rightarrow> u64 \<Rightarrow> nat \<Rightarrow> u64 list \<Rightarrow> EVMForeignChain list \<Rightarrow> unit go" where
  "foreign_chains_from is_hex home i seen [] = Ok ()"
| "foreign_chains_from is_hex home i seen (fc # fcs) =
     (let id = fc_ChainID fc; at = AD (int i); ch = AD (uint id) in
      if id = 0 then Err (Errorf ''evm.bridge.foreign_chain[%d] chain_id is required'' [at])
      else if id = home
      then Err (Errorf ''evm.bridge.foreign_chain[%d] chain_id %d is the home chain (evm.bridge.source_chain_id)'' [at, ch])
      else if id \<in> set seen
      then Err (Errorf ''evm.bridge.foreign_chain[%d] chain_id %d is declared more than once'' [at, ch])
      else if fc_RPCURL fc = []
      then Err (Errorf ''evm.bridge.foreign_chain[%d] (chain_id %d) rpc_url is required'' [at, ch])
      else if \<not> is_hex (fc_BridgeAddr fc)
      then Err (Errorf ''evm.bridge.foreign_chain[%d] (chain_id %d) bridge_addr %q is not a valid 0x address''
                  [at, ch, AQ (fc_BridgeAddr fc)])
      else foreign_chains_from is_hex home (Suc i) (id # seen) fcs)"

definition validateForeignChains :: "(string \<Rightarrow> bool) \<Rightarrow> Config \<Rightarrow> unit go" where
  "validateForeignChains is_hex c =
     (let b = ev_Bridge (cf_EVM c) in
      if br_ForeignChains b = [] then Ok () else
      if br_Addr b = []
      then Err (Errorf ''evm.bridge.foreign_chain requires the bridge to be configured (evm.bridge.addr, evm.bridge.routes_path, evm.bridge.source_chain_id)'' [])
      else foreign_chains_from is_hex (br_SourceChainID b) 0 [] (br_ForeignChains b))"

definition Validate :: "(string \<Rightarrow> bool) \<Rightarrow> (string \<Rightarrow> int option) \<Rightarrow> Config \<Rightarrow> unit go" where
  "Validate is_hex new_int c =
     (if dc_ID (cf_DEXChain c) = [] then Err (Errorf ''dex_chain.id is required'' []) else
      if dc_GrpcAddr (cf_DEXChain c) = [] then Err (Errorf ''dex_chain.grpc_addr is required'' []) else
      if dc_CometRPCURL (cf_DEXChain c) = [] then Err (Errorf ''dex_chain.comet_rpc_url is required'' []) else
      if dc_IndexerBaseURL (cf_DEXChain c) = [] then Err (Errorf ''dex_chain.indexer_base_url is required'' []) else
      if cf_ListenAddr c = [] then Err (Errorf ''listen_addr is required'' []) else
      if (ac_ID (cf_AgentChain c) = []) \<noteq> (ac_RestURL (cf_AgentChain c) = [])
      then Err (Errorf ''agent_chain.id and agent_chain.rest_url must be set together'' []) else
      go_bind (fee_validate new_int (cf_Fee c)) (\<lambda>_.
      go_bind (validateSwap is_hex c) (\<lambda>_.
      go_bind (validateOracle is_hex c) (\<lambda>_.
      go_bind (validateLendora is_hex c) (\<lambda>_.
      go_bind (validateBridge is_hex c) (\<lambda>_.
      validateForeignChains is_hex c))))))"

subsection \<open>Loading\<close>

definition resolve_path :: "string \<Rightarrow> string \<Rightarrow> string" where
  "resolve_path path p = (if p \<noteq> [] \<and> \<not> is_abs p then path_join (path_dir path) p else p)"

definition resolve_paths :: "string \<Rightarrow> Config \<Rightarrow> Config" where
  "resolve_paths path c =
     (let b = ev_Bridge (cf_EVM c);
          c = c\<lparr>cf_EVM := (cf_EVM c)\<lparr>ev_Bridge := b\<lparr>br_RoutesPath := resolve_path path (br_RoutesPath b)\<rparr>\<rparr>\<rparr>;
          c = c\<lparr>cf_TransferOutCapPath := resolve_path path (cf_TransferOutCapPath c)\<rparr>
      in c\<lparr>cf_Operator := (cf_Operator c)\<lparr>op_KeyFile := resolve_path path (op_KeyFile (cf_Operator c))\<rparr>\<rparr>)"

text \<open>\<open>config.Load\<close>; \<open>decode_file\<close> is \<open>toml.DecodeFile\<close> into an empty Config.\<close>

definition Config_Load ::
  "(string \<Rightarrow> Config go) \<Rightarrow> (string \<Rightarrow> bool) \<Rightarrow> (string \<Rightarrow> int option) \<Rightarrow> string \<Rightarrow> Config go" where
  "Config_Load decode_file is_hex new_int path =
     go_bind (wrap_err (\<lambda>e. Errorf ''decode TOML %s: %w'' [AS path, AW e]) (decode_file path)) (\<lambda>c.
     let c = resolve_paths path (ApplyDefaults c)
     in go_bind (Validate is_hex new_int c) (\<lambda>_. Ok c))"

subsection \<open>What validation accepts\<close>

text \<open>The families of EVM operations, and what a complete one is.\<close>

definition uses_evm :: "Config \<Rightarrow> bool" where
  "uses_evm c \<longleftrightarrow>
     sw_UniswapRouterAddr (ev_Swap (cf_EVM c)) \<noteq> [] \<or> or_FeedAddr (ev_Oracle (cf_EVM c)) \<noteq> [] \<or>
     le_ComptrollerAddr (ev_Lendora (cf_EVM c)) \<noteq> [] \<or> br_Addr (ev_Bridge (cf_EVM c)) \<noteq> []"

definition contract_addrs :: "Config \<Rightarrow> string list" where
  "contract_addrs c = filter (\<lambda>a. a \<noteq> [])
     [sw_UniswapRouterAddr (ev_Swap (cf_EVM c)), sw_WSVPAddr (ev_Swap (cf_EVM c)),
      or_FeedAddr (ev_Oracle (cf_EVM c)), le_ComptrollerAddr (ev_Lendora (cf_EVM c)),
      br_Addr (ev_Bridge (cf_EVM c))]"

definition families_complete :: "Config \<Rightarrow> bool" where
  "families_complete c \<longleftrightarrow>
     (sw_UniswapRouterAddr (ev_Swap (cf_EVM c)) = [] \<longleftrightarrow> sw_WSVPAddr (ev_Swap (cf_EVM c)) = []) \<and>
     (let b = ev_Bridge (cf_EVM c) in
        (br_Addr b = [] \<longleftrightarrow> br_RoutesPath b = []) \<and> (br_Addr b = [] \<longleftrightarrow> br_SourceChainID b = 0) \<and>
        (br_ForeignChains b \<noteq> [] \<longrightarrow> br_Addr b \<noteq> []))"

definition chains_valid :: "(string \<Rightarrow> bool) \<Rightarrow> u64 \<Rightarrow> EVMForeignChain list \<Rightarrow> bool" where
  "chains_valid is_hex home fcs \<longleftrightarrow>
     distinct (0 # home # map fc_ChainID fcs) \<and>
     (\<forall>fc \<in> set fcs. fc_RPCURL fc \<noteq> [] \<and> is_hex (fc_BridgeAddr fc))"

definition required_set :: "Config \<Rightarrow> bool" where
  "required_set c \<longleftrightarrow>
     [] \<notin> set [dc_ID (cf_DEXChain c), dc_GrpcAddr (cf_DEXChain c), dc_CometRPCURL (cf_DEXChain c),
              dc_IndexerBaseURL (cf_DEXChain c), cf_ListenAddr c]"

lemma foreign_chains_from_ok:
  "foreign_chains_from is_hex home i seen fcs = Ok () \<longleftrightarrow>
     0 \<notin> set (map fc_ChainID fcs) \<and> home \<notin> set (map fc_ChainID fcs) \<and>
     distinct (map fc_ChainID fcs) \<and> set (map fc_ChainID fcs) \<inter> set seen = {} \<and>
     (\<forall>fc \<in> set fcs. fc_RPCURL fc \<noteq> [] \<and> is_hex (fc_BridgeAddr fc))"
  by (induction fcs arbitrary: i seen) (auto simp: Let_def)

lemma foreign_chains_from_total: "foreign_chains_from is_hex home i seen fcs \<noteq> Panics"
  by (induction fcs arbitrary: i seen) (auto simp: Let_def)

lemma fee_validate_ok:
  "fee_validate new_int f = Ok () \<longleftrightarrow>
     fe_Denom f \<noteq> [] \<and> (\<exists>amt. new_int (fe_Amount f) = Some amt \<and> 0 \<le> amt)"
  by (auto simp: fee_validate_def split: option.splits)

lemma family_checks_ok:
  "validateSwap is_hex c = Ok () \<longleftrightarrow>
     (let sw = ev_Swap (cf_EVM c); r = sw_UniswapRouterAddr sw; w = sw_WSVPAddr sw in
      (r = [] \<longleftrightarrow> w = []) \<and> (r \<noteq> [] \<longrightarrow> is_hex r \<and> is_hex w \<and> dc_EVMRPCURL (cf_DEXChain c) \<noteq> []))"
  "validateOracle is_hex c = Ok () \<longleftrightarrow>
     (let a = or_FeedAddr (ev_Oracle (cf_EVM c)) in
      a \<noteq> [] \<longrightarrow> is_hex a \<and> dc_EVMRPCURL (cf_DEXChain c) \<noteq> [])"
  "validateLendora is_hex c = Ok () \<longleftrightarrow>
     (let a = le_ComptrollerAddr (ev_Lendora (cf_EVM c)) in
      a \<noteq> [] \<longrightarrow> is_hex a \<and> dc_EVMRPCURL (cf_DEXChain c) \<noteq> [])"
  "validateBridge is_hex c = Ok () \<longleftrightarrow>
     (let b = ev_Bridge (cf_EVM c) in
      (br_Addr b = [] \<longleftrightarrow> br_RoutesPath b = []) \<and> (br_Addr b = [] \<longleftrightarrow> br_SourceChainID b = 0) \<and>
      (br_Addr b \<noteq> [] \<longrightarrow> is_hex (br_Addr b) \<and> dc_EVMRPCURL (cf_DEXChain c) \<noteq> []))"
  "validateForeignChains is_hex c = Ok () \<longleftrightarrow>
     (let b = ev_Bridge (cf_EVM c) in br_ForeignChains b \<noteq> [] \<longrightarrow>
        br_Addr b \<noteq> [] \<and>
        foreign_chains_from is_hex (br_SourceChainID b) 0 [] (br_ForeignChains b) = Ok ())"
  by (auto simp: validateSwap_def validateOracle_def validateLendora_def validateBridge_def
      validateForeignChains_def Let_def)

lemmas validators = fee_validate_ok family_checks_ok

lemma chains_check:
  "(br_ForeignChains b \<noteq> [] \<longrightarrow> br_SourceChainID b \<noteq> 0) \<Longrightarrow>
   (br_ForeignChains b \<noteq> [] \<longrightarrow>
      foreign_chains_from is_hex (br_SourceChainID b) 0 [] (br_ForeignChains b) = Ok ()) \<longleftrightarrow>
   (br_ForeignChains b \<noteq> [] \<longrightarrow> chains_valid is_hex (br_SourceChainID b) (br_ForeignChains b))"
  by (auto simp: chains_valid_def foreign_chains_from_ok)

text \<open>
  C35: \<open>Validate\<close> accepts a configuration exactly when the five network fields are set, the agent
  chain's id and URL are given together, the fee has a denomination and a non-negative integer
  amount, every EVM family is configured completely, with valid contract addresses and an EVM
  endpoint, and the foreign chains (which need the home bridge) have ids that are non-zero,
  pairwise distinct and different from the home chain's, each with an endpoint and a valid bridge.
\<close>

theorem validate_exact:
  "Validate is_hex new_int c = Ok () \<longleftrightarrow>
     required_set c \<and>
     (ac_ID (cf_AgentChain c) = [] \<longleftrightarrow> \<not> AgentChain_Enabled (cf_AgentChain c)) \<and>
     fe_Denom (cf_Fee c) \<noteq> [] \<and> (\<exists>amt. new_int (fe_Amount (cf_Fee c)) = Some amt \<and> 0 \<le> amt) \<and>
     families_complete c \<and> list_all is_hex (contract_addrs c) \<and>
     (uses_evm c \<longrightarrow> dc_EVMRPCURL (cf_DEXChain c) \<noteq> []) \<and>
     (br_ForeignChains (ev_Bridge (cf_EVM c)) \<noteq> [] \<longrightarrow>
        chains_valid is_hex (br_SourceChainID (ev_Bridge (cf_EVM c))) (br_ForeignChains (ev_Bridge (cf_EVM c))))"
  (is "_ \<longleftrightarrow> ?spec")
proof -
  let ?b = "ev_Bridge (cf_EVM c)"
  have "Validate is_hex new_int c = Ok () \<longleftrightarrow>
    required_set c \<and> (ac_ID (cf_AgentChain c) = [] \<longleftrightarrow> ac_RestURL (cf_AgentChain c) = []) \<and>
    fee_validate new_int (cf_Fee c) = Ok () \<and> validateSwap is_hex c = Ok () \<and>
    validateOracle is_hex c = Ok () \<and> validateLendora is_hex c = Ok () \<and>
    validateBridge is_hex c = Ok () \<and> validateForeignChains is_hex c = Ok ()"
    by (auto simp: Validate_def required_set_def go_iff)
  also have "\<dots> \<longleftrightarrow> ?spec"
    using chains_check [of ?b is_hex]
    unfolding validators families_complete_def contract_addrs_def uses_evm_def
      AgentChain_Enabled_def Let_def
    by auto
  finally show ?thesis .
qed

subsection \<open>What a loaded configuration is like\<close>

lemma load_iff:
  "Config_Load decode_file is_hex new_int path = Ok c \<longleftrightarrow>
     (\<exists>d. decode_file path = Ok d \<and> c = resolve_paths path (ApplyDefaults d) \<and>
        Validate is_hex new_int c = Ok ())"
  by (auto simp: Config_Load_def go_iff Let_def)

lemma resolve_path_cases:
  "resolve_path path [] = []"
  "is_abs p \<Longrightarrow> resolve_path path p = p"
  "is_abs path \<Longrightarrow> p \<noteq> [] \<Longrightarrow> is_abs (resolve_path path p)"
  by (simp_all add: resolve_path_def path_join_abs path_dir_abs)

lemma is_abs_nonempty: "is_abs p \<Longrightarrow> p \<noteq> []"
  by (auto simp: is_abs_def has_prefix_def)

lemma resolve_paths_fields:
  "br_RoutesPath (ev_Bridge (cf_EVM (resolve_paths path c))) = resolve_path path (br_RoutesPath (ev_Bridge (cf_EVM c)))"
  "cf_TransferOutCapPath (resolve_paths path c) = resolve_path path (cf_TransferOutCapPath c)"
  "op_KeyFile (cf_Operator (resolve_paths path c)) = resolve_path path (op_KeyFile (cf_Operator c))"
  "cf_Fee (resolve_paths path c) = cf_Fee c"
  "cf_PublicURL (resolve_paths path c) = cf_PublicURL c"
  "cf_BroadcastMode (resolve_paths path c) = cf_BroadcastMode c"
  "cf_ListenAddr (resolve_paths path c) = cf_ListenAddr c"
  by (simp_all add: resolve_paths_def Let_def)

lemma ApplyDefaults_fields:
  "br_RoutesPath (ev_Bridge (cf_EVM (ApplyDefaults c))) = br_RoutesPath (ev_Bridge (cf_EVM c))"
  "cf_TransferOutCapPath (ApplyDefaults c) = cf_TransferOutCapPath c"
  "op_KeyFile (cf_Operator (ApplyDefaults c)) = op_KeyFile (cf_Operator c)"
  "cf_Fee (ApplyDefaults c) = fee_applyDefaults (cf_Fee c)"
  "cf_ListenAddr (ApplyDefaults c) = cf_ListenAddr c"
  "cf_BroadcastMode (ApplyDefaults c) = (if cf_BroadcastMode c = [] then ''server'' else cf_BroadcastMode c)"
  "cf_PublicURL (ApplyDefaults c) =
     (if cf_PublicURL c = [] \<and> cf_ListenAddr c \<noteq> [] then ''http://localhost'' @ cf_ListenAddr c
      else cf_PublicURL c)"
  by (simp_all add: ApplyDefaults_def Let_def)

lemma fee_applyDefaults_denom: "fe_Denom (fee_applyDefaults f) \<noteq> []"
  by (simp add: fee_applyDefaults_def DefaultFeeDenom_def Let_def)

lemma fee_applyDefaults_fields:
  "fe_Denom (fee_applyDefaults f) = (if fe_Denom f = [] then DefaultFeeDenom else fe_Denom f)"
  "fe_Amount (fee_applyDefaults f) = (if fe_Amount f = [] then DefaultFeeAmount else fe_Amount f)"
  "fe_GasLimit (fee_applyDefaults f) = (if fe_GasLimit f = 0 then DefaultFeeGasLimit else fe_GasLimit f)"
  by (simp_all add: fee_applyDefaults_def Let_def)

lemma fee_applyDefaults_fixed: "fee_applyDefaults (fee_applyDefaults f) = fee_applyDefaults f"
proof -
  have "fee_applyDefaults g = g"
    if "fe_Denom g \<noteq> []" "fe_Amount g \<noteq> []" "fe_GasLimit g \<noteq> 0" for g
    using that by (simp add: fee_applyDefaults_def)
  then show ?thesis
    by (simp add: fee_applyDefaults_fields DefaultFeeDenom_def DefaultFeeAmount_def DefaultFeeGasLimit_def)
qed

lemma ApplyDefaults_fixed: "ApplyDefaults (ApplyDefaults c) = ApplyDefaults c"
proof -
  have "ApplyDefaults d = d"
    if "cf_BroadcastMode d \<noteq> []" "cf_PublicURL d \<noteq> [] \<or> cf_ListenAddr d = []"
      "fee_applyDefaults (cf_Fee d) = cf_Fee d" for d
    using that by (auto simp: ApplyDefaults_def)
  then show ?thesis by (simp add: ApplyDefaults_fields fee_applyDefaults_fixed)
qed

text \<open>
  Whatever a loaded configuration's file says, the paths the agent will open are absolute as
  soon as the configuration file's own path is: a relative path is resolved against the file's
  directory, an absolute one is left alone, and an omitted one stays omitted.
\<close>

theorem load_paths:
  assumes "Config_Load decode_file is_hex new_int path = Ok c" and "decode_file path = Ok d"
    and "is_abs path"
    and "get \<in> {\<lambda>c. br_RoutesPath (ev_Bridge (cf_EVM c)), cf_TransferOutCapPath, \<lambda>c. op_KeyFile (cf_Operator c)}"
  shows "(get c = [] \<longleftrightarrow> get d = []) \<and> (get d \<noteq> [] \<longrightarrow> is_abs (get c)) \<and> (is_abs (get d) \<longrightarrow> get c = get d)"
proof -
  have "c = resolve_paths path (ApplyDefaults d)" using assms(1,2) by (simp add: load_iff)
  with assms(4) have get: "get c = resolve_path path (get d)"
    by (auto simp: resolve_paths_fields ApplyDefaults_fields)
  show ?thesis
  proof (cases "get d = []")
    case True
    then show ?thesis by (simp add: get resolve_path_cases(1) is_abs_def has_prefix_def)
  next
    case False
    with assms(3) have "is_abs (get c)" by (simp add: get resolve_path_cases(3))
    with False show ?thesis by (simp add: get resolve_path_cases(2) is_abs_nonempty)
  qed
qed

definition denom_error :: err where
  "denom_error = Errorf ''fee.denom is required'' []"

lemma other_checks_not_denom:
  "foreign_chains_from is_hex h i sn fcs \<noteq> Err denom_error"
  "validateSwap is_hex c \<noteq> Err denom_error" "validateOracle is_hex c \<noteq> Err denom_error"
  "validateLendora is_hex c \<noteq> Err denom_error" "validateBridge is_hex c \<noteq> Err denom_error"
  "fe_Denom f \<noteq> [] \<Longrightarrow> fee_validate new_int f \<noteq> Err denom_error"
  subgoal by (induction fcs arbitrary: i sn) (simp_all add: Let_def denom_error_def)
  subgoal by (simp add: validateSwap_def Let_def denom_error_def)
  subgoal by (simp add: validateOracle_def Let_def denom_error_def)
  subgoal by (simp add: validateLendora_def Let_def denom_error_def)
  subgoal by (simp add: validateBridge_def Let_def denom_error_def)
  subgoal by (simp add: fee_validate_def denom_error_def split: option.split)
  done

lemma Validate_not_denom:
  assumes "fe_Denom (cf_Fee c) \<noteq> []"
  shows "Validate is_hex new_int c \<noteq> Err denom_error"
proof -
  have "validateForeignChains is_hex c \<noteq> Err denom_error"
    using other_checks_not_denom(1) by (simp add: validateForeignChains_def Let_def denom_error_def)
  moreover have "Errorf ''dex_chain.id is required'' [] \<noteq> denom_error"
    "Errorf ''dex_chain.grpc_addr is required'' [] \<noteq> denom_error"
    "Errorf ''dex_chain.comet_rpc_url is required'' [] \<noteq> denom_error"
    "Errorf ''dex_chain.indexer_base_url is required'' [] \<noteq> denom_error"
    "Errorf ''listen_addr is required'' [] \<noteq> denom_error"
    "Errorf ''agent_chain.id and agent_chain.rest_url must be set together'' [] \<noteq> denom_error"
    by (simp_all add: denom_error_def)
  ultimately show ?thesis
    using assms by (simp add: Validate_def go_iff other_checks_not_denom del: list.inject char.inject)
qed

text \<open>
  The check of the fee denomination can never fire: the defaults fill it before validation,
  so loading never reports \<open>fee.denom is required\<close>, whatever the file holds.
\<close>

theorem load_never_lacks_denom:
  "Config_Load decode_file is_hex new_int path \<noteq> Err (Errorf ''fee.denom is required'' [])"
proof -
  have "Validate is_hex new_int (resolve_paths path (ApplyDefaults d)) \<noteq> Err denom_error" for d
    by (rule Validate_not_denom)
      (simp add: resolve_paths_fields ApplyDefaults_fields fee_applyDefaults_denom)
  moreover have "denom_error \<noteq> Errorf ''decode TOML %s: %w'' [AS path, AW e]" for e
    by (simp add: denom_error_def)
  ultimately show ?thesis
    by (simp add: Config_Load_def go_iff Let_def denom_error_def [symmetric])
qed

text \<open>
  Applying the defaults twice is applying them once, and every field the file sets keeps its
  value.
\<close>

theorem ApplyDefaults_stable:
  "ApplyDefaults (ApplyDefaults c) = ApplyDefaults c \<and>
   (cf_BroadcastMode c \<noteq> [] \<longrightarrow> cf_BroadcastMode (ApplyDefaults c) = cf_BroadcastMode c) \<and>
   (cf_PublicURL c \<noteq> [] \<longrightarrow> cf_PublicURL (ApplyDefaults c) = cf_PublicURL c) \<and>
   (fe_Amount (cf_Fee c) \<noteq> [] \<longrightarrow> fe_Amount (cf_Fee (ApplyDefaults c)) = fe_Amount (cf_Fee c)) \<and>
   (fe_GasLimit (cf_Fee c) \<noteq> 0 \<longrightarrow> fe_GasLimit (cf_Fee (ApplyDefaults c)) = fe_GasLimit (cf_Fee c))"
  by (simp add: ApplyDefaults_fields fee_applyDefaults_fields ApplyDefaults_fixed)

subsection \<open>Witnesses\<close>

definition example_config :: Config where
  "example_config =
     \<lparr>cf_DEXChain = \<lparr>dc_ID = ''svp-1'', dc_GrpcAddr = ''a:9090'', dc_CometRPCURL = ''http://a'',
        dc_IndexerBaseURL = ''http://b'', dc_EVMRPCURL = ''http://e''\<rparr>,
      cf_AgentChain = \<lparr>ac_ID = [], ac_RestURL = []\<rparr>, cf_ListenAddr = '':8081'', cf_PublicURL = [],
      cf_EVM = \<lparr>ev_Swap = \<lparr>sw_UniswapRouterAddr = [], sw_WSVPAddr = []\<rparr>,
        ev_Oracle = \<lparr>or_FeedAddr = ''0xfeed''\<rparr>, ev_Lendora = \<lparr>le_ComptrollerAddr = []\<rparr>,
        ev_Bridge = \<lparr>br_Addr = ''0xb'', br_RoutesPath = ''routes.json'', br_SourceChainID = 7,
          br_ForeignChains = [\<lparr>fc_ChainID = 1, fc_RPCURL = ''http://f'', fc_BridgeAddr = ''0xf''\<rparr>]\<rparr>\<rparr>,
      cf_FaucetBaseURL = [], cf_TransferOutCapPath = [], cf_BroadcastMode = [],
      cf_Cache = \<lparr>ca_MarketsRefresh = 0\<rparr>,
      cf_Limits = \<lparr>li_DepositMaxUSDC = 0, li_WithdrawMaxUSDC = 0, li_TransferMaxUSDC = 0,
        li_DailyWithdrawCapUSDC = 0\<rparr>,
      cf_Fee = \<lparr>fe_Denom = [], fe_Amount = ''5'', fe_GasLimit = 0\<rparr>,
      cf_Operator = \<lparr>op_KeyFile = ''key'', op_Capabilities = [], op_Metadata = []\<rparr>\<rparr>"

abbreviation example_hex :: "string \<Rightarrow> bool" where
  "example_hex a \<equiv> has_prefix a ''0x''"

lemma example_load:
  "Config_Load (\<lambda>_. Ok example_config) example_hex (\<lambda>_. Some 5) ''/etc/agent.toml''
     = Ok (resolve_paths ''/etc/agent.toml'' (ApplyDefaults example_config))"
proof -
  have "Validate example_hex (\<lambda>_. Some 5) (resolve_paths ''/etc/agent.toml'' (ApplyDefaults example_config)) = Ok ()"
    by code_simp
  then show ?thesis by (simp add: load_iff)
qed

theorem load_paths_witness:
  "is_abs (op_KeyFile (cf_Operator (resolve_paths ''/etc/agent.toml'' (ApplyDefaults example_config))))"
  using load_paths [OF example_load refl, of "\<lambda>c. op_KeyFile (cf_Operator c)"]
  by (simp add: is_abs_def has_prefix_def example_config_def)

lemma example_accepted:
  "Validate example_hex (\<lambda>_. Some 5) (ApplyDefaults example_config) = Ok ()"
  by code_simp

theorem validate_exact_witness:
  "chains_valid example_hex 7 [\<lparr>fc_ChainID = 1, fc_RPCURL = ''http://f'', fc_BridgeAddr = ''0xf''\<rparr>] \<and>
   list_all example_hex (contract_addrs (ApplyDefaults example_config))"
  using validate_exact [of example_hex "\<lambda>_. Some 5" "ApplyDefaults example_config"] example_accepted
  by (simp add: ApplyDefaults_def Let_def example_config_def)

theorem ApplyDefaults_stable_witness:
  "fe_Amount (cf_Fee (ApplyDefaults example_config)) = ''5''"
  using ApplyDefaults_stable [of example_config] by (simp add: example_config_def)

end
