(* ===== verification/Operator_Tx.thy ===== *)
theory Operator_Tx
  imports Chain_Msgs Go_Text Agent_Config
begin

section \<open>The operator's key and its signing path\<close>

text \<open>
  \<open>internal/operator/key.go\<close> and \<open>internal/operator/txsign.go\<close>: where the operator key comes
  from, and the one-step build-and-sign path with its two fee regimes. The process environment,
  the file system and the signing libraries are arguments.
\<close>

subsection \<open>Loading the key\<close>

record key_env =
  ke_getenv :: "string \<Rightarrow> string"
  ke_read_file :: "string \<Rightarrow> bytes go"
  ke_parse_priv :: "string \<Rightarrow> bytes go"
  ke_derive_address :: "bytes \<Rightarrow> string"

definition KeyEnvVar :: string where "KeyEnvVar = ''DEX_AGENT_OPERATOR_KEY''"

text \<open>\<open>None\<close> is the nil key of a keyless agent.\<close>

definition Key_Load :: "key_env \<Rightarrow> Operator \<Rightarrow> (bytes option \<times> string) go" where
  "Key_Load env cfg =
     (let hexKey = trim_space (ke_getenv env KeyEnvVar) in
      go_bind
        (if hexKey = [] \<and> op_KeyFile cfg \<noteq> []
         then go_bind (wrap_err (\<lambda>e. Errorf ''read operator key file: %w'' [AW e])
                 (ke_read_file env (op_KeyFile cfg))) (\<lambda>raw. Ok (trim_space raw))
         else Ok hexKey)
        (\<lambda>hexKey.
         if hexKey = [] then Ok (None, [])
         else go_bind (wrap_err (\<lambda>e. Errorf ''parse operator key: %w'' [AW e]) (ke_parse_priv env hexKey))
                (\<lambda>priv. Ok (Some priv, ke_derive_address env priv))))"

subsection \<open>Signing\<close>

record FeeSpec =
  fs_Denom :: string
  fs_Amount :: string
  fs_GasLimit :: u64

datatype sign_mode = SIGN_MODE_DIRECT

record 'k SignerInfo =
  si_PublicKey :: "'k any"
  si_Mode :: sign_mode
  si_Sequence :: u64

record 'k AuthInfo =
  au_SignerInfos :: "'k SignerInfo list"
  au_FeeAmount :: "sdk_coin list"
  au_GasLimit :: u64

record TxRaw =
  tr_BodyBytes :: bytes
  tr_AuthInfoBytes :: bytes
  tr_Signatures :: "bytes list"

text \<open>The calls into the cosmos packages, \<open>payload\<close>, \<open>builder\<close> and \<open>clobtypes\<close>.\<close>

record tx_lib =
  tl_pack_msg :: "sdk_msg \<Rightarrow> sdk_msg any go"
  tl_marshal_body :: "sdk_msg any list \<Rightarrow> bytes go"
  tl_new_int :: "string \<Rightarrow> int option"
  tl_pub_key :: "bytes \<Rightarrow> bytes"
  tl_pack_key :: "bytes \<Rightarrow> bytes any go"
  tl_marshal_auth :: "bytes AuthInfo \<Rightarrow> bytes go"
  tl_sign_bytes :: "bytes \<Rightarrow> bytes \<Rightarrow> string \<Rightarrow> u64 \<Rightarrow> bytes go"
  tl_sign :: "bytes \<Rightarrow> bytes \<Rightarrow> bytes go"
  tl_marshal_raw :: "TxRaw \<Rightarrow> bytes go"
  tl_unwrap :: "sdk_msg \<Rightarrow> sdk_msg"
  tl_short_term :: "sdk_msg list \<Rightarrow> bool"

definition pack_msgs :: "tx_lib \<Rightarrow> sdk_msg list \<Rightarrow> sdk_msg any list go" where
  "pack_msgs lib = go_map_from 0 (\<lambda>i e. Errorf ''pack msg[%d]: %w'' [AD (int i), AW e]) (tl_pack_msg lib)"

definition fee_coins :: "tx_lib \<Rightarrow> FeeSpec \<Rightarrow> bool \<Rightarrow> sdk_coin list go" where
  "fee_coins lib fee gasFree =
     (if gasFree then Ok [] else
      case tl_new_int lib (fs_Amount fee) of
        None \<Rightarrow> Err (Errorf ''fee amount %q is not a valid integer'' [AQ (fs_Amount fee)])
      | Some amt \<Rightarrow> if amt \<noteq> 0 then Ok [\<lparr>co_Denom = fs_Denom fee, co_Amount = amt\<rparr>] else Ok [])"

definition SignTx ::
  "tx_lib \<Rightarrow> bytes \<Rightarrow> string \<Rightarrow> AccountInfo \<Rightarrow> sdk_msg list \<Rightarrow> FeeSpec \<Rightarrow> bool \<Rightarrow> bytes go" where
  "SignTx lib priv chainID acct msgs fee gasFree =
     (if msgs = [] then Err (Errorf ''no messages to sign'' []) else
      go_bind (pack_msgs lib msgs) (\<lambda>anys.
      go_bind (wrap_err (\<lambda>e. Errorf ''marshal TxBody: %w'' [AW e]) (tl_marshal_body lib anys)) (\<lambda>bodyBytes.
      go_bind (fee_coins lib fee gasFree) (\<lambda>feeCoins.
      go_bind (wrap_err (\<lambda>e. Errorf ''pack pubkey: %w'' [AW e]) (tl_pack_key lib (tl_pub_key lib priv))) (\<lambda>pubAny.
      let authInfo = \<lparr>au_SignerInfos = [\<lparr>si_PublicKey = pubAny, si_Mode = SIGN_MODE_DIRECT,
                                          si_Sequence = ai_Sequence acct\<rparr>],
                      au_FeeAmount = feeCoins, au_GasLimit = fs_GasLimit fee\<rparr>
      in go_bind (wrap_err (\<lambda>e. Errorf ''marshal AuthInfo: %w'' [AW e]) (tl_marshal_auth lib authInfo)) (\<lambda>authInfoBytes.
         go_bind (wrap_err (\<lambda>e. Errorf ''compute sign-bytes: %w'' [AW e])
                    (tl_sign_bytes lib bodyBytes authInfoBytes chainID (ai_AccountNumber acct))) (\<lambda>signBytes.
         go_bind (wrap_err (\<lambda>e. Errorf ''sign: %w'' [AW e]) (tl_sign lib priv signBytes)) (\<lambda>sig.
         wrap_err (\<lambda>e. Errorf ''marshal TxRaw: %w'' [AW e])
           (tl_marshal_raw lib \<lparr>tr_BodyBytes = bodyBytes, tr_AuthInfoBytes = authInfoBytes,
                                tr_Signatures = [sig]\<rparr>)))))))))"

definition GasFreeFor :: "tx_lib \<Rightarrow> sdk_msg list \<Rightarrow> bool" where
  "GasFreeFor lib msgs = tl_short_term lib (map (tl_unwrap lib) msgs)"

subsection \<open>Properties\<close>

text \<open>The fee a transaction is expected to declare.\<close>

definition declared_fee :: "tx_lib \<Rightarrow> FeeSpec \<Rightarrow> bool \<Rightarrow> sdk_coin list \<Rightarrow> bool" where
  "declared_fee lib fee gasFree coins \<longleftrightarrow>
     (if gasFree then coins = [] else
      \<exists>amt. tl_new_int lib (fs_Amount fee) = Some amt \<and>
        coins = (if amt = 0 then [] else [\<lparr>co_Denom = fs_Denom fee, co_Amount = amt\<rparr>]))"

lemma fee_coins_ok: "fee_coins lib fee gasFree = Ok coins \<longleftrightarrow> declared_fee lib fee gasFree coins"
  by (auto simp: fee_coins_def declared_fee_def split: option.splits)

text \<open>
  C34: A transaction that \<open>SignTx\<close> returns carries every message given, packed and in order (and
  at least one); its only signer is the key's own public key, in direct mode, at the account's
  sequence; its declared fee is empty on the gas-free route and otherwise the configured amount
  (no coin when that is zero); and its only signature is the key's over the sign bytes of exactly
  that body and those fees, bound to the chain id and account number.
\<close>

theorem SignTx_signs:
  assumes "SignTx lib priv chainID acct msgs fee gasFree = Ok raw"
  shows "\<exists>anys body pubAny coins auth signBytes sig.
    msgs \<noteq> [] \<and> list_all2 (\<lambda>m a. tl_pack_msg lib m = Ok a) msgs anys \<and>
    tl_marshal_body lib anys = Ok body \<and> declared_fee lib fee gasFree coins \<and>
    tl_pack_key lib (tl_pub_key lib priv) = Ok pubAny \<and>
    tl_marshal_auth lib \<lparr>au_SignerInfos = [\<lparr>si_PublicKey = pubAny, si_Mode = SIGN_MODE_DIRECT,
        si_Sequence = ai_Sequence acct\<rparr>], au_FeeAmount = coins, au_GasLimit = fs_GasLimit fee\<rparr> = Ok auth \<and>
    tl_sign_bytes lib body auth chainID (ai_AccountNumber acct) = Ok signBytes \<and>
    tl_sign lib priv signBytes = Ok sig \<and>
    tl_marshal_raw lib \<lparr>tr_BodyBytes = body, tr_AuthInfoBytes = auth, tr_Signatures = [sig]\<rparr> = Ok raw"
proof -
  have "msgs \<noteq> []" using assms by (auto simp: SignTx_def)
  with assms show ?thesis
    by (simp add: SignTx_def go_iff Let_def pack_msgs_def go_map_from_Ok_iff fee_coins_ok) metis
qed

text \<open>
  The operator key in the environment wins over the configured file, which is not even read:
  with the variable set to more than white space, loading does not depend on the file or its path;
  with the variable blank and no file configured the agent is keyless, which is not an error; and
  a key that is loaded is the parse of the trimmed text, with the address derived from it.
\<close>

theorem Key_Load_precedence:
  "(trim_space (ke_getenv env KeyEnvVar) \<noteq> [] \<longrightarrow>
      Key_Load env cfg = Key_Load (env\<lparr>ke_read_file := files\<rparr>) (cfg\<lparr>op_KeyFile := f\<rparr>)) \<and>
   (trim_space (ke_getenv env KeyEnvVar) = [] \<longrightarrow> op_KeyFile cfg = [] \<longrightarrow> Key_Load env cfg = Ok (None, [])) \<and>
   (Key_Load env cfg = Ok (Some priv, addr) \<longrightarrow>
      addr = ke_derive_address env priv \<and>
      (\<exists>src. trim_space src \<noteq> [] \<and> ke_parse_priv env (trim_space src) = Ok priv \<and>
         (src = ke_getenv env KeyEnvVar \<or>
          trim_space (ke_getenv env KeyEnvVar) = [] \<and> ke_read_file env (op_KeyFile cfg) = Ok src)))"
proof -
  have "\<exists>src. trim_space src \<noteq> [] \<and> ke_parse_priv env (trim_space src) = Ok priv \<and>
         (src = ke_getenv env KeyEnvVar \<or>
          trim_space (ke_getenv env KeyEnvVar) = [] \<and> ke_read_file env (op_KeyFile cfg) = Ok src)"
    if "Key_Load env cfg = Ok (Some priv, addr)"
  proof (cases "trim_space (ke_getenv env KeyEnvVar) = [] \<and> op_KeyFile cfg \<noteq> []")
    case True
    with that obtain raw where "ke_read_file env (op_KeyFile cfg) = Ok raw" "trim_space raw \<noteq> []"
      "ke_parse_priv env (trim_space raw) = Ok priv"
      by (auto simp: Key_Load_def go_iff Let_def split: if_splits)
    with True show ?thesis by blast
  next
    case False
    with that show ?thesis
      by (intro exI [of _ "ke_getenv env KeyEnvVar"]) (auto simp: Key_Load_def go_iff Let_def split: if_splits)
  qed
  then show ?thesis
    by (auto simp: Key_Load_def go_iff Let_def split: if_splits)
qed

subsection \<open>Witnesses\<close>

definition example_key_env :: key_env where
  "example_key_env = \<lparr>ke_getenv = (\<lambda>_. '' beef ''), ke_read_file = (\<lambda>_. Err (Foreign ''no file'')),
     ke_parse_priv = (\<lambda>s. Ok s), ke_derive_address = (\<lambda>p. ''svp1'' @ p)\<rparr>"

text \<open>A library that renders what it is given, so that different inputs give different bytes.\<close>

definition example_tx_lib :: tx_lib where
  "example_tx_lib =
     \<lparr>tl_pack_msg = (\<lambda>m. Ok (Any ''/m'' (case m of OtherMsg u b \<Rightarrow> b | _ \<Rightarrow> ''x'') m)),
      tl_marshal_body = (\<lambda>as. Ok (concat (map any_bytes as))),
      tl_new_int = (\<lambda>s. if s = ''5'' then Some 5 else None), tl_pub_key = (\<lambda>k. CHR ''P'' # k),
      tl_pack_key = (\<lambda>k. Ok (Any ''/k'' k k)),
      tl_marshal_auth = (\<lambda>a. Ok (concat (map co_Denom (au_FeeAmount a)))),
      tl_sign_bytes = (\<lambda>b a c n. Ok (b @ a @ c)), tl_sign = (\<lambda>k b. Ok (k @ b)),
      tl_marshal_raw = (\<lambda>r. Ok (tr_BodyBytes r @ tr_AuthInfoBytes r @ concat (tr_Signatures r))),
      tl_unwrap = (\<lambda>m. case m of MsgAgentExecDelegated e a t i \<Rightarrow> any_cached i | _ \<Rightarrow> m),
      tl_short_term = (\<lambda>ms. ms \<noteq> [] \<and> list_all (\<lambda>m. case m of OtherMsg u b \<Rightarrow> u = ''/short'' | _ \<Rightarrow> False) ms)\<rparr>"

definition example_fee :: FeeSpec where
  "example_fee = \<lparr>fs_Denom = ''asvp'', fs_Amount = ''5'', fs_GasLimit = 1\<rparr>"

lemma example_sign:
  "SignTx example_tx_lib ''k'' ''svp-1'' \<lparr>ai_AccountNumber = 3, ai_Sequence = 9\<rparr> [OtherMsg ''/o'' ''body'']
     example_fee False = Ok ''bodyasvpkbodyasvpsvp-1''"
  by (simp add: SignTx_def example_tx_lib_def example_fee_def pack_msgs_def fee_coins_def)

theorem SignTx_signs_witness:
  "\<exists>coins. declared_fee example_tx_lib example_fee False coins \<and> coins \<noteq> []"
  using SignTx_signs [OF example_sign] by (auto simp: declared_fee_def example_tx_lib_def example_fee_def)

theorem Key_Load_precedence_witness:
  "Key_Load example_key_env \<lparr>op_KeyFile = ''f'', op_Capabilities = [], op_Metadata = []\<rparr>
     = Ok (Some ''beef'', ''svp1beef'')"
proof -
  have env: "trim_space (ke_getenv example_key_env KeyEnvVar) = ''beef''"
    by (simp add: example_key_env_def) code_simp
  then have "Key_Load example_key_env \<lparr>op_KeyFile = ''f'', op_Capabilities = [], op_Metadata = []\<rparr>
    = Key_Load (example_key_env\<lparr>ke_read_file := \<lambda>_. Ok ''other''\<rparr>)
        (\<lparr>op_KeyFile = ''f'', op_Capabilities = [], op_Metadata = []\<rparr>\<lparr>op_KeyFile := ''g''\<rparr>)"
    by (intro Key_Load_precedence [THEN conjunct1, rule_format]) simp
  also have "\<dots> = Ok (Some ''beef'', ''svp1beef'')"
    using env by (simp add: Key_Load_def) (simp add: example_key_env_def)
  finally show ?thesis .
qed

end
