(* ===== verification/Key_Resolver.thy ===== *)
theory Key_Resolver
  imports Chain_Msgs Go_Text
begin

section \<open>Resolving an agent id to its credential-signing keys\<close>

text \<open>
  \<open>internal/delegated/resolver.go\<close>. The registry and the accounts are external and change with
  time; the step counter of the model is the time an answer is read at. A nil response is
  \<open>None\<close>.
\<close>

text \<open>A published account key: the two types the code accepts, and any other.\<close>

datatype pubkey = Secp256k1 bytes | EthSecp256k1 bytes | OtherKey bytes

text \<open>The calls \<open>AccountPubKey\<close> makes: bech32, the account query, \<open>UnpackAny\<close>, \<open>Address\<close>, \<open>Bytes\<close>.\<close>

record auth_client =
  ak_from_bech32 :: "string \<Rightarrow> bytes go"
  ak_account :: "nat \<Rightarrow> string \<Rightarrow> bytes any go"
  ak_unpack :: "bytes any \<Rightarrow> pubkey option go"
  ak_address :: "pubkey \<Rightarrow> bytes"
  ak_bytes :: "pubkey \<Rightarrow> bytes"

definition ErrSigInvalid :: err where
  "ErrSigInvalid = Foreign ''svpdt.ErrSigInvalid''"

fun accepted_key :: "pubkey \<Rightarrow> bool" where
  "accepted_key (Secp256k1 b) = True"
| "accepted_key (EthSecp256k1 b) = True"
| "accepted_key (OtherKey b) = False"

definition AccountPubKey :: "auth_client \<Rightarrow> nat \<Rightarrow> string \<Rightarrow> bytes go" where
  "AccountPubKey c t address =
     go_bind (ak_from_bech32 c address) (\<lambda>addr.
     go_bind (ak_account c t address) (\<lambda>resp.
     go_bind (ak_unpack c resp) (\<lambda>pub.
       case pub of
         None \<Rightarrow> Err ErrSigInvalid
       | Some pub \<Rightarrow>
         if \<not> accepted_key pub then Err ErrSigInvalid
         else if ak_address c pub \<noteq> addr then Err ErrSigInvalid
         else Ok (ak_bytes c pub))))"

text \<open>
  Two constants of the chain's packages, with the values the sources document: an agent id is
  \<open>did:svp:\<close> and the operator's address, a compressed key has 33 bytes.
\<close>

definition DIDPrefix :: string where "DIDPrefix = ''did:svp:''"
definition PubKeyLen :: nat where "PubKeyLen = 33"

text \<open>
  The view bound to one verification. \<open>agent\<close> is the registry at that time, \<open>auth\<close> the
  account fallback, absent when nil.
\<close>

record resolver =
  rs_agent :: "string \<Rightarrow> registered_agent option go"
  rs_auth :: "(string \<Rightarrow> bytes go) option"

definition account_fallback :: "resolver \<Rightarrow> string \<Rightarrow> bytes list go" where
  "account_fallback r agentID =
     (case rs_auth r of
        None \<Rightarrow> Err ErrSigInvalid
      | Some auth \<Rightarrow>
        (case cut_prefix agentID DIDPrefix of
           (bech, ok) \<Rightarrow>
             if \<not> ok then Err ErrSigInvalid else
             (case auth bech of
                Ok key \<Rightarrow> if length key \<noteq> PubKeyLen then Err ErrSigInvalid else Ok [key]
              | Err e \<Rightarrow> Err ErrSigInvalid
              | Panics \<Rightarrow> Panics)))"

definition PublicKeys :: "resolver \<Rightarrow> string \<Rightarrow> bytes list go" where
  "PublicKeys r agentID =
     (case rs_agent r agentID of
        Ok (Some a) \<Rightarrow> if rg_PublicKey a \<noteq> [] then Ok [rg_PublicKey a] else account_fallback r agentID
      | Ok None \<Rightarrow> account_fallback r agentID
      | Err e \<Rightarrow> account_fallback r agentID
      | Panics \<Rightarrow> Panics)"

text \<open>\<open>For\<close>: the resolver of a request, over the queriers at step \<open>t\<close>.\<close>

definition resolver_For ::
  "(nat \<Rightarrow> string \<Rightarrow> registered_agent option go) \<Rightarrow> auth_client option \<Rightarrow> nat \<Rightarrow> resolver" where
  "resolver_For agentQ authQ t =
     \<lparr>rs_agent = agentQ t, rs_auth = map_option (\<lambda>c. AccountPubKey c t) authQ\<rparr>"

subsection \<open>Properties\<close>

lemma cut_prefix_some: "cut_prefix s p = (r, True) \<longleftrightarrow> s = p @ r"
  by (auto simp: cut_prefix_def has_prefix_def) (metis append_take_drop_id)

lemma AccountPubKey_ok:
  "AccountPubKey c t address = Ok key \<longleftrightarrow>
     (\<exists>addr resp pub. ak_from_bech32 c address = Ok addr \<and> ak_account c t address = Ok resp \<and>
        ak_unpack c resp = Ok (Some pub) \<and> accepted_key pub \<and> ak_address c pub = addr \<and>
        key = ak_bytes c pub)"
  by (auto simp: AccountPubKey_def go_iff split: option.splits if_splits)

lemma account_fallback_ok:
  "account_fallback (resolver_For agentQ authQ t) agentID = Ok keys \<longleftrightarrow>
     (\<exists>c addr resp pub address. authQ = Some c \<and> agentID = ''did:svp:'' @ address \<and>
        ak_from_bech32 c address = Ok addr \<and> ak_account c t address = Ok resp \<and>
        ak_unpack c resp = Ok (Some pub) \<and> accepted_key pub \<and> ak_address c pub = addr \<and>
        length (ak_bytes c pub) = 33 \<and> keys = [ak_bytes c pub])"
  (is "?L \<longleftrightarrow> ?R")
proof
  assume ?L
  then obtain c address key where "authQ = Some c" "agentID = DIDPrefix @ address"
      "AccountPubKey c t address = Ok key" "length key = PubKeyLen" "keys = [key]"
    by (auto simp: account_fallback_def resolver_For_def cut_prefix_some
        split: go.splits option.splits if_splits prod.splits)
  then show ?R by (auto simp: AccountPubKey_ok DIDPrefix_def PubKeyLen_def)
next
  assume ?R
  then obtain c address where c: "authQ = Some c" "agentID = DIDPrefix @ address"
    and key: "\<exists>key. AccountPubKey c t address = Ok key \<and> length key = PubKeyLen \<and> keys = [key]"
    by (auto simp: AccountPubKey_ok DIDPrefix_def PubKeyLen_def)
  have "cut_prefix agentID DIDPrefix = (address, True)" using c(2) by (simp add: cut_prefix_some)
  with c(1) key show ?L by (auto simp: account_fallback_def resolver_For_def)
qed

text \<open>
  C33: The keys an id resolves to, exactly. When the registry answers with a published key for it,
  that one key and nothing else, whatever its account has published. When the registry answers that
  the agent is unknown or has no key, and also when it cannot be asked, only an id of the DID form
  resolves, and only to the 33-byte secp256k1 key its own account has published, whose address is the
  account's.
\<close>

theorem PublicKeys_sources:
  "PublicKeys (resolver_For agentQ authQ t) agentID = Ok keys \<longleftrightarrow>
     (\<exists>a. agentQ t agentID = Ok (Some a) \<and> rg_PublicKey a \<noteq> [] \<and> keys = [rg_PublicKey a]) \<or>
     (agentQ t agentID = Ok None \<or> (\<exists>a. agentQ t agentID = Ok (Some a) \<and> rg_PublicKey a = []) \<or>
        (\<exists>e. agentQ t agentID = Err e)) \<and>
     (\<exists>c addr resp pub address. authQ = Some c \<and> agentID = ''did:svp:'' @ address \<and>
        ak_from_bech32 c address = Ok addr \<and> ak_account c t address = Ok resp \<and>
        ak_unpack c resp = Ok (Some pub) \<and> accepted_key pub \<and> ak_address c pub = addr \<and>
        length (ak_bytes c pub) = 33 \<and> keys = [ak_bytes c pub])"
proof -
  have "PublicKeys (resolver_For agentQ authQ t) agentID = Ok keys \<longleftrightarrow>
     (\<exists>a. agentQ t agentID = Ok (Some a) \<and> rg_PublicKey a \<noteq> [] \<and> keys = [rg_PublicKey a]) \<or>
     (agentQ t agentID = Ok None \<or> (\<exists>a. agentQ t agentID = Ok (Some a) \<and> rg_PublicKey a = []) \<or>
        (\<exists>e. agentQ t agentID = Err e)) \<and> account_fallback (resolver_For agentQ authQ t) agentID = Ok keys"
    by (auto simp: PublicKeys_def resolver_For_def split: go.splits option.splits)
  then show ?thesis unfolding account_fallback_ok .
qed

text \<open>
  The fallback does not wait for the registry to answer: when the registry cannot be reached,
  every id resolves exactly as an unregistered one does, so during such an outage a registered
  agent is verified against its account's key and no longer against the registry's.
\<close>

theorem PublicKeys_registry_outage:
  "PublicKeys (resolver_For (\<lambda>_ _. Err e) authQ t) agentID = PublicKeys (resolver_For (\<lambda>_ _. Ok None) authQ t) agentID"
  by (simp add: PublicKeys_def resolver_For_def account_fallback_def)

definition example_auth :: auth_client where
  "example_auth = \<lparr>ak_from_bech32 = (\<lambda>s. Ok s), ak_account = (\<lambda>t s. Ok (Any ''/acc'' s s)),
     ak_unpack = (\<lambda>a. Ok (Some (EthSecp256k1 (any_bytes a)))),
     ak_address = (\<lambda>k. case k of EthSecp256k1 b \<Rightarrow> b | Secp256k1 b \<Rightarrow> b | OtherKey b \<Rightarrow> b),
     ak_bytes = (\<lambda>k. replicate 33 CHR ''k'')\<rparr>"

theorem PublicKeys_sources_witness:
  "\<exists>key. PublicKeys (resolver_For (\<lambda>_ _. Ok None) (Some example_auth) 4) ''did:svp:abc'' = Ok [key] \<and> length key = 33"
proof -
  have resolved: "PublicKeys (resolver_For (\<lambda>_ _. Ok None) (Some example_auth) 4) ''did:svp:abc''
    = Ok [replicate 33 CHR ''k'']"
    by code_simp
  then have "\<exists>c pub. Some example_auth = Some c \<and> length (ak_bytes c pub) = 33 \<and>
      [replicate 33 CHR ''k''] = [ak_bytes c pub]"
    unfolding PublicKeys_sources by blast
  with resolved show ?thesis by auto
qed

end
