(* ===== verification/Delegated_Exec.thy ===== *)
theory Delegated_Exec
  imports Agent_World Operator_Tx Key_Resolver
begin

section \<open>Delegated execution\<close>

text \<open>
  \<open>internal/delegated/service.go\<close>: the service's state, the verification of a credential chain,
  and the four operations that wrap an order of the credential's principal, sign it as the
  operator and broadcast it. The credential library, the message builders, the limits and the
  chain are fields of an environment record; what they answer may change with every step.
\<close>

subsection \<open>The environment\<close>

text \<open>The parts of \<open>svpdt.Verified\<close> the service reads; a token's audience and its target caveat.\<close>

record token =
  tk_Audience :: string
  tk_RedelegateTo :: "string list"

record Verified =
  vf_Tokens :: "token list"
  vf_Principal :: string
  vf_Root :: bytes
  vf_RootEpoch :: u64
  vf_Actions :: "string list"
  vf_Subaccounts :: "u32 list"
  vf_ChainHash :: bytes
  vf_LeafExp :: int

record VerifyOpts =
  vo_ChainID :: string
  vo_Now :: int
  vo_MaxDepth :: u32
  vo_MaxTTLSeconds :: int
  vo_Audience :: string

record WalletParams =
  wp_MaxDelegationDepth :: u32
  wp_MaxTokenTtlSeconds :: u32

record PlaceLimitOrderInput =
  po_Owner :: string
  po_SubaccountNum :: u32
  po_Ticker :: string
  po_Side :: string
  po_HumanSize :: string
  po_HumanPrice :: string
  po_TimeInForce :: string
  po_ReduceOnly :: bool
  po_GoodTilBlock :: u32
  po_OrderClientID :: u32

record CancelOrderInput =
  co_Owner :: string
  co_SubaccountNum :: u32
  co_ClobPairID :: u32
  co_OrderClientID :: u32
  co_OrderFlags :: u32
  co_GoodTilBlock :: u32
  co_GoodTilBlockTime :: u32

record OrderBatchInput =
  ob_ClobPairID :: u32
  ob_ClientIDs :: "u32 list"

record BatchCancelOrdersInput =
  bo_Owner :: string
  bo_SubaccountNum :: u32
  bo_Batches :: "OrderBatchInput list"
  bo_GoodTilBlock :: u32

record DepositToSubaccountInput =
  do_Owner :: string
  do_SubaccountNum :: u32
  do_HumanUSDC :: string

record Assembler =
  as_ChainID :: string
  as_FeeDenom :: string
  as_FeeAmount :: string
  as_FeeGasLimit :: u64

text \<open>
  What the service calls outside \<open>src/\<close>. A builder gets the assembler, the account number and the
  sequence the code passes and answers the message (the payload the code drops is left out); the
  order builder also reads the market cache, so it varies with the step.
\<close>

record dg_env =
  dv_clock :: "nat \<Rightarrow> int"
  dv_agent :: "nat \<Rightarrow> string \<Rightarrow> registered_agent option go"
  dv_agent_by_operator :: "nat \<Rightarrow> string \<Rightarrow> registered_agent option go"
  dv_min_bond :: "nat \<Rightarrow> sdk_coin go"
  dv_auth :: "auth_client option"
  dv_wallet_params :: "nat \<Rightarrow> WalletParams go"
  dv_epoch :: "nat \<Rightarrow> bytes \<Rightarrow> (u64 \<times> bool) go"
  dv_account :: "nat \<Rightarrow> string \<Rightarrow> AccountInfo go"
  dv_broadcast :: "nat \<Rightarrow> bytes \<Rightarrow> BroadcastResult go"
  dv_tenant_owner :: "nat \<Rightarrow> string \<Rightarrow> string go"
  dv_verify_chain :: "bytes list \<Rightarrow> (string \<Rightarrow> bytes list go) \<Rightarrow> VerifyOpts \<Rightarrow> Verified go"
  dv_has_action :: "string list \<Rightarrow> string \<Rightarrow> bool"
  dv_has_subaccount :: "u32 list \<Rightarrow> u32 \<Rightarrow> bool"
  dv_allows :: "string list \<Rightarrow> string \<Rightarrow> bool"
  dv_place :: "nat \<Rightarrow> PlaceLimitOrderInput \<Rightarrow> Assembler \<Rightarrow> u64 \<Rightarrow> u64 \<Rightarrow> sdk_msg go"
  dv_cancel :: "CancelOrderInput \<Rightarrow> Assembler \<Rightarrow> u64 \<Rightarrow> u64 \<Rightarrow> sdk_msg go"
  dv_batch_cancel :: "BatchCancelOrdersInput \<Rightarrow> Assembler \<Rightarrow> u64 \<Rightarrow> u64 \<Rightarrow> sdk_msg go"
  dv_deposit :: "DepositToSubaccountInput \<Rightarrow> Assembler \<Rightarrow> u64 \<Rightarrow> u64 \<Rightarrow> sdk_msg go"
  dv_human_to_quantums :: "string \<Rightarrow> u64 go"
  dv_ToolDeposit :: string
  dv_check_per_tx :: "LimitsConfig \<Rightarrow> string \<Rightarrow> u64 \<Rightarrow> unit go"
  dv_validate_basic :: "sdk_msg \<Rightarrow> unit go"
  dv_tx :: tx_lib
  dv_acc_address :: "string \<Rightarrow> bytes go"
  dv_agent_id :: "bytes \<Rightarrow> string"
  dv_sha256 :: "bytes \<Rightarrow> bytes"

subsection \<open>The service\<close>

definition ActionPlaceOrder :: string where "ActionPlaceOrder = ''clob.place_order''"
definition ActionCancelOrder :: string where "ActionCancelOrder = ''clob.cancel_order''"
definition ActionBatchCancel :: string where "ActionBatchCancel = ''clob.batch_cancel''"
definition ActionDeposit :: string where "ActionDeposit = ''sending.deposit_to_subaccount''"

record SvcConfig =
  sc_Priv :: bytes
  sc_Operator :: string
  sc_ChainID :: string
  sc_Fee :: FeeSpec
  sc_Limits :: LimitsConfig
  sc_Endpoint :: string
  sc_Capabilities :: "string list"
  sc_Metadata :: string

record epochEntry =
  ep_epoch :: u64
  ep_paused :: bool
  ep_fetched :: int

text \<open>The \<open>Service\<close> struct, on top of the step counter and the event log.\<close>

record Service = world +
  sv_cfg :: SvcConfig
  sv_agentID :: string
  sv_cardHash :: bytes
  sv_cachedParams :: "WalletParams option"
  sv_paramsFetched :: int
  sv_paramsCacheTTL :: int
  sv_epochCache :: "bytes \<Rightarrow> epochEntry option"
  sv_epochCacheTTL :: int

text \<open>\<open>New\<close> panics on an operator address that is not valid bech32 (\<open>MustAccAddressFromBech32\<close>).\<close>

definition Service_New :: "dg_env \<Rightarrow> SvcConfig \<Rightarrow> Service go" where
  "Service_New env cfg =
     (case dv_acc_address env (sc_Operator cfg) of
        Ok operatorAddr \<Rightarrow>
          Ok \<lparr>w_tick = 0, w_log = [], sv_cfg = cfg, sv_agentID = dv_agent_id env operatorAddr,
              sv_cardHash = [], sv_cachedParams = None, sv_paramsFetched = 0, sv_paramsCacheTTL = 60,
              sv_epochCache = (\<lambda>_. None), sv_epochCacheTTL = 10\<rparr>
      | _ \<Rightarrow> Panics)"

text \<open>The question asked when the cache is empty or too old, and what is kept of its answer.\<close>

definition fetch_params :: "dg_env \<Rightarrow> (Service, WalletParams) act" where
  "fetch_params env =
     act_bind (act_wrap (\<lambda>e. Errorf ''fetch agentwallet params: %w'' [AW e]) (ask (dv_wallet_params env)))
       (\<lambda>p. act_bind (\<lambda>s. (Ok (), s\<lparr>sv_cachedParams := Some p\<rparr>)) (\<lambda>_.
        act_bind (now_at (dv_clock env)) (\<lambda>n.
        act_bind (\<lambda>s. (Ok (), s\<lparr>sv_paramsFetched := n\<rparr>)) (\<lambda>_. act_ret (Ok p)))))"

definition walletParams :: "dg_env \<Rightarrow> (Service, WalletParams) act" where
  "walletParams env = (\<lambda>s.
     case sv_cachedParams s of
       None \<Rightarrow> fetch_params env s
     | Some p \<Rightarrow>
         act_bind (now_at (dv_clock env)) (\<lambda>n.
           if n - sv_paramsFetched s < sv_paramsCacheTTL s then act_ret (Ok p)
           else fetch_params env) s)"

subsection \<open>Verifying a credential\<close>

definition decode_tokens :: "string list \<Rightarrow> bytes list go" where
  "decode_tokens = go_map_from 0 (\<lambda>i e. Errorf ''proof[%d] is not base64: %w'' [AD (int i), AW e])
     (b64_decode b64_std)"

definition redelegation_refused :: "int \<Rightarrow> string \<Rightarrow> err" where
  "redelegation_refused depth aud =
     Errorf ''depth-%d token is addressed to %q, which its parent's redelegate_to does not allow''
       [AD depth, AQ aud]"

text \<open>The loop of \<open>checkRedelegationTargets\<close>: parent at position \<open>i\<close> (from 0), child after it.\<close>

fun redelegation_from :: "(string list \<Rightarrow> string \<Rightarrow> bool) \<Rightarrow> nat \<Rightarrow> token list \<Rightarrow> unit go" where
  "redelegation_from allows i (parent # child # rest) =
     (if \<not> allows (tk_RedelegateTo parent) (tk_Audience child)
      then Err (redelegation_refused (int i + 2) (tk_Audience child))
      else redelegation_from allows (Suc i) (child # rest))"
| "redelegation_from allows i _ = Ok ()"

definition checkRedelegationTargets :: "dg_env \<Rightarrow> Verified \<Rightarrow> unit go" where
  "checkRedelegationTargets env v = redelegation_from (dv_allows env) 0 (vf_Tokens v)"

definition proof_required :: err where
  "proof_required = Errorf ''a delegation proof is required: attach the SVP-DT token chain (base64, root first) as message metadata \"svp.delegation/v1\"'' []"

definition verify_opts :: "Service \<Rightarrow> int \<Rightarrow> WalletParams \<Rightarrow> VerifyOpts" where
  "verify_opts s n params =
     \<lparr>vo_ChainID = sc_ChainID (sv_cfg s), vo_Now = n, vo_MaxDepth = wp_MaxDelegationDepth params,
      vo_MaxTTLSeconds = uint (wp_MaxTokenTtlSeconds params), vo_Audience = sv_agentID s\<rparr>"

text \<open>The chain is verified against the keys the registry and accounts show at that step.\<close>

definition verifyProof :: "dg_env \<Rightarrow> string list \<Rightarrow> (Service, bytes list \<times> Verified) act" where
  "verifyProof env proofB64 =
     (if proofB64 = [] then act_ret (Err proof_required) else
      act_bind (act_ret (decode_tokens proofB64)) (\<lambda>tokens.
      act_bind (walletParams env) (\<lambda>params.
      act_bind (now_at (dv_clock env)) (\<lambda>n.
      act_bind (\<lambda>s. act_wrap (\<lambda>e. Errorf ''credential chain rejected: %w'' [AW e])
          (ask (\<lambda>t. dv_verify_chain env tokens (PublicKeys (resolver_For (dv_agent env) (dv_auth env) t))
                      (verify_opts s n params))) s) (\<lambda>verified.
      act_bind (act_wrap (\<lambda>e. Errorf ''credential chain rejected: %w'' [AW e])
          (act_ret (checkRedelegationTargets env verified))) (\<lambda>_.
      act_ret (Ok (tokens, verified))))))))"

definition preflight :: "dg_env \<Rightarrow> Verified \<Rightarrow> string \<Rightarrow> u32 \<Rightarrow> unit go" where
  "preflight env v action subaccount =
     (if \<not> dv_has_action env (vf_Actions v) action
      then Err (Errorf ''credential does not grant action %q (granted: %v)'' [AQ action, AV (vf_Actions v)])
      else if \<not> dv_has_subaccount env (vf_Subaccounts v) subaccount
      then Err (Errorf ''credential does not grant subaccount %d (granted: %v)''
                  (AD (uint subaccount) # map (\<lambda>n. AD (uint n)) (vf_Subaccounts v)))
      else Ok ())"

subsection \<open>Signing and broadcasting\<close>

record ExecResult =
  ex_TxHash :: string
  ex_Code :: u32
  ex_RawLog :: string
  ex_AgentID :: string
  ex_Principal :: string

text \<open>The account is read, and the signed bytes are sent, as logged events.\<close>

definition read_account :: "dg_env \<Rightarrow> string \<Rightarrow> (Service, AccountInfo) act" where
  "read_account env addr = act_bind (emit (ReadAccount addr)) (\<lambda>_.
     act_wrap (\<lambda>e. Errorf ''read operator account: %w'' [AW e]) (ask (\<lambda>t. dv_account env t addr)))"

definition broadcast_sync :: "dg_env \<Rightarrow> bytes \<Rightarrow> (Service, BroadcastResult) act" where
  "broadcast_sync env raw = (\<lambda>s.
     let res = dv_broadcast env (w_tick s) raw
     in act_bind (emit (Broadcast raw res)) (\<lambda>_.
        act_wrap (\<lambda>e. Errorf ''broadcast: %w'' [AW e]) (ask (\<lambda>t. dv_broadcast env t raw))) s)"

text \<open>From the account read to the result: what \<open>execute\<close> and \<open>signAndBroadcastOwn\<close> have in common.\<close>

definition sign_and_send :: "dg_env \<Rightarrow> sdk_msg list \<Rightarrow> bool \<Rightarrow> string \<Rightarrow> (Service, ExecResult) act" where
  "sign_and_send env msgs gasFree princ = (\<lambda>s.
     act_bind (read_account env (sc_Operator (sv_cfg s))) (\<lambda>acct.
     act_bind (act_ret (SignTx (dv_tx env) (sc_Priv (sv_cfg s)) (sc_ChainID (sv_cfg s)) acct msgs
                 (sc_Fee (sv_cfg s)) gasFree)) (\<lambda>raw.
     act_bind (broadcast_sync env raw) (\<lambda>res.
     act_ret (Ok \<lparr>ex_TxHash = bc_TxHash res, ex_Code = bc_Code res, ex_RawLog = bc_RawLog res,
                  ex_AgentID = sv_agentID s, ex_Principal = princ\<rparr>)))) s)"

definition exec_wrapper :: "Service \<Rightarrow> bytes list \<Rightarrow> sdk_msg any \<Rightarrow> sdk_msg" where
  "exec_wrapper s tokens innerAny =
     MsgAgentExecDelegated (sc_Operator (sv_cfg s)) (sv_agentID s) tokens innerAny"

definition execute :: "dg_env \<Rightarrow> bytes list \<Rightarrow> Verified \<Rightarrow> sdk_msg \<Rightarrow> (Service, ExecResult) act" where
  "execute env tokens verified inner =
     act_bind (act_wrap (\<lambda>e. Errorf ''pack inner msg: %w'' [AW e]) (act_ret (tl_pack_msg (dv_tx env) inner)))
       (\<lambda>innerAny s.
        let wrapper = exec_wrapper s tokens innerAny; msgs = [wrapper];
            gasFree = GasFreeFor (dv_tx env) msgs;
            send = sign_and_send env msgs gasFree (vf_Principal verified)
        in act_bind (act_ret (dv_validate_basic env wrapper))
             (\<lambda>_. if gasFree then send else with_seq send) s)"

definition discardAssembler :: "Service \<Rightarrow> Assembler" where
  "discardAssembler s = \<lparr>as_ChainID = sc_ChainID (sv_cfg s), as_FeeDenom = fs_Denom (sc_Fee (sv_cfg s)),
     as_FeeAmount = fs_Amount (sc_Fee (sv_cfg s)), as_FeeGasLimit = fs_GasLimit (sc_Fee (sv_cfg s))\<rparr>"

subsection \<open>The four operations\<close>

record OrderParams =
  op_SubaccountNumber :: u32
  op_Ticker :: string
  op_Side :: string
  op_Size :: string
  op_Price :: string
  op_TimeInForce :: string
  op_ReduceOnly :: bool
  op_GoodTilBlock :: u32
  op_OrderClientID :: u32

record ExecPlaceOrderInput =
  pi_Proof :: "string list"
  pi_Order :: OrderParams

definition place_input :: "Verified \<Rightarrow> OrderParams \<Rightarrow> PlaceLimitOrderInput" where
  "place_input v p =
     \<lparr>po_Owner = vf_Principal v, po_SubaccountNum = op_SubaccountNumber p, po_Ticker = op_Ticker p,
      po_Side = op_Side p, po_HumanSize = op_Size p, po_HumanPrice = op_Price p,
      po_TimeInForce = op_TimeInForce p, po_ReduceOnly = op_ReduceOnly p,
      po_GoodTilBlock = op_GoodTilBlock p, po_OrderClientID = op_OrderClientID p\<rparr>"

definition ExecutePlaceOrder :: "dg_env \<Rightarrow> ExecPlaceOrderInput \<Rightarrow> (Service, ExecResult) act" where
  "ExecutePlaceOrder env inp =
     act_bind (verifyProof env (pi_Proof inp)) (\<lambda>(tokens, verified).
     act_bind (act_ret (preflight env verified ActionPlaceOrder (op_SubaccountNumber (pi_Order inp)))) (\<lambda>_.
     act_bind (\<lambda>s. ask (\<lambda>t. dv_place env t (place_input verified (pi_Order inp)) (discardAssembler s) 0 0) s) (\<lambda>inner.
     execute env tokens verified inner)))"

record CancelParams =
  cp_SubaccountNumber :: u32
  cp_ClobPairID :: u32
  cp_OrderClientID :: u32
  cp_OrderFlags :: u32
  cp_GoodTilBlock :: u32
  cp_GoodTilBlockTime :: u32

record ExecCancelOrderInput =
  ci_Proof :: "string list"
  ci_Cancel :: CancelParams

definition cancel_input :: "Verified \<Rightarrow> CancelParams \<Rightarrow> CancelOrderInput" where
  "cancel_input v c =
     \<lparr>co_Owner = vf_Principal v, co_SubaccountNum = cp_SubaccountNumber c,
      co_ClobPairID = cp_ClobPairID c, co_OrderClientID = cp_OrderClientID c,
      co_OrderFlags = cp_OrderFlags c, co_GoodTilBlock = cp_GoodTilBlock c,
      co_GoodTilBlockTime = cp_GoodTilBlockTime c\<rparr>"

definition ExecuteCancelOrder :: "dg_env \<Rightarrow> ExecCancelOrderInput \<Rightarrow> (Service, ExecResult) act" where
  "ExecuteCancelOrder env inp =
     act_bind (verifyProof env (ci_Proof inp)) (\<lambda>(tokens, verified).
     act_bind (act_ret (preflight env verified ActionCancelOrder (cp_SubaccountNumber (ci_Cancel inp)))) (\<lambda>_.
     act_bind (\<lambda>s. act_ret (dv_cancel env (cancel_input verified (ci_Cancel inp)) (discardAssembler s) 0 0) s) (\<lambda>inner.
     execute env tokens verified inner)))"

record OrderBatch =
  bt_ClobPairID :: u32
  bt_ClientIDs :: "u32 list"

record BatchCancelParams =
  bp_SubaccountNumber :: u32
  bp_Batches :: "OrderBatch list"
  bp_GoodTilBlock :: u32

record ExecBatchCancelInput =
  bi_Proof :: "string list"
  bi_Cancel :: BatchCancelParams

definition batch_input :: "Verified \<Rightarrow> BatchCancelParams \<Rightarrow> BatchCancelOrdersInput" where
  "batch_input v c =
     \<lparr>bo_Owner = vf_Principal v, bo_SubaccountNum = bp_SubaccountNumber c,
      bo_Batches = map (\<lambda>b. \<lparr>ob_ClobPairID = bt_ClobPairID b, ob_ClientIDs = bt_ClientIDs b\<rparr>) (bp_Batches c),
      bo_GoodTilBlock = bp_GoodTilBlock c\<rparr>"

definition ExecuteBatchCancel :: "dg_env \<Rightarrow> ExecBatchCancelInput \<Rightarrow> (Service, ExecResult) act" where
  "ExecuteBatchCancel env inp =
     act_bind (verifyProof env (bi_Proof inp)) (\<lambda>(tokens, verified).
     act_bind (act_ret (preflight env verified ActionBatchCancel (bp_SubaccountNumber (bi_Cancel inp)))) (\<lambda>_.
     act_bind (\<lambda>s. act_ret (dv_batch_cancel env (batch_input verified (bi_Cancel inp)) (discardAssembler s) 0 0) s) (\<lambda>inner.
     execute env tokens verified inner)))"

record DepositParams =
  dp_SubaccountNumber :: u32
  dp_HumanUSDC :: string

record ExecDepositInput =
  di_Proof :: "string list"
  di_Deposit :: DepositParams

definition deposit_input :: "Verified \<Rightarrow> DepositParams \<Rightarrow> DepositToSubaccountInput" where
  "deposit_input v d = \<lparr>do_Owner = vf_Principal v, do_SubaccountNum = dp_SubaccountNumber d,
     do_HumanUSDC = dp_HumanUSDC d\<rparr>"

definition ExecuteDepositToSubaccount :: "dg_env \<Rightarrow> ExecDepositInput \<Rightarrow> (Service, ExecResult) act" where
  "ExecuteDepositToSubaccount env inp =
     act_bind (verifyProof env (di_Proof inp)) (\<lambda>(tokens, verified).
     act_bind (act_ret (preflight env verified ActionDeposit (dp_SubaccountNumber (di_Deposit inp)))) (\<lambda>_.
     act_bind (act_wrap (\<lambda>e. Errorf ''human_usdc: %w'' [AW e])
         (act_ret (dv_human_to_quantums env (dp_HumanUSDC (di_Deposit inp))))) (\<lambda>quantums.
     act_bind (\<lambda>s. act_ret (dv_check_per_tx env (sc_Limits (sv_cfg s)) (dv_ToolDeposit env) quantums) s) (\<lambda>_.
     act_bind (\<lambda>s. act_ret (dv_deposit env (deposit_input verified (di_Deposit inp)) (discardAssembler s) 0 0) s) (\<lambda>inner.
     execute env tokens verified inner)))))"

end
