(* ===== verification/Delegated_Safety.thy ===== *)
theory Delegated_Safety
  imports Delegated_Exec
begin

section \<open>What the execution operations guarantee\<close>

text \<open>
  Nothing leaves the process under the operator's key except a wrapper around an order built for
  the principal of a credential chain that was verified for this agent; the lock brackets every
  fee-paying transaction; and the parameters used are never staler than the cache bound.
\<close>

subsection \<open>Frames\<close>

text \<open>The configuration of the service, which no operation changes.\<close>

definition same_conf :: "Service \<Rightarrow> Service \<Rightarrow> bool" where
  "same_conf s s' \<longleftrightarrow> sv_cfg s' = sv_cfg s \<and> sv_agentID s' = sv_agentID s \<and>
     sv_paramsCacheTTL s' = sv_paramsCacheTTL s \<and> sv_epochCacheTTL s' = sv_epochCacheTTL s"

definition quiet :: "Service \<Rightarrow> Service \<Rightarrow> bool" where
  "quiet s s' \<longleftrightarrow> same_conf s s' \<and> w_log s' = w_log s \<and> sv_cardHash s' = sv_cardHash s"

interpretation quiet: effect_contract quiet
  by unfold_locales (auto simp: quiet_def same_conf_def)

lemma quiet_steps:
  "keeps quiet (act_ret r)" "keeps quiet (ask q)" "keeps quiet (now_at c)"
  "keeps quiet (\<lambda>s. (Ok (), s\<lparr>sv_cachedParams := p\<rparr>))"
  "keeps quiet (\<lambda>s. (Ok (), s\<lparr>sv_paramsFetched := n\<rparr>))"
  by (simp_all add: keeps_def quiet_def same_conf_def)

text \<open>An operation that first looks at the state.\<close>

lemma quiet_look: "(\<And>s. keeps quiet (g s)) \<Longrightarrow> keeps quiet (\<lambda>s. g s s)"
  by (simp add: keeps_def)

lemma quietD:
  "quiet s s' \<Longrightarrow> sv_cfg s' = sv_cfg s" "quiet s s' \<Longrightarrow> sv_agentID s' = sv_agentID s"
  "quiet s s' \<Longrightarrow> w_log s' = w_log s" "quiet s s' \<Longrightarrow> sv_cardHash s' = sv_cardHash s"
  by (simp_all add: quiet_def same_conf_def)

lemma quiet_discard: "quiet s s' \<Longrightarrow> discardAssembler s' = discardAssembler s"
  "quiet s s' \<Longrightarrow> exec_wrapper s' = exec_wrapper s" "quiet s s' \<Longrightarrow> verify_opts s' = verify_opts s"
  by (simp_all add: discardAssembler_def exec_wrapper_def verify_opts_def quietD fun_eq_iff)

lemma fetch_params_quiet: "keeps quiet (fetch_params env)"
  unfolding fetch_params_def by (intro quiet.keeps_bind keeps_wrap quiet_steps)

lemma walletParams_quiet: "keeps quiet (walletParams env)"
proof (rule keepsI)
  fix s :: Service
  have "keeps quiet (act_bind (now_at (dv_clock env)) (\<lambda>n.
           if n - sv_paramsFetched s < sv_paramsCacheTTL s then act_ret (Ok p)
           else fetch_params env))" for p
    by (intro quiet.keeps_bind quiet.keeps_if quiet_steps fetch_params_quiet)
  then show "quiet s (snd (walletParams env s))"
    using fetch_params_quiet [of env]
    by (simp add: walletParams_def keeps_def split: option.split)
qed

lemma verifyProof_quiet: "keeps quiet (verifyProof env proofs)"
  unfolding verifyProof_def
  by (intro quiet.keeps_if quiet.keeps_bind keeps_wrap quiet_steps walletParams_quiet)
    (rule quiet_look, intro keeps_wrap quiet_steps)

subsection \<open>Verification\<close>

lemma redelegation_ok:
  "redelegation_from allows i toks = Ok () \<longleftrightarrow>
     (\<forall>k. Suc k < length toks \<longrightarrow> allows (tk_RedelegateTo (toks ! k)) (tk_Audience (toks ! Suc k)))"
proof (induction allows i toks rule: redelegation_from.induct)
  case (1 allows i parent child rest)
  then show ?case by (auto simp: nth_Cons split: nat.splits)
qed auto

definition verified_chain :: "dg_env \<Rightarrow> Service \<Rightarrow> string list \<Rightarrow> bytes list \<Rightarrow> Verified \<Rightarrow> bool" where
  "verified_chain env s proofs tokens v \<longleftrightarrow>
     proofs \<noteq> [] \<and> list_all2 (\<lambda>p tk. b64_decode b64_std p = Ok tk) proofs tokens \<and>
     (\<exists>t (params :: WalletParams). dv_verify_chain env tokens (PublicKeys (resolver_For (dv_agent env) (dv_auth env) (Suc t)))
         \<lparr>vo_ChainID = sc_ChainID (sv_cfg s), vo_Now = dv_clock env t,
          vo_MaxDepth = wp_MaxDelegationDepth params, vo_MaxTTLSeconds = uint (wp_MaxTokenTtlSeconds params),
          vo_Audience = sv_agentID s\<rparr> = Ok v) \<and>
     (\<forall>k. Suc k < length (vf_Tokens v) \<longrightarrow>
        dv_allows env (tk_RedelegateTo (vf_Tokens v ! k)) (tk_Audience (vf_Tokens v ! Suc k)))"

lemma verifyProof_ok:
  assumes "verifyProof env proofs s = (Ok (tokens, v), s')"
  shows "verified_chain env s proofs tokens v" and "quiet s s'"
proof -
  show q: "quiet s s'" by (rule keepsD [OF verifyProof_quiet assms])
  have ne: "proofs \<noteq> []" using assms by (auto simp: verifyProof_def)
  with assms obtain params s1 where
    dec: "decode_tokens proofs = Ok tokens" and wp: "walletParams env s = (Ok params, s1)"
    and vc: "dv_verify_chain env tokens (PublicKeys (resolver_For (dv_agent env) (dv_auth env) (Suc (w_tick s1))))
        (verify_opts s1 (dv_clock env (w_tick s1)) params) = Ok v"
    and red: "checkRedelegationTargets env v = Ok ()"
    by (fastforce simp: verifyProof_def go_iff verify_opts_def)
  have "verify_opts s1 = verify_opts s"
    by (rule quiet_discard(3) [OF keepsD [OF walletParams_quiet wp]])
  with vc have "dv_verify_chain env tokens (PublicKeys (resolver_For (dv_agent env) (dv_auth env) (Suc (w_tick s1))))
     (verify_opts s (dv_clock env (w_tick s1)) params) = Ok v" by simp
  with ne dec red show "verified_chain env s proofs tokens v"
    by (auto simp: verified_chain_def decode_tokens_def go_map_from_Ok_iff checkRedelegationTargets_def
        redelegation_ok verify_opts_def)
qed

lemma verifyProof_fails: "verifyProof env proofs s = (r, s') \<Longrightarrow> quiet s s'"
  by (rule keepsD [OF verifyProof_quiet])

lemma preflight_ok:
  "preflight env v action sub = Ok () \<longleftrightarrow>
     dv_has_action env (vf_Actions v) action \<and> dv_has_subaccount env (vf_Subaccounts v) sub"
  by (simp add: preflight_def)

subsection \<open>Sending\<close>

text \<open>What signing and sending a list of messages leaves in the log, and the result it reports.\<close>

definition send_trace ::
  "dg_env \<Rightarrow> Service \<Rightarrow> sdk_msg list \<Rightarrow> bool \<Rightarrow> string \<Rightarrow> ExecResult go \<Rightarrow> event list \<Rightarrow> bool" where
  "send_trace env s msgs gasFree princ r evs \<longleftrightarrow>
     evs = [ReadAccount (sc_Operator (sv_cfg s))] \<and> \<not> is_ok r \<or>
     (\<exists>acct raw answer. dv_account env (w_tick s) (sc_Operator (sv_cfg s)) = Ok acct \<and>
        SignTx (dv_tx env) (sc_Priv (sv_cfg s)) (sc_ChainID (sv_cfg s)) acct msgs (sc_Fee (sv_cfg s)) gasFree = Ok raw \<and>
        evs = [ReadAccount (sc_Operator (sv_cfg s)), Broadcast raw answer] \<and>
        (is_ok r \<longleftrightarrow> is_ok answer) \<and>
        (\<forall>ex. r = Ok ex \<longrightarrow> (\<exists>res. answer = Ok res \<and>
           ex = \<lparr>ex_TxHash = bc_TxHash res, ex_Code = bc_Code res, ex_RawLog = bc_RawLog res,
                 ex_AgentID = sv_agentID s, ex_Principal = princ\<rparr>)))"

lemma sign_and_send_trace:
  assumes "sign_and_send env msgs gasFree princ s = (r, s')"
  shows "\<exists>evs. w_log s' = w_log s @ evs \<and> send_trace env s msgs gasFree princ r evs"
    and "same_conf s s'" and "sv_cardHash s' = sv_cardHash s"
proof -
  let ?op = "sc_Operator (sv_cfg s)"
  let ?sign = "\<lambda>acct. SignTx (dv_tx env) (sc_Priv (sv_cfg s)) (sc_ChainID (sv_cfg s)) acct msgs (sc_Fee (sv_cfg s)) gasFree"
  note defs = sign_and_send_def read_account_def broadcast_sync_def act_wrap_def Let_def
  have "(\<exists>evs. w_log s' = w_log s @ evs \<and> send_trace env s msgs gasFree princ r evs) \<and>
    same_conf s s' \<and> sv_cardHash s' = sv_cardHash s"
  proof (cases "dv_account env (w_tick s) ?op")
    case (Ok acct)
    show ?thesis
    proof (cases "?sign acct")
      case sig: (Ok raw)
      show ?thesis
        using assms Ok sig
        by (cases "dv_broadcast env (Suc (w_tick s)) raw")
          (auto simp: defs send_trace_def same_conf_def act_bind_def)
    qed (use assms Ok in \<open>auto simp: defs send_trace_def same_conf_def act_bind_def\<close>)
  qed (use assms in \<open>auto simp: defs send_trace_def same_conf_def act_bind_def\<close>)
  then show "\<exists>evs. w_log s' = w_log s @ evs \<and> send_trace env s msgs gasFree princ r evs"
    and "same_conf s s'" and "sv_cardHash s' = sv_cardHash s" by auto
qed

text \<open>
  The events of one delegated transaction: nothing, or the trace of sending the wrapper, between
  lock and unlock exactly when it pays a fee.
\<close>

definition bracket :: "bool \<Rightarrow> event list \<Rightarrow> event list" where
  "bracket locked evs = (if locked then LockSeq # evs @ [UnlockSeq] else evs)"

definition exec_trace ::
  "dg_env \<Rightarrow> Service \<Rightarrow> bytes list \<Rightarrow> Verified \<Rightarrow> sdk_msg \<Rightarrow> ExecResult go \<Rightarrow> event list \<Rightarrow> bool" where
  "exec_trace env s tokens v inner r evs \<longleftrightarrow>
     evs = [] \<and> \<not> is_ok r \<or>
     (\<exists>innerAny s1 evs0.
        tl_pack_msg (dv_tx env) inner = Ok innerAny \<and> same_conf s s1 \<and>
        (let wrapper = exec_wrapper s tokens innerAny; gasFree = GasFreeFor (dv_tx env) [wrapper] in
           dv_validate_basic env wrapper = Ok () \<and>
           send_trace env s1 [wrapper] gasFree (vf_Principal v) r evs0 \<and> evs = bracket (\<not> gasFree) evs0))"

lemma same_conf_log [simp]: "same_conf s (s\<lparr>w_log := l\<rparr>)" "same_conf (s\<lparr>w_log := l\<rparr>) s' = same_conf s s'"
  "same_conf s' (s\<lparr>w_log := l\<rparr>) = same_conf s' s"
  by (simp_all add: same_conf_def)

lemma send_trace_log [simp]:
  "send_trace env (s\<lparr>w_log := l\<rparr>) msgs g p r evs = send_trace env s msgs g p r evs"
  by (simp add: send_trace_def)

lemma with_seq_trace:
  assumes "with_seq (sign_and_send env msgs g p) s = (r, s')"
  shows "\<exists>evs. w_log s' = w_log s @ bracket True evs \<and> send_trace env s msgs g p r evs"
    and "same_conf s s'"
proof -
  obtain s1 where run: "sign_and_send env msgs g p (s\<lparr>w_log := w_log s @ [LockSeq]\<rparr>) = (r, s1)"
    and s': "s' = s1\<lparr>w_log := w_log s1 @ [UnlockSeq]\<rparr>"
    using assms by (auto simp: with_seq_def split: prod.splits)
  from sign_and_send_trace [OF run] show "same_conf s s'" by (simp add: s')
  from sign_and_send_trace(1) [OF run]
  show "\<exists>evs. w_log s' = w_log s @ bracket True evs \<and> send_trace env s msgs g p r evs"
    by (auto simp: s' bracket_def)
qed

lemma execute_trace:
  assumes "execute env tokens v inner s = (r, s')"
  shows "\<exists>evs. w_log s' = w_log s @ evs \<and> exec_trace env s tokens v inner r evs" and "same_conf s s'"
proof -
  have "(\<exists>evs. w_log s' = w_log s @ evs \<and> exec_trace env s tokens v inner r evs) \<and> same_conf s s'"
  proof (cases "tl_pack_msg (dv_tx env) inner")
    case (Ok innerAny)
    define wrapper where "wrapper = exec_wrapper s tokens innerAny"
    define gasFree where "gasFree = GasFreeFor (dv_tx env) [wrapper]"
    define send where "send = sign_and_send env [wrapper] gasFree (vf_Principal v)"
    have run: "act_bind (act_ret (dv_validate_basic env wrapper))
        (\<lambda>_. if gasFree then send else with_seq send) s = (r, s')"
      using assms Ok unfolding send_def gasFree_def wrapper_def
      by (simp add: execute_def act_wrap_def act_bind_def Let_def)
    show ?thesis
    proof (cases "dv_validate_basic env wrapper")
      case valid: (Ok u)
      have "\<exists>evs0. w_log s' = w_log s @ bracket (\<not> gasFree) evs0 \<and>
          send_trace env s [wrapper] gasFree (vf_Principal v) r evs0 \<and> same_conf s s'"
      proof (cases gasFree)
        case True
        with run valid have "send s = (r, s')" by simp
        then show ?thesis
          using sign_and_send_trace [of env "[wrapper]" gasFree "vf_Principal v" s r s'] True
          by (auto simp: send_def bracket_def)
      next
        case False
        with run valid have "with_seq send s = (r, s')" by simp
        then show ?thesis
          using with_seq_trace [of env "[wrapper]" gasFree "vf_Principal v" s r s'] False
          by (auto simp: send_def)
      qed
      moreover have "same_conf s s" by (simp add: same_conf_def)
      ultimately show ?thesis
        using Ok valid by (auto simp: exec_trace_def wrapper_def gasFree_def Let_def)
    qed (use run in \<open>auto simp: exec_trace_def same_conf_def\<close>)
  qed (use assms in \<open>auto simp: execute_def act_wrap_def act_bind_def exec_trace_def same_conf_def\<close>)
  then show "\<exists>evs. w_log s' = w_log s @ evs \<and> exec_trace env s tokens v inner r evs" and "same_conf s s'"
    by auto
qed

subsection \<open>The four operations\<close>

text \<open>The shape the operations share: verify, check the grant, build, execute.\<close>

definition guarded ::
  "dg_env \<Rightarrow> string list \<Rightarrow> string \<Rightarrow> u32 \<Rightarrow> (Verified \<Rightarrow> (Service, sdk_msg) act) \<Rightarrow> (Service, ExecResult) act" where
  "guarded env proofs action sub build =
     act_bind (verifyProof env proofs) (\<lambda>(tokens, v).
     act_bind (act_ret (preflight env v action sub)) (\<lambda>_.
     act_bind (build v) (\<lambda>inner. execute env tokens v inner)))"

lemma execute_ops_guarded:
  "ExecutePlaceOrder env a = guarded env (pi_Proof a) ActionPlaceOrder (op_SubaccountNumber (pi_Order a))
     (\<lambda>v s. ask (\<lambda>t. dv_place env t (place_input v (pi_Order a)) (discardAssembler s) 0 0) s)"
  "ExecuteCancelOrder env b = guarded env (ci_Proof b) ActionCancelOrder (cp_SubaccountNumber (ci_Cancel b))
     (\<lambda>v s. act_ret (dv_cancel env (cancel_input v (ci_Cancel b)) (discardAssembler s) 0 0) s)"
  "ExecuteBatchCancel env c = guarded env (bi_Proof c) ActionBatchCancel (bp_SubaccountNumber (bi_Cancel c))
     (\<lambda>v s. act_ret (dv_batch_cancel env (batch_input v (bi_Cancel c)) (discardAssembler s) 0 0) s)"
  "ExecuteDepositToSubaccount env d = guarded env (di_Proof d) ActionDeposit (dp_SubaccountNumber (di_Deposit d))
     (\<lambda>v. act_bind (act_wrap (\<lambda>e. Errorf ''human_usdc: %w'' [AW e])
         (act_ret (dv_human_to_quantums env (dp_HumanUSDC (di_Deposit d))))) (\<lambda>quantums.
       act_bind (\<lambda>s. act_ret (dv_check_per_tx env (sc_Limits (sv_cfg s)) (dv_ToolDeposit env) quantums) s) (\<lambda>_.
       (\<lambda>s. act_ret (dv_deposit env (deposit_input v (di_Deposit d)) (discardAssembler s) 0 0) s))))"
  by (simp_all add: ExecutePlaceOrder_def ExecuteCancelOrder_def ExecuteBatchCancel_def
      ExecuteDepositToSubaccount_def guarded_def act_bind_assoc)

lemma builders_quiet:
  "keeps quiet (\<lambda>s. ask (q s) s)"
  "keeps quiet (\<lambda>s. act_ret (g s) s)"
  "keeps quiet (act_bind (act_wrap w (act_ret h)) (\<lambda>x. act_bind (\<lambda>s. act_ret (k s x) s) (\<lambda>_ s. act_ret (g s) s)))"
  by (rule quiet_look, rule quiet_steps)+
    (intro quiet.keeps_bind keeps_wrap quiet_steps; rule quiet_look, rule quiet_steps)

lemma same_conf_trans: "same_conf s t \<Longrightarrow> same_conf t u \<Longrightarrow> same_conf s u"
  by (simp add: same_conf_def)

lemma exec_trace_quiet:
  assumes "quiet s s1" and "exec_trace env s1 tokens v inner r evs"
  shows "exec_trace env s tokens v inner r evs"
proof -
  have "same_conf s s1" using assms(1) by (simp add: quiet_def)
  then have "same_conf s1 t \<Longrightarrow> same_conf s t" for t by (rule same_conf_trans)
  then show ?thesis
    using assms(2) unfolding exec_trace_def Let_def quiet_discard(2) [OF assms(1)] by blast
qed

lemma guarded_trace:
  assumes "\<And>v. keeps quiet (build v)" and "guarded env proofs action sub build s = (r, s')"
  shows "\<exists>evs. w_log s' = w_log s @ evs \<and> same_conf s s' \<and>
    (evs = [] \<and> \<not> is_ok r \<or>
     (\<exists>tokens v inner s1 s2. verified_chain env s proofs tokens v \<and>
        dv_has_action env (vf_Actions v) action \<and> dv_has_subaccount env (vf_Subaccounts v) sub \<and>
        quiet s s1 \<and> build v s1 = (Ok inner, s2) \<and> exec_trace env s tokens v inner r evs))"
proof -
  have stop: ?thesis if "quiet s s'" "\<not> is_ok r"
    using that by (intro exI [of _ "[]"]) (auto simp: quiet_def)
  obtain r1 s1 where vp: "verifyProof env proofs s = (r1, s1)" by force
  note q1 = verifyProof_fails [OF vp]
  show ?thesis
  proof (cases r1)
    case (Ok tv)
    then obtain tokens v where tv: "r1 = Ok (tokens, v)" by (cases tv) auto
    note chain = verifyProof_ok(1) [OF vp [unfolded tv]]
    show ?thesis
    proof (cases "preflight env v action sub")
      case pre: (Ok u)
      obtain r2 s2 where b: "build v s1 = (r2, s2)" by force
      note q2 = keepsD [OF assms(1) b]
      have q: "quiet s s2" by (rule quiet.R_trans [OF q1 q2])
      show ?thesis
      proof (cases r2)
        case inner: (Ok inner)
        have ex: "execute env tokens v inner s2 = (r, s')"
          using assms(2) vp tv pre b inner by (simp add: guarded_def)
        obtain evs where evs: "w_log s' = w_log s2 @ evs" and tr: "exec_trace env s2 tokens v inner r evs"
          using execute_trace(1) [OF ex] by blast
        have "same_conf s s'"
          using same_conf_trans [OF _ execute_trace(2) [OF ex]] q by (simp add: quiet_def)
        moreover note exec_trace_quiet [OF q tr]
        moreover have "w_log s' = w_log s @ evs" using evs quietD(3) [OF q] by simp
        moreover have "dv_has_action env (vf_Actions v) action \<and> dv_has_subaccount env (vf_Subaccounts v) sub"
          using pre by (simp add: preflight_ok)
        ultimately show ?thesis using chain q1 b inner by blast
      qed (rule stop; use assms(2) vp tv pre b q in \<open>auto simp: guarded_def\<close>)+
    qed (rule stop; use assms(2) vp tv q1 in \<open>auto simp: guarded_def\<close>)+
  qed (rule stop; use assms(2) vp q1 in \<open>auto simp: guarded_def\<close>)+
qed

lemma deposit_build:
  "act_bind (act_wrap w (act_ret h)) (\<lambda>x. act_bind (\<lambda>s. act_ret (k s x) s) (\<lambda>_ s. act_ret (g s) s)) s1
     = (Ok inner, s2) \<longleftrightarrow> (\<exists>x. h = Ok x \<and> k s1 x = Ok () \<and> g s1 = Ok inner \<and> s2 = s1)"
  by (auto simp: go_iff)

text \<open>
  The one kind of transaction the operations send: a single wrapper naming the operator and this
  agent, carrying the credential's tokens and the packed inner message, that passed its basic
  validation, signed with the operator's key for the account as it was read.
\<close>

definition operator_tx :: "dg_env \<Rightarrow> Service \<Rightarrow> bytes list \<Rightarrow> sdk_msg \<Rightarrow> bytes \<Rightarrow> bool" where
  "operator_tx env s tokens inner raw \<longleftrightarrow>
     (\<exists>innerAny acct t.
        tl_pack_msg (dv_tx env) inner = Ok innerAny \<and>
        dv_account env t (sc_Operator (sv_cfg s)) = Ok acct \<and>
        (let wrapper = MsgAgentExecDelegated (sc_Operator (sv_cfg s)) (sv_agentID s) tokens innerAny
         in dv_validate_basic env wrapper = Ok () \<and>
            SignTx (dv_tx env) (sc_Priv (sv_cfg s)) (sc_ChainID (sv_cfg s)) acct [wrapper]
              (sc_Fee (sv_cfg s)) (GasFreeFor (dv_tx env) [wrapper]) = Ok raw))"

lemma sent_bracket [simp]: "sent (bracket locked evs) = sent evs"
  by (simp add: bracket_def)

lemma exec_trace_sent:
  assumes "exec_trace env s tokens v inner r evs" and "raw \<in> sent evs"
  shows "operator_tx env s tokens inner raw"
  using assms
  by (auto simp: exec_trace_def send_trace_def operator_tx_def exec_wrapper_def same_conf_def Let_def) blast+

lemma new_events_append: "w_log s' = w_log s @ evs \<Longrightarrow> new_events s s' = evs"
  by (simp add: new_events_def)

lemma guarded_sent:
  assumes "\<And>v. keeps quiet (build v)" and "guarded env proofs action sub build s = (r, s')"
    and "raw \<in> sent (new_events s s')"
  shows "\<exists>tokens v inner s1 s2. verified_chain env s proofs tokens v \<and>
    dv_has_action env (vf_Actions v) action \<and> dv_has_subaccount env (vf_Subaccounts v) sub \<and>
    quiet s s1 \<and> build v s1 = (Ok inner, s2) \<and> operator_tx env s tokens inner raw"
  using guarded_trace [OF assms(1,2)] assms(3) exec_trace_sent
  by (fastforce dest: new_events_append)

lemma guarded_sent_pure:
  assumes "guarded env proofs action sub (\<lambda>v s. act_ret (g v (discardAssembler s)) s) s = (r, s')"
    and "raw \<in> sent (new_events s s')"
  shows "\<exists>tokens v inner. verified_chain env s proofs tokens v \<and>
    dv_has_action env (vf_Actions v) action \<and> dv_has_subaccount env (vf_Subaccounts v) sub \<and>
    g v (discardAssembler s) = Ok inner \<and> operator_tx env s tokens inner raw"
  using guarded_sent [OF builders_quiet(2) assms] by (auto simp: quiet_discard) metis

text \<open>
  C2: Every transaction that \<open>ExecutePlaceOrder\<close> sends is the operator's wrapper around one order,
  and for that order there is a credential: the proof decodes to a chain that verified for this
  chain and this agent at some moment of the call, every hop addressed to a target its parent
  allows; the grant names the place-order action and the order's subaccount; and the order was
  built with the credential's principal as its owner and the request's own values.
\<close>

theorem place_order_sent:
  assumes "ExecutePlaceOrder env inp s = (r, s')" and "raw \<in> sent (new_events s s')"
  shows "\<exists>tokens v inner t. verified_chain env s (pi_Proof inp) tokens v \<and>
    dv_has_action env (vf_Actions v) ''clob.place_order'' \<and>
    dv_has_subaccount env (vf_Subaccounts v) (op_SubaccountNumber (pi_Order inp)) \<and>
    dv_place env t
      \<lparr>po_Owner = vf_Principal v, po_SubaccountNum = op_SubaccountNumber (pi_Order inp),
       po_Ticker = op_Ticker (pi_Order inp), po_Side = op_Side (pi_Order inp),
       po_HumanSize = op_Size (pi_Order inp), po_HumanPrice = op_Price (pi_Order inp),
       po_TimeInForce = op_TimeInForce (pi_Order inp), po_ReduceOnly = op_ReduceOnly (pi_Order inp),
       po_GoodTilBlock = op_GoodTilBlock (pi_Order inp), po_OrderClientID = op_OrderClientID (pi_Order inp)\<rparr>
      (discardAssembler s) 0 0 = Ok inner \<and>
    operator_tx env s tokens inner raw"
  using guarded_sent [OF builders_quiet(1) assms(1) [unfolded execute_ops_guarded] assms(2)]
  by (auto simp: ActionPlaceOrder_def place_input_def quiet_discard) metis

text \<open>
  The same for \<open>ExecuteCancelOrder\<close>: what is sent is the operator's wrapper around a
  cancellation built for the principal of a verified credential that grants cancelling and the
  subaccount.
\<close>

theorem cancel_order_sent:
  assumes "ExecuteCancelOrder env inp s = (r, s')" and "raw \<in> sent (new_events s s')"
  shows "\<exists>tokens v inner. verified_chain env s (ci_Proof inp) tokens v \<and>
    dv_has_action env (vf_Actions v) ''clob.cancel_order'' \<and>
    dv_has_subaccount env (vf_Subaccounts v) (cp_SubaccountNumber (ci_Cancel inp)) \<and>
    dv_cancel env (cancel_input v (ci_Cancel inp)) (discardAssembler s) 0 0 = Ok inner \<and>
    co_Owner (cancel_input v (ci_Cancel inp)) = vf_Principal v \<and>
    operator_tx env s tokens inner raw"
  using guarded_sent_pure [OF assms(1) [unfolded execute_ops_guarded] assms(2)]
  by (simp add: ActionCancelOrder_def cancel_input_def)

text \<open>
  The same for \<open>ExecuteBatchCancel\<close>, whose batches reach the builder unchanged.
\<close>

theorem batch_cancel_sent:
  assumes "ExecuteBatchCancel env inp s = (r, s')" and "raw \<in> sent (new_events s s')"
  shows "\<exists>tokens v inner. verified_chain env s (bi_Proof inp) tokens v \<and>
    dv_has_action env (vf_Actions v) ''clob.batch_cancel'' \<and>
    dv_has_subaccount env (vf_Subaccounts v) (bp_SubaccountNumber (bi_Cancel inp)) \<and>
    dv_batch_cancel env
      \<lparr>bo_Owner = vf_Principal v, bo_SubaccountNum = bp_SubaccountNumber (bi_Cancel inp),
       bo_Batches = map (\<lambda>b. \<lparr>ob_ClobPairID = bt_ClobPairID b, ob_ClientIDs = bt_ClientIDs b\<rparr>)
         (bp_Batches (bi_Cancel inp)),
       bo_GoodTilBlock = bp_GoodTilBlock (bi_Cancel inp)\<rparr> (discardAssembler s) 0 0 = Ok inner \<and>
    operator_tx env s tokens inner raw"
  using guarded_sent_pure [OF assms(1) [unfolded execute_ops_guarded] assms(2)]
  by (simp add: ActionBatchCancel_def batch_input_def)

text \<open>
  C9: A deposit is sent only inside the operator's own ceiling: beside the credential conditions
  of the other operations, the amount parsed and passed the per-transaction limit, and the sender
  and recipient are the credential's principal.
\<close>

theorem deposit_sent:
  assumes "ExecuteDepositToSubaccount env inp s = (r, s')" and "raw \<in> sent (new_events s s')"
  shows "\<exists>tokens v quantums inner. verified_chain env s (di_Proof inp) tokens v \<and>
    dv_has_action env (vf_Actions v) ''sending.deposit_to_subaccount'' \<and>
    dv_has_subaccount env (vf_Subaccounts v) (dp_SubaccountNumber (di_Deposit inp)) \<and>
    dv_human_to_quantums env (dp_HumanUSDC (di_Deposit inp)) = Ok quantums \<and>
    dv_check_per_tx env (sc_Limits (sv_cfg s)) (dv_ToolDeposit env) quantums = Ok () \<and>
    dv_deposit env \<lparr>do_Owner = vf_Principal v, do_SubaccountNum = dp_SubaccountNumber (di_Deposit inp),
       do_HumanUSDC = dp_HumanUSDC (di_Deposit inp)\<rparr> (discardAssembler s) 0 0 = Ok inner \<and>
    operator_tx env s tokens inner raw"
  using guarded_sent [OF builders_quiet(3) assms(1) [unfolded execute_ops_guarded] assms(2)]
proof -
  from guarded_sent [OF builders_quiet(3) assms(1) [unfolded execute_ops_guarded] assms(2)]
  obtain tokens v inner s1 s2 where facts: "verified_chain env s (di_Proof inp) tokens v"
      "dv_has_action env (vf_Actions v) ActionDeposit"
      "dv_has_subaccount env (vf_Subaccounts v) (dp_SubaccountNumber (di_Deposit inp))"
      "operator_tx env s tokens inner raw" and q: "quiet s s1"
    and b: "act_bind (act_wrap (\<lambda>e. Errorf ''human_usdc: %w'' [AW e])
         (act_ret (dv_human_to_quantums env (dp_HumanUSDC (di_Deposit inp))))) (\<lambda>quantums.
       act_bind (\<lambda>s. act_ret (dv_check_per_tx env (sc_Limits (sv_cfg s)) (dv_ToolDeposit env) quantums) s) (\<lambda>_.
       (\<lambda>s. act_ret (dv_deposit env (deposit_input v (di_Deposit inp)) (discardAssembler s) 0 0) s))) s1
       = (Ok inner, s2)"
    by (elim exE conjE) (rule that)
  from b [unfolded deposit_build] obtain quantums where
    "dv_human_to_quantums env (dp_HumanUSDC (di_Deposit inp)) = Ok quantums"
    "dv_check_per_tx env (sc_Limits (sv_cfg s)) (dv_ToolDeposit env) quantums = Ok ()"
    "dv_deposit env (deposit_input v (di_Deposit inp)) (discardAssembler s) 0 0 = Ok inner"
    using quietD(1) [OF q] quiet_discard(1) [OF q] by auto
  with facts show ?thesis unfolding ActionDeposit_def deposit_input_def by blast
qed

end
