(* ===== verification/Go_Json.thy ===== *)
theory Go_Json
  imports Go_Text
begin

section \<open>Values of Go's \<open>encoding/json\<close>\<close>

text \<open>
  A JSON text as the tree of its values, as the decoder sees it: object members in textual
  order with duplicates, numbers as their literal. A \<open>json.RawMessage\<close> is such a tree, and
  \<open>None\<close> is the message of length zero. Decoding into Go strings, integers, slices, maps and
  structs follows the package: \<open>null\<close> leaves a scalar or a struct alone and makes a map nil,
  the last of several members with one key wins, and a struct field takes its exact name or
  else any name equal under the package's case folding.
\<close>

datatype json =
    JNull
  | JBool bool
  | JNum string
  | JStr string
  | JArr "json list"
  | JObj "(string \<times> json) list"

type_synonym raw = "json option"

definition type_error :: err where
  "type_error = Foreign ''json: cannot unmarshal value into Go value''"

subsection \<open>Maps with string keys\<close>

text \<open>
  \<open>map[string]json.RawMessage\<close>. A map value is kept in the order \<open>json.Marshal\<close> writes it:
  strictly ascending keys in byte order. \<open>NilMap\<close> is the nil map: it reads as empty, and
  writing to it panics.
\<close>

type_synonym jmap = "(string \<times> json) list"

datatype gomap = NilMap | GoMap jmap

fun jm_put :: "string \<Rightarrow> json \<Rightarrow> jmap \<Rightarrow> jmap" where
  "jm_put k v [] = [(k, v)]"
| "jm_put k v ((k', v') # m) =
     (if k = k' then (k, v) # m
      else if k < k' then (k, v) # (k', v') # m
      else (k', v') # jm_put k v m)"

definition jm_of :: "(string \<times> json) list \<Rightarrow> jmap" where
  "jm_of kvs = fold (\<lambda>(k, v). jm_put k v) kvs []"

definition jm_wf :: "jmap \<Rightarrow> bool" where
  "jm_wf m \<longleftrightarrow> sorted_wrt (<) (map fst m)"

fun gm_get :: "gomap \<Rightarrow> string \<Rightarrow> json option" where
  "gm_get NilMap k = None"
| "gm_get (GoMap m) k = map_of m k"

fun gm_put :: "string \<Rightarrow> json \<Rightarrow> gomap \<Rightarrow> gomap go" where
  "gm_put k v NilMap = Panics"
| "gm_put k v (GoMap m) = Ok (GoMap (jm_put k v m))"

text \<open>\<open>json.Marshal\<close> of such a map.\<close>

fun gm_marshal :: "gomap \<Rightarrow> json" where
  "gm_marshal NilMap = JNull"
| "gm_marshal (GoMap m) = JObj m"

text \<open>\<open>json.Unmarshal(raw, &m)\<close> with \<open>m\<close> an empty map before the call.\<close>

fun dec_map :: "json \<Rightarrow> gomap go" where
  "dec_map JNull = Ok NilMap"
| "dec_map (JObj kvs) = Ok (GoMap (jm_of kvs))"
| "dec_map _ = Err type_error"

lemma fst_set_jm_put: "fst ` set (jm_put k v m) = insert k (fst ` set m)"
  by (induction k v m rule: jm_put.induct) auto

lemma jm_wf_put: "jm_wf m \<Longrightarrow> jm_wf (jm_put k v m)"
proof (induction k v m rule: jm_put.induct)
  case (2 k v k' v' m)
  then show ?case
    using fst_set_jm_put [of k v m] by (auto simp: jm_wf_def)
qed (simp add: jm_wf_def)

lemma map_of_jm_put: "map_of (jm_put k v m) k' = (if k' = k then Some v else map_of m k')"
  by (induction k v m rule: jm_put.induct) auto

lemma jm_wf_Nil [simp]: "jm_wf []"
  by (simp add: jm_wf_def)

interpretation jm: dict "[]" map_of jm_put jm_wf
  by unfold_locales (simp_all add: jm_wf_put map_of_jm_put)

lemma jm_wf_of [simp]: "jm_wf (jm_of kvs)"
  unfolding jm_of_def by (rule jm.wf_of_pairs)

lemma map_of_jm_of: "map_of (jm_of kvs) k = map_of (rev kvs) k"
  unfolding jm_of_def by (rule jm.get_of_pairs)

text \<open>A well-formed map is its own decoding: reading back what was marshalled.\<close>

lemma jm_put_last:
  "sorted_wrt (<) (map fst (m @ [(k, v)])) \<Longrightarrow> jm_put k v m = m @ [(k, v)]"
proof (induction m)
  case (Cons x m)
  then show ?case by (cases x) (auto simp: sorted_wrt_append)
qed simp

lemma jm_of_id: "jm_wf m \<Longrightarrow> jm_of m = m"
proof (induction m rule: rev_induct)
  case (snoc kv m)
  obtain k v where kv: "kv = (k, v)" by force
  have "jm_wf m" using snoc.prems by (simp add: jm_wf_def sorted_wrt_append)
  then have "jm_of m = m" by (rule snoc.IH)
  then show ?case using snoc.prems
    by (simp add: jm_of_def jm_put_last jm_wf_def kv)
qed (simp add: jm_of_def)

text \<open>Writing the value that is there changes nothing.\<close>

lemma jm_put_same: "jm_wf m \<Longrightarrow> map_of m k = Some v \<Longrightarrow> jm_put k v m = m"
proof (induction k v m rule: jm_put.induct)
  case (2 k v k' v' m)
  have "\<not> k < k'" if "k \<noteq> k'"
  proof -
    from that "2.prems"(2) have "k \<in> fst ` set m" by (auto dest: map_of_SomeD intro: rev_image_eqI)
    with "2.prems"(1) have "k' < k" by (auto simp: jm_wf_def)
    then show ?thesis by simp
  qed
  with 2 show ?case by (auto simp: jm_wf_def split: if_splits)
qed simp

lemma dec_map_marshal: "jm_wf m \<Longrightarrow> dec_map (gm_marshal (GoMap m)) = Ok (GoMap m)"
  by (simp add: jm_of_id)

subsection \<open>Scalars and slices\<close>

fun dec_string :: "string \<Rightarrow> json \<Rightarrow> string go" where
  "dec_string old JNull = Ok old"
| "dec_string old (JStr s) = Ok s"
| "dec_string old _ = Err type_error"

fun dec_bool :: "bool \<Rightarrow> json \<Rightarrow> bool go" where
  "dec_bool old JNull = Ok old"
| "dec_bool old (JBool b) = Ok b"
| "dec_bool old _ = Err type_error"

definition lit_int :: "string \<Rightarrow> int option" where
  "lit_int s = (case s of
     [] \<Rightarrow> None
   | c # t \<Rightarrow> if c = CHR ''-'' then map_option (\<lambda>n. - int n) (lit_nat t)
       else map_option int (lit_nat s))"

text \<open>An unsigned integer of \<open>w\<close> bits: only an integer literal in range is accepted.\<close>

fun dec_uint :: "nat \<Rightarrow> nat \<Rightarrow> json \<Rightarrow> nat go" where
  "dec_uint w old JNull = Ok old"
| "dec_uint w old (JNum s) =
     (case lit_nat s of
        Some n \<Rightarrow> if n < 2 ^ w then Ok n else Err type_error
      | None \<Rightarrow> Err type_error)"
| "dec_uint w old _ = Err type_error"

lemma dec_uint_code [code]:
  "dec_uint w old JNull = Ok old" "dec_uint w old (JBool b) = Err type_error"
  "dec_uint w old (JStr s) = Err type_error" "dec_uint w old (JArr js) = Err type_error"
  "dec_uint w old (JObj kvs) = Err type_error"
  "dec_uint w old (JNum s) =
     (case lit_nat s of
        Some n \<Rightarrow> if int n < 2 ^ w then Ok n else Err type_error
      | None \<Rightarrow> Err type_error)"
  by (simp_all split: option.split)

definition dec_u32 :: "u32 \<Rightarrow> json \<Rightarrow> u32 go" where
  "dec_u32 old j = go_bind (dec_uint 32 (unat old) j) (\<lambda>n. Ok (of_nat n))"

definition dec_u64 :: "u64 \<Rightarrow> json \<Rightarrow> u64 go" where
  "dec_u64 old j = go_bind (dec_uint 64 (unat old) j) (\<lambda>n. Ok (of_nat n))"

fun dec_int64 :: "int \<Rightarrow> json \<Rightarrow> int go" where
  "dec_int64 old JNull = Ok old"
| "dec_int64 old (JNum s) =
     (case lit_int s of
        Some n \<Rightarrow> if - (2 ^ 63) \<le> n \<and> n < 2 ^ 63 then Ok n else Err type_error
      | None \<Rightarrow> Err type_error)"
| "dec_int64 old _ = Err type_error"

text \<open>A slice: \<open>null\<close> is the nil slice, an array decodes element by element.\<close>

fun dec_slice :: "(json \<Rightarrow> 'a go) \<Rightarrow> json \<Rightarrow> 'a list go" where
  "dec_slice f JNull = Ok []"
| "dec_slice f (JArr js) = go_map_from 0 (\<lambda>_ e. e) f js"
| "dec_slice f _ = Err type_error"

abbreviation dec_strings :: "json \<Rightarrow> string list go" where
  "dec_strings \<equiv> dec_slice (dec_string [])"

definition enc_strings :: "string list \<Rightarrow> json" where
  "enc_strings ss = JArr (map JStr ss)"

lemma dec_strings_enc [simp]: "dec_strings (enc_strings ss) = Ok ss"
  by (simp add: enc_strings_def go_map_from_Ok_iff list_all2_map1 list.rel_refl)

lemma dec_string_no_panic: "dec_string old j \<noteq> Panics"
  by (cases j) auto

lemma dec_strings_no_panic: "dec_strings j \<noteq> Panics"
  by (cases j) (auto simp: go_map_from_no_panic dec_string_no_panic)

lemma dec_u32_no_panic: "dec_u32 old j \<noteq> Panics"
  by (cases j) (auto simp: dec_u32_def go_iff split: option.splits if_splits)

lemma gm_put_no_panic: "gm_put k v m = Panics \<longleftrightarrow> m = NilMap"
  by (cases m) auto

lemma dec_map_no_panic: "dec_map j \<noteq> Panics"
  by (cases j) auto

subsection \<open>Structs\<close>

text \<open>
  The package's folding of a member name: ASCII letters to upper case, and the two runes
  that fold to an ASCII letter, the long s (bytes C5 BF) and the Kelvin sign (E2 84 AA).
\<close>

fun fold_key :: "string \<Rightarrow> string" where
  "fold_key [] = []"
| "fold_key (a # s) =
     (case s of
        [] \<Rightarrow> [to_upper_ascii a]
      | b # s' \<Rightarrow>
          if a = CHR 0xC5 \<and> b = CHR 0xBF then CHR ''S'' # fold_key s'
          else (case s' of
                  [] \<Rightarrow> to_upper_ascii a # fold_key s
                | c # s'' \<Rightarrow>
                    if a = CHR 0xE2 \<and> b = CHR 0x84 \<and> c = CHR 0xAA then CHR ''K'' # fold_key s''
                    else to_upper_ascii a # fold_key s))"

type_synonym 's field = "string \<times> (json \<Rightarrow> 's \<Rightarrow> 's go)"

definition find_field :: "'s field list \<Rightarrow> string \<Rightarrow> (json \<Rightarrow> 's \<Rightarrow> 's go) option" where
  "find_field fs k =
     (case map_of fs k of
        Some f \<Rightarrow> Some f
      | None \<Rightarrow> map_option snd (find (\<lambda>(n, f). fold_key n = fold_key k) fs))"

fun dec_members :: "'s field list \<Rightarrow> (string \<times> json) list \<Rightarrow> 's \<Rightarrow> 's go" where
  "dec_members fs [] s = Ok s"
| "dec_members fs ((k, v) # kvs) s =
     (case find_field fs k of
        None \<Rightarrow> dec_members fs kvs s
      | Some f \<Rightarrow> go_bind (f v s) (dec_members fs kvs))"

fun dec_struct :: "'s field list \<Rightarrow> 's \<Rightarrow> json \<Rightarrow> 's go" where
  "dec_struct fs s JNull = Ok s"
| "dec_struct fs s (JObj kvs) = dec_members fs kvs s"
| "dec_struct fs s _ = Err type_error"

text \<open>The decoder with \<open>DisallowUnknownFields\<close>.\<close>

fun dec_struct_strict :: "'s field list \<Rightarrow> 's \<Rightarrow> json \<Rightarrow> 's go" where
  "dec_struct_strict fs s (JObj kvs) =
     (case find (\<lambda>(k, v). find_field fs k = None) kvs of
        Some (k, v) \<Rightarrow> Err (Errorf ''json: unknown field %q'' [AQ k])
      | None \<Rightarrow> dec_members fs kvs s)"
| "dec_struct_strict fs s j = dec_struct fs s j"

text \<open>
  A field of a Go struct: its name, its \<open>json\<close> tag, and how a value is decoded into it. The
  package names the member by the tag up to its first comma, by the field's name when that is
  empty, and leaves out a field tagged with a dash.
\<close>

type_synonym 's gofield = "string \<times> string \<times> (json \<Rightarrow> 's \<Rightarrow> 's go)"

fun json_name :: "'s gofield \<Rightarrow> string" where
  "json_name (f, tag, g) =
     (let n = takeWhile (\<lambda>c. c \<noteq> CHR '','') tag in if n = [] then f else n)"

definition json_fields :: "'s gofield list \<Rightarrow> 's field list" where
  "json_fields fs = map (\<lambda>(f, tag, g). (json_name (f, tag, g), g)) (filter (\<lambda>(f, tag, g). tag \<noteq> ''-'') fs)"

text \<open>\<open>json.Unmarshal(raw, &in)\<close> into a zero value of the struct.\<close>

definition dec_input :: "'s gofield list \<Rightarrow> 's \<Rightarrow> json \<Rightarrow> 's go" where
  "dec_input fs zero = dec_struct (json_fields fs) zero"

text \<open>A field decoded by \<open>dec\<close> over its present value, given its selector and its update.\<close>

definition in_field :: "('a \<Rightarrow> json \<Rightarrow> 'a go) \<Rightarrow> ('s \<Rightarrow> 'a) \<Rightarrow> (('a \<Rightarrow> 'a) \<Rightarrow> 's \<Rightarrow> 's) \<Rightarrow> json \<Rightarrow> 's \<Rightarrow> 's go" where
  "in_field dec get upd j s = go_bind (dec (get s) j) (\<lambda>v. Ok (upd (\<lambda>_. v) s))"

text \<open>A pointer field: null makes it nil, anything else decodes into what it points to.\<close>

fun dec_ptr :: "('a \<Rightarrow> json \<Rightarrow> 'a go) \<Rightarrow> 'a \<Rightarrow> 'a option \<Rightarrow> json \<Rightarrow> 'a option go" where
  "dec_ptr dec zero old JNull = Ok None"
| "dec_ptr dec zero old j = go_bind (dec (case old of None \<Rightarrow> zero | Some v \<Rightarrow> v) j) (\<lambda>v. Ok (Some v))"

text \<open>A Go value of any type that is only encoded: what \<open>json.Marshal\<close> makes of it.\<close>

type_synonym goany = "json go"

lemma dec_members_append:
  "dec_members fs (xs @ ys) s = go_bind (dec_members fs xs s) (dec_members fs ys)"
proof (induction fs xs s rule: dec_members.induct)
  case (2 fs k v kvs s)
  then show ?case
  proof (cases "find_field fs k")
    case (Some f)
    with 2 show ?thesis by (cases "f v s") auto
  qed simp
qed simp

lemma dec_members_skip:
  "(\<And>k. k \<in> fst ` set kvs \<Longrightarrow> find_field fs k = None) \<Longrightarrow> dec_members fs kvs s = Ok s"
  by (induction fs kvs s rule: dec_members.induct) auto

subsection \<open>The value a field ends up with\<close>

text \<open>
  A field \<open>n\<close> of a struct as its decoder sees it: its own setter decodes the value by \<open>dec\<close>, and the
  setters of the other fields leave it alone. When every member of an object is named exactly like
  a field, the field holds the last value given for its name.
\<close>

locale struct_field =
  fixes fs :: "'s field list" and n :: string and get :: "'s \<Rightarrow> 'a" and dec :: "json \<Rightarrow> 'a go"
  assumes own: "map_of fs n = Some g \<Longrightarrow> g j s = Ok s' \<Longrightarrow> dec j = Ok (get s')"
    and other: "k \<noteq> n \<Longrightarrow> map_of fs k = Some g \<Longrightarrow> g j s = Ok s' \<Longrightarrow> get s' = get s"
begin

lemma decoded_member:
  assumes "fst ` set kvs \<subseteq> fst ` set fs" and "dec_members fs kvs s = Ok r"
  shows "case map_of (rev kvs) n of None \<Rightarrow> get r = get s | Some j \<Rightarrow> dec j = Ok (get r)"
  using assms
proof (induction kvs arbitrary: s)
  case (Cons kv kvs)
  obtain k v where kv: "kv = (k, v)" by force
  with Cons.prems(1) obtain g where g: "map_of fs k = Some g"
    by (metis image_subset_iff list.set_intros(1) fst_conv map_of_eq_None_iff not_None_eq)
  then have ff: "find_field fs k = Some g" by (simp add: find_field_def)
  with Cons.prems(2) obtain t where t: "g v s = Ok t" "dec_members fs kvs t = Ok r"
    by (auto simp: kv go_iff)
  have IH: "case map_of (rev kvs) n of None \<Rightarrow> get r = get t | Some j \<Rightarrow> dec j = Ok (get r)"
    using Cons.IH [of t] Cons.prems(1) t(2) by simp
  show ?case
  proof (cases "map_of (rev kvs) n")
    case None
    have "dec v = Ok (get t)" if "k = n" using own [OF g [unfolded that] t(1)] .
    moreover have "get t = get s" if "k \<noteq> n" using other [OF that g t(1)] .
    ultimately show ?thesis using IH None by (auto simp: kv map_add_def)
  next
    case (Some j)
    with IH show ?thesis by (simp add: kv map_add_def)
  qed
qed simp

end

subsection \<open>Which member a struct field takes\<close>

definition ascii :: "string \<Rightarrow> bool" where
  "ascii s = (\<forall>c \<in> set s. (of_char c :: nat) < 128)"

text \<open>A field name without upper-case letters, as every JSON name of the agent's tools is.\<close>

definition lower_name :: "string \<Rightarrow> bool" where
  "lower_name s = (\<forall>c \<in> set s. (of_char c :: nat) < 128 \<and> \<not> (65 \<le> (of_char c :: nat) \<and> (of_char c :: nat) \<le> 90))"

lemma fold_key_ascii: "ascii s \<Longrightarrow> fold_key s = map to_upper_ascii s"
proof (induction s rule: fold_key.induct)
  case (2 a s)
  have "a \<noteq> CHR 0xC5" "a \<noteq> CHR 0xE2" using "2.prems" by (auto simp: ascii_def)
  with 2 show ?case by (auto simp: ascii_def split: list.splits)
qed simp

lemma lower_name_ascii: "lower_name s \<Longrightarrow> ascii s"
  by (auto simp: lower_name_def ascii_def)

lemma of_char_upper:
  "(of_char (to_upper_ascii c) :: nat) =
     (if 97 \<le> (of_char c :: nat) \<and> (of_char c :: nat) \<le> 122 then of_char c - 32 else of_char c)"
proof -
  have "(of_char c :: nat) - 32 < 256" using byte_lt [of c] by linarith
  then show ?thesis by (simp add: to_upper_ascii_def Let_def)
qed

lemma upper_eq_cases:
  assumes "to_upper_ascii a = to_upper_ascii b"
    and "\<not> (65 \<le> (of_char b :: nat) \<and> (of_char b :: nat) \<le> 90)"
  shows "a = b \<or> a < b"
proof -
  have "(of_char (to_upper_ascii a) :: nat) = of_char (to_upper_ascii b)" using assms(1) by simp
  then have "(of_char a :: nat) \<le> of_char b"
    using assms(2) by (auto simp: of_char_upper split: if_splits)
  then have "a \<le> b" by (simp add: less_eq_char_def)
  then show ?thesis by auto
qed

text \<open>
  Among the ASCII spellings of a field name, the lower-case one is the last in byte order, the
  order in which \<open>json.Marshal\<close> writes a map.
\<close>

lemma fold_variant_less:
  "ascii k \<Longrightarrow> lower_name f \<Longrightarrow> fold_key k = fold_key f \<Longrightarrow> k = f \<or> k < f"
proof -
  have "map to_upper_ascii k = map to_upper_ascii f \<Longrightarrow> lower_name f \<Longrightarrow> k = f \<or> k < f"
  proof (induction k arbitrary: f)
    case (Cons a k)
    then obtain b g where f: "f = b # g" by (cases f) auto
    with Cons.prems have "a = b \<or> a < b"
      by (intro upper_eq_cases) (auto simp: lower_name_def)
    moreover have "k = g \<or> k < g"
      using Cons f by (auto simp: lower_name_def)
    ultimately show ?case by (auto simp: f)
  qed simp
  then show "ascii k \<Longrightarrow> lower_name f \<Longrightarrow> fold_key k = fold_key f \<Longrightarrow> ?thesis"
    by (simp add: fold_key_ascii lower_name_ascii)
qed

text \<open>Reading one string field named \<open>f\<close> out of an object, as a handler's input struct does.\<close>

definition read_string_field :: "string \<Rightarrow> json \<Rightarrow> string go" where
  "read_string_field f = dec_struct [(f, \<lambda>v s. dec_string s v)] []"

definition read_u32_field :: "string \<Rightarrow> json \<Rightarrow> u32 go" where
  "read_u32_field f = dec_struct [(f, \<lambda>v s. dec_u32 s v)] 0"

lemma find_field_single:
  "find_field [(f, g)] k = (if k = f \<or> fold_key f = fold_key k then Some g else None)"
  by (simp add: find_field_def)

lemma sorted_split:
  assumes "jm_wf m" and "map_of m f = Some v"
  obtains xs ys where "m = xs @ (f, v) # ys" "\<And>k. k \<in> fst ` set ys \<Longrightarrow> f < k"
proof -
  obtain xs ys where m: "m = xs @ (f, v) # ys"
    using map_of_SomeD [OF assms(2)] by (auto simp: in_set_conv_decomp)
  have "\<And>k. k \<in> fst ` set ys \<Longrightarrow> f < k"
    using assms(1) by (auto simp: m jm_wf_def sorted_wrt_append)
  with m that show ?thesis by blast
qed

lemma dec_single_last:
  assumes "jm_wf m" and "map_of m f = Some v" and "lower_name f"
    and "\<And>k. k \<in> fst ` set m \<Longrightarrow> ascii k"
    and "dec_members [(f, g)] m s = Ok r"
  shows "\<exists>s'. g v s' = Ok r"
proof -
  obtain xs ys where m: "m = xs @ (f, v) # ys" and ys: "\<And>k. k \<in> fst ` set ys \<Longrightarrow> f < k"
    using sorted_split [OF assms(1,2)] by blast
  have "find_field [(f, g)] k = None" if "k \<in> fst ` set ys" for k
  proof -
    have "ascii k" using that assms(4) by (auto simp: m)
    moreover have "f < k" using that by (rule ys)
    ultimately show ?thesis
      using fold_variant_less [of k f] assms(3) by (auto simp: find_field_single)
  qed
  then have "dec_members [(f, g)] ys t = Ok t" for t
    by (intro dec_members_skip)
  with assms(5) show ?thesis
    by (auto simp: m dec_members_append find_field_single go_iff)
qed

lemma read_string_field_pinned:
  assumes "jm_wf m" and "map_of m f = Some (JStr p)" and "lower_name f"
    and "\<And>k. k \<in> fst ` set m \<Longrightarrow> ascii k"
    and "read_string_field f (JObj m) = Ok x"
  shows "x = p"
  using dec_single_last [of m f "JStr p" "\<lambda>v s. dec_string s v" "[]" x] assms
  by (auto simp: read_string_field_def)

end
