(* ===== verification/Agent_Chain.thy ===== *)
theory Agent_Chain
  imports Agent_World Operator_Tx Go_Json
begin

section \<open>The agent chain's modules: queries, unsigned builds, broadcast\<close>

text \<open>
  \<open>internal/agentchain\<close>: the gRPC queries over \<open>x/agent\<close> and \<open>x/agentwallet\<close>, the unsigned
  transactions of the registration and delegation lifecycles, and the landing of a transaction the
  caller signed. Each input record is followed by the fields its JSON form has. The policy engine,
  the query clients, the assembler and the decoders of the chain's own types are fields of an
  environment record; each answer depends on the step at which it is asked for.
\<close>

subsection \<open>The environment\<close>

text \<open>The requests of the generated query clients; a page request is nil or a limit.\<close>

type_synonym PageRequest = "u64 option"

datatype agent_query =
    QueryAgent string
  | QueryAgentByOperator string
  | QueryAllAgents PageRequest
  | QueryAgentsByOwner string PageRequest
  | QueryAgentsByCapability string bool PageRequest
  | QueryAgentParams

datatype wallet_query =
    QueryDelegation bytes
  | QueryDelegationsByDelegator string PageRequest
  | QueryEpoch bytes
  | QuerySpend bytes
  | QueryWalletParams

record Summary =
  sm_ToolName :: string
  sm_MsgTypeURL :: string
  sm_AmountHuman :: string
  sm_Denom :: string

definition empty_summary :: Summary where
  "empty_summary = \<lparr>sm_ToolName = [], sm_MsgTypeURL = [], sm_AmountHuman = [], sm_Denom = []\<rparr>"

text \<open>The arguments the service passes to \<open>builder.Assembler.Assemble\<close>.\<close>

record BuilderArgs =
  ba_Msgs :: "sdk_msg list"
  ba_SignerAddress :: string
  ba_AccountNumber :: u64
  ba_Sequence :: u64
  ba_ClientID :: string
  ba_Summary :: Summary

record SignedTx =
  st_TxRawBytesB64 :: string

record ac_env =
  ac_agentQ :: "nat \<Rightarrow> agent_query \<Rightarrow> goany go"
  ac_walletQ :: "nat \<Rightarrow> wallet_query \<Rightarrow> goany go"
  ac_assemble :: "BuilderArgs \<Rightarrow> goany go"
  ac_account :: "nat \<Rightarrow> string \<Rightarrow> AccountInfo go"
  ac_check_tenant :: "nat \<Rightarrow> string \<Rightarrow> unit go"
  ac_tenant :: "nat \<Rightarrow> string \<Rightarrow> TenantPolicy go"
  ac_broadcast :: "nat \<Rightarrow> bytes \<Rightarrow> BroadcastResult go"
  ac_validate_basic :: "sdk_msg \<Rightarrow> unit go"
  ac_type_url :: "sdk_msg \<Rightarrow> string"
  ac_new_int :: "string \<Rightarrow> int option"
  ac_acc_address :: "string \<Rightarrow> bytes go"
  ac_agent_id :: "bytes \<Rightarrow> string"
  ac_RootIDLen :: nat
  ac_enc_BroadcastResult :: "BroadcastResult \<Rightarrow> goany"
  ac_dec_SignedTx :: "SignedTx \<Rightarrow> json \<Rightarrow> SignedTx go"
  ac_unmarshal_TxRaw :: "bytes \<Rightarrow> TxRaw go"
  ac_unmarshal_AuthInfo :: "bytes \<Rightarrow> bytes any option list go"
  ac_unpack_key :: "bytes any \<Rightarrow> bytes go"
  ac_key_address :: "bytes \<Rightarrow> string"

subsection \<open>Authorization and conversions\<close>

definition authorize :: "ac_env \<Rightarrow> ToolCtx \<Rightarrow> ('s world_scheme, string) act" where
  "authorize env ctx =
     (case cx_Tenant ctx of
        None \<Rightarrow> act_ret (Err ErrNoTenant)
      | Some tc \<Rightarrow>
        act_bind (ask (\<lambda>t. ac_check_tenant env t (tc_TenantID tc))) (\<lambda>_.
        act_bind (ask (\<lambda>t. ac_tenant env t (tc_TenantID tc))) (\<lambda>tp.
        act_ret (Ok (tp_Owner tp)))))"

record coin =
  cn_Denom :: string
  cn_Amount :: string

definition zero_coin :: coin where "zero_coin = \<lparr>cn_Denom = [], cn_Amount = []\<rparr>"

definition coin_fields :: "coin gofield list" where
  "coin_fields =
    [(''Denom'', ''denom'', in_field dec_string cn_Denom cn_Denom_update),
     (''Amount'', ''amount'', in_field dec_string cn_Amount cn_Amount_update)]"

abbreviation dec_coin :: "coin \<Rightarrow> json \<Rightarrow> coin go" where
  "dec_coin \<equiv> dec_input coin_fields"

abbreviation dec_coins :: "coin list \<Rightarrow> json \<Rightarrow> coin list go" where
  "dec_coins \<equiv> (\<lambda>_. dec_slice (dec_coin zero_coin))"

abbreviation dec_texts :: "string list \<Rightarrow> json \<Rightarrow> string list go" where
  "dec_texts \<equiv> (\<lambda>_. dec_strings)"

text \<open>\<open>agentchain.Coin.ToSDK\<close>, with \<open>new_int\<close> for \<open>sdkmath.NewIntFromString\<close>.\<close>

definition Coin_ToSDK :: "(string \<Rightarrow> int option) \<Rightarrow> coin \<Rightarrow> sdk_coin go" where
  "Coin_ToSDK new_int c =
     (case new_int (cn_Amount c) of
        None \<Rightarrow> Err (Errorf ''amount %q is not a valid integer'' [AQ (cn_Amount c)])
      | Some amt \<Rightarrow>
        if cn_Denom c = [] then Err (Errorf ''denom is required'' [])
        else Ok \<lparr>co_Denom = cn_Denom c, co_Amount = amt\<rparr>)"

definition coinsToSDK :: "(string \<Rightarrow> int option) \<Rightarrow> coin list \<Rightarrow> sdk_coin list go" where
  "coinsToSDK new_int = go_map_from 0 (\<lambda>i e. Errorf ''coin[%d]: %w'' [AD (int i), AW e]) (Coin_ToSDK new_int)"

definition rootIDFromHex :: "ac_env \<Rightarrow> string \<Rightarrow> bytes go" where
  "rootIDFromHex env s =
     go_bind (wrap_err (\<lambda>e. Errorf ''root_id must be hex: %w'' [AW e]) (hex_decode s)) (\<lambda>b.
       if length b \<noteq> ac_RootIDLen env
       then Err (Errorf ''root_id must be %d bytes, got %d'' [AD (int (ac_RootIDLen env)), AD (int (length b))])
       else Ok b)"

subsection \<open>Queries\<close>

definition pageRequest :: "u64 \<Rightarrow> PageRequest" where
  "pageRequest limit = (if limit = 0 then None else Some limit)"

definition query_agent :: "ac_env \<Rightarrow> ToolCtx \<Rightarrow> agent_query \<Rightarrow> ('s world_scheme, goany) act" where
  "query_agent env ctx q = act_bind (authorize env ctx) (\<lambda>_. ask (\<lambda>t. ac_agentQ env t q))"

definition query_wallet :: "ac_env \<Rightarrow> ToolCtx \<Rightarrow> wallet_query \<Rightarrow> ('s world_scheme, goany) act" where
  "query_wallet env ctx q = act_bind (authorize env ctx) (\<lambda>_. ask (\<lambda>t. ac_walletQ env t q))"

record GetAgentInput =
  ga_AgentID :: string

definition zero_GetAgentInput :: GetAgentInput where
  "zero_GetAgentInput = \<lparr>ga_AgentID = []\<rparr>"

definition GetAgentInput_fields :: "GetAgentInput gofield list" where
  "GetAgentInput_fields =
    [(''AgentID'', ''agent_id'', in_field dec_string ga_AgentID ga_AgentID_update)]"

definition GetAgent :: "ac_env \<Rightarrow> ToolCtx \<Rightarrow> GetAgentInput \<Rightarrow> ('s world_scheme, goany) act" where
  "GetAgent env ctx inp = query_agent env ctx (QueryAgent (ga_AgentID inp))"

record GetAgentByOperatorInput =
  go_Operator :: string

definition zero_GetAgentByOperatorInput :: GetAgentByOperatorInput where
  "zero_GetAgentByOperatorInput = \<lparr>go_Operator = []\<rparr>"

definition GetAgentByOperatorInput_fields :: "GetAgentByOperatorInput gofield list" where
  "GetAgentByOperatorInput_fields =
    [(''Operator'', ''operator'', in_field dec_string go_Operator go_Operator_update)]"

definition GetAgentByOperator ::
  "ac_env \<Rightarrow> ToolCtx \<Rightarrow> GetAgentByOperatorInput \<Rightarrow> ('s world_scheme, goany) act" where
  "GetAgentByOperator env ctx inp = query_agent env ctx (QueryAgentByOperator (go_Operator inp))"

record ListAgentsInput =
  la_Limit :: u64

definition zero_ListAgentsInput :: ListAgentsInput where
  "zero_ListAgentsInput = \<lparr>la_Limit = 0\<rparr>"

definition ListAgentsInput_fields :: "ListAgentsInput gofield list" where
  "ListAgentsInput_fields =
    [(''Limit'', ''limit,omitempty'', in_field dec_u64 la_Limit la_Limit_update)]"

definition ListAgents :: "ac_env \<Rightarrow> ToolCtx \<Rightarrow> ListAgentsInput \<Rightarrow> ('s world_scheme, goany) act" where
  "ListAgents env ctx inp = query_agent env ctx (QueryAllAgents (pageRequest (la_Limit inp)))"

record GetAgentsByOwnerInput =
  gw_Owner :: string
  gw_Limit :: u64

definition zero_GetAgentsByOwnerInput :: GetAgentsByOwnerInput where
  "zero_GetAgentsByOwnerInput = \<lparr>gw_Owner = [], gw_Limit = 0\<rparr>"

definition GetAgentsByOwnerInput_fields :: "GetAgentsByOwnerInput gofield list" where
  "GetAgentsByOwnerInput_fields =
    [(''Owner'', ''owner'', in_field dec_string gw_Owner gw_Owner_update),
     (''Limit'', ''limit,omitempty'', in_field dec_u64 gw_Limit gw_Limit_update)]"

definition GetAgentsByOwner ::
  "ac_env \<Rightarrow> ToolCtx \<Rightarrow> GetAgentsByOwnerInput \<Rightarrow> ('s world_scheme, goany) act" where
  "GetAgentsByOwner env ctx inp =
     query_agent env ctx (QueryAgentsByOwner (gw_Owner inp) (pageRequest (gw_Limit inp)))"

record GetAgentsByCapabilityInput =
  gc_Capability :: string
  gc_ActiveOnly :: bool
  gc_Limit :: u64

definition zero_GetAgentsByCapabilityInput :: GetAgentsByCapabilityInput where
  "zero_GetAgentsByCapabilityInput = \<lparr>gc_Capability = [], gc_ActiveOnly = False, gc_Limit = 0\<rparr>"

definition GetAgentsByCapabilityInput_fields :: "GetAgentsByCapabilityInput gofield list" where
  "GetAgentsByCapabilityInput_fields =
    [(''Capability'', ''capability'', in_field dec_string gc_Capability gc_Capability_update),
     (''ActiveOnly'', ''active_only,omitempty'', in_field dec_bool gc_ActiveOnly gc_ActiveOnly_update),
     (''Limit'', ''limit,omitempty'', in_field dec_u64 gc_Limit gc_Limit_update)]"

definition GetAgentsByCapability ::
  "ac_env \<Rightarrow> ToolCtx \<Rightarrow> GetAgentsByCapabilityInput \<Rightarrow> ('s world_scheme, goany) act" where
  "GetAgentsByCapability env ctx inp =
     query_agent env ctx
       (QueryAgentsByCapability (gc_Capability inp) (gc_ActiveOnly inp) (pageRequest (gc_Limit inp)))"

type_synonym EmptyInput = unit

definition GetAgentParams :: "ac_env \<Rightarrow> ToolCtx \<Rightarrow> EmptyInput \<Rightarrow> ('s world_scheme, goany) act" where
  "GetAgentParams env ctx _ = query_agent env ctx QueryAgentParams"

record RootIDInput =
  ri_RootID :: string

definition zero_RootIDInput :: RootIDInput where
  "zero_RootIDInput = \<lparr>ri_RootID = []\<rparr>"

definition RootIDInput_fields :: "RootIDInput gofield list" where
  "RootIDInput_fields =
    [(''RootID'', ''root_id'', in_field dec_string ri_RootID ri_RootID_update)]"

text \<open>The queries by root id: authorize, then decode the id, then ask.\<close>

definition query_root ::
  "ac_env \<Rightarrow> ToolCtx \<Rightarrow> (bytes \<Rightarrow> wallet_query) \<Rightarrow> RootIDInput \<Rightarrow> ('s world_scheme, goany) act" where
  "query_root env ctx q inp =
     act_bind (authorize env ctx) (\<lambda>_.
     act_bind (act_ret (rootIDFromHex env (ri_RootID inp))) (\<lambda>rootID.
     ask (\<lambda>t. ac_walletQ env t (q rootID))))"

definition GetDelegation :: "ac_env \<Rightarrow> ToolCtx \<Rightarrow> RootIDInput \<Rightarrow> ('s world_scheme, goany) act" where
  "GetDelegation env ctx = query_root env ctx QueryDelegation"

record GetDelegationsByDelegatorInput =
  gd_Delegator :: string
  gd_Limit :: u64

definition zero_GetDelegationsByDelegatorInput :: GetDelegationsByDelegatorInput where
  "zero_GetDelegationsByDelegatorInput = \<lparr>gd_Delegator = [], gd_Limit = 0\<rparr>"

definition GetDelegationsByDelegatorInput_fields :: "GetDelegationsByDelegatorInput gofield list" where
  "GetDelegationsByDelegatorInput_fields =
    [(''Delegator'', ''delegator'', in_field dec_string gd_Delegator gd_Delegator_update),
     (''Limit'', ''limit,omitempty'', in_field dec_u64 gd_Limit gd_Limit_update)]"

definition GetDelegationsByDelegator ::
  "ac_env \<Rightarrow> ToolCtx \<Rightarrow> GetDelegationsByDelegatorInput \<Rightarrow> ('s world_scheme, goany) act" where
  "GetDelegationsByDelegator env ctx inp =
     query_wallet env ctx (QueryDelegationsByDelegator (gd_Delegator inp) (pageRequest (gd_Limit inp)))"

definition GetDelegationEpoch :: "ac_env \<Rightarrow> ToolCtx \<Rightarrow> RootIDInput \<Rightarrow> ('s world_scheme, goany) act" where
  "GetDelegationEpoch env ctx = query_root env ctx QueryEpoch"

definition GetDelegationSpend :: "ac_env \<Rightarrow> ToolCtx \<Rightarrow> RootIDInput \<Rightarrow> ('s world_scheme, goany) act" where
  "GetDelegationSpend env ctx = query_root env ctx QuerySpend"

definition GetAgentwalletParams :: "ac_env \<Rightarrow> ToolCtx \<Rightarrow> EmptyInput \<Rightarrow> ('s world_scheme, goany) act" where
  "GetAgentwalletParams env ctx _ = query_wallet env ctx QueryWalletParams"

subsection \<open>Unsigned transactions\<close>

text \<open>\<open>PayloadOutput\<close> wraps the payload the assembler returns.\<close>

record PayloadOutput =
  po_Payload :: goany

definition enc_PayloadOutput :: "PayloadOutput \<Rightarrow> goany" where
  "enc_PayloadOutput p = go_bind (po_Payload p) (\<lambda>j. Ok (JObj [(''payload'', j)]))"

definition builder_args ::
  "ac_env \<Rightarrow> string \<Rightarrow> string \<Rightarrow> string \<Rightarrow> sdk_msg \<Rightarrow> Summary \<Rightarrow> AccountInfo \<Rightarrow> BuilderArgs" where
  "builder_args env tool signer clientID msg summary acc =
     \<lparr>ba_Msgs = [msg], ba_SignerAddress = signer, ba_AccountNumber = ai_AccountNumber acc,
      ba_Sequence = ai_Sequence acc, ba_ClientID = clientID,
      ba_Summary = summary\<lparr>sm_ToolName := tool, sm_MsgTypeURL := ac_type_url env msg\<rparr>\<rparr>"

definition assemble ::
  "ac_env \<Rightarrow> string \<Rightarrow> string \<Rightarrow> string \<Rightarrow> sdk_msg \<Rightarrow> Summary \<Rightarrow> ('s world_scheme, PayloadOutput) act" where
  "assemble env tool signer clientID msg summary =
     act_bind (act_ret (ac_validate_basic env msg)) (\<lambda>_.
     act_bind (act_wrap (\<lambda>e. Errorf ''read account state: %w'' [AW e]) (ask (\<lambda>t. ac_account env t signer))) (\<lambda>acc.
     act_bind (act_wrap (\<lambda>e. Errorf ''assemble: %w'' [AW e])
         (act_ret (ac_assemble env (builder_args env tool signer clientID msg summary acc)))) (\<lambda>p.
     act_ret (Ok \<lparr>po_Payload = p\<rparr>))))"

record Pricing =
  pr_PerCall :: "coin list"
  pr_Unit :: string

definition zero_Pricing :: Pricing where
  "zero_Pricing = \<lparr>pr_PerCall = [], pr_Unit = []\<rparr>"

definition Pricing_fields :: "Pricing gofield list" where
  "Pricing_fields =
    [(''PerCall'', ''per_call,omitempty'', in_field dec_coins pr_PerCall pr_PerCall_update),
     (''Unit'', ''unit,omitempty'', in_field dec_string pr_Unit pr_Unit_update)]"

abbreviation dec_pricing :: "Pricing option \<Rightarrow> json \<Rightarrow> Pricing option go" where
  "dec_pricing \<equiv> dec_ptr (dec_input Pricing_fields) zero_Pricing"

fun Pricing_toProto :: "ac_env \<Rightarrow> Pricing option \<Rightarrow> pb_Pricing option go" where
  "Pricing_toProto env None = Ok None"
| "Pricing_toProto env (Some p) =
     go_bind (wrap_err (\<lambda>e. Errorf ''pricing: %w'' [AW e]) (coinsToSDK (ac_new_int env) (pr_PerCall p)))
       (\<lambda>coins. Ok (Some \<lparr>pp_PerCall = coins, pp_Unit = pr_Unit p\<rparr>))"

text \<open>The optional capability hash of a registration or an update.\<close>

definition capability_hash :: "string \<Rightarrow> bytes go" where
  "capability_hash s =
     (if s = [] then Ok []
      else wrap_err (\<lambda>e. Errorf ''capability_hash_hex: %w'' [AW e]) (hex_decode s))"

record BuildRegisterAgentInput =
  br_Operator :: string
  br_PublicKeyB64 :: string
  br_Endpoint :: string
  br_CapabilityHash :: string
  br_Capabilities :: "string list"
  br_Pricing :: "Pricing option"
  br_InitialBond :: coin
  br_Metadata :: string
  br_PayloadClientID :: string

definition zero_BuildRegisterAgentInput :: BuildRegisterAgentInput where
  "zero_BuildRegisterAgentInput = \<lparr>br_Operator = [], br_PublicKeyB64 = [], br_Endpoint = [], br_CapabilityHash = [], br_Capabilities = [], br_Pricing = None, br_InitialBond = zero_coin, br_Metadata = [], br_PayloadClientID = []\<rparr>"

definition BuildRegisterAgentInput_fields :: "BuildRegisterAgentInput gofield list" where
  "BuildRegisterAgentInput_fields =
    [(''Operator'', ''operator'', in_field dec_string br_Operator br_Operator_update),
     (''PublicKeyB64'', ''public_key_b64'', in_field dec_string br_PublicKeyB64 br_PublicKeyB64_update),
     (''Endpoint'', ''endpoint'', in_field dec_string br_Endpoint br_Endpoint_update),
     (''CapabilityHash'', ''capability_hash_hex,omitempty'', in_field dec_string br_CapabilityHash br_CapabilityHash_update),
     (''Capabilities'', ''capabilities,omitempty'', in_field dec_texts br_Capabilities br_Capabilities_update),
     (''Pricing'', ''pricing,omitempty'', in_field dec_pricing br_Pricing br_Pricing_update),
     (''InitialBond'', ''initial_bond'', in_field dec_coin br_InitialBond br_InitialBond_update),
     (''Metadata'', ''metadata,omitempty'', in_field dec_string br_Metadata br_Metadata_update),
     (''PayloadClientID'', ''payload_client_id'', in_field dec_string br_PayloadClientID br_PayloadClientID_update)]"

definition register_agent_msg :: "ac_env \<Rightarrow> BuildRegisterAgentInput \<Rightarrow> string \<Rightarrow> sdk_msg go" where
  "register_agent_msg env inp owner =
     go_bind (wrap_err (\<lambda>e. Errorf ''operator: %w'' [AW e]) (ac_acc_address env (br_Operator inp))) (\<lambda>operator.
     go_bind (wrap_err (\<lambda>e. Errorf ''public_key_b64: %w'' [AW e]) (b64_decode b64_std (br_PublicKeyB64 inp))) (\<lambda>pubKey.
     go_bind (capability_hash (br_CapabilityHash inp)) (\<lambda>capHash.
     go_bind (Pricing_toProto env (br_Pricing inp)) (\<lambda>pricing.
     go_bind (wrap_err (\<lambda>e. Errorf ''initial_bond: %w'' [AW e]) (Coin_ToSDK (ac_new_int env) (br_InitialBond inp))) (\<lambda>bond.
     Ok (MsgRegisterAgent
       \<lparr>ra_Owner = owner, ra_AgentId = ac_agent_id env operator, ra_Operator = br_Operator inp,
        ra_PublicKey = pubKey, ra_Endpoint = br_Endpoint inp, ra_CapabilityHash = capHash,
        ra_Capabilities = br_Capabilities inp, ra_Pricing = pricing, ra_InitialBond = bond,
        ra_Metadata = br_Metadata inp\<rparr>))))))"

text \<open>Authorize, make the message for the tenant's owner, assemble it for that owner to sign.\<close>

definition build_for_owner ::
  "ac_env \<Rightarrow> ToolCtx \<Rightarrow> string \<Rightarrow> string \<Rightarrow> (string \<Rightarrow> sdk_msg go) \<Rightarrow> Summary \<Rightarrow> ('s world_scheme, PayloadOutput) act" where
  "build_for_owner env ctx tool clientID mk summary =
     act_bind (authorize env ctx) (\<lambda>owner.
     act_bind (act_ret (mk owner)) (\<lambda>msg.
     assemble env tool owner clientID msg summary))"

definition BuildRegisterAgent ::
  "ac_env \<Rightarrow> ToolCtx \<Rightarrow> BuildRegisterAgentInput \<Rightarrow> ('s world_scheme, PayloadOutput) act" where
  "BuildRegisterAgent env ctx inp =
     build_for_owner env ctx ''build_register_agent'' (br_PayloadClientID inp) (register_agent_msg env inp) empty_summary"

record BuildUpdateAgentInput =
  bu_AgentID :: string
  bu_Endpoint :: string
  bu_CapabilityHash :: string
  bu_Capabilities :: "string list"
  bu_Pricing :: "Pricing option"
  bu_Metadata :: string
  bu_PayloadClientID :: string

definition zero_BuildUpdateAgentInput :: BuildUpdateAgentInput where
  "zero_BuildUpdateAgentInput = \<lparr>bu_AgentID = [], bu_Endpoint = [], bu_CapabilityHash = [], bu_Capabilities = [], bu_Pricing = None, bu_Metadata = [], bu_PayloadClientID = []\<rparr>"

definition BuildUpdateAgentInput_fields :: "BuildUpdateAgentInput gofield list" where
  "BuildUpdateAgentInput_fields =
    [(''AgentID'', ''agent_id'', in_field dec_string bu_AgentID bu_AgentID_update),
     (''Endpoint'', ''endpoint,omitempty'', in_field dec_string bu_Endpoint bu_Endpoint_update),
     (''CapabilityHash'', ''capability_hash_hex,omitempty'', in_field dec_string bu_CapabilityHash bu_CapabilityHash_update),
     (''Capabilities'', ''capabilities,omitempty'', in_field dec_texts bu_Capabilities bu_Capabilities_update),
     (''Pricing'', ''pricing,omitempty'', in_field dec_pricing bu_Pricing bu_Pricing_update),
     (''Metadata'', ''metadata,omitempty'', in_field dec_string bu_Metadata bu_Metadata_update),
     (''PayloadClientID'', ''payload_client_id'', in_field dec_string bu_PayloadClientID bu_PayloadClientID_update)]"

definition update_agent_msg :: "ac_env \<Rightarrow> BuildUpdateAgentInput \<Rightarrow> string \<Rightarrow> sdk_msg go" where
  "update_agent_msg env inp owner =
     go_bind (capability_hash (bu_CapabilityHash inp)) (\<lambda>capHash.
     go_bind (Pricing_toProto env (bu_Pricing inp)) (\<lambda>pricing.
     Ok (MsgUpdateAgent
       \<lparr>ua_Owner = owner, ua_AgentId = bu_AgentID inp, ua_PublicKey = [], ua_Endpoint = bu_Endpoint inp,
        ua_CapabilityHash = capHash, ua_Capabilities = bu_Capabilities inp, ua_Pricing = pricing,
        ua_Metadata = bu_Metadata inp\<rparr>)))"

definition BuildUpdateAgent ::
  "ac_env \<Rightarrow> ToolCtx \<Rightarrow> BuildUpdateAgentInput \<Rightarrow> ('s world_scheme, PayloadOutput) act" where
  "BuildUpdateAgent env ctx inp =
     build_for_owner env ctx ''build_update_agent'' (bu_PayloadClientID inp) (update_agent_msg env inp) empty_summary"

record BuildBondInput =
  bb_AgentID :: string
  bb_Amount :: coin
  bb_PayloadClientID :: string

definition zero_BuildBondInput :: BuildBondInput where
  "zero_BuildBondInput = \<lparr>bb_AgentID = [], bb_Amount = zero_coin, bb_PayloadClientID = []\<rparr>"

definition BuildBondInput_fields :: "BuildBondInput gofield list" where
  "BuildBondInput_fields =
    [(''AgentID'', ''agent_id'', in_field dec_string bb_AgentID bb_AgentID_update),
     (''Amount'', ''amount'', in_field dec_coin bb_Amount bb_Amount_update),
     (''PayloadClientID'', ''payload_client_id'', in_field dec_string bb_PayloadClientID bb_PayloadClientID_update)]"

definition bond_msg ::
  "ac_env \<Rightarrow> (string \<Rightarrow> string \<Rightarrow> sdk_coin \<Rightarrow> sdk_msg) \<Rightarrow> BuildBondInput \<Rightarrow> string \<Rightarrow> sdk_msg go" where
  "bond_msg env mk inp owner =
     go_bind (wrap_err (\<lambda>e. Errorf ''amount: %w'' [AW e]) (Coin_ToSDK (ac_new_int env) (bb_Amount inp)))
       (\<lambda>amount. Ok (mk owner (bb_AgentID inp) amount))"

definition bond_summary :: "BuildBondInput \<Rightarrow> Summary" where
  "bond_summary inp =
     empty_summary\<lparr>sm_AmountHuman := cn_Amount (bb_Amount inp), sm_Denom := cn_Denom (bb_Amount inp)\<rparr>"

definition BuildDepositBond :: "ac_env \<Rightarrow> ToolCtx \<Rightarrow> BuildBondInput \<Rightarrow> ('s world_scheme, PayloadOutput) act" where
  "BuildDepositBond env ctx inp =
     build_for_owner env ctx ''build_deposit_bond'' (bb_PayloadClientID inp) (bond_msg env MsgDepositBond inp)
       (bond_summary inp)"

definition BuildWithdrawBond :: "ac_env \<Rightarrow> ToolCtx \<Rightarrow> BuildBondInput \<Rightarrow> ('s world_scheme, PayloadOutput) act" where
  "BuildWithdrawBond env ctx inp =
     build_for_owner env ctx ''build_withdraw_bond'' (bb_PayloadClientID inp) (bond_msg env MsgWithdrawBond inp)
       (bond_summary inp)"

record BuildDeregisterAgentInput =
  bd_AgentID :: string
  bd_PayloadClientID :: string

definition zero_BuildDeregisterAgentInput :: BuildDeregisterAgentInput where
  "zero_BuildDeregisterAgentInput = \<lparr>bd_AgentID = [], bd_PayloadClientID = []\<rparr>"

definition BuildDeregisterAgentInput_fields :: "BuildDeregisterAgentInput gofield list" where
  "BuildDeregisterAgentInput_fields =
    [(''AgentID'', ''agent_id'', in_field dec_string bd_AgentID bd_AgentID_update),
     (''PayloadClientID'', ''payload_client_id'', in_field dec_string bd_PayloadClientID bd_PayloadClientID_update)]"

definition BuildDeregisterAgent ::
  "ac_env \<Rightarrow> ToolCtx \<Rightarrow> BuildDeregisterAgentInput \<Rightarrow> ('s world_scheme, PayloadOutput) act" where
  "BuildDeregisterAgent env ctx inp =
     build_for_owner env ctx ''build_deregister_agent'' (bd_PayloadClientID inp)
       (\<lambda>owner. Ok (MsgDeregisterAgent owner (bd_AgentID inp))) empty_summary"

record Limits =
  lm_SpendLimitTotal :: "coin list"
  lm_SpendLimitDaily :: "coin list"
  lm_SvcSpendLimitTotal :: "coin list"
  lm_SvcSpendLimitDaily :: "coin list"
  lm_Denoms :: "string list"
  lm_Actions :: "string list"
  lm_Skills :: "string list"
  lm_Contracts :: "string list"
  lm_Subaccounts :: "u32 list"
  lm_MaxDepth :: u32
  lm_MaxTokenTTLSeconds :: u32

definition zero_Limits :: Limits where
  "zero_Limits = \<lparr>lm_SpendLimitTotal = [], lm_SpendLimitDaily = [], lm_SvcSpendLimitTotal = [], lm_SvcSpendLimitDaily = [], lm_Denoms = [], lm_Actions = [], lm_Skills = [], lm_Contracts = [], lm_Subaccounts = [], lm_MaxDepth = 0, lm_MaxTokenTTLSeconds = 0\<rparr>"

definition Limits_fields :: "Limits gofield list" where
  "Limits_fields =
    [(''SpendLimitTotal'', ''spend_limit_total,omitempty'', in_field dec_coins lm_SpendLimitTotal lm_SpendLimitTotal_update),
     (''SpendLimitDaily'', ''spend_limit_daily,omitempty'', in_field dec_coins lm_SpendLimitDaily lm_SpendLimitDaily_update),
     (''SvcSpendLimitTotal'', ''svc_spend_limit_total,omitempty'', in_field dec_coins lm_SvcSpendLimitTotal lm_SvcSpendLimitTotal_update),
     (''SvcSpendLimitDaily'', ''svc_spend_limit_daily,omitempty'', in_field dec_coins lm_SvcSpendLimitDaily lm_SvcSpendLimitDaily_update),
     (''Denoms'', ''denoms,omitempty'', in_field dec_texts lm_Denoms lm_Denoms_update),
     (''Actions'', ''actions,omitempty'', in_field dec_texts lm_Actions lm_Actions_update),
     (''Skills'', ''skills,omitempty'', in_field dec_texts lm_Skills lm_Skills_update),
     (''Contracts'', ''contracts,omitempty'', in_field dec_texts lm_Contracts lm_Contracts_update),
     (''Subaccounts'', ''subaccounts,omitempty'', in_field (\<lambda>_. dec_slice (dec_u32 0)) lm_Subaccounts lm_Subaccounts_update),
     (''MaxDepth'', ''max_depth,omitempty'', in_field dec_u32 lm_MaxDepth lm_MaxDepth_update),
     (''MaxTokenTTLSeconds'', ''max_token_ttl_seconds,omitempty'', in_field dec_u32 lm_MaxTokenTTLSeconds lm_MaxTokenTTLSeconds_update)]"

abbreviation dec_limits :: "Limits \<Rightarrow> json \<Rightarrow> Limits go" where
  "dec_limits \<equiv> dec_input Limits_fields"

definition Limits_toProto :: "ac_env \<Rightarrow> Limits \<Rightarrow> pb_Limits go" where
  "Limits_toProto env l =
     go_bind (wrap_err (\<lambda>e. Errorf ''spend_limit_total: %w'' [AW e]) (coinsToSDK (ac_new_int env) (lm_SpendLimitTotal l))) (\<lambda>total.
     go_bind (wrap_err (\<lambda>e. Errorf ''spend_limit_daily: %w'' [AW e]) (coinsToSDK (ac_new_int env) (lm_SpendLimitDaily l))) (\<lambda>daily.
     go_bind (wrap_err (\<lambda>e. Errorf ''svc_spend_limit_total: %w'' [AW e]) (coinsToSDK (ac_new_int env) (lm_SvcSpendLimitTotal l))) (\<lambda>svcTotal.
     go_bind (wrap_err (\<lambda>e. Errorf ''svc_spend_limit_daily: %w'' [AW e]) (coinsToSDK (ac_new_int env) (lm_SvcSpendLimitDaily l))) (\<lambda>svcDaily.
     Ok \<lparr>pl_SpendLimitTotal = total, pl_SpendLimitDaily = daily, pl_SvcSpendLimitTotal = svcTotal,
         pl_SvcSpendLimitDaily = svcDaily, pl_Denoms = lm_Denoms l, pl_Actions = lm_Actions l,
         pl_Skills = lm_Skills l, pl_Contracts = lm_Contracts l, pl_Subaccounts = lm_Subaccounts l,
         pl_MaxDepth = lm_MaxDepth l, pl_MaxTokenTtlSeconds = lm_MaxTokenTTLSeconds l\<rparr>))))"

record BuildCreateDelegationInput =
  bcd_AgentID :: string
  bcd_Limits :: Limits
  bcd_ExpiresAt :: int
  bcd_PayloadClientID :: string

definition zero_BuildCreateDelegationInput :: BuildCreateDelegationInput where
  "zero_BuildCreateDelegationInput = \<lparr>bcd_AgentID = [], bcd_Limits = zero_Limits, bcd_ExpiresAt = 0, bcd_PayloadClientID = []\<rparr>"

definition BuildCreateDelegationInput_fields :: "BuildCreateDelegationInput gofield list" where
  "BuildCreateDelegationInput_fields =
    [(''AgentID'', ''agent_id'', in_field dec_string bcd_AgentID bcd_AgentID_update),
     (''Limits'', ''limits'', in_field dec_limits bcd_Limits bcd_Limits_update),
     (''ExpiresAt'', ''expires_at'', in_field dec_int64 bcd_ExpiresAt bcd_ExpiresAt_update),
     (''PayloadClientID'', ''payload_client_id'', in_field dec_string bcd_PayloadClientID bcd_PayloadClientID_update)]"

definition BuildCreateDelegation ::
  "ac_env \<Rightarrow> ToolCtx \<Rightarrow> BuildCreateDelegationInput \<Rightarrow> ('s world_scheme, PayloadOutput) act" where
  "BuildCreateDelegation env ctx inp =
     build_for_owner env ctx ''build_create_delegation'' (bcd_PayloadClientID inp)
       (\<lambda>delegator. go_bind (Limits_toProto env (bcd_Limits inp)) (\<lambda>limits.
          Ok (MsgCreateDelegation delegator (bcd_AgentID inp) limits (bcd_ExpiresAt inp)))) empty_summary"

record BuildUpdateDelegationInput =
  bud_RootID :: string
  bud_Limits :: Limits
  bud_ExpiresAt :: int
  bud_PayloadClientID :: string

definition zero_BuildUpdateDelegationInput :: BuildUpdateDelegationInput where
  "zero_BuildUpdateDelegationInput = \<lparr>bud_RootID = [], bud_Limits = zero_Limits, bud_ExpiresAt = 0, bud_PayloadClientID = []\<rparr>"

definition BuildUpdateDelegationInput_fields :: "BuildUpdateDelegationInput gofield list" where
  "BuildUpdateDelegationInput_fields =
    [(''RootID'', ''root_id'', in_field dec_string bud_RootID bud_RootID_update),
     (''Limits'', ''limits'', in_field dec_limits bud_Limits bud_Limits_update),
     (''ExpiresAt'', ''expires_at'', in_field dec_int64 bud_ExpiresAt bud_ExpiresAt_update),
     (''PayloadClientID'', ''payload_client_id'', in_field dec_string bud_PayloadClientID bud_PayloadClientID_update)]"

definition BuildUpdateDelegation ::
  "ac_env \<Rightarrow> ToolCtx \<Rightarrow> BuildUpdateDelegationInput \<Rightarrow> ('s world_scheme, PayloadOutput) act" where
  "BuildUpdateDelegation env ctx inp =
     build_for_owner env ctx ''build_update_delegation'' (bud_PayloadClientID inp)
       (\<lambda>delegator. go_bind (rootIDFromHex env (bud_RootID inp)) (\<lambda>rootID.
          go_bind (Limits_toProto env (bud_Limits inp)) (\<lambda>limits.
          Ok (MsgUpdateDelegation delegator rootID limits (bud_ExpiresAt inp))))) empty_summary"

record BuildDelegationRefInput =
  bdr_RootID :: string
  bdr_PayloadClientID :: string

definition zero_BuildDelegationRefInput :: BuildDelegationRefInput where
  "zero_BuildDelegationRefInput = \<lparr>bdr_RootID = [], bdr_PayloadClientID = []\<rparr>"

definition BuildDelegationRefInput_fields :: "BuildDelegationRefInput gofield list" where
  "BuildDelegationRefInput_fields =
    [(''RootID'', ''root_id'', in_field dec_string bdr_RootID bdr_RootID_update),
     (''PayloadClientID'', ''payload_client_id'', in_field dec_string bdr_PayloadClientID bdr_PayloadClientID_update)]"

definition buildDelegationLifecycle ::
  "ac_env \<Rightarrow> ToolCtx \<Rightarrow> string \<Rightarrow> BuildDelegationRefInput \<Rightarrow> (string \<Rightarrow> bytes \<Rightarrow> sdk_msg) \<Rightarrow> ('s world_scheme, PayloadOutput) act" where
  "buildDelegationLifecycle env ctx tool inp mk =
     build_for_owner env ctx tool (bdr_PayloadClientID inp)
       (\<lambda>delegator. go_bind (rootIDFromHex env (bdr_RootID inp)) (\<lambda>rootID. Ok (mk delegator rootID))) empty_summary"

definition BuildPauseDelegation ::
  "ac_env \<Rightarrow> ToolCtx \<Rightarrow> BuildDelegationRefInput \<Rightarrow> ('s world_scheme, PayloadOutput) act" where
  "BuildPauseDelegation env ctx inp = buildDelegationLifecycle env ctx ''build_pause_delegation'' inp MsgPauseDelegation"

definition BuildResumeDelegation ::
  "ac_env \<Rightarrow> ToolCtx \<Rightarrow> BuildDelegationRefInput \<Rightarrow> ('s world_scheme, PayloadOutput) act" where
  "BuildResumeDelegation env ctx inp = buildDelegationLifecycle env ctx ''build_resume_delegation'' inp MsgResumeDelegation"

definition BuildRevokeDelegation ::
  "ac_env \<Rightarrow> ToolCtx \<Rightarrow> BuildDelegationRefInput \<Rightarrow> ('s world_scheme, PayloadOutput) act" where
  "BuildRevokeDelegation env ctx inp = buildDelegationLifecycle env ctx ''build_revoke_delegation'' inp MsgRevokeDelegation"

record BuildRevokeTokenInput =
  brt_RootID :: string
  brt_TokenHash :: string
  brt_PayloadClientID :: string

definition zero_BuildRevokeTokenInput :: BuildRevokeTokenInput where
  "zero_BuildRevokeTokenInput = \<lparr>brt_RootID = [], brt_TokenHash = [], brt_PayloadClientID = []\<rparr>"

definition BuildRevokeTokenInput_fields :: "BuildRevokeTokenInput gofield list" where
  "BuildRevokeTokenInput_fields =
    [(''RootID'', ''root_id'', in_field dec_string brt_RootID brt_RootID_update),
     (''TokenHash'', ''token_hash'', in_field dec_string brt_TokenHash brt_TokenHash_update),
     (''PayloadClientID'', ''payload_client_id'', in_field dec_string brt_PayloadClientID brt_PayloadClientID_update)]"

definition BuildRevokeToken ::
  "ac_env \<Rightarrow> ToolCtx \<Rightarrow> BuildRevokeTokenInput \<Rightarrow> ('s world_scheme, PayloadOutput) act" where
  "BuildRevokeToken env ctx inp =
     build_for_owner env ctx ''build_revoke_token'' (brt_PayloadClientID inp)
       (\<lambda>delegator. go_bind (rootIDFromHex env (brt_RootID inp)) (\<lambda>rootID.
          go_bind (wrap_err (\<lambda>e. Errorf ''token_hash must be hex: %w'' [AW e]) (hex_decode (brt_TokenHash inp))) (\<lambda>tokenHash.
          Ok (MsgRevokeToken delegator rootID tokenHash)))) empty_summary"

subsection \<open>Landing a transaction the caller signed\<close>

record BroadcastInput =
  bi_SignedTx :: SignedTx

definition zero_BroadcastInput :: BroadcastInput where
  "zero_BroadcastInput = \<lparr>bi_SignedTx = \<lparr>st_TxRawBytesB64 = []\<rparr>\<rparr>"

definition BroadcastInput_fields :: "ac_env \<Rightarrow> BroadcastInput gofield list" where
  "BroadcastInput_fields env =
    [(''SignedTx'', ''signed_tx'', in_field (ac_dec_SignedTx env) bi_SignedTx bi_SignedTx_update)]"

record BroadcastOutput =
  bo_Result :: BroadcastResult

definition enc_BroadcastOutput :: "ac_env \<Rightarrow> BroadcastOutput \<Rightarrow> goany" where
  "enc_BroadcastOutput env out =
     go_bind (ac_enc_BroadcastResult env (bo_Result out)) (\<lambda>j. Ok (JObj [(''result'', j)]))"

text \<open>The address of the single signer of a raw transaction.\<close>

definition signer_key :: "ac_env \<Rightarrow> bytes any option list \<Rightarrow> string go" where
  "signer_key env signers =
     (case signers of
       [pk] \<Rightarrow>
         (case pk of
            None \<Rightarrow> Err (Errorf ''signer info has no public key'' [])
          | Some pkAny \<Rightarrow>
              go_bind (wrap_err (\<lambda>e. Errorf ''unpack signer pubkey: %w'' [AW e]) (ac_unpack_key env pkAny))
                (\<lambda>pk. Ok (ac_key_address env pk)))
     | _ \<Rightarrow> Err (Errorf ''expected exactly 1 signer, got %d'' [AD (int (length signers))]))"

definition signerAddress :: "ac_env \<Rightarrow> bytes \<Rightarrow> string go" where
  "signerAddress env raw =
     go_bind (wrap_err (\<lambda>e. Errorf ''unmarshal TxRaw: %w'' [AW e]) (ac_unmarshal_TxRaw env raw)) (\<lambda>txRaw.
     go_bind (wrap_err (\<lambda>e. Errorf ''unmarshal AuthInfo: %w'' [AW e]) (ac_unmarshal_AuthInfo env (tr_AuthInfoBytes txRaw)))
       (signer_key env))"

definition broadcast_logged :: "(nat \<Rightarrow> bytes \<Rightarrow> BroadcastResult go) \<Rightarrow> bytes \<Rightarrow> ('s world_scheme, BroadcastResult) act" where
  "broadcast_logged bc raw = (\<lambda>s. act_bind (emit (Broadcast raw (bc (w_tick s) raw))) (\<lambda>_. ask (\<lambda>t. bc t raw)) s)"

definition BroadcastSignedTx :: "ac_env \<Rightarrow> ToolCtx \<Rightarrow> BroadcastInput \<Rightarrow> ('s world_scheme, BroadcastOutput) act" where
  "BroadcastSignedTx env ctx inp =
     act_bind (authorize env ctx) (\<lambda>owner.
     act_bind (act_wrap (\<lambda>e. Errorf ''decode tx_raw_bytes_b64: %w'' [AW e])
         (act_ret (b64_decode b64_std (st_TxRawBytesB64 (bi_SignedTx inp))))) (\<lambda>raw.
     act_bind (act_wrap (\<lambda>e. Errorf ''decode signed tx: %w'' [AW e]) (act_ret (signerAddress env raw))) (\<lambda>signer.
     if signer \<noteq> owner
     then act_ret (Err (Errorf ''signer address %s does not match tenant owner %s'' [AS signer, AS owner]))
     else act_bind (broadcast_logged (ac_broadcast env) raw) (\<lambda>res.
          act_ret (Ok \<lparr>bo_Result = \<lparr>bc_TxHash = bc_TxHash res, bc_Code = bc_Code res, bc_RawLog = bc_RawLog res\<rparr>\<rparr>)))))"

end
