(* ===== verification/Delegated_Identity.thy ===== *)
theory Delegated_Identity
  imports Delegated_Safety Agent_Chain
begin

section \<open>The agent's own identity on chain\<close>

text \<open>
  The second half of \<open>internal/delegated/service.go\<close>: the capability card's hash, the identity
  report, and the two operations that sign the operator's own registration, open to the operator
  only. The caller's tenant is what \<open>tools.TenantFrom(ctx)\<close> gives; \<open>dv_tenant_owner\<close> is the
  policy engine's answer. \<open>sha256\<close> is the environment's hash function.
\<close>

definition SetCapabilityCard :: "dg_env \<Rightarrow> bytes \<Rightarrow> Service \<Rightarrow> Service" where
  "SetCapabilityCard env cardJSON s = s\<lparr>sv_cardHash := dv_sha256 env cardJSON\<rparr>"

definition card_not_wired :: err where
  "card_not_wired = Errorf ''agent card bytes not wired; cannot compute a verifiable capability hash'' []"

definition capabilityHash :: "Service \<Rightarrow> bytes go" where
  "capabilityHash s = (if sv_cardHash s = [] then Err card_not_wired else Ok (sv_cardHash s))"

record IdentityOutput =
  io_Operator :: string
  io_AgentID :: string
  io_Registered :: bool
  io_Status :: string
  io_Bond :: string
  io_Endpoint :: string
  io_CardHash :: string
  io_RegisteredCapabilityHash :: string
  io_CardHashMatches :: bool

definition Identity :: "dg_env \<Rightarrow> (Service, IdentityOutput) act" where
  "Identity env = (\<lambda>s.
     let out = \<lparr>io_Operator = sc_Operator (sv_cfg s), io_AgentID = sv_agentID s, io_Registered = False,
                io_Status = [], io_Bond = [], io_Endpoint = [], io_CardHash = [],
                io_RegisteredCapabilityHash = [], io_CardHashMatches = False\<rparr>;
         out = (if sv_cardHash s \<noteq> [] then out\<lparr>io_CardHash := hex_encode (sv_cardHash s)\<rparr> else out);
         t = w_tick s; s' = s\<lparr>w_tick := Suc t\<rparr>
     in case dv_agent_by_operator env t (sc_Operator (sv_cfg s)) of
          Panics \<Rightarrow> (Panics, s')
        | Err e \<Rightarrow> (Ok out, s')
        | Ok None \<Rightarrow> (Ok out, s')
        | Ok (Some a) \<Rightarrow>
            if rg_AgentId a = [] then (Ok out, s')
            else let out = out\<lparr>io_Registered := True, io_Status := rg_Status a, io_Bond := rg_Bond a,
                               io_Endpoint := rg_Endpoint a,
                               io_RegisteredCapabilityHash := hex_encode (rg_CapabilityHash a)\<rparr>
                 in (Ok (out\<lparr>io_CardHashMatches :=
                       sv_cardHash s \<noteq> [] \<and> io_RegisteredCapabilityHash out = io_CardHash out\<rparr>), s'))"

definition requireOperator :: "dg_env \<Rightarrow> string option \<Rightarrow> string \<Rightarrow> (Service, unit) act" where
  "requireOperator env tenant what = (\<lambda>s.
     case tenant of
       None \<Rightarrow> (Err ErrNoTenant, s)
     | Some tenantID \<Rightarrow>
       act_bind (ask (\<lambda>t. dv_tenant_owner env t tenantID)) (\<lambda>tp_owner.
         act_ret (if tp_owner \<noteq> sc_Operator (sv_cfg s)
            then Err (Errorf ''%s may only be invoked by the operator itself (authenticated as %s, operator is %s)''
                        [AS what, AS tp_owner, AS (sc_Operator (sv_cfg s))])
            else Ok ())) s)"

definition signAndBroadcastOwn :: "dg_env \<Rightarrow> sdk_msg \<Rightarrow> (Service, ExecResult) act" where
  "signAndBroadcastOwn env msg = (\<lambda>s.
     with_seq (sign_and_send env [msg] False (sc_Operator (sv_cfg s))) s)"

definition register_msg :: "dg_env \<Rightarrow> Service \<Rightarrow> bytes \<Rightarrow> sdk_coin \<Rightarrow> sdk_msg" where
  "register_msg env s capHash bond = MsgRegisterAgent
     \<lparr>ra_Owner = sc_Operator (sv_cfg s), ra_AgentId = sv_agentID s, ra_Operator = sc_Operator (sv_cfg s),
      ra_PublicKey = tl_pub_key (dv_tx env) (sc_Priv (sv_cfg s)), ra_Endpoint = sc_Endpoint (sv_cfg s),
      ra_CapabilityHash = capHash, ra_Capabilities = sc_Capabilities (sv_cfg s), ra_Pricing = None,
      ra_InitialBond = bond, ra_Metadata = sc_Metadata (sv_cfg s)\<rparr>"

text \<open>The bond given, or the module's minimum; \<open>None\<close> is the omitted bond.\<close>

definition initial_bond :: "dg_env \<Rightarrow> coin option \<Rightarrow> (Service, sdk_coin) act" where
  "initial_bond env bond =
     (case bond of
        Some c \<Rightarrow> act_wrap (\<lambda>e. Errorf ''bond: %w'' [AW e]) (act_ret (Coin_ToSDK (tl_new_int (dv_tx env)) c))
      | None \<Rightarrow> act_wrap (\<lambda>e. Errorf ''fetch agent params for min bond: %w'' [AW e]) (ask (dv_min_bond env)))"

definition SelfRegister :: "dg_env \<Rightarrow> string option \<Rightarrow> coin option \<Rightarrow> (Service, ExecResult) act" where
  "SelfRegister env tenant bond =
     act_bind (requireOperator env tenant ''self-registration escrows the operator's funds and'') (\<lambda>_.
     act_bind (initial_bond env bond) (\<lambda>bond s.
     act_bind (act_ret (capabilityHash s)) (\<lambda>capHash.
     act_bind (act_ret (dv_validate_basic env (register_msg env s capHash bond))) (\<lambda>_.
     signAndBroadcastOwn env (register_msg env s capHash bond))) s))"

definition update_msg :: "Service \<Rightarrow> bytes \<Rightarrow> sdk_msg" where
  "update_msg s capHash = MsgUpdateAgent
     \<lparr>ua_Owner = sc_Operator (sv_cfg s), ua_AgentId = sv_agentID s, ua_PublicKey = [],
      ua_Endpoint = sc_Endpoint (sv_cfg s), ua_CapabilityHash = capHash,
      ua_Capabilities = sc_Capabilities (sv_cfg s), ua_Pricing = None, ua_Metadata = sc_Metadata (sv_cfg s)\<rparr>"

definition SelfUpdate :: "dg_env \<Rightarrow> string option \<Rightarrow> (Service, ExecResult) act" where
  "SelfUpdate env tenant =
     act_bind (requireOperator env tenant ''self-update rewrites the on-chain registration and'') (\<lambda>_ s.
     act_bind (act_ret (capabilityHash s)) (\<lambda>capHash.
     act_bind (act_ret (dv_validate_basic env (update_msg s capHash))) (\<lambda>_.
     signAndBroadcastOwn env (update_msg s capHash))) s)"

subsection \<open>Properties\<close>

text \<open>
  The identity report is always an answer: only a panic of the registry client escapes it. It
  says the card matches exactly when the registry shows an agent with an id for this operator, the
  card's bytes were wired, and the registered hash is byte for byte the card's.
\<close>

theorem Identity_report:
  assumes "Identity env s = (r, s')"
  shows "(\<nexists>e. r = Err e) \<and>
    (\<forall>out. r = Ok out \<longrightarrow>
      io_Operator out = sc_Operator (sv_cfg s) \<and> io_AgentID out = sv_agentID s \<and>
      (io_Registered out \<longleftrightarrow> (\<exists>a. dv_agent_by_operator env (w_tick s) (sc_Operator (sv_cfg s)) = Ok (Some a) \<and> rg_AgentId a \<noteq> [])) \<and>
      (io_CardHashMatches out \<longleftrightarrow> sv_cardHash s \<noteq> [] \<and>
         (\<exists>a. dv_agent_by_operator env (w_tick s) (sc_Operator (sv_cfg s)) = Ok (Some a) \<and>
            rg_AgentId a \<noteq> [] \<and> rg_CapabilityHash a = sv_cardHash s)))"
  using assms
  by (cases "dv_agent_by_operator env (w_tick s) (sc_Operator (sv_cfg s))")
    (auto simp: Identity_def Let_def hex.enc_inject split: option.splits if_splits)

lemma requireOperator_quiet: "keeps quiet (requireOperator env tenant what)"
proof (rule keepsI)
  fix s :: Service
  have "keeps quiet (act_bind (ask q) (\<lambda>x. act_ret (g x)))" for q :: "nat \<Rightarrow> string go" and g :: "string \<Rightarrow> unit go"
    by (intro quiet.keeps_bind quiet_steps)
  then show "quiet s (snd (requireOperator env tenant what s))"
    by (simp add: requireOperator_def keeps_def quiet.R_refl split: option.split)
qed

lemma requireOperator_ok:
  "requireOperator env tenant what s = (Ok (), s') \<Longrightarrow>
     \<exists>tid. tenant = Some tid \<and> dv_tenant_owner env (w_tick s) tid = Ok (sc_Operator (sv_cfg s))"
  by (auto simp: requireOperator_def go_iff split: option.splits if_splits)

lemma initial_bond_quiet: "keeps quiet (initial_bond env bond)"
  unfolding initial_bond_def by (cases bond) (auto intro: keeps_wrap quiet_steps)

lemma own_trace:
  assumes "signAndBroadcastOwn env msg s = (r, s')"
  shows "\<exists>evs. new_events s s' = bracket True evs \<and> send_trace env s [msg] False (sc_Operator (sv_cfg s)) r evs"
  using with_seq_trace(1) assms unfolding signAndBroadcastOwn_def by (metis new_events_append)

lemma own_sent:
  assumes "signAndBroadcastOwn env msg s = (r, s')" and "raw \<in> sent (new_events s s')"
  shows "\<exists>acct t. dv_account env t (sc_Operator (sv_cfg s)) = Ok acct \<and>
    SignTx (dv_tx env) (sc_Priv (sv_cfg s)) (sc_ChainID (sv_cfg s)) acct [msg] (sc_Fee (sv_cfg s)) False = Ok raw"
  using own_trace [OF assms(1)] assms(2) by (auto simp: send_trace_def)

text \<open>The tail both operations share: the card's hash, the message, its validation, the sending.\<close>

definition publish :: "dg_env \<Rightarrow> (Service \<Rightarrow> bytes \<Rightarrow> sdk_msg) \<Rightarrow> (Service, ExecResult) act" where
  "publish env msg = (\<lambda>s.
     act_bind (act_ret (capabilityHash s)) (\<lambda>capHash.
     act_bind (act_ret (dv_validate_basic env (msg s capHash))) (\<lambda>_.
     signAndBroadcastOwn env (msg s capHash))) s)"

lemma publish_sent:
  assumes "publish env msg s = (r, s')" and "raw \<in> sent (new_events s s')"
  shows "sv_cardHash s \<noteq> [] \<and> dv_validate_basic env (msg s (sv_cardHash s)) = Ok () \<and>
    (\<exists>acct t. dv_account env t (sc_Operator (sv_cfg s)) = Ok acct \<and>
       SignTx (dv_tx env) (sc_Priv (sv_cfg s)) (sc_ChainID (sv_cfg s)) acct [msg s (sv_cardHash s)]
         (sc_Fee (sv_cfg s)) False = Ok raw)"
proof (cases "sv_cardHash s = []")
  case True
  with assms show ?thesis by (auto simp: publish_def capabilityHash_def new_events_def)
next
  case False
  show ?thesis
  proof (cases "dv_validate_basic env (msg s (sv_cardHash s))")
    case (Ok u)
    with False assms(1) have "signAndBroadcastOwn env (msg s (sv_cardHash s)) s = (r, s')"
      by (simp add: publish_def capabilityHash_def)
    from own_sent [OF this assms(2)] False Ok show ?thesis by simp
  qed (use False assms in \<open>auto simp: publish_def capabilityHash_def new_events_def\<close>)
qed

lemma gated_sent:
  assumes "act_bind (requireOperator env tenant what) (\<lambda>_. rest) s = (r, s')"
    and "raw \<in> sent (new_events s s')"
  shows "\<exists>tid s1. tenant = Some tid \<and> dv_tenant_owner env (w_tick s) tid = Ok (sc_Operator (sv_cfg s)) \<and>
    quiet s s1 \<and> rest s1 = (r, s') \<and> raw \<in> sent (new_events s1 s')"
proof -
  obtain r1 s1 where op: "requireOperator env tenant what s = (r1, s1)" by force
  note q = keepsD [OF requireOperator_quiet op]
  show ?thesis
  proof (cases r1)
    case (Ok u)
    with op requireOperator_ok obtain tid where "tenant = Some tid"
      "dv_tenant_owner env (w_tick s) tid = Ok (sc_Operator (sv_cfg s))" by fastforce
    with assms op Ok q show ?thesis by (auto simp: new_events_def quietD)
  qed (use assms op q in \<open>auto simp: new_events_def quietD\<close>)
qed

lemma publish_eq:
  "SelfUpdate env tenant = act_bind (requireOperator env tenant ''self-update rewrites the on-chain registration and'')
     (\<lambda>_. publish env update_msg)"
  "SelfRegister env tenant bond =
     act_bind (requireOperator env tenant ''self-registration escrows the operator's funds and'')
     (\<lambda>_. act_bind (initial_bond env bond) (\<lambda>b. publish env (\<lambda>s h. register_msg env s h b)))"
  by (simp_all add: SelfUpdate_def SelfRegister_def publish_def)

text \<open>
  C23: After the card has been wired, whatever \<open>SelfRegister\<close> sends was asked for by a caller whose
  tenant is the operator itself, and is one fee-paying registration: owner and operator are the
  operator, the id is this agent's, the public key is the signing key's own, the capability hash is
  the hash of the card's bytes, and the bond is the caller's coin or the module's minimum.
\<close>

theorem SelfRegister_sent:
  assumes "SelfRegister env tenant bond (SetCapabilityCard env cardJSON s) = (r, s')"
    and "raw \<in> sent (new_events s s')"
  shows "\<exists>tid t0 b acct t. tenant = Some tid \<and> dv_tenant_owner env t0 tid = Ok (sc_Operator (sv_cfg s)) \<and>
    dv_sha256 env cardJSON \<noteq> [] \<and>
    (case bond of Some c \<Rightarrow> Coin_ToSDK (tl_new_int (dv_tx env)) c = Ok b | None \<Rightarrow> \<exists>t1. dv_min_bond env t1 = Ok b) \<and>
    dv_account env t (sc_Operator (sv_cfg s)) = Ok acct \<and>
    SignTx (dv_tx env) (sc_Priv (sv_cfg s)) (sc_ChainID (sv_cfg s)) acct
      [MsgRegisterAgent \<lparr>ra_Owner = sc_Operator (sv_cfg s), ra_AgentId = sv_agentID s,
        ra_Operator = sc_Operator (sv_cfg s), ra_PublicKey = tl_pub_key (dv_tx env) (sc_Priv (sv_cfg s)),
        ra_Endpoint = sc_Endpoint (sv_cfg s), ra_CapabilityHash = dv_sha256 env cardJSON,
        ra_Capabilities = sc_Capabilities (sv_cfg s), ra_Pricing = None, ra_InitialBond = b,
        ra_Metadata = sc_Metadata (sv_cfg s)\<rparr>] (sc_Fee (sv_cfg s)) False = Ok raw"
proof -
  let ?s = "SetCapabilityCard env cardJSON s"
  have new: "new_events s s' = new_events ?s s'" by (simp add: new_events_def SetCapabilityCard_def)
  from gated_sent [OF assms(1) [unfolded publish_eq] assms(2) [unfolded new]]
  obtain tid s1 where ten: "tenant = Some tid" "dv_tenant_owner env (w_tick ?s) tid = Ok (sc_Operator (sv_cfg ?s))"
    and q1: "quiet ?s s1" and sent1: "raw \<in> sent (new_events s1 s')"
    and rest: "act_bind (initial_bond env bond) (\<lambda>b. publish env (\<lambda>s h. register_msg env s h b)) s1 = (r, s')"
    by blast
  obtain rb s2 where ib: "initial_bond env bond s1 = (rb, s2)" by force
  note q2 = keepsD [OF initial_bond_quiet ib]
  obtain b where b: "rb = Ok b"
    using rest ib sent1 quietD(3) [OF q2] by (cases rb) (auto simp: new_events_def)
  have pub: "publish env (\<lambda>s h. register_msg env s h b) s2 = (r, s')" using rest ib b by simp
  have sent2: "raw \<in> sent (new_events s2 s')" using sent1 quietD(3) [OF q2] by (simp add: new_events_def)
  have bond: "case bond of Some c \<Rightarrow> Coin_ToSDK (tl_new_int (dv_tx env)) c = Ok b | None \<Rightarrow> \<exists>t1. dv_min_bond env t1 = Ok b"
    using ib b by (cases bond) (auto simp: initial_bond_def go_iff)
  have "quiet ?s s2" by (rule quiet.R_trans [OF q1 q2])
  then have conf: "sv_cfg s2 = sv_cfg s" "sv_agentID s2 = sv_agentID s" "sv_cardHash s2 = dv_sha256 env cardJSON"
    by (simp_all add: quietD SetCapabilityCard_def)
  have "sv_cfg ?s = sv_cfg s" by (simp add: SetCapabilityCard_def)
  with publish_sent [OF pub sent2, unfolded register_msg_def conf] ten bond show ?thesis by auto
qed

text \<open>
  The same for \<open>SelfUpdate\<close>: only the operator can have it sent, and what is sent refreshes the
  agent's own record with the hash of the wired card and without a public key.
\<close>

theorem SelfUpdate_sent:
  assumes "SelfUpdate env tenant (SetCapabilityCard env cardJSON s) = (r, s')"
    and "raw \<in> sent (new_events s s')"
  shows "\<exists>tid t0 acct t. tenant = Some tid \<and> dv_tenant_owner env t0 tid = Ok (sc_Operator (sv_cfg s)) \<and>
    dv_sha256 env cardJSON \<noteq> [] \<and> dv_account env t (sc_Operator (sv_cfg s)) = Ok acct \<and>
    SignTx (dv_tx env) (sc_Priv (sv_cfg s)) (sc_ChainID (sv_cfg s)) acct
      [MsgUpdateAgent \<lparr>ua_Owner = sc_Operator (sv_cfg s), ua_AgentId = sv_agentID s, ua_PublicKey = [],
        ua_Endpoint = sc_Endpoint (sv_cfg s), ua_CapabilityHash = dv_sha256 env cardJSON,
        ua_Capabilities = sc_Capabilities (sv_cfg s), ua_Pricing = None,
        ua_Metadata = sc_Metadata (sv_cfg s)\<rparr>] (sc_Fee (sv_cfg s)) False = Ok raw"
proof -
  let ?s = "SetCapabilityCard env cardJSON s"
  have new: "new_events s s' = new_events ?s s'" by (simp add: new_events_def SetCapabilityCard_def)
  from gated_sent [OF assms(1) [unfolded publish_eq] assms(2) [unfolded new]]
  obtain tid s1 where ten: "tenant = Some tid" "dv_tenant_owner env (w_tick ?s) tid = Ok (sc_Operator (sv_cfg ?s))"
    and q1: "quiet ?s s1" and sent1: "raw \<in> sent (new_events s1 s')" and pub: "publish env update_msg s1 = (r, s')"
    by blast
  have conf: "sv_cfg s1 = sv_cfg s" "sv_agentID s1 = sv_agentID s" "sv_cardHash s1 = dv_sha256 env cardJSON"
    using quietD [OF q1] by (simp_all add: SetCapabilityCard_def)
  have "sv_cfg ?s = sv_cfg s" by (simp add: SetCapabilityCard_def)
  with publish_sent [OF pub sent1, unfolded update_msg_def conf] ten show ?thesis by auto
qed

end
