(* ===== verification/Delegated_Inputs.thy ===== *)
theory Delegated_Inputs
  imports Delegated_Identity Go_Json
begin

section \<open>The delegated operations' JSON\<close>

text \<open>
  The JSON tags of the input structs of \<open>internal/delegated/service.go\<close> as field lists, and the
  encodings of its outputs.
\<close>

subsection \<open>Inputs\<close>

definition zero_OrderParams :: OrderParams where
  "zero_OrderParams = \<lparr>op_SubaccountNumber = 0, op_Ticker = [], op_Side = [], op_Size = [], op_Price = [], op_TimeInForce = [], op_ReduceOnly = False, op_GoodTilBlock = 0, op_OrderClientID = 0\<rparr>"

definition OrderParams_fields :: "OrderParams gofield list" where
  "OrderParams_fields =
    [(''SubaccountNumber'', ''subaccount_number'', in_field dec_u32 op_SubaccountNumber op_SubaccountNumber_update),
     (''Ticker'', ''ticker'', in_field dec_string op_Ticker op_Ticker_update),
     (''Side'', ''side'', in_field dec_string op_Side op_Side_update),
     (''Size'', ''size'', in_field dec_string op_Size op_Size_update),
     (''Price'', ''price'', in_field dec_string op_Price op_Price_update),
     (''TimeInForce'', ''time_in_force,omitempty'', in_field dec_string op_TimeInForce op_TimeInForce_update),
     (''ReduceOnly'', ''reduce_only,omitempty'', in_field dec_bool op_ReduceOnly op_ReduceOnly_update),
     (''GoodTilBlock'', ''good_til_block'', in_field dec_u32 op_GoodTilBlock op_GoodTilBlock_update),
     (''OrderClientID'', ''order_client_id'', in_field dec_u32 op_OrderClientID op_OrderClientID_update)]"

definition zero_ExecPlaceOrderInput :: ExecPlaceOrderInput where
  "zero_ExecPlaceOrderInput = \<lparr>pi_Proof = [], pi_Order = zero_OrderParams\<rparr>"

definition ExecPlaceOrderInput_fields :: "ExecPlaceOrderInput gofield list" where
  "ExecPlaceOrderInput_fields =
    [(''Proof'', ''proof'', in_field dec_texts pi_Proof pi_Proof_update),
     (''Order'', ''order'', in_field (dec_input OrderParams_fields) pi_Order pi_Order_update)]"

definition zero_CancelParams :: CancelParams where
  "zero_CancelParams = \<lparr>cp_SubaccountNumber = 0, cp_ClobPairID = 0, cp_OrderClientID = 0, cp_OrderFlags = 0, cp_GoodTilBlock = 0, cp_GoodTilBlockTime = 0\<rparr>"

definition CancelParams_fields :: "CancelParams gofield list" where
  "CancelParams_fields =
    [(''SubaccountNumber'', ''subaccount_number'', in_field dec_u32 cp_SubaccountNumber cp_SubaccountNumber_update),
     (''ClobPairID'', ''clob_pair_id'', in_field dec_u32 cp_ClobPairID cp_ClobPairID_update),
     (''OrderClientID'', ''order_client_id'', in_field dec_u32 cp_OrderClientID cp_OrderClientID_update),
     (''OrderFlags'', ''order_flags'', in_field dec_u32 cp_OrderFlags cp_OrderFlags_update),
     (''GoodTilBlock'', ''good_til_block,omitempty'', in_field dec_u32 cp_GoodTilBlock cp_GoodTilBlock_update),
     (''GoodTilBlockTime'', ''good_til_block_time,omitempty'', in_field dec_u32 cp_GoodTilBlockTime cp_GoodTilBlockTime_update)]"

definition zero_ExecCancelOrderInput :: ExecCancelOrderInput where
  "zero_ExecCancelOrderInput = \<lparr>ci_Proof = [], ci_Cancel = zero_CancelParams\<rparr>"

definition ExecCancelOrderInput_fields :: "ExecCancelOrderInput gofield list" where
  "ExecCancelOrderInput_fields =
    [(''Proof'', ''proof'', in_field dec_texts ci_Proof ci_Proof_update),
     (''Cancel'', ''cancel'', in_field (dec_input CancelParams_fields) ci_Cancel ci_Cancel_update)]"

definition zero_OrderBatch :: OrderBatch where
  "zero_OrderBatch = \<lparr>bt_ClobPairID = 0, bt_ClientIDs = []\<rparr>"

definition OrderBatch_fields :: "OrderBatch gofield list" where
  "OrderBatch_fields =
    [(''ClobPairID'', ''clob_pair_id'', in_field dec_u32 bt_ClobPairID bt_ClobPairID_update),
     (''ClientIDs'', ''client_ids'', in_field (\<lambda>_. dec_slice (dec_u32 0)) bt_ClientIDs bt_ClientIDs_update)]"

definition zero_BatchCancelParams :: BatchCancelParams where
  "zero_BatchCancelParams = \<lparr>bp_SubaccountNumber = 0, bp_Batches = [], bp_GoodTilBlock = 0\<rparr>"

definition BatchCancelParams_fields :: "BatchCancelParams gofield list" where
  "BatchCancelParams_fields =
    [(''SubaccountNumber'', ''subaccount_number'', in_field dec_u32 bp_SubaccountNumber bp_SubaccountNumber_update),
     (''Batches'', ''batches'', in_field (\<lambda>_. dec_slice (dec_input OrderBatch_fields zero_OrderBatch)) bp_Batches bp_Batches_update),
     (''GoodTilBlock'', ''good_til_block'', in_field dec_u32 bp_GoodTilBlock bp_GoodTilBlock_update)]"

definition zero_ExecBatchCancelInput :: ExecBatchCancelInput where
  "zero_ExecBatchCancelInput = \<lparr>bi_Proof = [], bi_Cancel = zero_BatchCancelParams\<rparr>"

definition ExecBatchCancelInput_fields :: "ExecBatchCancelInput gofield list" where
  "ExecBatchCancelInput_fields =
    [(''Proof'', ''proof'', in_field dec_texts bi_Proof bi_Proof_update),
     (''Cancel'', ''cancel'', in_field (dec_input BatchCancelParams_fields) bi_Cancel bi_Cancel_update)]"

definition zero_DepositParams :: DepositParams where
  "zero_DepositParams = \<lparr>dp_SubaccountNumber = 0, dp_HumanUSDC = []\<rparr>"

definition DepositParams_fields :: "DepositParams gofield list" where
  "DepositParams_fields =
    [(''SubaccountNumber'', ''subaccount_number'', in_field dec_u32 dp_SubaccountNumber dp_SubaccountNumber_update),
     (''HumanUSDC'', ''human_usdc'', in_field dec_string dp_HumanUSDC dp_HumanUSDC_update)]"

definition zero_ExecDepositInput :: ExecDepositInput where
  "zero_ExecDepositInput = \<lparr>di_Proof = [], di_Deposit = zero_DepositParams\<rparr>"

definition ExecDepositInput_fields :: "ExecDepositInput gofield list" where
  "ExecDepositInput_fields =
    [(''Proof'', ''proof'', in_field dec_texts di_Proof di_Proof_update),
     (''Deposit'', ''deposit'', in_field (dec_input DepositParams_fields) di_Deposit di_Deposit_update)]"

record SelfRegisterInput =
  sr_Bond :: "coin option"

definition zero_SelfRegisterInput :: SelfRegisterInput where
  "zero_SelfRegisterInput = \<lparr>sr_Bond = None\<rparr>"

definition SelfRegisterInput_fields :: "SelfRegisterInput gofield list" where
  "SelfRegisterInput_fields =
    [(''Bond'', ''bond,omitempty'', in_field (dec_ptr dec_coin zero_coin) sr_Bond sr_Bond_update)]"

subsection \<open>Outputs\<close>

text \<open>A string member tagged \<open>omitempty\<close>, and an unsigned number.\<close>

definition omit_empty :: "string \<Rightarrow> string \<Rightarrow> (string \<times> json) list" where
  "omit_empty k s = (if s = [] then [] else [(k, JStr s)])"

definition json_u32 :: "u32 \<Rightarrow> json" where
  "json_u32 n = JNum (dec_digits (uint n))"

definition enc_ExecResult :: "ExecResult \<Rightarrow> goany" where
  "enc_ExecResult r = Ok (JObj ([(''tx_hash'', JStr (ex_TxHash r)), (''code'', json_u32 (ex_Code r))] @
     omit_empty ''raw_log'' (ex_RawLog r) @
     [(''agent_id'', JStr (ex_AgentID r)), (''principal'', JStr (ex_Principal r))]))"

definition enc_IdentityOutput :: "IdentityOutput \<Rightarrow> goany" where
  "enc_IdentityOutput out = Ok (JObj (
     [(''operator'', JStr (io_Operator out)), (''agent_id'', JStr (io_AgentID out)),
      (''registered'', JBool (io_Registered out))] @
     omit_empty ''status'' (io_Status out) @ omit_empty ''bond'' (io_Bond out) @
     omit_empty ''endpoint'' (io_Endpoint out) @ omit_empty ''card_hash'' (io_CardHash out) @
     omit_empty ''registered_capability_hash'' (io_RegisteredCapabilityHash out) @
     [(''card_hash_matches'', JBool (io_CardHashMatches out))]))"

end
