(* ===== verification/Market_Data.thy ===== *)
theory Market_Data
  imports Go_Text Complex_Main "HOL-Library.Multiset"
begin

section \<open>Market data: the batch-auction clearing estimate\<close>

text \<open>
  \<open>internal/marketdata\<close>. \<open>auction.go\<close> prices a marketable order by walking the resting
  levels of the side it crosses, in exact rationals (\<open>big.Rat\<close> is \<open>rat\<close>), and renders the
  results as decimals; \<open>service.go\<close> reads the indexer. The indexer is a parameter, and so is
  the text syntax \<open>big.Rat.SetString\<close> accepts (\<open>rat_set\<close>): nothing below depends on which
  strings parse, only on the rationals they parse to.
\<close>

subsection \<open>Data\<close>

type_synonym side = string

definition Buy :: side where "Buy = ''buy''"
definition Sell :: side where "Sell = ''sell''"

record price_level =
  pl_price :: string
  pl_size :: string

record orderbook =
  ob_asks :: "price_level list"
  ob_bids :: "price_level list"

record level =
  lv_price :: rat
  lv_size :: rat

record ClearingEstimate =
  ce_ticker :: string
  ce_side :: side
  ce_requested :: string
  ce_filled :: string
  ce_fully :: bool
  ce_average :: string
  ce_worst :: string
  ce_slippage :: string

subsection \<open>Rendering\<close>

fun fixed_digits :: "nat \<Rightarrow> int \<Rightarrow> string" where
  "fixed_digits 0 n = []"
| "fixed_digits (Suc k) n = fixed_digits k (n div 10) @ [char_of (48 + n mod 10)]"

text \<open>
  \<open>(*big.Rat).FloatString(prec)\<close>: rounded to \<open>prec\<close> fractional digits, halves away from
  zero, the sign of a value that is not zero kept.
\<close>

definition scaled :: "nat \<Rightarrow> rat \<Rightarrow> int" where
  "scaled prec r = (case quotient_of r of (a, b) \<Rightarrow> (2 * \<bar>a\<bar> * 10 ^ prec + b) div (2 * b))"

definition float_string :: "nat \<Rightarrow> rat \<Rightarrow> string" where
  "float_string prec r =
     (let n = scaled prec r in
      (if r < 0 then ''-'' else []) @ dec_digits (n div 10 ^ prec) @
      (if prec = 0 then [] else CHR ''.'' # fixed_digits prec (n mod 10 ^ prec)))"

fun containsDot :: "string \<Rightarrow> bool" where
  "containsDot [] = False"
| "containsDot (c # s) = (if c = CHR ''.'' then True else containsDot s)"

text \<open>The two trimming loops of \<open>trimDecimal\<close> run from the end of the string.\<close>

fun drop_zeros :: "string \<Rightarrow> string" where
  "drop_zeros [] = []"
| "drop_zeros (c # s) = (if c = CHR ''0'' then drop_zeros s else c # s)"

definition drop_dot :: "string \<Rightarrow> string" where
  "drop_dot s = (case s of [] \<Rightarrow> [] | c # s' \<Rightarrow> if c = CHR ''.'' then s' else s)"

definition trimDecimal :: "string \<Rightarrow> string" where
  "trimDecimal s =
     (if \<not> containsDot s then s else rev (drop_dot (drop_zeros (rev s))))"

definition ratString :: "rat \<Rightarrow> string" where
  "ratString r = trimDecimal (float_string 18 r)"

subsection \<open>The estimate\<close>

definition oppositeName :: "side \<Rightarrow> string" where
  "oppositeName sd = (if sd = Buy then ''ask'' else ''bid'')"

text \<open>The conversion loop of \<open>restingLevels\<close>: a malformed level fails, an empty one is skipped.\<close>

fun collect_levels :: "(string \<Rightarrow> rat option) \<Rightarrow> price_level list \<Rightarrow> level list go" where
  "collect_levels rat_set [] = Ok []"
| "collect_levels rat_set (r # rs) =
     (case (rat_set (pl_price r), rat_set (pl_size r)) of
        (Some p, Some s) \<Rightarrow>
          if p \<le> 0 \<or> s \<le> 0 then collect_levels rat_set rs
          else go_bind (collect_levels rat_set rs) (\<lambda>out. Ok (\<lparr>lv_price = p, lv_size = s\<rparr> # out))
      | _ \<Rightarrow> Err (Errorf ''malformed price level %q@%q'' [AQ (pl_size r), AQ (pl_price r)]))"

definition restingLevels :: "(string \<Rightarrow> rat option) \<Rightarrow> side \<Rightarrow> orderbook \<Rightarrow> level list go" where
  "restingLevels rat_set sd ob =
     (if sd = Buy then
        go_bind (collect_levels rat_set (ob_asks ob)) (\<lambda>out. Ok (sort_key lv_price out))
      else if sd = Sell then
        go_bind (collect_levels rat_set (ob_bids ob)) (\<lambda>out. Ok (sort_key (\<lambda>l. - lv_price l) out))
      else Err (Errorf ''unknown side %q'' [AQ sd]))"

text \<open>The loop of \<open>EstimateClearing\<close> over its variables remaining, cost, filled and worst.\<close>

fun walk :: "level list \<Rightarrow> rat \<Rightarrow> rat \<Rightarrow> rat \<Rightarrow> rat \<Rightarrow> rat \<times> rat \<times> rat \<times> rat" where
  "walk [] remaining cost filled worst = (remaining, cost, filled, worst)"
| "walk (l # ls) remaining cost filled worst =
     (if remaining \<le> 0 then (remaining, cost, filled, worst)
      else let taken = (if lv_size l > remaining then remaining else lv_size l) in
           walk ls (remaining - taken) (cost + lv_price l * taken) (filled + taken) (lv_price l))"

definition EstimateClearing ::
  "(string \<Rightarrow> rat option) \<Rightarrow> string \<Rightarrow> side \<Rightarrow> orderbook \<Rightarrow> string \<Rightarrow> ClearingEstimate go" where
  "EstimateClearing rat_set ticker sd ob sz =
     (let bad_size = Err (Errorf ''size %q is not a positive decimal'' [AQ sz]);
          no_book = Err (Errorf ''no resting %s liquidity for %s'' [AS (oppositeName sd), AS ticker])
      in case rat_set sz of
        None \<Rightarrow> bad_size
      | Some want \<Rightarrow>
        if want \<le> 0 then bad_size else
        go_bind (restingLevels rat_set sd ob) (\<lambda>levels.
          case levels of
            [] \<Rightarrow> no_book
          | l0 # _ \<Rightarrow>
            (let touch = lv_price l0;
                 (remaining, cost, filled, worst) = walk levels want 0 0 (lv_price l0)
             in if filled = 0 then no_book else
                let avg = cost / filled;
                    diff = avg - touch;
                    diff = (if sd = Sell then - diff else diff);
                    slippageBps = diff * 10000 / touch
                in Ok \<lparr>ce_ticker = ticker, ce_side = sd, ce_requested = sz,
                       ce_filled = ratString filled, ce_fully = (remaining \<le> 0),
                       ce_average = ratString avg, ce_worst = ratString worst,
                       ce_slippage = ratString slippageBps\<rparr>)))"

subsection \<open>The walk\<close>

text \<open>How much of each level the walk takes.\<close>

fun fills :: "rat \<Rightarrow> level list \<Rightarrow> rat list" where
  "fills want [] = []"
| "fills want (l # ls) = (let t = max 0 (min want (lv_size l)) in t # fills (want - t) ls)"

definition level_ok :: "level \<Rightarrow> bool" where
  "level_ok l \<longleftrightarrow> 0 < lv_price l \<and> 0 < lv_size l"

definition spent :: "level list \<Rightarrow> rat list \<Rightarrow> rat" where
  "spent ls xs = sum_list (map2 (\<lambda>l x. lv_price l * x) ls xs)"

definition depth :: "level list \<Rightarrow> rat" where
  "depth ls = sum_list (map lv_size ls)"

lemma depth_nonneg: "list_all level_ok ls \<Longrightarrow> 0 \<le> depth ls"
  by (induction ls) (auto simp: depth_def level_ok_def)

lemma fills_done: "want \<le> 0 \<Longrightarrow> list_all level_ok ls \<Longrightarrow> fills want ls = replicate (length ls) 0"
  by (induction ls arbitrary: want) (auto simp: level_ok_def Let_def)

lemma length_fills [simp]: "length (fills want ls) = length ls"
  by (induction ls arbitrary: want) (auto simp: Let_def)

lemma sum_fills:
  "0 \<le> want \<Longrightarrow> list_all level_ok ls \<Longrightarrow> sum_list (fills want ls) = min want (depth ls)"
proof (induction ls arbitrary: want)
  case Nil
  then show ?case by (simp add: depth_def)
next
  case (Cons l ls)
  have "0 \<le> depth ls" using Cons.prems by (simp add: depth_nonneg)
  with Cons show ?case by (auto simp: Let_def depth_def level_ok_def min_def max_def)
qed

lemma fills_le:
  "0 \<le> want \<Longrightarrow> list_all level_ok ls \<Longrightarrow>
     list_all2 (\<lambda>l x. 0 \<le> x \<and> x \<le> lv_size l) ls (fills want ls)"
  by (induction ls arbitrary: want) (auto simp: Let_def level_ok_def)

lemma spent_zeros [simp]: "spent ls (replicate (length ls) 0) = 0"
  by (induction ls) (auto simp: spent_def)

lemma spent_Cons [simp]: "spent (l # ls) (x # xs) = lv_price l * x + spent ls xs"
  by (simp add: spent_def)

lemma spent_Nil [simp]: "spent [] xs = 0"
  by (simp add: spent_def)

text \<open>The loop is the greedy allocation.\<close>

lemma walk_fills:
  assumes "list_all level_ok ls" and "0 \<le> want"
  shows "\<exists>w. walk ls want cost filled worst =
     (want - sum_list (fills want ls), cost + spent ls (fills want ls),
      filled + sum_list (fills want ls), w)"
  using assms
proof (induction ls arbitrary: want cost filled worst)
  case Nil
  then show ?case by simp
next
  case (Cons l ls)
  show ?case
  proof (cases "want \<le> 0")
    case True
    with Cons.prems(1) have "fills want (l # ls) = replicate (length (l # ls)) 0"
      by (simp only: fills_done)
    with True show ?thesis by (simp only: spent_zeros) (simp add: sum_list_replicate)
  next
    case False
    with Cons.prems have t: "(if lv_size l > want then want else lv_size l) = max 0 (min want (lv_size l))"
      by (auto simp: level_ok_def)
    obtain w where "walk ls (want - max 0 (min want (lv_size l)))
        (cost + lv_price l * max 0 (min want (lv_size l)))
        (filled + max 0 (min want (lv_size l))) (lv_price l) =
      (want - max 0 (min want (lv_size l)) - sum_list (fills (want - max 0 (min want (lv_size l))) ls),
       cost + lv_price l * max 0 (min want (lv_size l)) + spent ls (fills (want - max 0 (min want (lv_size l))) ls),
       filled + max 0 (min want (lv_size l)) + sum_list (fills (want - max 0 (min want (lv_size l))) ls), w)"
      using Cons.IH [of "want - max 0 (min want (lv_size l))"] Cons.prems False by force
    with False t show ?thesis by (auto simp: Let_def algebra_simps)
  qed
qed

lemma walk_done: "want \<le> 0 \<Longrightarrow> walk ls want cost filled worst = (want, cost, filled, worst)"
  by (cases ls) auto

text \<open>
  The order in which a taker consumes levels, for both sides of the book: \<open>\<sigma> = 1\<close> for a
  buy (asks ascending), \<open>\<sigma> = -1\<close> for a sell (bids descending). A price is better than
  another when its \<open>\<sigma>\<close>-multiple is smaller.
\<close>

locale book_side =
  fixes \<sigma> :: rat
  assumes sign_sq: "\<sigma> * \<sigma> = 1"
begin

definition consumed_in_order :: "level list \<Rightarrow> bool" where
  "consumed_in_order ls \<longleftrightarrow> sorted (map (\<lambda>l. \<sigma> * lv_price l) ls)"

text \<open>
  The last price of the walk separates the levels: what is left over at a level is at least
  as bad, what is taken is at least as good.
\<close>

definition separates :: "rat \<Rightarrow> level \<Rightarrow> rat \<Rightarrow> bool" where
  "separates w l x \<longleftrightarrow>
     (x < lv_size l \<longrightarrow> \<sigma> * w \<le> \<sigma> * lv_price l) \<and> (0 < x \<longrightarrow> \<sigma> * lv_price l \<le> \<sigma> * w)"

lemma walk_separates:
  assumes "list_all level_ok ls" and "consumed_in_order ls" and "0 \<le> want"
    and "\<And>l. l \<in> set ls \<Longrightarrow> \<sigma> * worst \<le> \<sigma> * lv_price l"
    and "walk ls want cost filled worst = (r, c, f, w)"
  shows "\<sigma> * worst \<le> \<sigma> * w \<and> list_all2 (separates w) ls (fills want ls)"
  using assms
proof (induction ls arbitrary: want cost filled worst)
  case Nil
  then show ?case by simp
next
  case (Cons l ls)
  show ?case
  proof (cases "want \<le> 0")
    case True
    with Cons.prems have w: "w = worst" by simp
    have "fills want (l # ls) = replicate (length (l # ls)) 0"
      using True Cons.prems(1) by (simp only: fills_done)
    moreover have "list_all2 (separates w) ks (replicate (length ks) 0)"
      if "\<And>k. k \<in> set ks \<Longrightarrow> \<sigma> * worst \<le> \<sigma> * lv_price k" for ks
      using that by (induction ks) (auto simp: separates_def w)
    ultimately show ?thesis using Cons.prems(4) w by (metis order_refl)
  next
    case False
    let ?t = "max 0 (min want (lv_size l))"
    have t: "(if lv_size l > want then want else lv_size l) = ?t"
      using False Cons.prems(1) by (auto simp: level_ok_def)
    have rest: "walk ls (want - ?t) (cost + lv_price l * ?t) (filled + ?t) (lv_price l) = (r, c, f, w)"
      using Cons.prems(5) False t by (simp add: Let_def)
    have above: "\<And>k. k \<in> set ls \<Longrightarrow> \<sigma> * lv_price l \<le> \<sigma> * lv_price k"
      using Cons.prems(2) by (auto simp: consumed_in_order_def)
    have ih: "\<sigma> * lv_price l \<le> \<sigma> * w \<and> list_all2 (separates w) ls (fills (want - ?t) ls)"
      using Cons.prems False
      by (intro Cons.IH [OF _ _ _ above rest]) (auto simp: consumed_in_order_def)
    have "separates w l ?t"
    proof (cases "?t < lv_size l")
      case True
      then have "want - ?t \<le> 0" using False by auto
      then have "w = lv_price l" using rest by (simp add: walk_done)
      then show ?thesis by (simp add: separates_def)
    next
      case False
      then show ?thesis using ih unfolding separates_def by blast
    qed
    moreover have "\<sigma> * worst \<le> \<sigma> * lv_price l" using Cons.prems(4) by simp
    ultimately show ?thesis using ih by (simp add: Let_def)
  qed
qed

text \<open>Any allocation within the levels is at least as expensive, in the side's own order.\<close>

lemma separated_optimal:
  assumes "list_all2 (\<lambda>l x. 0 \<le> x \<and> x \<le> lv_size l) ls xs"
    and "list_all2 (separates w) ls ts"
    and "list_all2 (\<lambda>l t. 0 \<le> t \<and> t \<le> lv_size l) ls ts"
  shows "\<sigma> * w * (sum_list xs - sum_list ts) \<le> \<sigma> * (spent ls xs - spent ls ts)"
  using assms
proof (induction ls arbitrary: xs ts)
  case Nil
  then show ?case by simp
next
  case (Cons l ls)
  obtain x xs' where xs: "xs = x # xs'" using Cons.prems(1) by (auto simp: list_all2_Cons1)
  obtain t ts' where ts: "ts = t # ts'" using Cons.prems(2) by (auto simp: list_all2_Cons1)
  have ih: "\<sigma> * w * (sum_list xs' - sum_list ts') \<le> \<sigma> * (spent ls xs' - spent ls ts')"
    using Cons by (auto simp: xs ts)
  have sep: "separates w l t" and x: "0 \<le> x" "x \<le> lv_size l" and t: "0 \<le> t" "t \<le> lv_size l"
    using Cons.prems by (auto simp: xs ts)
  have "\<sigma> * w * (x - t) \<le> \<sigma> * lv_price l * (x - t)"
  proof (cases x t rule: linorder_cases)
    case less
    then have "\<sigma> * lv_price l \<le> \<sigma> * w" using sep x by (auto simp: separates_def)
    with less show ?thesis by (intro mult_right_mono_neg) auto
  next
    case greater
    then have "\<sigma> * w \<le> \<sigma> * lv_price l" using sep x by (auto simp: separates_def)
    with greater show ?thesis by (intro mult_right_mono) auto
  qed simp
  with ih show ?case by (simp add: xs ts algebra_simps)
qed

text \<open>The money spent lies between the touch and the last price, per unit.\<close>

lemma spent_between:
  assumes "list_all2 (\<lambda>l t. 0 \<le> t \<and> (0 < t \<longrightarrow> a \<le> \<sigma> * lv_price l \<and> \<sigma> * lv_price l \<le> b)) ls ts"
  shows "a * sum_list ts \<le> \<sigma> * spent ls ts \<and> \<sigma> * spent ls ts \<le> b * sum_list ts"
  using assms
proof (induction ls ts rule: list_all2_induct)
  case (Cons l ls t ts)
  have "a * t \<le> \<sigma> * lv_price l * t \<and> \<sigma> * lv_price l * t \<le> b * t"
    using Cons by (cases "t = 0") (auto intro: mult_right_mono)
  with Cons.IH show ?case by (simp add: algebra_simps)
qed simp

text \<open>Along a walk from the best price, the money spent lies between touch and last price.\<close>

lemma walk_prices:
  assumes ok: "list_all level_ok ls" and ord: "consumed_in_order ls" and ne: "ls \<noteq> []"
    and want: "0 \<le> want"
    and walk: "walk ls want cost filled (lv_price (hd ls)) = (r, c, f, w)"
  shows "list_all2 (separates w) ls (fills want ls)"
    and "\<sigma> * lv_price (hd ls) * sum_list (fills want ls) \<le> \<sigma> * spent ls (fills want ls)"
    and "\<sigma> * spent ls (fills want ls) \<le> \<sigma> * w * sum_list (fills want ls)"
proof -
  have hd: "\<sigma> * lv_price (hd ls) \<le> \<sigma> * lv_price l" if "l \<in> set ls" for l
    using that ord ne by (cases ls) (auto simp: consumed_in_order_def)
  show sep: "list_all2 (separates w) ls (fills want ls)"
    using walk_separates [OF ok ord want hd walk] by simp
  have le: "list_all2 (\<lambda>l t. 0 \<le> t \<and> t \<le> lv_size l) ls (fills want ls)"
    using want ok by (rule fills_le)
  have "list_all2 (\<lambda>l t. 0 \<le> t \<and> (0 < t \<longrightarrow> \<sigma> * lv_price (hd ls) \<le> \<sigma> * lv_price l \<and>
      \<sigma> * lv_price l \<le> \<sigma> * w)) ls (fills want ls)"
    using sep le hd by (auto simp: list_all2_conv_all_nth separates_def)
  from spent_between [OF this]
  show "\<sigma> * lv_price (hd ls) * sum_list (fills want ls) \<le> \<sigma> * spent ls (fills want ls)"
    and "\<sigma> * spent ls (fills want ls) \<le> \<sigma> * w * sum_list (fills want ls)"
    by simp_all
qed

end

interpretation asks: book_side 1
  by unfold_locales simp

interpretation bids: book_side "- 1"
  by unfold_locales simp

subsection \<open>The levels of the crossed side\<close>

definition side_levels :: "side \<Rightarrow> orderbook \<Rightarrow> price_level list" where
  "side_levels sd ob = (if sd = Buy then ob_asks ob else ob_bids ob)"

lemma Buy_neq_Sell [simp]: "Buy \<noteq> Sell" "Sell \<noteq> Buy"
  by (simp_all add: Buy_def Sell_def)

definition parses :: "(string \<Rightarrow> rat option) \<Rightarrow> price_level \<Rightarrow> bool" where
  "parses rat_set r \<longleftrightarrow> rat_set (pl_price r) \<noteq> None \<and> rat_set (pl_size r) \<noteq> None"

definition liquid :: "(string \<Rightarrow> rat option) \<Rightarrow> price_level \<Rightarrow> bool" where
  "liquid rat_set r \<longleftrightarrow> 0 < the (rat_set (pl_price r)) \<and> 0 < the (rat_set (pl_size r))"

definition to_level :: "(string \<Rightarrow> rat option) \<Rightarrow> price_level \<Rightarrow> level" where
  "to_level rat_set r =
     \<lparr>lv_price = the (rat_set (pl_price r)), lv_size = the (rat_set (pl_size r))\<rparr>"

lemma collect_levels_Ok_iff:
  "collect_levels rat_set rs = Ok out \<longleftrightarrow>
     list_all (parses rat_set) rs \<and> out = map (to_level rat_set) (filter (liquid rat_set) rs)"
  by (induction rs arbitrary: out)
    (auto simp: go_iff parses_def liquid_def to_level_def split: option.splits)

lemma collect_levels_no_panic: "collect_levels rat_set rs \<noteq> Panics"
  by (induction rs) (auto simp: go_iff split: option.splits)

lemma restingLevels_Ok_iff:
  "restingLevels rat_set sd ob = Ok ls \<longleftrightarrow>
     (sd = Buy \<or> sd = Sell) \<and> list_all (parses rat_set) (side_levels sd ob) \<and>
     ls = sort_key (\<lambda>l. if sd = Sell then - lv_price l else lv_price l)
       (map (to_level rat_set) (filter (liquid rat_set) (side_levels sd ob)))"
  by (auto simp: restingLevels_def go_iff collect_levels_Ok_iff side_levels_def)

lemma restingLevels_ok:
  assumes "restingLevels rat_set sd ob = Ok ls"
  shows "list_all level_ok ls"
  using assms
  by (auto simp: restingLevels_Ok_iff list_all_iff level_ok_def liquid_def to_level_def)

lemma restingLevels_sorted:
  assumes "restingLevels rat_set sd ob = Ok ls"
  shows "sd = Buy \<Longrightarrow> asks.consumed_in_order ls" "sd = Sell \<Longrightarrow> bids.consumed_in_order ls"
  using assms
  by (auto simp: restingLevels_Ok_iff asks.consumed_in_order_def bids.consumed_in_order_def
      intro: sorted_sort_key [where f = lv_price] simp: sorted_sort_key)

lemma restingLevels_mset:
  assumes "restingLevels rat_set sd ob = Ok ls"
  shows "mset ls = mset (map (to_level rat_set) (filter (liquid rat_set) (side_levels sd ob)))"
  using assms by (simp add: restingLevels_Ok_iff del: mset_map mset_filter)

lemma restingLevels_nonempty:
  assumes "restingLevels rat_set sd ob = Ok ls"
  shows "ls \<noteq> [] \<longleftrightarrow> list_ex (liquid rat_set) (side_levels sd ob)"
proof -
  have "ls \<noteq> [] \<longleftrightarrow> mset ls \<noteq> {#}" by simp
  also have "\<dots> \<longleftrightarrow> filter (liquid rat_set) (side_levels sd ob) \<noteq> []"
    unfolding restingLevels_mset [OF assms] by (simp del: mset_map mset_filter)
  finally show ?thesis by (auto simp: list_ex_iff filter_empty_conv)
qed

text \<open>What a successful estimate computed, as one equation over the greedy allocation.\<close>

definition clears ::
  "side \<Rightarrow> level list \<Rightarrow> rat \<Rightarrow> rat \<Rightarrow> ClearingEstimate \<Rightarrow> bool" where
  "clears sd ls want w e \<longleftrightarrow>
     (let filled = min want (depth ls);
          avg = spent ls (fills want ls) / filled;
          touch = lv_price (hd ls) in
      0 < want \<and> ls \<noteq> [] \<and> list_all level_ok ls \<and> 0 < filled \<and>
      ce_filled e = ratString filled \<and> (ce_fully e \<longleftrightarrow> want \<le> depth ls) \<and>
      ce_average e = ratString avg \<and> ce_worst e = ratString w \<and>
      ce_slippage e = ratString ((if sd = Sell then touch - avg else avg - touch) * 10000 / touch))"

lemma depth_pos: "list_all level_ok ls \<Longrightarrow> ls \<noteq> [] \<Longrightarrow> 0 < depth ls"
  using depth_nonneg by (cases ls) (auto simp: depth_def level_ok_def add_pos_nonneg)

lemma EstimateClearing_Ok:
  assumes "EstimateClearing rat_set t sd ob sz = Ok e"
  obtains want ls r c f w where
    "rat_set sz = Some want" "restingLevels rat_set sd ob = Ok ls"
    "walk ls want 0 0 (lv_price (hd ls)) = (r, c, f, w)" "clears sd ls want w e"
proof -
  obtain want where want: "rat_set sz = Some want" "0 < want"
    using assms by (auto simp: EstimateClearing_def Let_def split: option.splits if_splits)
  with assms obtain ls where ls: "restingLevels rat_set sd ob = Ok ls"
    by (cases "restingLevels rat_set sd ob") (auto simp: EstimateClearing_def)
  have ne: "ls \<noteq> []" using assms want ls by (auto simp: EstimateClearing_def)
  have ok: "list_all level_ok ls" using ls by (rule restingLevels_ok)
  obtain w where walk: "walk ls want 0 0 (lv_price (hd ls)) =
      (want - sum_list (fills want ls), spent ls (fills want ls), sum_list (fills want ls), w)"
    using walk_fills [OF ok, of want 0 0 "lv_price (hd ls)"] want by auto
  have filled: "sum_list (fills want ls) = min want (depth ls)"
    using ok want by (simp add: sum_fills)
  have pos: "0 < min want (depth ls)" using want depth_pos [OF ok ne] by simp
  define F where "F = min want (depth ls)"
  define S where "S = spent ls (fills want ls)"
  have w: "walk ls want 0 0 (lv_price (hd ls)) = (want - F, S, F, w)"
    using walk filled by (simp add: F_def S_def)
  have "F \<noteq> 0" and "want - F \<le> 0 \<longleftrightarrow> want \<le> depth ls"
    using pos by (auto simp: F_def)
  then have "clears sd ls want w e"
    using assms want ls ne ok w pos unfolding clears_def F_def [symmetric] S_def [symmetric]
    by (cases ls) (auto simp: EstimateClearing_def Let_def simp del: walk.simps)
  with want ls walk that show ?thesis by blast
qed

lemma EstimateClearing_defined:
  assumes "rat_set sz = Some want" "0 < want" "restingLevels rat_set sd ob = Ok ls" "ls \<noteq> []"
  shows "\<exists>e. EstimateClearing rat_set t sd ob sz = Ok e"
proof -
  have ok: "list_all level_ok ls" using assms(3) by (rule restingLevels_ok)
  obtain r c f w where w: "walk ls want 0 0 (lv_price (hd ls)) = (r, c, f, w)" and "f \<noteq> 0"
    using walk_fills [OF ok, of want 0 0 "lv_price (hd ls)"] depth_pos [OF ok assms(4)] assms(2) ok
    by (auto simp: sum_fills)
  then show ?thesis using assms
    by (cases ls) (auto simp: EstimateClearing_def Let_def simp del: walk.simps)
qed

subsection \<open>Properties of the estimate\<close>

text \<open>C37: A successful estimate fills the smaller of the requested size and the whole visible
  liquidity of the crossed side, and reports \<open>fully_filled\<close> exactly when the book is deep
  enough; the levels it walked are the well-formed positive ones of that side only.\<close>

theorem estimate_fill:
  assumes "EstimateClearing rat_set t sd ob sz = Ok e"
  shows "\<exists>want ls. rat_set sz = Some want \<and> 0 < want \<and>
     mset ls = mset (map (to_level rat_set) (filter (liquid rat_set) (side_levels sd ob))) \<and>
     ce_filled e = ratString (min want (depth ls)) \<and>
     (ce_fully e \<longleftrightarrow> want \<le> depth ls)"
  using assms
proof (rule EstimateClearing_Ok)
  fix want ls r c f w
  assume "rat_set sz = Some want" "restingLevels rat_set sd ob = Ok ls" "clears sd ls want w e"
  then show ?thesis
    by (intro exI [of _ want] exI [of _ ls]) (simp add: clears_def Let_def restingLevels_mset)
qed

text \<open>C38: The average price reported is the best any taker could get: some way of filling the reported
  size from the visible levels of the crossed side costs exactly that average per unit, and no other
  way of filling it costs a buyer less, or pays a seller more.\<close>

theorem estimate_optimal:
  assumes "EstimateClearing rat_set t sd ob sz = Ok e"
  shows "\<exists>ls filled avg. restingLevels rat_set sd ob = Ok ls \<and> 0 < filled \<and>
     ce_filled e = ratString filled \<and> ce_average e = ratString avg \<and>
     (\<exists>ts. list_all2 (\<lambda>l t. 0 \<le> t \<and> t \<le> lv_size l) ls ts \<and> sum_list ts = filled \<and> spent ls ts = avg * filled) \<and>
     (\<forall>xs. list_all2 (\<lambda>l x. 0 \<le> x \<and> x \<le> lv_size l) ls xs \<longrightarrow> sum_list xs = filled \<longrightarrow>
        (sd = Buy \<longrightarrow> avg * filled \<le> spent ls xs) \<and>
        (sd = Sell \<longrightarrow> spent ls xs \<le> avg * filled))"
  using assms
proof (rule EstimateClearing_Ok)
  fix want ls r c f w
  assume ls: "restingLevels rat_set sd ob = Ok ls" and e: "clears sd ls want w e"
    and walk: "walk ls want 0 0 (lv_price (hd ls)) = (r, c, f, w)"
  have ok: "list_all level_ok ls" and want: "0 < want" and ne: "ls \<noteq> []"
    using e by (auto simp: clears_def Let_def)
  let ?filled = "min want (depth ls)" and ?ts = "fills want ls"
  have ts: "sum_list ?ts = ?filled" and pos: "0 < ?filled"
    and le: "list_all2 (\<lambda>l t. 0 \<le> t \<and> t \<le> lv_size l) ls ?ts"
    using ok want e by (auto simp: sum_fills fills_le clears_def Let_def)
  have best: "(sd = Buy \<longrightarrow> spent ls ?ts \<le> spent ls xs) \<and> (sd = Sell \<longrightarrow> spent ls xs \<le> spent ls ?ts)"
    if xs: "list_all2 (\<lambda>l x. 0 \<le> x \<and> x \<le> lv_size l) ls xs" "sum_list xs = ?filled" for xs
  proof (intro conjI impI)
    assume "sd = Buy"
    then show "spent ls ?ts \<le> spent ls xs"
      using asks.separated_optimal [OF xs(1) asks.walk_prices(1) [OF ok _ ne _ walk] le]
        restingLevels_sorted(1) [OF ls] want xs(2) ts by auto
  next
    assume "sd = Sell"
    then show "spent ls xs \<le> spent ls ?ts"
      using bids.separated_optimal [OF xs(1) bids.walk_prices(1) [OF ok _ ne _ walk] le]
        restingLevels_sorted(2) [OF ls] want xs(2) ts by auto
  qed
  define F where "F = ?filled"
  define avg where "avg = spent ls ?ts / F"
  have F: "0 < F" using pos by (simp only: F_def)
  then have S: "avg * F = spent ls ?ts" by (simp add: avg_def)
  have ex: "ce_filled e = ratString F" "ce_average e = ratString avg"
    using e by (simp_all add: clears_def Let_def F_def avg_def)
  show ?thesis
  proof (rule exI [of _ ls], rule exI [of _ F], rule exI [of _ avg], intro conjI)
    show "\<exists>ts. list_all2 (\<lambda>l t. 0 \<le> t \<and> t \<le> lv_size l) ls ts \<and> sum_list ts = F \<and> spent ls ts = avg * F"
      using le ts [folded F_def] S [symmetric] by blast
    show "\<forall>xs. list_all2 (\<lambda>l x. 0 \<le> x \<and> x \<le> lv_size l) ls xs \<longrightarrow> sum_list xs = F \<longrightarrow>
        (sd = Buy \<longrightarrow> avg * F \<le> spent ls xs) \<and> (sd = Sell \<longrightarrow> spent ls xs \<le> avg * F)"
      unfolding S using best [folded F_def] by blast
  qed (use ls F ex in simp_all)
qed

text \<open>The prices of an estimate are ordered as a taker pays for them: from the touch, over the
  average, to the last level consumed (upwards for a buy, downwards for a sell), and the slippage
  is the average's distance from the touch in basis points, never negative.\<close>

theorem estimate_prices:
  assumes "EstimateClearing rat_set t sd ob sz = Ok e"
  shows "\<exists>touch avg worst slip.
     ce_average e = ratString avg \<and> ce_worst e = ratString worst \<and> ce_slippage e = ratString slip \<and>
     0 < touch \<and> 0 \<le> slip \<and> slip = \<bar>avg - touch\<bar> * 10000 / touch \<and>
     (sd = Buy \<longrightarrow> touch \<le> avg \<and> avg \<le> worst) \<and>
     (sd = Sell \<longrightarrow> worst \<le> avg \<and> avg \<le> touch)"
  using assms
proof (rule EstimateClearing_Ok)
  fix want ls r c f w
  assume ls: "restingLevels rat_set sd ob = Ok ls" and e: "clears sd ls want w e"
    and walk: "walk ls want 0 0 (lv_price (hd ls)) = (r, c, f, w)"
  define F where "F = min want (depth ls)"
  define S where "S = spent ls (fills want ls)"
  define touch where "touch = lv_price (hd ls)"
  define avg where "avg = S / F"
  have want: "0 \<le> want" and ok: "list_all level_ok ls" and ne: "ls \<noteq> []" and F: "0 < F"
    using e by (auto simp: clears_def Let_def F_def)
  have ts: "sum_list (fills want ls) = F" using ok want by (simp add: sum_fills F_def)
  have S: "S = avg * F" using F by (simp add: avg_def)
  have buy: "touch \<le> avg \<and> avg \<le> w" if "sd = Buy"
    using asks.walk_prices(2,3) [OF ok _ ne want walk] restingLevels_sorted(1) [OF ls that] F
    by (simp add: ts S_def [symmetric] S touch_def)
  have sell: "w \<le> avg \<and> avg \<le> touch" if "sd = Sell"
    using bids.walk_prices(2,3) [OF ok _ ne want walk] restingLevels_sorted(2) [OF ls that] F
    by (simp add: ts S_def [symmetric] S touch_def)
  have touch: "0 < touch" using ok ne by (cases ls) (auto simp: touch_def level_ok_def)
  have sd: "sd = Buy \<or> sd = Sell" using ls by (simp add: restingLevels_Ok_iff)
  let ?slip = "\<bar>avg - touch\<bar> * 10000 / touch"
  have "ce_average e = ratString avg" "ce_worst e = ratString w"
    "ce_slippage e = ratString ((if sd = Sell then touch - avg else avg - touch) * 10000 / touch)"
    using e by (simp_all add: clears_def Let_def avg_def F_def S_def touch_def)
  moreover have "(if sd = Sell then touch - avg else avg - touch) = \<bar>avg - touch\<bar>"
    using sd buy sell by auto
  ultimately show ?thesis using touch buy sell
    by (intro exI [of _ touch] exI [of _ avg] exI [of _ w] exI [of _ ?slip]) simp
qed

text \<open>C39: An estimate is given exactly when the size parses as a positive number, the side is
  buy or sell, every level of the crossed side parses, and at least one of them has a positive
  price and size; every other input is refused with an error, and no input panics.\<close>

theorem estimate_total:
  "(is_ok (EstimateClearing rat_set t sd ob sz) \<longleftrightarrow>
     (\<exists>want. rat_set sz = Some want \<and> 0 < want) \<and> sd \<in> {Buy, Sell} \<and>
     list_all (parses rat_set) (side_levels sd ob) \<and> list_ex (liquid rat_set) (side_levels sd ob)) \<and>
   EstimateClearing rat_set t sd ob sz \<noteq> Panics"
proof (rule conjI, rule iffI)
  assume "is_ok (EstimateClearing rat_set t sd ob sz)"
  then obtain e where "EstimateClearing rat_set t sd ob sz = Ok e" by (auto simp: is_ok_iff)
  then show "(\<exists>want. rat_set sz = Some want \<and> 0 < want) \<and> sd \<in> {Buy, Sell} \<and>
     list_all (parses rat_set) (side_levels sd ob) \<and> list_ex (liquid rat_set) (side_levels sd ob)"
  proof (rule EstimateClearing_Ok)
    fix want ls r c f w
    assume "rat_set sz = Some want" "restingLevels rat_set sd ob = Ok ls" "clears sd ls want w e"
    then show ?thesis
      using restingLevels_nonempty [of rat_set sd ob ls]
      by (simp add: clears_def Let_def restingLevels_Ok_iff)
  qed
next
  assume h: "(\<exists>want. rat_set sz = Some want \<and> 0 < want) \<and> sd \<in> {Buy, Sell} \<and>
     list_all (parses rat_set) (side_levels sd ob) \<and> list_ex (liquid rat_set) (side_levels sd ob)"
  then obtain want where want: "rat_set sz = Some want" "0 < want" by blast
  obtain ls where ls: "restingLevels rat_set sd ob = Ok ls"
    using h by (auto simp: restingLevels_Ok_iff)
  then have "ls \<noteq> []" using h by (simp add: restingLevels_nonempty)
  show "is_ok (EstimateClearing rat_set t sd ob sz)"
    using EstimateClearing_defined [OF want ls \<open>ls \<noteq> []\<close>] by (auto simp: is_ok_iff)
next
  show "EstimateClearing rat_set t sd ob sz \<noteq> Panics"
    by (auto simp: EstimateClearing_def restingLevels_def go_iff Let_def collect_levels_no_panic
        split: option.splits list.splits prod.splits)
qed

subsection \<open>Properties of the rendering\<close>

text \<open>What a decimal text \<open>[-]digits[.digits]\<close> denotes.\<close>

definition decimal_abs :: "string \<Rightarrow> rat option" where
  "decimal_abs t =
     (case split_on (CHR ''.'') t of
        [i] \<Rightarrow> map_option of_nat (lit_nat i)
      | [i, d] \<Rightarrow> (case (lit_nat i, lit_nat d) of
            (Some n, Some m) \<Rightarrow> Some (of_nat n + of_nat m / 10 ^ length d)
          | _ \<Rightarrow> None)
      | _ \<Rightarrow> None)"

definition decimal_value :: "string \<Rightarrow> rat option" where
  "decimal_value s = (case s of
     [] \<Rightarrow> None
   | c # t \<Rightarrow> if c = CHR ''-'' then map_option uminus (decimal_abs t) else decimal_abs s)"

lemma digits_val_fixed:
  "0 \<le> n \<Longrightarrow> n < 10 ^ k \<Longrightarrow> digits_val acc (fixed_digits k n) = Some (acc * 10 ^ k + nat n)"
proof (induction k arbitrary: acc n)
  case (Suc k)
  have "digits_val acc (fixed_digits k (n div 10)) = Some (acc * 10 ^ k + nat (n div 10))"
    using Suc.prems by (intro Suc.IH) auto
  then show ?case
    using nat_div_mod10 [OF Suc.prems(1)]
    by (simp add: digits_val_append digit_char is_digit_def algebra_simps)
qed simp

lemma length_fixed [simp]: "length (fixed_digits k n) = k"
  by (induction k arbitrary: n) auto

lemma digits_only:
  "digits_val acc s = Some v \<Longrightarrow> list_all is_digit s"
  by (induction s arbitrary: acc) (auto split: if_splits)

lemma digits_no_mark: "list_all is_digit s \<Longrightarrow> CHR ''.'' \<notin> set s \<and> CHR ''-'' \<notin> set s"
  by (induction s) (auto simp: is_digit_def)

lemma drop_zeros_split:
  "\<exists>z. s = replicate z (CHR ''0'') @ drop_zeros s"
proof (induction s)
  case (Cons c s)
  then obtain z where "s = replicate z (CHR ''0'') @ drop_zeros s" by blast
  then show ?case by (cases "c = CHR ''0''") (auto intro: exI [of _ "Suc z"] exI [of _ 0])
qed simp

lemma containsDot_iff: "containsDot s \<longleftrightarrow> CHR ''.'' \<in> set s"
  by (induction s) auto

lemma drop_zeros_append:
  "drop_zeros (s @ t) = (if drop_zeros s = [] then drop_zeros t else drop_zeros s @ t)"
  by (induction s) auto

text \<open>Trimming a decimal only removes zeros after the point, and the point when nothing follows.\<close>

lemma trimDecimal_split:
  assumes "CHR ''.'' \<notin> set d"
  shows "\<exists>d' z. d = d' @ replicate z (CHR ''0'') \<and>
     (\<forall>i. trimDecimal (i @ CHR ''.'' # d) = (if d' = [] then i else i @ CHR ''.'' # d'))"
proof -
  obtain z where z: "rev d = replicate z (CHR ''0'') @ drop_zeros (rev d)"
    using drop_zeros_split by blast
  let ?d' = "rev (drop_zeros (rev d))"
  have d: "d = ?d' @ replicate z (CHR ''0'')"
    using z by (metis rev_append rev_replicate rev_rev_ident)
  have dot: "CHR ''.'' \<notin> set (drop_zeros (rev d))" using assms d by (metis Un_iff set_append set_rev)
  have "trimDecimal (i @ CHR ''.'' # d) = (if ?d' = [] then i else i @ CHR ''.'' # ?d')" for i
  proof -
    have "trimDecimal (i @ CHR ''.'' # d) =
        rev (drop_dot (drop_zeros (rev d @ CHR ''.'' # rev i)))"
      by (simp add: trimDecimal_def containsDot_iff)
    also have "\<dots> = (if ?d' = [] then i else i @ CHR ''.'' # ?d')"
      using dot by (cases "drop_zeros (rev d)") (auto simp: drop_zeros_append drop_dot_def)
    finally show ?thesis .
  qed
  with d show ?thesis by blast
qed

lemma decimal_abs_point:
  assumes "digits_val 0 i = Some n" "i \<noteq> []" "digits_val 0 d = Some m" "d \<noteq> []"
  shows "decimal_abs (i @ CHR ''.'' # d) = Some (of_nat n + of_nat m / 10 ^ length d)"
  using assms digits_only [THEN digits_no_mark, of 0 i n] digits_only [THEN digits_no_mark, of 0 d m]
  by (simp add: decimal_abs_def split_on_one lit_nat_def)

lemma decimal_abs_whole:
  assumes "digits_val 0 i = Some n" "i \<noteq> []"
  shows "decimal_abs i = Some (of_nat n)"
  using assms digits_only [THEN digits_no_mark, of 0 i n]
  by (simp add: decimal_abs_def split_on_none lit_nat_def)

lemma scaled_nonneg: "0 \<le> scaled p r"
  using quotient_of_denom_pos' [of r]
  by (auto simp: scaled_def pos_imp_zdiv_nonneg_iff split: prod.splits)

lemma round_half:
  assumes "0 < (b :: int)"
  shows "\<bar>2 * b * ((2 * x + b) div (2 * b)) - 2 * x\<bar> \<le> b"
proof -
  have "0 \<le> (2 * x + b) mod (2 * b)" "(2 * x + b) mod (2 * b) < 2 * b" using assms by simp_all
  then show ?thesis using mult_div_mod_eq [of "2 * b" "2 * x + b"] by linarith
qed

lemma scaled_bound: "\<bar>of_int (scaled p r) - \<bar>r\<bar> * 10 ^ p\<bar> \<le> 1 / 2"
proof -
  obtain a b where q: "quotient_of r = (a, b)" by force
  then have b: "0 < b" and r: "r = of_int a / of_int b"
    by (auto dest: quotient_of_denom_pos quotient_of_div)
  have "\<bar>2 * b * scaled p r - 2 * (\<bar>a\<bar> * 10 ^ p)\<bar> \<le> b"
    using round_half [OF b, of "\<bar>a\<bar> * 10 ^ p"] by (simp add: scaled_def q mult.assoc)
  then have "of_int \<bar>2 * b * scaled p r - 2 * (\<bar>a\<bar> * 10 ^ p)\<bar> \<le> (of_int b :: rat)"
    by (simp only: of_int_le_iff)
  then have "\<bar>2 * of_int b * of_int (scaled p r) - 2 * (\<bar>of_int a\<bar> * 10 ^ p)\<bar> \<le> (of_int b :: rat)"
    by simp
  moreover have "\<bar>of_int a\<bar> * 10 ^ p = of_int b * (\<bar>r\<bar> * 10 ^ p)" using b by (simp add: r)
  ultimately have "\<bar>of_int b * (2 * of_int (scaled p r) - 2 * (\<bar>r\<bar> * 10 ^ p))\<bar> \<le> of_int b * 1"
    by (simp add: algebra_simps)
  then have "of_int b * \<bar>2 * of_int (scaled p r) - 2 * (\<bar>r\<bar> * 10 ^ p)\<bar> \<le> of_int b * 1"
    using b by (simp only: abs_mult abs_of_pos of_int_0_less_iff)
  then have "\<bar>2 * of_int (scaled p r) - 2 * (\<bar>r\<bar> * 10 ^ p)\<bar> \<le> 1"
    using b by (simp only: mult_le_cancel_left_pos of_int_0_less_iff)
  then show ?thesis by linarith
qed

text \<open>The digits a trimmed rendering keeps denote the same number.\<close>

lemma decimal_abs_trimmed:
  assumes i: "digits_val 0 i = Some n" "i \<noteq> []" and d: "digits_val 0 d = Some m"
  shows "decimal_abs (trimDecimal (i @ CHR ''.'' # d)) = Some (of_nat n + of_nat m / 10 ^ length d)"
proof -
  obtain d' z where dz: "d = d' @ replicate z (CHR ''0'')"
    and trim: "trimDecimal (i @ CHR ''.'' # d) = (if d' = [] then i else i @ CHR ''.'' # d')"
    using trimDecimal_split [of d] digits_only [OF d] digits_no_mark by blast
  obtain m' where m': "digits_val 0 d' = Some m'" "m = m' * 10 ^ z"
    using d by (auto simp: dz digits_val_append digits_val_zeros bind_eq_Some_conv)
  show ?thesis
  proof (cases "d' = []")
    case True
    then show ?thesis using m' i by (simp add: trim decimal_abs_whole)
  next
    case False
    then have "decimal_abs (trimDecimal (i @ CHR ''.'' # d)) = Some (of_nat n + of_nat m' / 10 ^ length d')"
      using i m' by (simp add: trim decimal_abs_point)
    then show ?thesis by (simp add: dz m' power_add)
  qed
qed

lemma trimDecimal_prefix:
  "CHR ''.'' \<notin> set d \<Longrightarrow>
     trimDecimal (c # i @ CHR ''.'' # d) = c # trimDecimal (i @ CHR ''.'' # d)"
  using trimDecimal_split [of d] by (metis append_Cons)

lemma trimDecimal_hd:
  assumes "list_all is_digit i" "i \<noteq> []" "CHR ''.'' \<notin> set d"
  shows "decimal_value (trimDecimal (i @ CHR ''.'' # d)) = decimal_abs (trimDecimal (i @ CHR ''.'' # d))"
proof -
  obtain c i' where i: "i = c # i'" "is_digit c" using assms(1,2) by (cases i) auto
  have "c \<noteq> CHR ''-''" using i(2) by (auto simp: is_digit_def)
  then show ?thesis using assms(3)
    by (simp add: i trimDecimal_prefix decimal_value_def)
qed

lemma ratString_value:
  "decimal_value (ratString r) = Some ((if r < 0 then - 1 else 1) * (of_int (scaled 18 r) / 10 ^ 18))"
proof -
  define m where "m = scaled 18 r"
  define P :: int where "P = 10 ^ 18"
  have P: "0 < P" by (simp add: P_def)
  let ?i = "dec_digits (m div P)" and ?d = "fixed_digits 18 (m mod P)"
  have m: "0 \<le> m" by (simp add: m_def scaled_nonneg)
  have i: "digits_val 0 ?i = Some (nat (m div P))"
    using m P by (intro digits_val_dec) (simp add: pos_imp_zdiv_nonneg_iff)
  have d: "digits_val 0 ?d = Some (nat (m mod P))"
    using digits_val_fixed [of "m mod P" 18 0] P by (simp add: P_def)
  have dot: "CHR ''.'' \<notin> set ?d" using digits_only [OF d] digits_no_mark by blast
  have "of_int m = (of_int (m div P * P + m mod P) :: rat)" by simp
  also have "\<dots> = of_int (m div P) * of_int P + of_int (m mod P)"
    by (simp only: of_int_add of_int_mult)
  finally have "of_nat (nat (m div P)) + of_nat (nat (m mod P)) / of_int P = (of_int m :: rat) / of_int P"
    using m P by (simp add: pos_imp_zdiv_nonneg_iff add_divide_distrib)
  then have "of_nat (nat (m div P)) + of_nat (nat (m mod P)) / 10 ^ 18 = (of_int m :: rat) / 10 ^ 18"
    by (simp add: P_def)
  then have abs: "decimal_abs (trimDecimal (?i @ CHR ''.'' # ?d)) = Some (of_int m / 10 ^ 18)"
    using decimal_abs_trimmed [OF i _ d] by simp
  have float: "float_string 18 r = (if r < 0 then ''-'' else []) @ ?i @ CHR ''.'' # ?d"
    by (simp add: float_string_def Let_def m_def P_def)
  show ?thesis
  proof (cases "r < 0")
    case True
    then show ?thesis using abs dot
      by (simp add: ratString_def float trimDecimal_prefix decimal_value_def m_def)
  next
    case False
    then show ?thesis
      using abs trimDecimal_hd [OF digits_only [OF i] _ dot] by (simp add: ratString_def float m_def)
  qed
qed

text \<open>C40: Every price, size and slippage the estimate prints is a decimal text whose value is within
  half a unit of the eighteenth decimal place of the exact rational, and equal to it when the
  rational has at most eighteen decimals; trimming zeros never changes the value.\<close>

theorem ratString_accurate:
  "\<exists>v. decimal_value (ratString r) = Some v \<and> \<bar>v - r\<bar> \<le> 1 / (2 * 10 ^ 18) \<and>
     (r * 10 ^ 18 \<in> \<int> \<longrightarrow> v = r)"
proof -
  define v :: rat where "v = (if r < 0 then - 1 else 1) * (of_int (scaled 18 r) / 10 ^ 18)"
  have "\<bar>v - r\<bar> * 10 ^ 18 = \<bar>of_int (scaled 18 r) - \<bar>r\<bar> * 10 ^ 18\<bar>"
    by (cases "r < 0") (auto simp: v_def abs_if field_simps)
  then have bound: "\<bar>v - r\<bar> * 10 ^ 18 \<le> 1 / 2" using scaled_bound [of 18 r] by simp
  have "v = r" if "r * 10 ^ 18 \<in> \<int>"
  proof -
    have "(v - r) * 10 ^ 18 \<in> \<int>"
      using that by (auto simp: v_def algebra_simps)
    then obtain k where k: "(v - r) * 10 ^ 18 = of_int k" by (auto elim: Ints_cases)
    have "\<bar>(v - r) * 10 ^ 18\<bar> \<le> 1 / 2" using bound by (simp only: abs_mult) simp
    then have "\<bar>k\<bar> < 1" unfolding k by linarith
    then show ?thesis using k by simp
  qed
  then show ?thesis using ratString_value [of r] bound
    by (intro exI [of _ v]) (simp add: v_def)
qed

subsection \<open>The read service\<close>

text \<open>\<open>service.go\<close>: the four questions that are forwarded to the indexer, and the estimate.\<close>

record ('mk, 'm, 'f) market_reader =
  mr_list_markets :: "'mk go"
  mr_market :: "string \<Rightarrow> 'm go"
  mr_orderbook :: "string \<Rightarrow> orderbook go"
  mr_funding :: "string \<Rightarrow> 'f go"

definition ticker_required :: err where
  "ticker_required = Errorf ''ticker is required'' []"

definition svc_Markets :: "('mk, 'm, 'f) market_reader \<Rightarrow> 'mk go" where
  "svc_Markets idx = mr_list_markets idx"

definition svc_Market :: "('mk, 'm, 'f) market_reader \<Rightarrow> string \<Rightarrow> 'm go" where
  "svc_Market idx ticker = (if ticker = [] then Err ticker_required else mr_market idx ticker)"

definition svc_Orderbook :: "('mk, 'm, 'f) market_reader \<Rightarrow> string \<Rightarrow> orderbook go" where
  "svc_Orderbook idx ticker = (if ticker = [] then Err ticker_required else mr_orderbook idx ticker)"

definition svc_Funding :: "('mk, 'm, 'f) market_reader \<Rightarrow> string \<Rightarrow> 'f go" where
  "svc_Funding idx ticker = (if ticker = [] then Err ticker_required else mr_funding idx ticker)"

definition svc_EstimateClearing ::
  "(string \<Rightarrow> rat option) \<Rightarrow> ('mk, 'm, 'f) market_reader \<Rightarrow> string \<Rightarrow> side \<Rightarrow> string \<Rightarrow> ClearingEstimate go" where
  "svc_EstimateClearing rat_set idx ticker sd sz =
     (if ticker = [] then Err ticker_required
      else go_bind (wrap_err (\<lambda>e. Errorf ''fetch orderbook for %s: %w'' [AS ticker, AW e])
               (mr_orderbook idx ticker))
             (\<lambda>ob. EstimateClearing rat_set ticker sd ob sz))"

subsection \<open>Witnesses\<close>

text \<open>A book of two ask levels out of order and one empty one; a buy of 3 clears at 10.67 on average.\<close>

definition example_rat :: "string \<Rightarrow> rat option" where
  "example_rat = map_of [(''0'', 0), (''1'', 1), (''2'', 2), (''3'', 3), (''10'', 10), (''12'', 12)]"

definition example_book :: orderbook where
  "example_book =
     \<lparr>ob_asks = [\<lparr>pl_price = ''12'', pl_size = ''2''\<rparr>, \<lparr>pl_price = ''1'', pl_size = ''0''\<rparr>,
                 \<lparr>pl_price = ''10'', pl_size = ''2''\<rparr>],
      ob_bids = [\<lparr>pl_price = ''2'', pl_size = ''1''\<rparr>]\<rparr>"

definition example_estimate :: ClearingEstimate where
  "example_estimate =
     \<lparr>ce_ticker = ''BTC-USD'', ce_side = Buy, ce_requested = ''3'', ce_filled = ''3'',
      ce_fully = True, ce_average = ''10.666666666666666667'', ce_worst = ''12'',
      ce_slippage = ''666.666666666666666667''\<rparr>"

lemma example_levels:
  "restingLevels example_rat Buy example_book =
     Ok [\<lparr>lv_price = 10, lv_size = 2\<rparr>, \<lparr>lv_price = 12, lv_size = 2\<rparr>]"
  by (simp add: restingLevels_def example_rat_def example_book_def)

lemma example_want: "example_rat ''3'' = Some 3"
  by (simp add: example_rat_def)

lemma example_strings:
  "ratString 3 = ''3''" "ratString 12 = ''12''"
  "ratString (32 / 3) = ''10.666666666666666667''"
  "ratString (2000 / 3) = ''666.666666666666666667''"
  by code_simp+

lemma example_estimate:
  "EstimateClearing example_rat ''BTC-USD'' Buy example_book ''3'' = Ok example_estimate"
  by (simp add: EstimateClearing_def example_levels example_strings example_estimate_def
      example_want Let_def)

theorem estimate_fill_witness:
  "\<exists>want ls. example_rat ''3'' = Some want \<and> 0 < want \<and>
     mset ls = mset (map (to_level example_rat)
       (filter (liquid example_rat) (side_levels Buy example_book))) \<and>
     ce_filled example_estimate = ratString (min want (depth ls)) \<and>
     (ce_fully example_estimate \<longleftrightarrow> want \<le> depth ls)"
  by (rule estimate_fill [OF example_estimate])

theorem estimate_optimal_witness:
  "\<exists>ls filled avg. restingLevels example_rat Buy example_book = Ok ls \<and> 0 < filled \<and>
     ce_filled example_estimate = ratString filled \<and> ce_average example_estimate = ratString avg \<and>
     (\<exists>ts. list_all2 (\<lambda>l t. 0 \<le> t \<and> t \<le> lv_size l) ls ts \<and> sum_list ts = filled \<and> spent ls ts = avg * filled) \<and>
     (\<forall>xs. list_all2 (\<lambda>l x. 0 \<le> x \<and> x \<le> lv_size l) ls xs \<longrightarrow> sum_list xs = filled \<longrightarrow>
        (Buy = Buy \<longrightarrow> avg * filled \<le> spent ls xs) \<and> (Buy = Sell \<longrightarrow> spent ls xs \<le> avg * filled))"
  by (rule estimate_optimal [OF example_estimate])

theorem estimate_prices_witness:
  "\<exists>touch avg worst slip.
     ce_average example_estimate = ratString avg \<and> ce_worst example_estimate = ratString worst \<and>
     ce_slippage example_estimate = ratString slip \<and>
     0 < touch \<and> 0 \<le> slip \<and> slip = \<bar>avg - touch\<bar> * 10000 / touch \<and>
     (Buy = Buy \<longrightarrow> touch \<le> avg \<and> avg \<le> worst) \<and> (Buy = Sell \<longrightarrow> worst \<le> avg \<and> avg \<le> touch)"
  by (rule estimate_prices [OF example_estimate])

theorem ratString_accurate_witness:
  "\<exists>v. decimal_value (ratString 3) = Some v \<and> v = 3"
proof -
  obtain v where v: "decimal_value (ratString 3) = Some v"
    and exact: "(3 :: rat) * 10 ^ 18 \<in> \<int> \<longrightarrow> v = 3"
    using ratString_accurate [of 3] by (elim exE conjE)
  have "(3 :: rat) * 10 ^ 18 \<in> \<int>" by (intro Ints_mult Ints_power) simp_all
  with v exact show ?thesis by (intro exI [of _ v]) blast
qed

end
