(* ===== verification/A2A_Messages.thy ===== *)
theory A2A_Messages
  imports Delegated_Inputs Market_Data
begin

section \<open>The A2A surface: envelopes and credentials\<close>

text \<open>
  \<open>internal/a2aserver\<close>, the parts that read a message: the request and response envelopes
  (\<open>envelope.go\<close>), the credential chain in the message's metadata and its merge into a tool's
  arguments (\<open>delegation.go\<close>). The types of the A2A library are records with what the code reads.
\<close>

subsection \<open>Messages and envelopes\<close>

text \<open>
  A message's parts are nil or have a text (empty for a part of another kind); its metadata is nil
  or a map whose values are only ever encoded again.
\<close>

record Message =
  ms_Parts :: "string option list"
  ms_Metadata :: "(string \<rightharpoonup> goany) option"

record Request =
  rq_Skill :: string
  rq_Tool :: string
  rq_Args :: raw
  rq_Bearer :: string
  rq_Query :: string
  rq_Ticker :: string
  rq_Side :: string
  rq_Size :: string

definition zero_Request :: Request where
  "zero_Request = \<lparr>rq_Skill = [], rq_Tool = [], rq_Args = None, rq_Bearer = [], rq_Query = [],
     rq_Ticker = [], rq_Side = [], rq_Size = []\<rparr>"

text \<open>A raw message takes any value as it is, null included.\<close>

definition dec_raw :: "raw \<Rightarrow> json \<Rightarrow> raw go" where
  "dec_raw old j = Ok (Some j)"

definition Request_fields :: "Request gofield list" where
  "Request_fields =
    [(''Skill'', ''skill'', in_field dec_string rq_Skill rq_Skill_update),
     (''Tool'', ''tool,omitempty'', in_field dec_string rq_Tool rq_Tool_update),
     (''Args'', ''args,omitempty'', in_field dec_raw rq_Args rq_Args_update),
     (''Bearer'', ''bearer,omitempty'', in_field dec_string rq_Bearer rq_Bearer_update),
     (''Query'', ''query,omitempty'', in_field dec_string rq_Query rq_Query_update),
     (''Ticker'', ''ticker,omitempty'', in_field dec_string rq_Ticker rq_Ticker_update),
     (''Side'', ''side,omitempty'', in_field dec_string rq_Side rq_Side_update),
     (''Size'', ''size,omitempty'', in_field dec_string rq_Size rq_Size_update)]"

record Response =
  rs_Skill :: string
  rs_Tool :: string
  rs_OK :: bool
  rs_Result :: "goany option"
  rs_Error :: string

text \<open>\<open>json.Marshal(resp)\<close>: a nil result and empty texts tagged \<open>omitempty\<close> are left out.\<close>

definition enc_Response :: "Response \<Rightarrow> goany" where
  "enc_Response r =
     go_bind (case rs_Result r of None \<Rightarrow> Ok [] | Some v \<Rightarrow> go_bind v (\<lambda>j. Ok [(''result'', j)])) (\<lambda>res.
     Ok (JObj ([(''skill'', JStr (rs_Skill r))] @ omit_empty ''tool'' (rs_Tool r) @
       [(''ok'', JBool (rs_OK r))] @ res @ omit_empty ''error'' (rs_Error r))))"

text \<open>\<open>messageText\<close>: the texts of the parts, concatenated and trimmed.\<close>

definition messageText :: "Message option \<Rightarrow> string" where
  "messageText msg =
     (case msg of None \<Rightarrow> []
      | Some m \<Rightarrow> trim_space (concat (map (\<lambda>p. case p of None \<Rightarrow> [] | Some t \<Rightarrow> t) (ms_Parts m))))"

subsection \<open>The credential chain in the metadata\<close>

definition DelegationExtensionURI :: string where
  "DelegationExtensionURI = ''https://svpchain.io/a2a/ext/delegation/v1''"

definition DelegationMetadataKey :: string where
  "DelegationMetadataKey = ''svp.delegation/v1''"

record DelegationMetadata =
  dm_Tokens :: "string list"
  dm_Settlement :: string

definition zero_DelegationMetadata :: DelegationMetadata where
  "zero_DelegationMetadata = \<lparr>dm_Tokens = [], dm_Settlement = []\<rparr>"

definition DelegationMetadata_fields :: "DelegationMetadata gofield list" where
  "DelegationMetadata_fields =
    [(''Tokens'', ''tokens'', in_field dec_texts dm_Tokens dm_Tokens_update),
     (''Settlement'', ''settlement,omitempty'', in_field dec_string dm_Settlement dm_Settlement_update)]"

fun first_empty :: "nat \<Rightarrow> string list \<Rightarrow> nat option" where
  "first_empty i [] = None"
| "first_empty i (t # ts) = (if t = [] then Some i else first_empty (Suc i) ts)"

definition delegation_of_value :: "goany \<Rightarrow> DelegationMetadata go" where
  "delegation_of_value v =
     go_bind (wrap_err (\<lambda>e. Errorf ''metadata %q is not encodable: %w'' [AQ DelegationMetadataKey, AW e]) v) (\<lambda>b.
     go_bind (wrap_err (\<lambda>e. Errorf ''metadata %q is malformed: %w'' [AQ DelegationMetadataKey, AW e])
         (dec_struct_strict (json_fields DelegationMetadata_fields) zero_DelegationMetadata b)) (\<lambda>m.
     if dm_Tokens m = [] then Err (Errorf ''metadata %q carries no tokens'' [AQ DelegationMetadataKey])
     else case first_empty 0 (dm_Tokens m) of
            Some i \<Rightarrow> Err (Errorf ''metadata %q token[%d] is empty'' [AQ DelegationMetadataKey, AD (int i)])
          | None \<Rightarrow> Ok m))"

text \<open>\<open>None\<close> is the nil metadata of a message without the key.\<close>

definition delegationFromMessage :: "Message option \<Rightarrow> DelegationMetadata option go" where
  "delegationFromMessage msg =
     (case Option.bind msg ms_Metadata of
        None \<Rightarrow> Ok None
      | Some md \<Rightarrow>
        (case md DelegationMetadataKey of
           None \<Rightarrow> Ok None
         | Some v \<Rightarrow> go_bind (delegation_of_value v) (\<lambda>m. Ok (Some m))))"

subsection \<open>Merging the chain into the arguments\<close>

fun equalStrings :: "string list \<Rightarrow> string list \<Rightarrow> bool" where
  "equalStrings [] [] = True"
| "equalStrings (a # as) (b # bs) = (a = b \<and> equalStrings as bs)"
| "equalStrings _ _ = False"

definition proof_differs :: err where
  "proof_differs = Errorf ''delegation proof given both in message metadata (%q) and in args, and they differ; send it in one place''
     [AQ DelegationMetadataKey]"

text \<open>The proof the arguments already carry: none, null and the empty array all count as none.\<close>

definition args_proof :: "gomap \<Rightarrow> string list go" where
  "args_proof m =
     (case gm_get m ''proof'' of
        None \<Rightarrow> Ok []
      | Some raw \<Rightarrow>
          if raw = JNull then Ok []
          else wrap_err (\<lambda>e. Errorf ''args proof is not a string array: %w'' [AW e]) (dec_strings raw))"

definition injectProof :: "raw \<Rightarrow> string list \<Rightarrow> raw go" where
  "injectProof args tokens =
     go_bind (case args of
                None \<Rightarrow> Ok (GoMap [])
              | Some j \<Rightarrow> wrap_err (\<lambda>e. Errorf ''decode args: %w'' [AW e]) (dec_map j)) (\<lambda>m.
     go_bind (args_proof m) (\<lambda>existing.
     if existing \<noteq> [] then (if \<not> equalStrings existing tokens then Err proof_differs else Ok args)
     else go_bind (gm_put ''proof'' (enc_strings tokens) m) (\<lambda>m. Ok (Some (gm_marshal m)))))"

end
