(* ===== verification/Delegated_Reads.thy ===== *)
theory Delegated_Reads
  imports Delegated_Safety Go_Json
begin

section \<open>Delegated reads\<close>

text \<open>
  \<open>internal/delegated/reads.go\<close>: which tools accept a read credential, the check of the root
  delegation's epoch and pause state behind its cache, and the rewriting of a call's arguments to
  the credential's principal.
\<close>

definition ActionQueryAccount :: string where "ActionQueryAccount = ''query.account''"

record readSpec =
  rp_ownerField :: string
  rp_hasSubaccount :: bool

definition readSpecs :: "(string \<times> readSpec) list" where
  "readSpecs =
    [(''get_subaccount'', \<lparr>rp_ownerField = ''address'', rp_hasSubaccount = True\<rparr>),
     (''get_live_subaccount'', \<lparr>rp_ownerField = ''owner'', rp_hasSubaccount = True\<rparr>),
     (''get_balance'', \<lparr>rp_ownerField = ''owner'', rp_hasSubaccount = False\<rparr>),
     (''get_orders'', \<lparr>rp_ownerField = ''address'', rp_hasSubaccount = True\<rparr>),
     (''get_fills'', \<lparr>rp_ownerField = ''address'', rp_hasSubaccount = True\<rparr>),
     (''get_transfers'', \<lparr>rp_ownerField = ''address'', rp_hasSubaccount = True\<rparr>),
     (''get_pnl'', \<lparr>rp_ownerField = ''address'', rp_hasSubaccount = True\<rparr>),
     (''get_historical_pnl'', \<lparr>rp_ownerField = ''address'', rp_hasSubaccount = True\<rparr>),
     (''get_funding_payments'', \<lparr>rp_ownerField = ''address'', rp_hasSubaccount = True\<rparr>)]"

definition ReadSpecFor :: "string \<Rightarrow> readSpec option" where
  "ReadSpecFor tool = map_of readSpecs tool"

subsection \<open>The state of the root delegation\<close>

definition fetch_epoch :: "dg_env \<Rightarrow> bytes \<Rightarrow> (Service, epochEntry) act" where
  "fetch_epoch env root =
     act_bind (act_wrap (\<lambda>e. Errorf ''root delegation state unavailable (revoked or unknown root?): %w'' [AW e])
         (ask (\<lambda>t. dv_epoch env t root))) (\<lambda>(epoch, paused).
     act_bind (now_at (dv_clock env)) (\<lambda>n.
       let entry = \<lparr>ep_epoch = epoch, ep_paused = paused, ep_fetched = n\<rparr>
       in act_bind (\<lambda>s. (Ok (), s\<lparr>sv_epochCache := (sv_epochCache s)(root \<mapsto> entry)\<rparr>)) (\<lambda>_.
          act_ret (Ok entry))))"

text \<open>The entry the check uses: the cached one while it is fresh.\<close>

definition root_entry :: "dg_env \<Rightarrow> bytes \<Rightarrow> (Service, epochEntry) act" where
  "root_entry env root = (\<lambda>s.
     case sv_epochCache s root of
       None \<Rightarrow> fetch_epoch env root s
     | Some entry \<Rightarrow>
         act_bind (now_at (dv_clock env)) (\<lambda>n.
           if n - ep_fetched entry < sv_epochCacheTTL s then act_ret (Ok entry)
           else fetch_epoch env root) s)"

definition root_verdict :: "epochEntry \<Rightarrow> Verified \<Rightarrow> unit go" where
  "root_verdict entry v =
     (if ep_paused entry then Err (Errorf ''root delegation is paused'' [])
      else if ep_epoch entry \<noteq> vf_RootEpoch v
      then Err (Errorf ''credential was minted for root epoch %d but the chain is at %d; mint a fresh credential''
                  [AD (uint (vf_RootEpoch v)), AD (uint (ep_epoch entry))])
      else Ok ())"

definition checkRootState :: "dg_env \<Rightarrow> Verified \<Rightarrow> (Service, unit) act" where
  "checkRootState env v =
     act_bind (root_entry env (vf_Root v)) (\<lambda>entry. act_ret (root_verdict entry v))"

subsection \<open>Pinning the arguments\<close>

text \<open>The value of one key decoded over a default, as the code reads it: absent and null keep it.\<close>

definition arg_or :: "string \<Rightarrow> gomap \<Rightarrow> 'a \<Rightarrow> ('a \<Rightarrow> json \<Rightarrow> 'a go) \<Rightarrow> (err \<Rightarrow> err) \<Rightarrow> 'a go" where
  "arg_or k m dflt dec w =
     (case gm_get m k of
        None \<Rightarrow> Ok dflt
      | Some raw \<Rightarrow> if raw = JNull then Ok dflt else wrap_err w (dec dflt raw))"

definition pinArgsToPrincipal :: "dg_env \<Rightarrow> raw \<Rightarrow> readSpec \<Rightarrow> Verified \<Rightarrow> raw go" where
  "pinArgsToPrincipal env args spec v =
     go_bind (case args of
                None \<Rightarrow> Ok (GoMap [])
              | Some j \<Rightarrow> wrap_err (\<lambda>e. Errorf ''decode args: %w'' [AW e]) (dec_map j)) (\<lambda>m.
     go_bind (arg_or (rp_ownerField spec) m [] dec_string
                (\<lambda>e. Errorf ''args %s: %w'' [AS (rp_ownerField spec), AW e])) (\<lambda>own.
     go_bind (if own = [] then gm_put (rp_ownerField spec) (JStr (vf_Principal v)) m
              else if own = vf_Principal v then Ok m
              else Err (Errorf ''credential is for principal %s; cannot read %s'' [AS (vf_Principal v), AS own])) (\<lambda>m.
     go_bind (if rp_hasSubaccount spec
              then go_bind (arg_or ''subaccount_number'' m 0 dec_u32
                              (\<lambda>e. Errorf ''args subaccount_number: %w'' [AW e])) (\<lambda>sub.
                   if \<not> dv_has_subaccount env (vf_Subaccounts v) sub
                   then Err (Errorf ''credential does not grant subaccount %d (granted: %v)''
                               (AD (uint sub) # map (\<lambda>n. AD (uint n)) (vf_Subaccounts v)))
                   else Ok ())
              else Ok ()) (\<lambda>_.
     Ok (Some (gm_marshal m))))))"

definition AuthorizeRead ::
  "dg_env \<Rightarrow> string \<Rightarrow> string list \<Rightarrow> raw \<Rightarrow> (Service, Verified \<times> raw) act" where
  "AuthorizeRead env tool proofB64 args =
     (case ReadSpecFor tool of
        None \<Rightarrow> act_ret (Err (Errorf ''tool %q does not accept delegated-read credentials'' [AQ tool]))
      | Some spec \<Rightarrow>
        act_bind (verifyProof env proofB64) (\<lambda>(_, verified).
        act_bind (act_ret (if \<not> dv_has_action env (vf_Actions verified) ActionQueryAccount
            then Err (Errorf ''credential does not grant action %q (granted: %v)''
                        [AQ ActionQueryAccount, AV (vf_Actions verified)])
            else Ok ())) (\<lambda>_.
        act_bind (checkRootState env verified) (\<lambda>_.
        act_bind (act_ret (pinArgsToPrincipal env args spec verified)) (\<lambda>newArgs.
        act_ret (Ok (verified, newArgs)))))))"

subsection \<open>What the pinned arguments say\<close>

text \<open>The members a call's arguments have for the code: none, or the last one of each name.\<close>

fun args_map :: "raw \<Rightarrow> jmap" where
  "args_map (Some (JObj kvs)) = jm_of kvs"
| "args_map _ = []"

text \<open>A member's value; an absent one reads as null does.\<close>

definition member_val :: "jmap \<Rightarrow> string \<Rightarrow> json" where
  "member_val m k = (case map_of m k of None \<Rightarrow> JNull | Some j \<Rightarrow> j)"

lemma arg_or_ok:
  "arg_or k m d dec w = Ok x \<longleftrightarrow>
     (case gm_get m k of None \<Rightarrow> x = d | Some raw \<Rightarrow> if raw = JNull then x = d else dec d raw = Ok x)"
  by (auto simp: arg_or_def go_iff split: option.splits)

lemma arg_or_u32: "arg_or k (GoMap m) 0 dec_u32 w = Ok x \<longleftrightarrow> dec_u32 0 (member_val m k) = Ok x"
  by (auto simp: arg_or_ok member_val_def dec_u32_def split: option.splits)

lemma arg_or_no_panic: "(\<And>raw. dec d raw \<noteq> Panics) \<Longrightarrow> arg_or k m d dec w \<noteq> Panics"
  by (auto simp: arg_or_def go_iff split: option.splits)

lemma dec_string_ok: "dec_string old j = Ok x \<longleftrightarrow> j = JNull \<and> x = old \<or> j = JStr x"
  by (cases j) auto

lemma pinned_shape:
  assumes "pinArgsToPrincipal env args spec v = Ok newArgs"
  shows "\<exists>m. newArgs = Some (JObj m) \<and> jm_wf m \<and>
    m = jm_put (rp_ownerField spec) (JStr (vf_Principal v)) (args_map args) \<and>
    member_val (args_map args) (rp_ownerField spec) \<in> {JNull, JStr [], JStr (vf_Principal v)} \<and>
    (rp_hasSubaccount spec \<longrightarrow> (\<exists>sub. dv_has_subaccount env (vf_Subaccounts v) sub \<and>
       dec_u32 0 (member_val m ''subaccount_number'') = Ok sub))"
proof -
  let ?f = "rp_ownerField spec" and ?p = "vf_Principal v"
  from assms obtain m own m' where
    m: "(case args of None \<Rightarrow> Ok (GoMap []) | Some j \<Rightarrow> wrap_err (\<lambda>e. Errorf ''decode args: %w'' [AW e]) (dec_map j)) = Ok m"
    and own: "arg_or ?f m [] dec_string (\<lambda>e. Errorf ''args %s: %w'' [AS ?f, AW e]) = Ok own"
    and m': "(if own = [] then gm_put ?f (JStr ?p) m else if own = ?p then Ok m else
        Err (Errorf ''credential is for principal %s; cannot read %s'' [AS ?p, AS own])) = Ok m'"
    and sub: "rp_hasSubaccount spec \<longrightarrow> (\<exists>sub. arg_or ''subaccount_number'' m' 0 dec_u32
        (\<lambda>e. Errorf ''args subaccount_number: %w'' [AW e]) = Ok sub \<and> dv_has_subaccount env (vf_Subaccounts v) sub)"
    and new: "newArgs = Some (gm_marshal m')"
    unfolding pinArgsToPrincipal_def go_bind_eq_Ok by (auto simp: go_iff split: if_splits)
  have "m = GoMap (args_map args) \<or> m = NilMap"
    using m by (cases args rule: args_map.cases) (auto simp: go_iff)
  moreover have "m \<noteq> NilMap"
    using own m' by (auto simp: arg_or_ok split: if_splits)
  ultimately have m_eq: "m = GoMap (args_map args)" by simp
  have wf: "jm_wf (args_map args)" by (cases args rule: args_map.cases) simp_all
  have keep: "jm_put ?f (JStr ?p) (args_map args) = args_map args"
    if "map_of (args_map args) ?f = Some (JStr ?p)"
    using jm_put_same [OF wf that] .
  have owner: "map_of (args_map args) ?f \<in> {None, Some JNull, Some (JStr own)}"
    and dflt: "map_of (args_map args) ?f \<in> {None, Some JNull} \<longrightarrow> own = []"
    using own by (auto simp: arg_or_ok m_eq dec_string_ok split: option.splits if_splits)
  have m'_eq: "m' = GoMap (jm_put ?f (JStr ?p) (args_map args))"
    using m' owner dflt keep by (auto simp: m_eq split: if_splits)
  moreover have "jm_wf (jm_put ?f (JStr ?p) (args_map args))" using wf by (rule jm_wf_put)
  moreover have "own = [] \<or> own = ?p" using m' by (auto split: if_splits)
  then have "member_val (args_map args) ?f \<in> {JNull, JStr [], JStr ?p}"
    using owner by (auto simp: member_val_def)
  moreover have "rp_hasSubaccount spec \<longrightarrow> (\<exists>sub. dv_has_subaccount env (vf_Subaccounts v) sub \<and>
       dec_u32 0 (member_val (jm_put ?f (JStr ?p) (args_map args)) ''subaccount_number'') = Ok sub)"
    using sub m'_eq by (auto simp: arg_or_u32)
  ultimately show ?thesis using new by simp
qed

text \<open>
  C7: Arguments that pass the pinning are an object whose owner member is the credential's
  principal, all other members as the caller gave them; the caller named nobody else as owner; and
  for a tool with a subaccount argument, the value of that member (zero when absent or null) is a
  subaccount the credential grants.
\<close>

theorem pinned_args:
  assumes "pinArgsToPrincipal env args spec v = Ok newArgs"
  shows "\<exists>m. newArgs = Some (JObj m) \<and> jm_wf m \<and>
    m = jm_put (rp_ownerField spec) (JStr (vf_Principal v)) (args_map args) \<and>
    member_val (args_map args) (rp_ownerField spec) \<in> {JNull, JStr [], JStr (vf_Principal v)} \<and>
    (rp_hasSubaccount spec \<longrightarrow> (\<exists>sub. dv_has_subaccount env (vf_Subaccounts v) sub \<and>
       dec_u32 0 (member_val m ''subaccount_number'') = Ok sub))"
  using assms by (rule pinned_shape)

text \<open>
  The one way pinning can panic: the arguments are the JSON value null. Unmarshalling null makes
  the map nil and the write of the owner member then panics; every other malformed argument is an
  error value.
\<close>

lemma pin_panics_iff:
  "pinArgsToPrincipal env args spec v = Panics \<longleftrightarrow> args = Some JNull"
proof (cases args)
  case None
  then show ?thesis
    by (auto simp: pinArgsToPrincipal_def go_iff arg_or_def dec_string_no_panic dec_u32_no_panic
        split: if_splits option.splits)
next
  case (Some j)
  have map_cases: "dec_map j = Ok m \<Longrightarrow> (m = NilMap \<longleftrightarrow> j = JNull)" for m by (cases j) auto
  show ?thesis
  proof (cases "j = JNull")
    case True
    then show ?thesis by (simp add: Some pinArgsToPrincipal_def arg_or_def)
  next
    case False
    then show ?thesis using Some map_cases dec_map_no_panic [of j]
      by (auto simp: pinArgsToPrincipal_def go_iff arg_or_def dec_string_no_panic dec_u32_no_panic
          gm_put_no_panic split: if_splits option.splits)
  qed
qed

text \<open>
  C10: The pinned owner is the one the tool's handler reads: as long as the caller's member names are
  ASCII, decoding the owner field of the rewritten arguments can only give the principal, even when
  the caller added other spellings of the field's name, which Go's decoder would also accept.
\<close>

theorem pinned_owner_is_read:
  assumes "pinArgsToPrincipal env args spec v = Ok (Some newArgs)"
    and "ReadSpecFor tool = Some spec"
    and "\<And>k. k \<in> fst ` set (args_map args) \<Longrightarrow> ascii k"
    and "read_string_field (rp_ownerField spec) newArgs = Ok x"
  shows "x = vf_Principal v"
proof -
  let ?f = "rp_ownerField spec" and ?p = "vf_Principal v"
  from pinned_shape [OF assms(1)] have new: "newArgs = JObj (jm_put ?f (JStr ?p) (args_map args))"
    and wf: "jm_wf (jm_put ?f (JStr ?p) (args_map args))"
    by auto
  have "?f = ''address'' \<or> ?f = ''owner''"
    using assms(2) by (auto simp: ReadSpecFor_def readSpecs_def split: if_splits)
  then have "lower_name ?f" by (auto simp: lower_name_def)
  have keys: "ascii k" if "k \<in> fst ` set (jm_put ?f (JStr ?p) (args_map args))" for k
    using that assms(3) lower_name_ascii [OF \<open>lower_name ?f\<close>] unfolding fst_set_jm_put by blast
  show ?thesis
    by (rule read_string_field_pinned [OF wf _ \<open>lower_name ?f\<close> keys])
      (use assms(4) new in \<open>simp_all add: map_of_jm_put\<close>)
qed

subsection \<open>Authorizing a read\<close>

lemma epoch_store_quiet: "keeps quiet (\<lambda>s. (Ok (), s\<lparr>sv_epochCache := (sv_epochCache s)(root \<mapsto> e)\<rparr>))"
  by (simp add: keeps_def quiet_def same_conf_def)

lemma fetch_epoch_quiet: "keeps quiet (fetch_epoch env root)"
  unfolding fetch_epoch_def
  by (intro quiet.keeps_bind keeps_wrap quiet_steps)
    (auto simp: Let_def split: prod.split intro!: quiet.keeps_bind quiet_steps epoch_store_quiet)

lemma root_entry_quiet: "keeps quiet (root_entry env root)"
proof (rule keepsI)
  fix s :: Service
  have "keeps quiet (act_bind (now_at (dv_clock env)) (\<lambda>n.
           if n - ep_fetched e < sv_epochCacheTTL s then act_ret (Ok e) else fetch_epoch env root))" for e
    by (intro quiet.keeps_bind quiet.keeps_if quiet_steps fetch_epoch_quiet)
  then show "quiet s (snd (root_entry env root s))"
    using fetch_epoch_quiet [of env root] by (simp add: root_entry_def keeps_def split: option.split)
qed

lemma checkRootState_quiet: "keeps quiet (checkRootState env v)"
  unfolding checkRootState_def by (intro quiet.keeps_bind quiet_steps root_entry_quiet)

lemma AuthorizeRead_quiet: "keeps quiet (AuthorizeRead env tool proofs args)"
  unfolding AuthorizeRead_def
  by (auto split: option.split prod.split
      intro!: quiet.keeps_bind quiet_steps verifyProof_quiet checkRootState_quiet)

text \<open>Before the root is looked at, verifying a proof leaves what is known of the roots alone.\<close>

definition epochs_kept :: "Service \<Rightarrow> Service \<Rightarrow> bool" where
  "epochs_kept s s' \<longleftrightarrow> sv_epochCache s' = sv_epochCache s \<and> w_tick s \<le> w_tick s'"

interpretation epochs_kept: effect_contract epochs_kept
  by unfold_locales (auto simp: epochs_kept_def)

lemma epochs_kept_steps:
  "keeps epochs_kept (act_ret r)" "keeps epochs_kept (ask q)" "keeps epochs_kept (now_at c)"
  "keeps epochs_kept (\<lambda>s. (Ok (), s\<lparr>sv_cachedParams := p\<rparr>))"
  "keeps epochs_kept (\<lambda>s. (Ok (), s\<lparr>sv_paramsFetched := n\<rparr>))"
  by (simp_all add: keeps_def epochs_kept_def)

lemma walletParams_epochs: "keeps epochs_kept (walletParams env)"
proof (rule keepsI)
  fix s :: Service
  have fetch: "keeps epochs_kept (fetch_params env)"
    unfolding fetch_params_def by (intro epochs_kept.keeps_bind keeps_wrap epochs_kept_steps)
  have "keeps epochs_kept (act_bind (now_at (dv_clock env)) (\<lambda>n.
           if n - sv_paramsFetched s < sv_paramsCacheTTL s then act_ret (Ok p) else fetch_params env))" for p
    by (intro epochs_kept.keeps_bind epochs_kept.keeps_if epochs_kept_steps fetch)
  then show "epochs_kept s (snd (walletParams env s))"
    using fetch by (simp add: walletParams_def keeps_def split: option.split)
qed

lemma verifyProof_epochs: "keeps epochs_kept (verifyProof env proofs)"
  unfolding verifyProof_def
proof (intro epochs_kept.keeps_if epochs_kept.keeps_bind keeps_wrap epochs_kept_steps walletParams_epochs)
  fix tokens :: "bytes list" and params :: WalletParams and n :: int
  have "keeps epochs_kept (act_wrap w (ask q))" for w and q :: "nat \<Rightarrow> Verified go"
    by (intro keeps_wrap epochs_kept_steps)
  then show "keeps epochs_kept (\<lambda>s. act_wrap (\<lambda>e. Errorf ''credential chain rejected: %w'' [AW e])
          (ask (\<lambda>t. dv_verify_chain env tokens (PublicKeys (resolver_For (dv_agent env) (dv_auth env) t))
                      (verify_opts s n params))) s)"
    by (simp add: keeps_def)
qed

text \<open>
  What the service knows of a credential's root during a call from \<open>s\<close> to \<open>s'\<close>: the root is at the
  credential's epoch and not paused by an entry the cache held at the start and that a clock reading
  of the call found fresh, or by an answer the chain gave during the call.
\<close>

definition root_live :: "dg_env \<Rightarrow> Verified \<Rightarrow> Service \<Rightarrow> Service \<Rightarrow> bool" where
  "root_live env v s s' \<longleftrightarrow>
     (\<exists>entry n. sv_epochCache s (vf_Root v) = Some entry \<and> ep_epoch entry = vf_RootEpoch v \<and> \<not> ep_paused entry \<and>
        w_tick s \<le> n \<and> n < w_tick s' \<and> dv_clock env n - ep_fetched entry < sv_epochCacheTTL s) \<or>
     (\<exists>k. w_tick s \<le> k \<and> k < w_tick s' \<and> dv_epoch env k (vf_Root v) = Ok (vf_RootEpoch v, False))"

lemma fetch_epoch_eval:
  "fetch_epoch env root s = (let t = w_tick s; s1 = s\<lparr>w_tick := Suc t\<rparr> in
     case dv_epoch env t root of
       Ok (ep, paused) \<Rightarrow>
         (let entry = \<lparr>ep_epoch = ep, ep_paused = paused, ep_fetched = dv_clock env (Suc t)\<rparr>
          in (Ok entry, s\<lparr>w_tick := Suc (Suc t), sv_epochCache := (sv_epochCache s)(root \<mapsto> entry)\<rparr>))
     | Err e \<Rightarrow> (Err (Errorf ''root delegation state unavailable (revoked or unknown root?): %w'' [AW e]), s1)
     | Panics \<Rightarrow> (Panics, s1))"
  by (auto simp: fetch_epoch_def act_wrap_def act_bind_def Let_def split: go.split prod.split)

lemma root_entry_cases:
  assumes "root_entry env root s = (Ok entry, s')"
  shows "sv_epochCache s root = Some entry \<and> dv_clock env (w_tick s) - ep_fetched entry < sv_epochCacheTTL s \<and>
      w_tick s' = Suc (w_tick s) \<or>
    (\<exists>k. w_tick s \<le> k \<and> k < w_tick s' \<and> dv_epoch env k root = Ok (ep_epoch entry, ep_paused entry))"
proof (cases "sv_epochCache s root")
  case None
  with assms show ?thesis
    by (cases "dv_epoch env (w_tick s) root") (auto simp: root_entry_def fetch_epoch_eval Let_def)
next
  case (Some e)
  with assms show ?thesis
    by (cases "dv_epoch env (Suc (w_tick s)) root")
      (auto simp: root_entry_def fetch_epoch_eval act_bind_def Let_def split: if_splits)
qed

lemma checkRootState_live:
  assumes "epochs_kept s s1" and "sv_epochCacheTTL s1 = sv_epochCacheTTL s" and "checkRootState env v s1 = (Ok (), s')"
  shows "root_live env v s s'"
proof -
  from assms(3) obtain entry where entry: "root_entry env (vf_Root v) s1 = (Ok entry, s')"
    and ok: "\<not> ep_paused entry" "ep_epoch entry = vf_RootEpoch v"
    by (auto simp: checkRootState_def go_iff root_verdict_def split: if_splits)
  have le: "w_tick s \<le> w_tick s1" and cache: "sv_epochCache s1 = sv_epochCache s"
    using assms(1) by (simp_all add: epochs_kept_def)
  from root_entry_cases [OF entry] show ?thesis
  proof (elim disjE exE conjE)
    assume "sv_epochCache s1 (vf_Root v) = Some entry" "w_tick s' = Suc (w_tick s1)"
      "dv_clock env (w_tick s1) - ep_fetched entry < sv_epochCacheTTL s1"
    then show ?thesis using ok le unfolding root_live_def cache assms(2) by (metis lessI)
  next
    fix k assume "w_tick s1 \<le> k" "k < w_tick s'" "dv_epoch env k (vf_Root v) = Ok (ep_epoch entry, ep_paused entry)"
    then have "w_tick s \<le> k \<and> k < w_tick s' \<and> dv_epoch env k (vf_Root v) = Ok (vf_RootEpoch v, False)"
      using ok le by simp
    then show ?thesis unfolding root_live_def by blast
  qed
qed

lemma AuthorizeRead_facts:
  assumes "AuthorizeRead env tool proofs args s = (r, s')"
  shows "new_events s s' = [] \<and>
    (\<forall>v newArgs. r = Ok (v, newArgs) \<longrightarrow>
      (\<exists>spec tokens. ReadSpecFor tool = Some spec \<and> verified_chain env s proofs tokens v \<and>
         dv_has_action env (vf_Actions v) ''query.account'' \<and> root_live env v s s' \<and>
         pinArgsToPrincipal env args spec v = Ok newArgs))"
proof
  have "quiet s s'" by (rule keepsD [OF AuthorizeRead_quiet assms])
  then show "new_events s s' = []" by (simp add: quietD new_events_def)
  show "\<forall>v newArgs. r = Ok (v, newArgs) \<longrightarrow>
      (\<exists>spec tokens. ReadSpecFor tool = Some spec \<and> verified_chain env s proofs tokens v \<and>
         dv_has_action env (vf_Actions v) ''query.account'' \<and> root_live env v s s' \<and>
         pinArgsToPrincipal env args spec v = Ok newArgs)"
  proof (intro allI impI)
    fix v newArgs assume "r = Ok (v, newArgs)"
    with assms have run: "AuthorizeRead env tool proofs args s = (Ok (v, newArgs), s')" by simp
    then obtain spec where spec: "ReadSpecFor tool = Some spec"
      by (auto simp: AuthorizeRead_def split: option.splits)
    with run obtain tokens s1 where vp: "verifyProof env proofs s = (Ok (tokens, v), s1)"
      and act: "dv_has_action env (vf_Actions v) ActionQueryAccount"
      and root: "checkRootState env v s1 = (Ok (), s')"
      and pin: "pinArgsToPrincipal env args spec v = Ok newArgs"
      by (auto simp: AuthorizeRead_def go_iff split: if_splits prod.splits)
    have "sv_epochCacheTTL s1 = sv_epochCacheTTL s"
      using verifyProof_ok(2) [OF vp] by (simp add: quiet_def same_conf_def)
    with root have "root_live env v s s'"
      using keepsD [OF verifyProof_epochs vp] by (intro checkRootState_live)
    with verifyProof_ok(1) [OF vp] spec act pin show "\<exists>spec tokens.
         ReadSpecFor tool = Some spec \<and> verified_chain env s proofs tokens v \<and>
         dv_has_action env (vf_Actions v) ''query.account'' \<and> root_live env v s s' \<and>
         pinArgsToPrincipal env args spec v = Ok newArgs"
      by (auto simp: ActionQueryAccount_def)
  qed
qed

text \<open>
  C8: A read is authorized only for one of the nine listed tools, under a proof that verified for
  this chain and this agent and grants \<open>query.account\<close>, and only when its root delegation was found
  neither paused nor at another epoch than the credential's: by the entry the cache held when the
  call began, still within its time to live at a clock reading of the call, or by the chain's own
  answer during the call. The arguments handed on are the pinned ones. However it ends, it sends
  nothing and reads no account.
\<close>

theorem AuthorizeRead_grants:
  assumes "AuthorizeRead env tool proofs args s = (r, s')"
  shows "new_events s s' = [] \<and>
    (\<forall>v newArgs. r = Ok (v, newArgs) \<longrightarrow>
      (\<exists>spec tokens. ReadSpecFor tool = Some spec \<and> verified_chain env s proofs tokens v \<and>
         dv_has_action env (vf_Actions v) ''query.account'' \<and> root_live env v s s' \<and>
         pinArgsToPrincipal env args spec v = Ok newArgs))"
  using assms by (rule AuthorizeRead_facts)

subsection \<open>Member names that only fold to a field's name\<close>

text \<open>
  The package matches member names to fields up to letter case and its two Unicode folds (the long s
  and the Kelvin sign), while the pinning looks members up exactly. \<open>long_s_address\<close> is the name
  \<open>address\<close> with the first s of its end written as a long s.
\<close>

definition long_s_address :: string where
  "long_s_address = ''addre'' @ [CHR 0xC5, CHR 0xBF] @ ''s''"

definition respelled_args :: "string \<Rightarrow> string \<Rightarrow> raw" where
  "respelled_args other n = Some (JObj [(''Subaccount_Number'', JNum n), (long_s_address, JStr other)])"

lemma respelled_names:
  "fold_key long_s_address = fold_key ''address''"
  "fold_key ''Subaccount_Number'' = fold_key ''subaccount_number''"
  "fold_key ''address'' \<noteq> fold_key ''subaccount_number''"
  "fold_key ''subaccount_number'' \<noteq> fold_key ''address''"
  "long_s_address \<noteq> ''address''" "long_s_address \<noteq> ''subaccount_number''"
  by code_simp+

lemma respelled_pinned:
  "JObj (jm_put ''address'' p (args_map (respelled_args other n))) =
     JObj [(''Subaccount_Number'', JNum n), (''address'', p), (long_s_address, JStr other)]"
  by (simp add: respelled_args_def long_s_address_def jm_of_def)

lemma respelled_map:
  "jm_of [(''Subaccount_Number'', JNum n), (long_s_address, JStr other)] =
     [(''Subaccount_Number'', JNum n), (long_s_address, JStr other)]"
  by (simp add: jm_of_def long_s_address_def)

lemma respelled_find:
  "find_field [(''subaccount_number'', f)] ''Subaccount_Number'' = Some f"
  "find_field [(''subaccount_number'', f)] ''address'' = None"
  "find_field [(''subaccount_number'', f)] long_s_address = None"
  "find_field [(''address'', g)] ''Subaccount_Number'' = None"
  "find_field [(''address'', g)] ''address'' = Some g"
  "find_field [(''address'', g)] long_s_address = Some g"
  unfolding find_field_single using respelled_names by (simp_all del: fold_key.simps)

lemma go_bind_Ok_id: "go_bind r Ok = r"
  by (cases r) auto

lemma respelled_owner:
  "read_string_field ''address'' (JObj [(''Subaccount_Number'', JNum n), (''address'', JStr p), (long_s_address, JStr other)])
     = Ok other"
  by (simp add: read_string_field_def respelled_find)

lemma respelled_subaccount:
  "read_u32_field ''subaccount_number'' (JObj [(''Subaccount_Number'', JNum n), (''address'', JStr p), (long_s_address, JStr other)])
     = dec_u32 0 (JNum n)"
  by (cases "dec_u32 0 (JNum n)") (simp_all add: read_u32_field_def respelled_find)

text \<open>
  C11: The pinning can be sidestepped by respelling members: a credential granting subaccount 0 lets
  pass, for each of the seven reads named by address, arguments whose owner field, as the handlers'
  decoder reads the rewritten object, is any other address and whose subaccount is any number the
  caller wrote. The source leaves such a read to the handler's own checks against the tenant.
\<close>

theorem pin_sidestepped:
  assumes "ReadSpecFor tool = Some spec" and "rp_ownerField spec = ''address''"
    and "dv_has_subaccount env (vf_Subaccounts v) 0"
  shows "\<exists>newArgs. pinArgsToPrincipal env (respelled_args other n) spec v = Ok (Some newArgs) \<and>
    read_string_field (rp_ownerField spec) newArgs = Ok other \<and>
    read_u32_field ''subaccount_number'' newArgs = dec_u32 0 (JNum n)"
proof -
  have spec: "rp_ownerField spec = ''address''"
    using assms(2) .
  have sub: "rp_hasSubaccount spec"
    using assms(1,2) by (auto simp: ReadSpecFor_def readSpecs_def split: if_splits)
  have "pinArgsToPrincipal env (respelled_args other n) spec v =
      Ok (Some (JObj (jm_put ''address'' (JStr (vf_Principal v)) (args_map (respelled_args other n)))))"
    using sub assms(3) respelled_names(5,6)
    by (simp add: pinArgsToPrincipal_def spec arg_or_def respelled_args_def respelled_map map_of_jm_put)
  then show ?thesis
    by (simp add: spec respelled_pinned respelled_owner respelled_subaccount)
qed

end
