(* ===== verification/Read_Tenants.thy ===== *)
theory Read_Tenants
  imports Delegated_Exec "HOL-Library.AList"
begin

section \<open>Tenants for delegated reads\<close>

text \<open>
  \<open>internal/delegated/read_tenants.go\<close>: the bounded table of synthetic tenants, one per credential,
  each living until its leaf token expires. The map is an association list with distinct keys; its
  iteration order, which Go leaves open, is only used to drop expired entries. Every call of the
  clock is a step of its own.
\<close>

record readTenant =
  rt_policy :: TenantPolicy
  rt_expires :: int

record ReadTenantSource =
  rt_byID :: "(string \<times> readTenant) list"
  rt_tick :: nat

definition maxReadTenants :: nat where "maxReadTenants = 4096"

definition NewReadTenantSource :: ReadTenantSource where
  "NewReadTenantSource = \<lparr>rt_byID = [], rt_tick = 0\<rparr>"

definition sweepLocked :: "(nat \<Rightarrow> int) \<Rightarrow> ReadTenantSource \<Rightarrow> ReadTenantSource" where
  "sweepLocked clock s =
     s\<lparr>rt_byID := filter (\<lambda>(i, t). \<not> clock (rt_tick s) \<ge> rt_expires t) (rt_byID s),
       rt_tick := Suc (rt_tick s)\<rparr>"

text \<open>The id of a credential's tenant: eight bytes of its chain hash, in hex, after a prefix.\<close>

definition read_tenant_id :: "Verified \<Rightarrow> string" where
  "read_tenant_id v = ''svpdt-'' @ hex_encode (take 8 (vf_ChainHash v))"

definition read_policy :: "Verified \<Rightarrow> TenantPolicy" where
  "read_policy v = \<lparr>tp_TenantID = read_tenant_id v, tp_Owner = vf_Principal v,
     tp_AllowedSubaccounts = set (vf_Subaccounts v), tp_KillSwitch = False\<rparr>"

definition Admit :: "(nat \<Rightarrow> int) \<Rightarrow> Verified \<Rightarrow> ReadTenantSource \<Rightarrow> TenantContext \<times> ReadTenantSource" where
  "Admit clock v s =
     (let i = read_tenant_id v; tc = \<lparr>tc_TenantID = i, tc_Owner = vf_Principal v\<rparr>; s = sweepLocked clock s
      in if map_of (rt_byID s) i = None \<and> length (rt_byID s) \<ge> maxReadTenants then (tc, s)
         else (tc, s\<lparr>rt_byID := AList.update i \<lparr>rt_policy = read_policy v, rt_expires = vf_LeafExp v\<rparr> (rt_byID s)\<rparr>))"

definition LookupTenantPolicy ::
  "(nat \<Rightarrow> int) \<Rightarrow> string \<Rightarrow> ReadTenantSource \<Rightarrow> TenantPolicy option \<times> ReadTenantSource" where
  "LookupTenantPolicy clock tenantID s =
     (case map_of (rt_byID s) tenantID of
        None \<Rightarrow> (None, s)
      | Some t \<Rightarrow> (if clock (rt_tick s) \<ge> rt_expires t then None else Some (rt_policy t),
                   s\<lparr>rt_tick := Suc (rt_tick s)\<rparr>))"

subsection \<open>The table as a map\<close>

definition distinct_keys :: "('k \<times> 'v) list \<Rightarrow> bool" where
  "distinct_keys m \<longleftrightarrow> distinct (map fst m)"

interpretation tenants: dict "[]" map_of AList.update distinct_keys
  by unfold_locales (auto simp: distinct_keys_def update_conv' distinct_update)

lemma map_of_filter_distinct:
  "distinct_keys m \<Longrightarrow> map_of (filter (\<lambda>(i, t). P t) m) i =
     (case map_of m i of None \<Rightarrow> None | Some t \<Rightarrow> if P t then Some t else None)"
proof (induction m)
  case (Cons x m)
  have "map_of (filter (\<lambda>(i, t). P t) m) (fst x) = None" if "distinct_keys (x # m)"
    using that by (auto simp: map_of_eq_None_iff distinct_keys_def)
  with Cons show ?case by (cases x) (auto simp: distinct_keys_def)
qed simp

lemma distinct_filter: "distinct_keys m \<Longrightarrow> distinct_keys (filter P m)"
  by (auto simp: distinct_keys_def distinct_map intro: inj_on_subset)

lemma length_update:
  "length (AList.update i t m) = (if map_of m i = None then Suc (length m) else length m)"
  by (induction m) auto

text \<open>What \<open>Admit\<close> makes of the table.\<close>

definition has_room :: "(nat \<Rightarrow> int) \<Rightarrow> string \<Rightarrow> ReadTenantSource \<Rightarrow> bool" where
  "has_room clock i s \<longleftrightarrow>
     map_of (rt_byID (sweepLocked clock s)) i \<noteq> None \<or> length (rt_byID (sweepLocked clock s)) < maxReadTenants"

lemma Admit_table:
  "rt_byID (snd (Admit clock v s)) =
     (if has_room clock (read_tenant_id v) s
      then AList.update (read_tenant_id v) \<lparr>rt_policy = read_policy v, rt_expires = vf_LeafExp v\<rparr>
             (rt_byID (sweepLocked clock s))
      else rt_byID (sweepLocked clock s))"
  "rt_tick (snd (Admit clock v s)) = Suc (rt_tick s)"
  by (auto simp: Admit_def Let_def has_room_def sweepLocked_def not_less)

lemma Lookup_table:
  "rt_byID (snd (LookupTenantPolicy clock i s)) = rt_byID s"
  "rt_tick s \<le> rt_tick (snd (LookupTenantPolicy clock i s))"
  by (auto simp: LookupTenantPolicy_def split: option.split)

subsection \<open>Runs\<close>

text \<open>A run of the source: admissions and lookups in any order, as the lock serializes them.\<close>

datatype tenant_op = OpAdmit Verified | OpLookup string

fun tenant_step :: "(nat \<Rightarrow> int) \<Rightarrow> tenant_op \<Rightarrow> ReadTenantSource \<Rightarrow> ReadTenantSource" where
  "tenant_step clock (OpAdmit v) s = snd (Admit clock v s)"
| "tenant_step clock (OpLookup i) s = snd (LookupTenantPolicy clock i s)"

definition tenant_run :: "(nat \<Rightarrow> int) \<Rightarrow> tenant_op list \<Rightarrow> ReadTenantSource \<Rightarrow> ReadTenantSource" where
  "tenant_run clock ops s = fold (tenant_step clock) ops s"

definition table_ok :: "ReadTenantSource \<Rightarrow> bool" where
  "table_ok s \<longleftrightarrow> distinct_keys (rt_byID s) \<and> length (rt_byID s) \<le> maxReadTenants"

lemma sweep_ok: "table_ok s \<Longrightarrow> table_ok (sweepLocked clock s)"
  by (auto simp: table_ok_def sweepLocked_def distinct_filter intro: order_trans [OF length_filter_le])

lemma step_ok: "table_ok s \<Longrightarrow> table_ok (tenant_step clock op s)"
proof (cases op)
  case (OpAdmit v)
  assume "table_ok s"
  then have "table_ok (sweepLocked clock s)" by (rule sweep_ok)
  then show ?thesis
    by (auto simp: OpAdmit table_ok_def Admit_table has_room_def tenants.wf_put length_update)
qed (simp add: table_ok_def Lookup_table)

text \<open>Where an entry comes from.\<close>

lemma step_entry:
  assumes "table_ok s" and "map_of (rt_byID (tenant_step clock op s)) i = Some t"
  shows "map_of (rt_byID s) i = Some t \<or>
    (\<exists>v. op = OpAdmit v \<and> i = read_tenant_id v \<and> t = \<lparr>rt_policy = read_policy v, rt_expires = vf_LeafExp v\<rparr>)"
proof (cases op)
  case (OpAdmit v)
  have "distinct_keys (rt_byID s)" using assms(1) by (simp add: table_ok_def)
  then have "map_of (rt_byID (sweepLocked clock s)) i = Some t \<Longrightarrow> map_of (rt_byID s) i = Some t"
    by (auto simp: sweepLocked_def map_of_filter_distinct split: option.splits if_splits)
  with assms(2) OpAdmit show ?thesis
    by (auto simp: Admit_table update_conv' split: if_splits)
qed (use assms in \<open>simp add: Lookup_table\<close>)

lemma tenant_run_append:
  "tenant_run clock (ops @ [op]) s = tenant_step clock op (tenant_run clock ops s)"
  by (simp add: tenant_run_def)

lemma run_ok: "table_ok s \<Longrightarrow> table_ok (tenant_run clock ops s)"
  by (induction ops arbitrary: s) (simp_all add: tenant_run_def step_ok)

lemma run_entry:
  assumes "map_of (rt_byID (tenant_run clock ops NewReadTenantSource)) i = Some t"
  shows "\<exists>v. OpAdmit v \<in> set ops \<and> i = read_tenant_id v \<and>
    t = \<lparr>rt_policy = read_policy v, rt_expires = vf_LeafExp v\<rparr>"
  using assms
proof (induction ops rule: rev_induct)
  case Nil
  then show ?case by (simp add: tenant_run_def NewReadTenantSource_def)
next
  case (snoc op ops)
  have "table_ok (tenant_run clock ops NewReadTenantSource)"
    by (rule run_ok) (simp add: table_ok_def NewReadTenantSource_def distinct_keys_def)
  from step_entry [OF this snoc.prems [unfolded tenant_run_append]] snoc.IH show ?case by auto
qed

text \<open>
  C12: Over any run of admissions and lookups the table stays a map of at most 4096 tenants, and a
  lookup answers only for a credential that was admitted and has not expired at that moment: the
  policy it returns names that credential's principal and exactly its subaccounts.
\<close>

theorem tenant_table_sound:
  "table_ok (tenant_run clock ops NewReadTenantSource) \<and>
   (\<forall>i policy. fst (LookupTenantPolicy clock i (tenant_run clock ops NewReadTenantSource)) = Some policy \<longrightarrow>
      (\<exists>v. OpAdmit v \<in> set ops \<and> i = read_tenant_id v \<and>
         clock (rt_tick (tenant_run clock ops NewReadTenantSource)) < vf_LeafExp v \<and>
         policy = \<lparr>tp_TenantID = i, tp_Owner = vf_Principal v, tp_AllowedSubaccounts = set (vf_Subaccounts v), tp_KillSwitch = False\<rparr>))"
proof
  show "table_ok (tenant_run clock ops NewReadTenantSource)"
    by (rule run_ok) (simp add: table_ok_def NewReadTenantSource_def distinct_keys_def)
  show "\<forall>i policy. fst (LookupTenantPolicy clock i (tenant_run clock ops NewReadTenantSource)) = Some policy \<longrightarrow>
      (\<exists>v. OpAdmit v \<in> set ops \<and> i = read_tenant_id v \<and>
         clock (rt_tick (tenant_run clock ops NewReadTenantSource)) < vf_LeafExp v \<and>
         policy = \<lparr>tp_TenantID = i, tp_Owner = vf_Principal v, tp_AllowedSubaccounts = set (vf_Subaccounts v), tp_KillSwitch = False\<rparr>)"
    by (auto simp: LookupTenantPolicy_def read_policy_def split: option.splits if_splits dest!: run_entry)
qed

text \<open>
  C21: An admission is not lost before its time. Take a clock that never goes back and a credential
  that found room, that is, it had an entry already or fewer than 4096 unexpired ones were left.
  Then whatever lookups and admissions follow, of other credentials and of this one again, every
  lookup serves its policy until its leaf expires, and from then on refuses. The one proviso is that
  the eight bytes of the id tell credentials apart: an admission under the same id is of a
  credential with the same policy and end.
\<close>

theorem admitted_until_expiry:
  assumes "table_ok s" and "has_room clock (read_tenant_id v) s" and "mono clock"
    and "\<And>u. OpAdmit u \<in> set ops \<Longrightarrow> read_tenant_id u = read_tenant_id v \<Longrightarrow>
      read_policy u = read_policy v \<and> vf_LeafExp u = vf_LeafExp v"
  shows "fst (LookupTenantPolicy clock (read_tenant_id v) (tenant_run clock (OpAdmit v # ops) s)) =
    (if clock (rt_tick (tenant_run clock (OpAdmit v # ops) s)) < vf_LeafExp v then Some (read_policy v) else None)"
proof -
  let ?i = "read_tenant_id v" and ?t = "\<lparr>rt_policy = read_policy v, rt_expires = vf_LeafExp v\<rparr>"
  define held where "held s' \<longleftrightarrow> table_ok s' \<and>
    (map_of (rt_byID s') ?i = Some ?t \<or> map_of (rt_byID s') ?i = None \<and> vf_LeafExp v \<le> clock (rt_tick s'))" for s'
  have later: "clock m \<le> clock n" if "m \<le> n" for m n using assms(3) that by (auto dest: monoD)
  have sweep: "held (sweepLocked clock s')" if "held s'" for s'
  proof -
    have "distinct_keys (rt_byID s')" using that by (simp add: held_def table_ok_def)
    from map_of_filter_distinct [OF this] show ?thesis
      using that sweep_ok [of s' clock] later [of "rt_tick s'" "Suc (rt_tick s')"]
      by (auto simp: held_def sweepLocked_def split: if_splits)
  qed
  have step: "held (tenant_step clock op s')"
    if "held s'" and "\<And>u. op = OpAdmit u \<Longrightarrow> read_tenant_id u = ?i \<Longrightarrow> read_policy u = read_policy v \<and> vf_LeafExp u = vf_LeafExp v"
    for op s'
  proof (cases op)
    case (OpAdmit u)
    have "table_ok (tenant_step clock op s')" using that(1) by (intro step_ok) (simp add: held_def)
    then show ?thesis using sweep [OF that(1)] that(2) [OF OpAdmit]
      by (auto simp: held_def OpAdmit Admit_table update_conv' sweepLocked_def)
  next
    case (OpLookup i)
    have "clock (rt_tick s') \<le> clock (rt_tick (tenant_step clock op s'))"
      by (auto simp: OpLookup intro!: later Lookup_table(2))
    with that(1) step_ok [of s' clock op] show ?thesis
      by (auto simp: held_def OpLookup Lookup_table(1))
  qed
  have "held (tenant_step clock (OpAdmit v) s)"
    using assms(1,2) step_ok [OF assms(1), of clock "OpAdmit v"] by (simp add: held_def Admit_table update_conv')
  then have "held (tenant_run clock ops (tenant_step clock (OpAdmit v) s))"
    using assms(4) by (induction ops arbitrary: s rule: rev_induct) (auto simp: tenant_run_append intro: step, simp add: tenant_run_def)
  then have "held (tenant_run clock (OpAdmit v # ops) s)" by (simp add: tenant_run_def)
  then show ?thesis
    by (auto simp: held_def LookupTenantPolicy_def split: option.splits)
qed

end
