(* ===== verification/Agent_Chain_Safety.thy ===== *)
theory Agent_Chain_Safety
  imports Agent_Chain
begin

section \<open>What the agent-chain operations build and send\<close>

text \<open>
  The ten build operations as one request type with its dispatch, the signer and the subject of
  every message they build, the exactness of root ids, and the pinning of a landed transaction's
  signer to the tenant's owner.
\<close>

subsection \<open>Root ids\<close>

definition to_lower_ascii :: "char \<Rightarrow> char" where
  "to_lower_ascii c =
     (let n = of_char c :: nat in if 65 \<le> n \<and> n \<le> 90 then char_of (n + 32) else c)"

lemma of_char_lower:
  "(of_char (to_lower_ascii c) :: nat) =
     (if 65 \<le> (of_char c :: nat) \<and> (of_char c :: nat) \<le> 90 then of_char c + 32 else of_char c)"
  by (simp add: to_lower_ascii_def Let_def)

lemma of_char_hex_digit:
  "k < 16 \<Longrightarrow> (of_char (hex_digits ! k) :: nat) = (if k < 10 then 48 + k else 87 + k)"
  using less_16 [of k] by (auto simp: hex_digits_def)

lemma char_eq_iff: "c = d \<longleftrightarrow> (of_char c :: nat) = of_char d"
  by simp

lemma unhex_Some_iff:
  "unhex c = Some k \<longleftrightarrow> k < 16 \<and> to_lower_ascii c = hex_digits ! k"
proof (cases "k < 16")
  case True
  then show ?thesis
    unfolding char_eq_iff [of "to_lower_ascii c"]
    by (auto simp: unhex.simps Let_def of_char_lower of_char_hex_digit)
next
  case False
  then show ?thesis by (auto simp: unhex.simps Let_def)
qed

lemma hex_pair_iff:
  "(\<exists>h l. unhex a = Some h \<and> unhex c = Some l \<and> x = char_of (16 * h + l)) \<longleftrightarrow>
     to_lower_ascii a = hex_digits ! (of_char x div 16) \<and> to_lower_ascii c = hex_digits ! (of_char x mod 16)"
  (is "?L \<longleftrightarrow> ?R")
proof
  assume ?L
  then show ?R by (auto simp: unhex_Some_iff)
next
  assume ?R
  then have "unhex a = Some (of_char x div 16) \<and> unhex c = Some (of_char x mod 16) \<and>
      x = char_of (16 * (of_char x div 16) + of_char x mod 16)"
    by (simp add: unhex_Some_iff byte_digits)
  then show ?L by blast
qed

lemma hex_decode_step:
  "hex_decode (a # c # cs) = Ok (x # xs) \<longleftrightarrow>
     (\<exists>h l. unhex a = Some h \<and> unhex c = Some l \<and> x = char_of (16 * h + l)) \<and> hex_decode cs = Ok xs"
  by (auto simp: go_iff split: option.splits)

lemma hex_decode_iff: "hex_decode s = Ok b \<longleftrightarrow> map to_lower_ascii s = hex_encode b"
proof (induction b arbitrary: s)
  case Nil
  show ?case
    by (cases s rule: hex_decode.cases) (auto simp: go_iff split: option.splits)
next
  case (Cons x xs)
  show ?case
  proof (cases s rule: hex_decode.cases)
    case (3 a c cs)
    show ?thesis unfolding 3 hex_decode_step hex_pair_iff Cons.IH by auto
  qed auto
qed

text \<open>
  \<open>rootIDFromHex\<close> accepts exactly the hexadecimal spellings, in either case, of byte strings of
  the root id length, and returns the byte string spelt.
\<close>

theorem rootIDFromHex_exact:
  "rootIDFromHex env s = Ok b \<longleftrightarrow> length b = ac_RootIDLen env \<and> map to_lower_ascii s = hex_encode b"
  by (auto simp: rootIDFromHex_def go_iff hex_decode_iff)

subsection \<open>The build operations\<close>

datatype build_request =
    RegisterAgent BuildRegisterAgentInput
  | UpdateAgent BuildUpdateAgentInput
  | DepositBond BuildBondInput
  | WithdrawBond BuildBondInput
  | DeregisterAgent BuildDeregisterAgentInput
  | CreateDelegation BuildCreateDelegationInput
  | UpdateDelegation BuildUpdateDelegationInput
  | PauseDelegation BuildDelegationRefInput
  | ResumeDelegation BuildDelegationRefInput
  | RevokeDelegation BuildDelegationRefInput
  | RevokeToken BuildRevokeTokenInput

fun build :: "ac_env \<Rightarrow> ToolCtx \<Rightarrow> build_request \<Rightarrow> ('s world_scheme, PayloadOutput) act" where
  "build env ctx (RegisterAgent i) = BuildRegisterAgent env ctx i"
| "build env ctx (UpdateAgent i) = BuildUpdateAgent env ctx i"
| "build env ctx (DepositBond i) = BuildDepositBond env ctx i"
| "build env ctx (WithdrawBond i) = BuildWithdrawBond env ctx i"
| "build env ctx (DeregisterAgent i) = BuildDeregisterAgent env ctx i"
| "build env ctx (CreateDelegation i) = BuildCreateDelegation env ctx i"
| "build env ctx (UpdateDelegation i) = BuildUpdateDelegation env ctx i"
| "build env ctx (PauseDelegation i) = BuildPauseDelegation env ctx i"
| "build env ctx (ResumeDelegation i) = BuildResumeDelegation env ctx i"
| "build env ctx (RevokeDelegation i) = BuildRevokeDelegation env ctx i"
| "build env ctx (RevokeToken i) = BuildRevokeToken env ctx i"

text \<open>Who a message makes responsible: the address whose signature the chain demands.\<close>

fun msg_signer :: "sdk_msg \<Rightarrow> string" where
  "msg_signer (MsgRegisterAgent r) = ra_Owner r"
| "msg_signer (MsgUpdateAgent u) = ua_Owner u"
| "msg_signer (MsgDepositBond d a c) = d"
| "msg_signer (MsgWithdrawBond d a c) = d"
| "msg_signer (MsgDeregisterAgent d a) = d"
| "msg_signer (MsgCreateDelegation d a l e) = d"
| "msg_signer (MsgUpdateDelegation d r l e) = d"
| "msg_signer (MsgPauseDelegation d r) = d"
| "msg_signer (MsgResumeDelegation d r) = d"
| "msg_signer (MsgRevokeDelegation d r) = d"
| "msg_signer (MsgRevokeToken d r t) = d"
| "msg_signer (MsgAgentExecDelegated x a t i) = x"
| "msg_signer (OtherMsg u b) = []"

text \<open>
  Amounts, grants and ids as the chain will read them against what the caller wrote: every coin the
  integer of its text under a denomination, nothing added, dropped or reordered.
\<close>

definition same_coin :: "ac_env \<Rightarrow> coin \<Rightarrow> sdk_coin \<Rightarrow> bool" where
  "same_coin env c k \<longleftrightarrow> co_Denom k = cn_Denom c \<and> co_Denom k \<noteq> [] \<and>
     ac_new_int env (cn_Amount c) = Some (co_Amount k)"

definition same_limits :: "ac_env \<Rightarrow> Limits \<Rightarrow> pb_Limits \<Rightarrow> bool" where
  "same_limits env l p \<longleftrightarrow>
     list_all2 (same_coin env) (lm_SpendLimitTotal l) (pl_SpendLimitTotal p) \<and>
     list_all2 (same_coin env) (lm_SpendLimitDaily l) (pl_SpendLimitDaily p) \<and>
     list_all2 (same_coin env) (lm_SvcSpendLimitTotal l) (pl_SvcSpendLimitTotal p) \<and>
     list_all2 (same_coin env) (lm_SvcSpendLimitDaily l) (pl_SvcSpendLimitDaily p) \<and>
     pl_Denoms p = lm_Denoms l \<and> pl_Actions p = lm_Actions l \<and> pl_Skills p = lm_Skills l \<and>
     pl_Contracts p = lm_Contracts l \<and> pl_Subaccounts p = lm_Subaccounts l \<and>
     pl_MaxDepth p = lm_MaxDepth l \<and> pl_MaxTokenTtlSeconds p = lm_MaxTokenTTLSeconds l"

definition same_root :: "ac_env \<Rightarrow> string \<Rightarrow> bytes \<Rightarrow> bool" where
  "same_root env s b \<longleftrightarrow> length b = ac_RootIDLen env \<and> map to_lower_ascii s = hex_encode b"

definition same_pricing :: "ac_env \<Rightarrow> Pricing option \<Rightarrow> pb_Pricing option \<Rightarrow> bool" where
  "same_pricing env p q \<longleftrightarrow>
     rel_option (\<lambda>p q. list_all2 (same_coin env) (pr_PerCall p) (pp_PerCall q) \<and> pp_Unit q = pr_Unit p) p q"

text \<open>The message a request asks for, whoever it is built for.\<close>

fun asks_for :: "ac_env \<Rightarrow> build_request \<Rightarrow> sdk_msg \<Rightarrow> bool" where
  "asks_for env (RegisterAgent i) msg \<longleftrightarrow> (\<exists>r. msg = MsgRegisterAgent r \<and>
     (\<exists>a. ac_acc_address env (br_Operator i) = Ok a \<and> ra_AgentId r = ac_agent_id env a) \<and>
     ra_Operator r = br_Operator i \<and> b64_decode b64_std (br_PublicKeyB64 i) = Ok (ra_PublicKey r) \<and>
     ra_Endpoint r = br_Endpoint i \<and> map to_lower_ascii (br_CapabilityHash i) = hex_encode (ra_CapabilityHash r) \<and>
     ra_Capabilities r = br_Capabilities i \<and> same_pricing env (br_Pricing i) (ra_Pricing r) \<and>
     same_coin env (br_InitialBond i) (ra_InitialBond r) \<and> ra_Metadata r = br_Metadata i)"
| "asks_for env (UpdateAgent i) msg \<longleftrightarrow> (\<exists>u. msg = MsgUpdateAgent u \<and>
     ua_AgentId u = bu_AgentID i \<and> ua_PublicKey u = [] \<and> ua_Endpoint u = bu_Endpoint i \<and>
     map to_lower_ascii (bu_CapabilityHash i) = hex_encode (ua_CapabilityHash u) \<and>
     ua_Capabilities u = bu_Capabilities i \<and> same_pricing env (bu_Pricing i) (ua_Pricing u) \<and>
     ua_Metadata u = bu_Metadata i)"
| "asks_for env (DepositBond i) msg \<longleftrightarrow> (\<exists>d a c. msg = MsgDepositBond d a c \<and>
     a = bb_AgentID i \<and> same_coin env (bb_Amount i) c)"
| "asks_for env (WithdrawBond i) msg \<longleftrightarrow> (\<exists>d a c. msg = MsgWithdrawBond d a c \<and>
     a = bb_AgentID i \<and> same_coin env (bb_Amount i) c)"
| "asks_for env (DeregisterAgent i) msg \<longleftrightarrow> (\<exists>d a. msg = MsgDeregisterAgent d a \<and>
     a = bd_AgentID i)"
| "asks_for env (CreateDelegation i) msg \<longleftrightarrow> (\<exists>d a l e. msg = MsgCreateDelegation d a l e \<and>
     a = bcd_AgentID i \<and> same_limits env (bcd_Limits i) l \<and> e = bcd_ExpiresAt i)"
| "asks_for env (UpdateDelegation i) msg \<longleftrightarrow> (\<exists>d r l e. msg = MsgUpdateDelegation d r l e \<and>
     same_root env (bud_RootID i) r \<and> same_limits env (bud_Limits i) l \<and> e = bud_ExpiresAt i)"
| "asks_for env (PauseDelegation i) msg \<longleftrightarrow> (\<exists>d r. msg = MsgPauseDelegation d r \<and>
     same_root env (bdr_RootID i) r)"
| "asks_for env (ResumeDelegation i) msg \<longleftrightarrow> (\<exists>d r. msg = MsgResumeDelegation d r \<and>
     same_root env (bdr_RootID i) r)"
| "asks_for env (RevokeDelegation i) msg \<longleftrightarrow> (\<exists>d r. msg = MsgRevokeDelegation d r \<and>
     same_root env (bdr_RootID i) r)"
| "asks_for env (RevokeToken i) msg \<longleftrightarrow> (\<exists>d r t. msg = MsgRevokeToken d r t \<and>
     same_root env (brt_RootID i) r \<and> map to_lower_ascii (brt_TokenHash i) = hex_encode t)"

fun build_tool :: "build_request \<Rightarrow> string" where
  "build_tool (RegisterAgent i) = ''build_register_agent''"
| "build_tool (UpdateAgent i) = ''build_update_agent''"
| "build_tool (DepositBond i) = ''build_deposit_bond''"
| "build_tool (WithdrawBond i) = ''build_withdraw_bond''"
| "build_tool (DeregisterAgent i) = ''build_deregister_agent''"
| "build_tool (CreateDelegation i) = ''build_create_delegation''"
| "build_tool (UpdateDelegation i) = ''build_update_delegation''"
| "build_tool (PauseDelegation i) = ''build_pause_delegation''"
| "build_tool (ResumeDelegation i) = ''build_resume_delegation''"
| "build_tool (RevokeDelegation i) = ''build_revoke_delegation''"
| "build_tool (RevokeToken i) = ''build_revoke_token''"

subsection \<open>Conversions keep what the caller wrote\<close>

lemma Coin_ToSDK_same: "Coin_ToSDK (ac_new_int env) c = Ok k \<longleftrightarrow> same_coin env c k"
  by (cases k) (auto simp: Coin_ToSDK_def same_coin_def split: option.splits if_splits)

lemma coinsToSDK_same: "coinsToSDK (ac_new_int env) cs = Ok ks \<longleftrightarrow> list_all2 (same_coin env) cs ks"
  by (simp add: coinsToSDK_def go_map_from_Ok_iff Coin_ToSDK_same)

lemma capability_hash_same:
  "capability_hash s = Ok b \<longleftrightarrow> map to_lower_ascii s = hex_encode b"
proof -
  have "b = [] \<longleftrightarrow> hex_encode b = []" by (cases b) auto
  then show ?thesis by (auto simp: capability_hash_def go_iff hex_decode_iff)
qed

lemma rootID_same: "rootIDFromHex env s = Ok b \<longleftrightarrow> same_root env s b"
  by (auto simp: same_root_def rootIDFromHex_def go_iff hex_decode_iff)

lemma Pricing_same: "Pricing_toProto env p = Ok q \<longleftrightarrow> same_pricing env p q"
  by (cases p; cases q) (auto simp: same_pricing_def go_iff coinsToSDK_same)

lemma Limits_same: "Limits_toProto env l = Ok p \<longleftrightarrow> same_limits env l p"
  by (cases p) (auto simp: Limits_toProto_def same_limits_def go_iff coinsToSDK_same)

lemmas same_iffs = Coin_ToSDK_same capability_hash_same rootID_same Pricing_same Limits_same hex_decode_iff

subsection \<open>Authorization and assembly\<close>

text \<open>The tenant's owner, as the policy engine answers at the two steps authorization takes.\<close>

definition tenant_owner :: "ac_env \<Rightarrow> nat \<Rightarrow> ToolCtx \<Rightarrow> string \<Rightarrow> bool" where
  "tenant_owner env t ctx owner \<longleftrightarrow> (\<exists>tc tp. cx_Tenant ctx = Some tc \<and>
     ac_check_tenant env t (tc_TenantID tc) = Ok () \<and>
     ac_tenant env (Suc t) (tc_TenantID tc) = Ok tp \<and> tp_Owner tp = owner)"

lemma authorize_ok:
  "authorize env ctx s = (Ok owner, s') \<longleftrightarrow>
     tenant_owner env (w_tick s) ctx owner \<and> s' = s\<lparr>w_tick := w_tick s + 2\<rparr>"
  by (auto simp: authorize_def tenant_owner_def go_iff split: option.splits)

lemma authorize_silent: "silent (authorize env ctx)"
  by (auto simp: authorize_def intro!: silent_intros split: option.split)

lemma authorize_no_tenant: "cx_Tenant ctx = None \<Longrightarrow> authorize env ctx s = (Err ErrNoTenant, s)"
  by (simp add: authorize_def)

definition assembled ::
  "ac_env \<Rightarrow> nat \<Rightarrow> string \<Rightarrow> string \<Rightarrow> sdk_msg \<Rightarrow> PayloadOutput \<Rightarrow> bool" where
  "assembled env t tool signer msg out \<longleftrightarrow> ac_validate_basic env msg = Ok () \<and>
     (\<exists>acc clientID summary. ac_account env t signer = Ok acc \<and>
        ac_assemble env (builder_args env tool signer clientID msg summary acc) = Ok (po_Payload out))"

lemma build_for_owner_ok:
  assumes "build_for_owner env ctx tool clientID mk summary s = (Ok out, s')"
  shows "\<exists>owner msg. tenant_owner env (w_tick s) ctx owner \<and> mk owner = Ok msg \<and>
    assembled env (w_tick s + 2) tool owner msg out \<and> w_log s' = w_log s"
  using assms
  by (simp add: build_for_owner_def assemble_def assembled_def go_iff authorize_ok) force

lemmas build_defs = BuildRegisterAgent_def BuildUpdateAgent_def BuildDepositBond_def BuildWithdrawBond_def
  BuildDeregisterAgent_def BuildCreateDelegation_def BuildUpdateDelegation_def BuildPauseDelegation_def
  BuildResumeDelegation_def BuildRevokeDelegation_def BuildRevokeToken_def buildDelegationLifecycle_def

lemmas msg_defs = register_agent_msg_def update_agent_msg_def bond_msg_def

lemma build_msg:
  assumes "build env ctx req s = (Ok out, s')"
  shows "\<exists>owner msg. tenant_owner env (w_tick s) ctx owner \<and> msg_signer msg = owner \<and>
    asks_for env req msg \<and> assembled env (w_tick s + 2) (build_tool req) owner msg out \<and> w_log s' = w_log s"
proof -
  obtain mk clientID summary where b: "build_for_owner env ctx (build_tool req) clientID mk summary s = (Ok out, s')"
    and mk: "\<And>owner msg. mk owner = Ok msg \<Longrightarrow> msg_signer msg = owner \<and> asks_for env req msg"
    using assms by (cases req) (force simp: build_defs msg_defs go_iff same_iffs)+
  from build_for_owner_ok [OF b] mk show ?thesis by metis
qed

text \<open>
  C16: Every payload a build operation returns was assembled, under the operation's own name, for the
  owner of the caller's tenant to sign (a tenant the policy engine passed and knows), around one
  message that its own basic validation accepted, that makes this same owner its signer, and that
  carries what the request asks for: no caller can build a transaction in another's name. Nothing
  is sent.
\<close>

theorem build_signs_as_owner:
  assumes "build env ctx req s = (Ok out, s')"
  shows "\<exists>owner msg. tenant_owner env (w_tick s) ctx owner \<and> msg_signer msg = owner \<and>
    asks_for env req msg \<and> assembled env (w_tick s + 2) (build_tool req) owner msg out \<and> w_log s' = w_log s"
  using assms by (rule build_msg)

definition lands :: "ac_env \<Rightarrow> nat \<Rightarrow> ToolCtx \<Rightarrow> BroadcastInput \<Rightarrow> bytes \<Rightarrow> bool" where
  "lands env t ctx inp raw \<longleftrightarrow> b64_decode b64_std (st_TxRawBytesB64 (bi_SignedTx inp)) = Ok raw \<and>
     (\<exists>owner. tenant_owner env t ctx owner \<and>
        (\<exists>tx key pk. ac_unmarshal_TxRaw env raw = Ok tx \<and>
           ac_unmarshal_AuthInfo env (tr_AuthInfoBytes tx) = Ok [Some key] \<and>
           ac_unpack_key env key = Ok pk \<and> ac_key_address env pk = owner))"

lemma signer_key_ok:
  "signer_key env signers = Ok a \<longleftrightarrow>
     (\<exists>key pk. signers = [Some key] \<and> ac_unpack_key env key = Ok pk \<and> ac_key_address env pk = a)"
  by (cases signers rule: remdups_adj.cases) (auto simp: signer_key_def go_iff split: option.split)

lemma signerAddress_ok:
  "signerAddress env raw = Ok a \<longleftrightarrow>
     (\<exists>tx key pk. ac_unmarshal_TxRaw env raw = Ok tx \<and>
        ac_unmarshal_AuthInfo env (tr_AuthInfoBytes tx) = Ok [Some key] \<and>
        ac_unpack_key env key = Ok pk \<and> ac_key_address env pk = a)"
  by (simp add: signerAddress_def go_iff signer_key_ok) blast

lemma broadcast_logged_run:
  "broadcast_logged bc raw s = (bc (w_tick s) raw,
     s\<lparr>w_log := w_log s @ [Broadcast raw (bc (w_tick s) raw)], w_tick := Suc (w_tick s)\<rparr>)"
  by (simp add: broadcast_logged_def)

text \<open>
  C17: \<open>BroadcastSignedTx\<close> sends at most one transaction, and only one whose bytes are the caller's
  base64 text decoded, with exactly one signer, whose address is the owner of the caller's tenant;
  it returns a result exactly when the chain answered that broadcast.
\<close>

theorem broadcast_signer_pinned:
  assumes "BroadcastSignedTx env ctx inp s = (r, s')"
  shows "(w_log s' = w_log s \<and> \<not> is_ok r) \<or>
    (\<exists>raw res. lands env (w_tick s) ctx inp raw \<and> w_log s' = w_log s @ [Broadcast raw res] \<and>
       r = (case res of Ok b \<Rightarrow> Ok \<lparr>bo_Result = b\<rparr> | Err e \<Rightarrow> Err e | Panics \<Rightarrow> Panics))"
  using assms unfolding BroadcastSignedTx_def
proof (cases rule: act_bind_cases)
  case (stops q)
  then show ?thesis using silentD [OF authorize_silent] by blast
next
  case (runs owner s1)
  have log: "w_log s1 = w_log s" using runs(1) by (rule silentD [OF authorize_silent])
  have owner: "tenant_owner env (w_tick s) ctx owner" using runs(1) by (simp add: authorize_ok)
  from runs(2) show ?thesis
  proof (cases rule: act_ret_bind_cases)
    case stops
    then show ?thesis using log by simp
  next
    case raw: (runs raw)
    from raw(2) show ?thesis
    proof (cases rule: act_ret_bind_cases)
      case stops
      then show ?thesis using log by simp
    next
      case (runs signer)
      show ?thesis
      proof (cases "signer = owner")
        case True
        with owner raw(1) runs(1) have "lands env (w_tick s) ctx inp raw"
          by (auto simp: lands_def signerAddress_ok)
        moreover have "w_log s' = w_log s @ [Broadcast raw (ac_broadcast env (w_tick s1) raw)] \<and>
            r = (case ac_broadcast env (w_tick s1) raw of
                   Ok b \<Rightarrow> Ok \<lparr>bo_Result = b\<rparr> | Err e \<Rightarrow> Err e | Panics \<Rightarrow> Panics)"
          using runs(2) True log
          by (auto simp: act_bind_def broadcast_logged_run split: go.splits)
        ultimately show ?thesis by blast
      qed (use runs(2) log in auto)
    qed
  qed
qed

end
