(* ===== verification/Tool_Bridge.thy ===== *)
theory Tool_Bridge
  imports Delegated_Inputs Delegated_Reads Read_Tenants Agent_Chain_Safety
begin

section \<open>The tool bridge: one registry of operations\<close>

text \<open>
  \<open>internal/toolbridge\<close>: the adapters that turn a typed handler into a call on raw JSON arguments,
  the registry that maps a tool's name to its skill and its call, and the tables that fill it. The
  64 handlers of the MCP library are arguments, with the decoders of their own input types; the
  agent-chain and delegated services are the models of the other theories.
\<close>

subsection \<open>The state the tools share\<close>

text \<open>
  The delegated service, whose record also carries the step counter and the event log of the
  process, the table of delegated-read tenants, and the state of the MCP library. A keyless
  deployment has the same record and only uses the counter and the log of its first field.
\<close>

record 'x agent_state =
  ag_svc :: Service
  ag_tenants :: ReadTenantSource
  ag_lib :: 'x

type_synonym 'x tool_call = "ToolCtx \<Rightarrow> raw \<Rightarrow> ('x agent_state, goany) act"

definition on_service :: "(Service, 'a) act \<Rightarrow> ('x agent_state, 'a) act" where
  "on_service m = (\<lambda>s. case m (ag_svc s) of (r, v) \<Rightarrow> (r, s\<lparr>ag_svc := v\<rparr>))"

definition on_lib :: "('x, 'a) act \<Rightarrow> ('x agent_state, 'a) act" where
  "on_lib m = (\<lambda>s. case m (ag_lib s) of (r, x) \<Rightarrow> (r, s\<lparr>ag_lib := x\<rparr>))"

subsection \<open>Adapters\<close>

text \<open>An MCP result, with what the adapter reads of it.\<close>

datatype mcp_content = TextContent string | OtherContent

record CallToolResult =
  cr_Content :: "mcp_content list"
  cr_IsError :: bool

fun resultText_of :: "mcp_content list \<Rightarrow> string" where
  "resultText_of [] = ''tool refused''"
| "resultText_of (TextContent t # cs) = (if t \<noteq> [] then t else resultText_of cs)"
| "resultText_of (OtherContent # cs) = resultText_of cs"

definition resultText :: "CallToolResult \<Rightarrow> string" where
  "resultText res = resultText_of (cr_Content res)"

text \<open>\<open>errors.New(text)\<close> for a text computed at run time.\<close>

definition errors_New :: "string \<Rightarrow> err" where
  "errors_New text = Errorf ''%s'' [AS text]"

text \<open>Absent arguments (a raw message of length zero) leave the input its zero value.\<close>

definition decode_args :: "('i \<Rightarrow> json \<Rightarrow> 'i go) \<Rightarrow> 'i \<Rightarrow> raw \<Rightarrow> 'i go" where
  "decode_args dec zero raw =
     (case raw of
        None \<Rightarrow> Ok zero
      | Some j \<Rightarrow> wrap_err (\<lambda>e. Errorf ''decode args: %w'' [AW e]) (dec zero j))"

definition adapt ::
  "('i \<Rightarrow> json \<Rightarrow> 'i go) \<Rightarrow> 'i \<Rightarrow> (ToolCtx \<Rightarrow> 'i \<Rightarrow> ('s, CallToolResult option \<times> goany) act) \<Rightarrow>
   ToolCtx \<Rightarrow> raw \<Rightarrow> ('s, goany) act" where
  "adapt dec zero h ctx raw =
     act_bind (act_ret (decode_args dec zero raw)) (\<lambda>inp.
     act_bind (h ctx inp) (\<lambda>(res, out).
     act_ret (case res of
        Some r \<Rightarrow> if cr_IsError r then Err (errors_New (resultText r)) else Ok out
      | None \<Rightarrow> Ok out)))"

definition adaptNative ::
  "('i \<Rightarrow> json \<Rightarrow> 'i go) \<Rightarrow> 'i \<Rightarrow> (ToolCtx \<Rightarrow> 'i \<Rightarrow> ('s, 'o) act) \<Rightarrow> ('o \<Rightarrow> goany) \<Rightarrow>
   ToolCtx \<Rightarrow> raw \<Rightarrow> ('s, goany) act" where
  "adaptNative dec zero f enc ctx raw =
     act_bind (act_ret (decode_args dec zero raw)) (\<lambda>inp.
     act_bind (f ctx inp) (\<lambda>out. act_ret (Ok (enc out))))"

text \<open>Reflection over the input struct: the names its exported fields have in JSON.\<close>

definition is_exported :: "string \<Rightarrow> bool" where
  "is_exported f \<longleftrightarrow> f \<noteq> [] \<and> 65 \<le> (of_char (hd f) :: nat) \<and> (of_char (hd f) :: nat) \<le> 90"

fun jsonKeysOf :: "'s gofield list \<Rightarrow> string list" where
  "jsonKeysOf [] = []"
| "jsonKeysOf ((f, tag, g) # fs) =
     (let name = takeWhile (\<lambda>c. c \<noteq> CHR '','') tag in
      if \<not> is_exported f \<or> name = ''-'' then jsonKeysOf fs
      else (if name = [] then f else name) # jsonKeysOf fs)"

text \<open>\<open>strconv.Quote\<close> of a name made of letters, digits and underscores.\<close>

definition quote_name :: "string \<Rightarrow> string" where
  "quote_name s = CHR 0x22 # s @ [CHR 0x22]"

definition keyList :: "string list \<Rightarrow> string" where
  "keyList keys = join_with '', '' (sort (map quote_name keys))"

definition unknown_key :: "string list \<Rightarrow> string \<Rightarrow> err" where
  "unknown_key keys k =
     Errorf (''unknown args key %q '' @ [CHR 0xE2, CHR 0x80, CHR 0x94] @
         '' this tool takes %s; tool parameters nest under the wrapper object, not at the top level'')
       [AQ k, AS (keyList keys)]"

text \<open>
  The loop over the decoded top-level map refuses the first key it meets that is not allowed. Go
  leaves the order of the iteration open; the model goes through the keys in byte order.
\<close>

definition strict_keys :: "string list \<Rightarrow> json \<Rightarrow> unit go" where
  "strict_keys keys j =
     go_bind (wrap_err (\<lambda>e. Errorf ''decode args: %w'' [AW e]) (dec_map j)) (\<lambda>top.
       case top of
         NilMap \<Rightarrow> Ok ()
       | GoMap m \<Rightarrow> (case find (\<lambda>(k, v). k \<notin> set keys) m of
                      None \<Rightarrow> Ok ()
                    | Some (k, v) \<Rightarrow> Err (unknown_key keys k)))"

definition adaptStrictNative ::
  "'i gofield list \<Rightarrow> 'i \<Rightarrow> (ToolCtx \<Rightarrow> 'i \<Rightarrow> ('s, 'o) act) \<Rightarrow> ('o \<Rightarrow> goany) \<Rightarrow>
   ToolCtx \<Rightarrow> raw \<Rightarrow> ('s, goany) act" where
  "adaptStrictNative fs zero f enc ctx raw =
     act_bind (act_ret (case raw of None \<Rightarrow> Ok () | Some j \<Rightarrow> strict_keys (jsonKeysOf fs) j)) (\<lambda>_.
     adaptNative (dec_input fs) zero f enc ctx raw)"

subsection \<open>The registry\<close>

record 'x Op =
  op_Skill :: string
  op_Tool :: string
  op_Call :: "'x tool_call"

record 'x Registry =
  reg_ops :: "(string \<times> 'x Op) list"

definition newRegistry :: "'x Registry" where
  "newRegistry = \<lparr>reg_ops = []\<rparr>"

text \<open>Adding a name twice panics.\<close>

definition reg_add :: "string \<Rightarrow> string \<Rightarrow> 'x tool_call \<Rightarrow> 'x Registry \<Rightarrow> 'x Registry go" where
  "reg_add skill tool call r =
     (if map_of (reg_ops r) tool \<noteq> None then Panics
      else Ok (r\<lparr>reg_ops := reg_ops r @ [(tool, \<lparr>op_Skill = skill, op_Tool = tool, op_Call = call\<rparr>)]\<rparr>))"

definition refusing_call :: "string \<Rightarrow> 'x tool_call" where
  "refusing_call reason = (\<lambda>ctx raw. act_ret (Err (errors_New reason)))"

definition addRefusing :: "string \<Rightarrow> string \<Rightarrow> string \<Rightarrow> 'x Registry \<Rightarrow> 'x Registry go" where
  "addRefusing skill tool reason r = reg_add skill tool (refusing_call reason) r"

definition Lookup :: "'x Registry \<Rightarrow> string \<Rightarrow> 'x Op option" where
  "Lookup r tool = map_of (reg_ops r) tool"

text \<open>The map from a skill to its tools, filled in the order of the entries and then sorted.\<close>

definition put_skill :: "'x Op \<Rightarrow> (string \<Rightarrow> string list option) \<Rightarrow> string \<Rightarrow> string list option" where
  "put_skill p out = out(op_Skill p \<mapsto> (case out (op_Skill p) of None \<Rightarrow> [] | Some ts \<Rightarrow> ts) @ [op_Tool p])"

definition BySkill :: "'x Registry \<Rightarrow> string \<Rightarrow> string list option" where
  "BySkill r = map_option sort \<circ> fold put_skill (map snd (reg_ops r)) Map.empty"

fun add_all :: "(string \<times> string \<times> 'x tool_call) list \<Rightarrow> 'x Registry \<Rightarrow> 'x Registry go" where
  "add_all [] r = Ok r"
| "add_all ((skill, tool, call) # es) r = go_bind (reg_add skill tool call r) (add_all es)"

subsection \<open>The tables\<close>

definition SkillMarketData :: string where "SkillMarketData = ''svpchain-market-data''"
definition SkillAccount :: string where "SkillAccount = ''svpchain-account''"
definition SkillTrading :: string where "SkillTrading = ''svpchain-trading''"
definition SkillFunds :: string where "SkillFunds = ''svpchain-funds''"
definition SkillBroadcast :: string where "SkillBroadcast = ''svpchain-broadcast''"
definition SkillAuth :: string where "SkillAuth = ''svpchain-auth''"
definition SkillFaucet :: string where "SkillFaucet = ''svpchain-faucet''"
definition SkillEVM :: string where "SkillEVM = ''svpchain-evm''"
definition SkillLendora :: string where "SkillLendora = ''svpchain-lendora''"
definition SkillAgentRegistry :: string where "SkillAgentRegistry = ''svpchain-agent-registry''"
definition SkillDelegation :: string where "SkillDelegation = ''svpchain-delegation''"
definition SkillExecution :: string where "SkillExecution = ''svpchain-execution''"

text \<open>
  The tools of the MCP library: skill, name, handler method. A handler decodes its own input
  type, acts on the library's state, and sees the tenants the policy engine's dynamic source
  answers for (\<open>internal/wire\<close>).
\<close>

record ('i, 'x) lib_tool =
  lt_zero :: 'i
  lt_decode :: "'i \<Rightarrow> json \<Rightarrow> 'i go"
  lt_handle :: "(string \<Rightarrow> TenantPolicy option) \<Rightarrow> ToolCtx \<Rightarrow> 'i \<Rightarrow> ('x, CallToolResult option \<times> goany) act"

definition handler_tools :: "(string \<times> string \<times> string) list" where
  "handler_tools =
     map (Pair SkillMarketData)
      [(''list_markets'', ''ListMarkets''), (''get_market'', ''GetMarket''),
       (''get_orderbook'', ''GetOrderbook''), (''get_oracle_price'', ''GetOraclePrice''),
       (''get_candles'', ''GetCandles''), (''get_trades'', ''GetTrades''),
       (''get_sparklines'', ''GetSparklines''),
       (''get_historical_funding'', ''GetHistoricalFunding''), (''get_height'', ''GetHeight''),
       (''get_time'', ''GetTime'')] @
     map (Pair SkillAccount)
      [(''get_subaccount'', ''GetSubaccount''), (''get_live_subaccount'', ''GetLiveSubaccount''),
       (''get_balance'', ''GetBalance''), (''whoami'', ''Whoami''),
       (''get_orders'', ''GetOrders''), (''get_order'', ''GetOrder''),
       (''get_fills'', ''GetFills''), (''get_transfers'', ''GetTransfers''),
       (''get_pnl'', ''GetPnl''), (''get_historical_pnl'', ''GetHistoricalPnl''),
       (''get_funding_payments'', ''GetFundingPayments'')] @
     map (Pair SkillTrading)
      [(''build_place_limit_order'', ''BuildPlaceLimitOrder''),
       (''build_place_market_order'', ''BuildPlaceMarketOrder''),
       (''build_place_conditional_order'', ''BuildPlaceConditionalOrder''),
       (''build_cancel_order'', ''BuildCancelOrder''),
       (''build_batch_cancel_orders'', ''BuildBatchCancelOrders'')] @
     map (Pair SkillFunds)
      [(''build_deposit_to_subaccount'', ''BuildDepositToSubaccount''),
       (''build_withdraw_from_subaccount'', ''BuildWithdrawFromSubaccount''),
       (''build_transfer_between_subaccounts'', ''BuildTransferBetweenSubaccounts''),
       (''build_bank_send'', ''BuildBankSend''),
       (''get_transfer_out_cap'', ''GetTransferOutCap''),
       (''set_transfer_out_cap'', ''SetTransferOutCap'')] @
     map (Pair SkillBroadcast)
      [(''broadcast_signed_tx'', ''BroadcastSignedTx''), (''get_tx_status'', ''GetTxStatus'')] @
     map (Pair SkillAuth)
      [(''auth_challenge'', ''AuthChallenge''), (''auth_verify'', ''AuthVerify'')] @
     map (Pair SkillFaucet)
      [(''list_faucet_tokens'', ''ListFaucetTokens''), (''faucet_claim'', ''FaucetClaim'')] @
     map (Pair SkillEVM)
      [(''broadcast_evm_tx'', ''BroadcastEVMTx''), (''evm_tx_status'', ''EVMTxStatus''),
       (''quote_swap'', ''QuoteSwap''), (''build_token_approval'', ''BuildTokenApproval''),
       (''build_swap'', ''BuildSwap''), (''build_bridge_deposit'', ''BuildBridgeDeposit''),
       (''build_bridge_deposit_inbound'', ''BuildBridgeDepositInbound''),
       (''build_erc20_transfer'', ''BuildERC20Transfer''),
       (''build_erc20_approve'', ''BuildERC20Approve''),
       (''build_erc20_transfer_from'', ''BuildERC20TransferFrom''),
       (''build_erc721_transfer_from'', ''BuildERC721TransferFrom''),
       (''build_erc721_safe_transfer_from'', ''BuildERC721SafeTransferFrom''),
       (''build_erc721_approve'', ''BuildERC721Approve''),
       (''build_erc721_set_approval_for_all'', ''BuildERC721SetApprovalForAll'')] @
     map (Pair SkillLendora)
      [(''lendora_get_all_markets'', ''LendoraGetAllMarkets''),
       (''lendora_get_market_details'', ''LendoraGetMarketDetails''),
       (''lendora_get_protocol_dashboard'', ''LendoraGetProtocolDashboard''),
       (''lendora_get_account_summary'', ''LendoraGetAccountSummary''),
       (''lendora_get_account_positions'', ''LendoraGetAccountPositions''),
       (''lendora_get_balances'', ''LendoraGetBalances''),
       (''lendora_assess_risk'', ''LendoraAssessRisk''),
       (''lendora_build_supply_tx'', ''LendoraBuildSupplyTx''),
       (''lendora_build_withdraw_tx'', ''LendoraBuildWithdrawTx''),
       (''lendora_build_borrow_tx'', ''LendoraBuildBorrowTx''),
       (''lendora_build_repay_tx'', ''LendoraBuildRepayTx''),
       (''lendora_build_collateral_tx'', ''LendoraBuildCollateralTx'')]"

definition lib_call ::
  "('x agent_state \<Rightarrow> string \<Rightarrow> TenantPolicy option) \<Rightarrow> ('i, 'x) lib_tool \<Rightarrow> 'x tool_call" where
  "lib_call tenants h = adapt (lt_decode h) (lt_zero h) (\<lambda>ctx inp s. on_lib (lt_handle h (tenants s) ctx inp) s)"

definition Registry_New ::
  "('x agent_state \<Rightarrow> string \<Rightarrow> TenantPolicy option) \<Rightarrow> (string \<Rightarrow> ('i, 'x) lib_tool) \<Rightarrow> 'x Registry go" where
  "Registry_New tenants h =
     add_all (map (\<lambda>(skill, tool, method). (skill, tool, lib_call tenants (h method))) handler_tools) newRegistry"

text \<open>The agent-chain service's methods, each with its input struct.\<close>

definition native ::
  "'i gofield list \<Rightarrow> 'i \<Rightarrow> ('o \<Rightarrow> goany) \<Rightarrow> (ToolCtx \<Rightarrow> 'i \<Rightarrow> (Service, 'o) act) \<Rightarrow> 'x tool_call" where
  "native fs zero enc f = adaptNative (dec_input fs) zero (\<lambda>ctx inp. on_service (f ctx inp)) enc"

definition native_strict ::
  "'i gofield list \<Rightarrow> 'i \<Rightarrow> ('o \<Rightarrow> goany) \<Rightarrow> (ToolCtx \<Rightarrow> 'i \<Rightarrow> (Service, 'o) act) \<Rightarrow> 'x tool_call" where
  "native_strict fs zero enc f = adaptStrictNative fs zero (\<lambda>ctx inp. on_service (f ctx inp)) enc"

text \<open>A result that already is a value of type \<open>any\<close>.\<close>

definition id_any :: "goany \<Rightarrow> goany" where
  "id_any v = v"

definition chain_tools :: "ac_env \<Rightarrow> (string \<times> string \<times> 'x tool_call) list" where
  "chain_tools env =
    [(SkillAgentRegistry, ''get_agent'', native GetAgentInput_fields zero_GetAgentInput id_any (GetAgent env)),
     (SkillAgentRegistry, ''get_agent_by_operator'', native GetAgentByOperatorInput_fields zero_GetAgentByOperatorInput id_any (GetAgentByOperator env)),
     (SkillAgentRegistry, ''list_agents'', native ListAgentsInput_fields zero_ListAgentsInput id_any (ListAgents env)),
     (SkillAgentRegistry, ''get_agents_by_owner'', native GetAgentsByOwnerInput_fields zero_GetAgentsByOwnerInput id_any (GetAgentsByOwner env)),
     (SkillAgentRegistry, ''get_agents_by_capability'', native GetAgentsByCapabilityInput_fields zero_GetAgentsByCapabilityInput id_any (GetAgentsByCapability env)),
     (SkillAgentRegistry, ''get_agent_params'', native [] () id_any (GetAgentParams env)),
     (SkillAgentRegistry, ''broadcast_agent_chain_tx'', native (BroadcastInput_fields env) zero_BroadcastInput (enc_BroadcastOutput env) (BroadcastSignedTx env)),
     (SkillAgentRegistry, ''build_register_agent'', native BuildRegisterAgentInput_fields zero_BuildRegisterAgentInput enc_PayloadOutput (BuildRegisterAgent env)),
     (SkillAgentRegistry, ''build_update_agent'', native BuildUpdateAgentInput_fields zero_BuildUpdateAgentInput enc_PayloadOutput (BuildUpdateAgent env)),
     (SkillAgentRegistry, ''build_deposit_bond'', native BuildBondInput_fields zero_BuildBondInput enc_PayloadOutput (BuildDepositBond env)),
     (SkillAgentRegistry, ''build_withdraw_bond'', native BuildBondInput_fields zero_BuildBondInput enc_PayloadOutput (BuildWithdrawBond env)),
     (SkillAgentRegistry, ''build_deregister_agent'', native BuildDeregisterAgentInput_fields zero_BuildDeregisterAgentInput enc_PayloadOutput (BuildDeregisterAgent env)),
     (SkillDelegation, ''get_delegation'', native RootIDInput_fields zero_RootIDInput id_any (GetDelegation env)),
     (SkillDelegation, ''get_delegations_by_delegator'', native GetDelegationsByDelegatorInput_fields zero_GetDelegationsByDelegatorInput id_any (GetDelegationsByDelegator env)),
     (SkillDelegation, ''get_delegation_epoch'', native RootIDInput_fields zero_RootIDInput id_any (GetDelegationEpoch env)),
     (SkillDelegation, ''get_delegation_spend'', native RootIDInput_fields zero_RootIDInput id_any (GetDelegationSpend env)),
     (SkillDelegation, ''get_agentwallet_params'', native [] () id_any (GetAgentwalletParams env)),
     (SkillDelegation, ''build_create_delegation'', native BuildCreateDelegationInput_fields zero_BuildCreateDelegationInput enc_PayloadOutput (BuildCreateDelegation env)),
     (SkillDelegation, ''build_update_delegation'', native BuildUpdateDelegationInput_fields zero_BuildUpdateDelegationInput enc_PayloadOutput (BuildUpdateDelegation env)),
     (SkillDelegation, ''build_pause_delegation'', native BuildDelegationRefInput_fields zero_BuildDelegationRefInput enc_PayloadOutput (BuildPauseDelegation env)),
     (SkillDelegation, ''build_resume_delegation'', native BuildDelegationRefInput_fields zero_BuildDelegationRefInput enc_PayloadOutput (BuildResumeDelegation env)),
     (SkillDelegation, ''build_revoke_delegation'', native BuildDelegationRefInput_fields zero_BuildDelegationRefInput enc_PayloadOutput (BuildRevokeDelegation env)),
     (SkillDelegation, ''build_revoke_token'', native BuildRevokeTokenInput_fields zero_BuildRevokeTokenInput enc_PayloadOutput (BuildRevokeToken env))]"

definition RegisterAgentChain :: "ac_env \<Rightarrow> 'x Registry \<Rightarrow> 'x Registry go" where
  "RegisterAgentChain env r = add_all (chain_tools env) r"

definition executionTools :: "string list" where
  "executionTools = [''execute_place_order'', ''execute_cancel_order'', ''execute_batch_cancel'',
     ''execute_deposit_to_subaccount'', ''agent_identity'', ''agent_self_register'', ''agent_self_update'']"

definition keyless_reason :: string where
  "keyless_reason = ''delegated execution requires this deployment to configure an operator key ([operator] section); the skill is advertised so callers know it exists, but this deployment cannot serve it''"

abbreviation tenant_id :: "ToolCtx \<Rightarrow> string option" where
  "tenant_id ctx \<equiv> map_option tc_TenantID (cx_Tenant ctx)"

definition execution_tools :: "dg_env \<Rightarrow> (string \<times> string \<times> 'x tool_call) list" where
  "execution_tools env =
    [(SkillExecution, ''execute_place_order'',
        native_strict ExecPlaceOrderInput_fields zero_ExecPlaceOrderInput enc_ExecResult (\<lambda>_. ExecutePlaceOrder env)),
     (SkillExecution, ''execute_cancel_order'',
        native_strict ExecCancelOrderInput_fields zero_ExecCancelOrderInput enc_ExecResult (\<lambda>_. ExecuteCancelOrder env)),
     (SkillExecution, ''execute_batch_cancel'',
        native_strict ExecBatchCancelInput_fields zero_ExecBatchCancelInput enc_ExecResult (\<lambda>_. ExecuteBatchCancel env)),
     (SkillExecution, ''execute_deposit_to_subaccount'',
        native_strict ExecDepositInput_fields zero_ExecDepositInput enc_ExecResult (\<lambda>_. ExecuteDepositToSubaccount env)),
     (SkillExecution, ''agent_identity'',
        native [] () enc_IdentityOutput (\<lambda>_ _. Identity env)),
     (SkillExecution, ''agent_self_register'',
        native SelfRegisterInput_fields zero_SelfRegisterInput enc_ExecResult
          (\<lambda>ctx inp. SelfRegister env (tenant_id ctx) (sr_Bond inp))),
     (SkillExecution, ''agent_self_update'',
        native [] () enc_ExecResult (\<lambda>ctx _. SelfUpdate env (tenant_id ctx)))]"

text \<open>\<open>None\<close> is the nil service of a keyless deployment.\<close>

definition RegisterExecution :: "dg_env option \<Rightarrow> 'x Registry \<Rightarrow> 'x Registry go" where
  "RegisterExecution svc r =
     (case svc of
        None \<Rightarrow> add_all (map (\<lambda>tool. (SkillExecution, tool, refusing_call keyless_reason)) executionTools) r
      | Some env \<Rightarrow> add_all (execution_tools env) r)"

end
