(* ===== verification/A2A_Server.thy ===== *)
theory A2A_Server
  imports A2A_Messages Tool_Bridge
begin

section \<open>The A2A executor\<close>

text \<open>
  \<open>internal/a2aserver\<close>, the parts that act: the resolution of a caller to a tenant (\<open>auth.go\<close>) and
  the executor that dispatches a request to the market data service or to a tool of the registry
  (\<open>executor.go\<close>). The JSON text syntax, the rendering of error values and the stores of the auth
  library are arguments.
\<close>

subsection \<open>Who calls\<close>

text \<open>What the code reads of \<open>a2asrv.ExecutorContext\<close>; the service parameters may be nil.\<close>

record ExecutorContext =
  xc_Message :: "Message option"
  xc_StoredTask :: bool
  xc_ContextID :: string
  xc_ServiceParams :: "(string \<Rightarrow> string list option) option"

record 'x AuthResolver =
  ar_Tenants :: "(string \<Rightarrow> ('x, TenantRecord) act) option"
  ar_Sessions :: "(string \<Rightarrow> ('x, string) act) option"

definition headerValue :: "ExecutorContext \<Rightarrow> string \<Rightarrow> string" where
  "headerValue xc key =
     (case xc_ServiceParams xc of
        None \<Rightarrow> []
      | Some params \<Rightarrow> (case params key of None \<Rightarrow> [] | Some [] \<Rightarrow> [] | Some (v # vs) \<Rightarrow> v))"

text \<open>\<open>strings.EqualFold\<close> against an ASCII text without the letters k and s.\<close>

definition equal_fold :: "string \<Rightarrow> string \<Rightarrow> bool" where
  "equal_fold s t \<longleftrightarrow> map to_upper_ascii s = map to_upper_ascii t"

definition bearerFromHeader :: "ExecutorContext \<Rightarrow> string" where
  "bearerFromHeader xc =
     (let v = headerValue xc ''authorization''; prefix = ''bearer '' in
      if v = [] then []
      else if length v > length prefix \<and> equal_fold (take (length prefix) v) prefix
      then trim_space (drop (length prefix) v) else [])"

definition with_session :: "ExecutorContext \<Rightarrow> ToolCtx \<Rightarrow> ToolCtx" where
  "with_session xc ctx =
     (if xc_ContextID xc \<noteq> [] then ctx\<lparr>cx_Session := Some (xc_ContextID xc)\<rparr> else ctx)"

definition with_ip :: "ExecutorContext \<Rightarrow> ToolCtx \<Rightarrow> ToolCtx" where
  "with_ip xc ctx =
     (let ip = headerValue xc ''x-forwarded-for'' in
      if ip \<noteq> [] then ctx\<lparr>cx_IP := Some (trim_space (hd (split_on (CHR '','') ip)))\<rparr> else ctx)"

text \<open>The bearer, in the order of precedence; the session's is only looked up when needed.\<close>

definition find_bearer :: "'x AuthResolver \<Rightarrow> ExecutorContext \<Rightarrow> Request \<Rightarrow> ('x agent_state, string) act" where
  "find_bearer ar xc req =
     (let bearer = bearerFromHeader xc;
          bearer = (if bearer = [] then rq_Bearer req else bearer)
      in if bearer = [] \<and> xc_ContextID xc \<noteq> []
         then (case ar_Sessions ar of
                 None \<Rightarrow> act_ret (Ok [])
               | Some lookup \<Rightarrow> on_lib (lookup (xc_ContextID xc)))
         else act_ret (Ok bearer))"

text \<open>An error of a call is an answer here: the context without a tenant.\<close>

definition act_or :: "('s, 'a) act \<Rightarrow> 'b \<Rightarrow> ('a \<Rightarrow> 'b) \<Rightarrow> ('s, 'b) act" where
  "act_or m d f = (\<lambda>s. case m s of
     (Ok a, s') \<Rightarrow> (Ok (f a), s') | (Err e, s') \<Rightarrow> (Ok d, s') | (Panics, s') \<Rightarrow> (Panics, s'))"

definition Attach :: "'x AuthResolver \<Rightarrow> ExecutorContext \<Rightarrow> Request \<Rightarrow> ('x agent_state, ToolCtx) act" where
  "Attach ar xc req =
     (let ctx = with_ip xc (with_session xc no_ctx) in
      act_bind (find_bearer ar xc req) (\<lambda>bearer.
      case ar_Tenants ar of
        None \<Rightarrow> act_ret (Ok ctx)
      | Some lookup \<Rightarrow>
          if bearer = [] then act_ret (Ok ctx)
          else act_or (on_lib (lookup bearer)) ctx
            (\<lambda>rec. ctx\<lparr>cx_Tenant := Some \<lparr>tc_TenantID = tn_TenantID rec, tc_Owner = tn_Owner rec\<rparr>\<rparr>)))"

subsection \<open>The executor\<close>

record 'x Executor =
  ex_market :: "nat \<Rightarrow> (goany, goany, goany) market_reader"
  ex_registry :: "'x Registry option"
  ex_authr :: "'x AuthResolver option"
  ex_reads :: "dg_env option"
  ex_readTenants :: "(nat \<Rightarrow> int) option"
  ex_parse :: "string \<Rightarrow> json go"
  ex_print :: "json \<Rightarrow> string"
  ex_err_text :: "err \<Rightarrow> string"
  ex_rat_set :: "string \<Rightarrow> rat option"
  ex_enc_orderbook :: "orderbook \<Rightarrow> goany"

definition NewExecutor ::
  "(nat \<Rightarrow> (goany, goany, goany) market_reader) \<Rightarrow> 'x Executor \<Rightarrow> 'x Executor" where
  "NewExecutor market lib = lib\<lparr>ex_market := market, ex_registry := None, ex_authr := None,
     ex_reads := None, ex_readTenants := None\<rparr>"

definition NewFullExecutor ::
  "(nat \<Rightarrow> (goany, goany, goany) market_reader) \<Rightarrow> 'x Registry \<Rightarrow> 'x AuthResolver \<Rightarrow> dg_env option \<Rightarrow>
   (nat \<Rightarrow> int) option \<Rightarrow> 'x Executor \<Rightarrow> 'x Executor" where
  "NewFullExecutor market registry authr reads readTenants lib =
     lib\<lparr>ex_market := market, ex_registry := Some registry, ex_authr := Some authr,
       ex_reads := reads, ex_readTenants := readTenants\<rparr>"

definition encode_result :: "'x Executor \<Rightarrow> goany \<Rightarrow> string go" where
  "encode_result ex v =
     go_bind (wrap_err (\<lambda>e. Errorf ''encode result: %w'' [AW e]) v) (\<lambda>j. Ok (ex_print ex j))"

definition asJSON :: "'x Executor \<Rightarrow> goany go \<Rightarrow> string go" where
  "asJSON ex r = go_bind r (encode_result ex)"

definition enc_ClearingEstimate :: "ClearingEstimate \<Rightarrow> goany" where
  "enc_ClearingEstimate c = Ok (JObj
     [(''ticker'', JStr (ce_ticker c)), (''side'', JStr (ce_side c)), (''requested_size'', JStr (ce_requested c)),
      (''filled_size'', JStr (ce_filled c)), (''fully_filled'', JBool (ce_fully c)),
      (''average_price'', JStr (ce_average c)), (''worst_price'', JStr (ce_worst c)),
      (''slippage_bps'', JStr (ce_slippage c))])"

definition parseSide :: "string \<Rightarrow> side go" where
  "parseSide s =
     (if s = Buy then Ok Buy else if s = Sell then Ok Sell
      else Err (Errorf ''side must be %q or %q, got %q'' [AQ Buy, AQ Sell, AQ s]))"

definition ask_market ::
  "'x Executor \<Rightarrow> ((goany, goany, goany) market_reader \<Rightarrow> goany go) \<Rightarrow> ('x agent_state, string) act" where
  "ask_market ex q = on_service (ask (\<lambda>t. asJSON ex (q (ex_market ex t))))"

definition handleMarketData :: "'x Executor \<Rightarrow> Request \<Rightarrow> ('x agent_state, string) act" where
  "handleMarketData ex req =
     (if rq_Query req = ''markets'' then ask_market ex svc_Markets
      else if rq_Query req = ''market'' then ask_market ex (\<lambda>m. svc_Market m (rq_Ticker req))
      else if rq_Query req = ''orderbook''
      then ask_market ex (\<lambda>m. go_bind (svc_Orderbook m (rq_Ticker req)) (\<lambda>ob. Ok (ex_enc_orderbook ex ob)))
      else if rq_Query req = ''funding'' then ask_market ex (\<lambda>m. svc_Funding m (rq_Ticker req))
      else if rq_Query req = ''estimate''
      then act_bind (act_ret (parseSide (rq_Side req))) (\<lambda>side.
           ask_market ex (\<lambda>m. go_bind (svc_EstimateClearing (ex_rat_set ex) m (rq_Ticker req) side (rq_Size req))
             (\<lambda>c. Ok (enc_ClearingEstimate c))))
      else act_ret (Err (Errorf ''unknown query %q'' [AQ (rq_Query req)])))"

text \<open>What a read-only deployment answers to a request that is not a market data query.\<close>

definition read_only_refusal :: "string \<Rightarrow> err" where
  "read_only_refusal skill =
     (if skill = SkillMarketData then Errorf ''no query named for %s'' [AS SkillMarketData]
      else if skill = SkillExecution
      then Errorf ''execution requires a delegation credential and an operator-configured deployment; this read-only deployment serves only the %s skill''
             [AS SkillMarketData]
      else Errorf ''unknown skill %q; this read-only deployment serves only the %s skill (run with -config for the full agent)''
             [AQ skill, AS SkillMarketData])"

definition find_op :: "'x Registry \<Rightarrow> Request \<Rightarrow> 'x Op go" where
  "find_op registry req =
     (if rq_Tool req = [] then Err (Errorf ''no tool named for %s'' [AS (rq_Skill req)])
      else case Lookup registry (rq_Tool req) of
             None \<Rightarrow> Err (Errorf ''unknown tool %q'' [AQ (rq_Tool req)])
           | Some p \<Rightarrow>
               if op_Skill p \<noteq> rq_Skill req
               then Err (Errorf ''tool %q belongs to skill %q, not %q'' [AQ (rq_Tool req), AQ (op_Skill p), AQ (rq_Skill req)])
               else Ok p)"

definition attach_tenant :: "'x Executor \<Rightarrow> ExecutorContext \<Rightarrow> Request \<Rightarrow> ('x agent_state, ToolCtx) act" where
  "attach_tenant ex xc req =
     (case ex_authr ex of None \<Rightarrow> act_ret (Ok no_ctx) | Some ar \<Rightarrow> Attach ar xc req)"

definition admit_reader :: "(nat \<Rightarrow> int) \<Rightarrow> Verified \<Rightarrow> ('x agent_state, TenantContext) act" where
  "admit_reader clock v = (\<lambda>s. case Admit clock v (ag_tenants s) of (tc, t) \<Rightarrow> (Ok tc, s\<lparr>ag_tenants := t\<rparr>))"

text \<open>
  A credential on a covered query, when no bearer resolved: the call goes on as the credential's
  principal, with pinned arguments. Any other call goes on as it is.
\<close>

definition delegated_read ::
  "'x Executor \<Rightarrow> DelegationMetadata option \<Rightarrow> Request \<Rightarrow> ToolCtx \<Rightarrow> ('x agent_state, ToolCtx \<times> raw) act" where
  "delegated_read ex deleg req ctx =
     (case (deleg, ex_reads ex, ex_readTenants ex) of
        (Some d, Some env, Some clock) \<Rightarrow>
          if ReadSpecFor (rq_Tool req) \<noteq> None \<and> cx_Tenant ctx = None
          then act_bind (on_service (AuthorizeRead env (rq_Tool req) (dm_Tokens d) (rq_Args req))) (\<lambda>(verified, newArgs).
               act_bind (admit_reader clock verified) (\<lambda>tc.
               act_ret (Ok (ctx\<lparr>cx_Tenant := Some tc\<rparr>, newArgs))))
          else act_ret (Ok (ctx, rq_Args req))
      | _ \<Rightarrow> act_ret (Ok (ctx, rq_Args req)))"

definition merge_proof :: "DelegationMetadata option \<Rightarrow> raw \<Rightarrow> raw go" where
  "merge_proof deleg args =
     (case deleg of None \<Rightarrow> Ok args | Some d \<Rightarrow> injectProof args (dm_Tokens d))"

text \<open>The tool's answer, an error included, becomes the response.\<close>

definition respond :: "'x Executor \<Rightarrow> Request \<Rightarrow> ('x agent_state, goany) act \<Rightarrow> ('x agent_state, string) act" where
  "respond ex req call = (\<lambda>s.
     case call s of
       (Panics, s') \<Rightarrow> (Panics, s')
     | (Err e, s') \<Rightarrow> (encode_result ex (enc_Response
           \<lparr>rs_Skill = rq_Skill req, rs_Tool = rq_Tool req, rs_OK = False, rs_Result = None, rs_Error = ex_err_text ex e\<rparr>), s')
     | (Ok v, s') \<Rightarrow> (encode_result ex (enc_Response
           \<lparr>rs_Skill = rq_Skill req, rs_Tool = rq_Tool req, rs_OK = True, rs_Result = Some v, rs_Error = []\<rparr>), s'))"

definition dispatch ::
  "'x Executor \<Rightarrow> 'x Registry \<Rightarrow> ExecutorContext \<Rightarrow> DelegationMetadata option \<Rightarrow> Request \<Rightarrow> ('x agent_state, string) act" where
  "dispatch ex registry xc deleg req =
     act_bind (act_ret (find_op registry req)) (\<lambda>p.
     act_bind (attach_tenant ex xc req) (\<lambda>ctx.
     act_bind (delegated_read ex deleg req ctx) (\<lambda>(ctx, args).
     act_bind (act_ret (merge_proof deleg args)) (\<lambda>args.
     respond ex req (op_Call p ctx args)))))"

definition parse_request :: "'x Executor \<Rightarrow> string \<Rightarrow> Request go" where
  "parse_request ex raw =
     go_bind (wrap_err (\<lambda>e. Errorf ''request must be JSON naming a skill: %w'' [AW e])
        (go_bind (ex_parse ex raw) (dec_input Request_fields zero_Request))) (\<lambda>req.
     if rq_Skill req = [] then Err (Errorf ''no skill named'' []) else Ok req)"

definition handle :: "'x Executor \<Rightarrow> ExecutorContext \<Rightarrow> ('x agent_state, string) act" where
  "handle ex xc =
     act_bind (act_ret (parse_request ex (messageText (xc_Message xc)))) (\<lambda>req.
     act_bind (act_ret (delegationFromMessage (xc_Message xc))) (\<lambda>deleg.
     if rq_Skill req = SkillMarketData \<and> rq_Query req \<noteq> [] then handleMarketData ex req
     else case ex_registry ex of
            None \<Rightarrow> act_ret (Err (read_only_refusal (rq_Skill req)))
          | Some registry \<Rightarrow> dispatch ex registry xc deleg req))"

subsection \<open>The task's events\<close>

datatype a2a_event =
    SubmittedTask
  | StatusWorking
  | StatusCompleted string
  | StatusCanceled

text \<open>
  \<open>Execute\<close> yields events until the consumer's \<open>yield\<close> returns false; \<open>keep n\<close> is what the
  \<open>n\<close>-th yield returns. The result is what was yielded, and how the iteration ended.
\<close>

type_synonym yields = "(a2a_event + err) list"

definition completed :: "'x Executor \<Rightarrow> string go \<Rightarrow> yields" where
  "completed ex r = (case r of
     Ok text \<Rightarrow> [Inl (StatusCompleted text)]
   | Err e \<Rightarrow> [Inl (StatusCompleted (''error: '' @ ex_err_text ex e))]
   | Panics \<Rightarrow> [])"

definition Execute ::
  "'x Executor \<Rightarrow> ExecutorContext \<Rightarrow> (nat \<Rightarrow> bool) \<Rightarrow> 'x agent_state \<Rightarrow> yields \<times> unit go \<times> 'x agent_state" where
  "Execute ex xc keep s =
     (if xc_Message xc = None then ([Inr (Errorf ''empty message'' [])], Ok (), s)
      else
        let submitted = (if xc_StoredTask xc then [] else [Inl SubmittedTask]) in
        if submitted \<noteq> [] \<and> \<not> keep 0 then (submitted, Ok (), s)
        else
          let started = submitted @ [Inl StatusWorking] in
          if \<not> keep (length submitted) then (started, Ok (), s)
          else (case handle ex xc s of
                  (r, s') \<Rightarrow> (started @ completed ex r, if r = Panics then Panics else Ok (), s')))"

definition Cancel :: "'x Executor \<Rightarrow> ExecutorContext \<Rightarrow> yields" where
  "Cancel ex xc = [Inl StatusCanceled]"

end
