(* ===== verification/Tool_Registry.thy ===== *)
theory Tool_Registry
  imports Tool_Bridge
begin

section \<open>What the registry and the adapters guarantee\<close>

subsection \<open>Filling a registry\<close>

text \<open>Names are unique and an entry is filed under its own name.\<close>

definition reg_wf :: "'x Registry \<Rightarrow> bool" where
  "reg_wf r \<longleftrightarrow> distinct (map fst (reg_ops r)) \<and> (\<forall>(t, p) \<in> set (reg_ops r). op_Tool p = t)"

definition entry :: "string \<times> string \<times> 'x tool_call \<Rightarrow> string \<times> 'x Op" where
  "entry e = (case e of (skill, tool, call) \<Rightarrow> (tool, \<lparr>op_Skill = skill, op_Tool = tool, op_Call = call\<rparr>))"

lemma fst_entry [simp]: "fst (entry (s, t, c)) = t"
  by (simp add: entry_def)

lemma map_fst_entry [simp]: "map (fst \<circ> entry) es = map (\<lambda>(s, t, c). t) es"
  by (induction es) auto

lemma reg_wf_add: "reg_wf r \<Longrightarrow> map_of (reg_ops r) t = None \<Longrightarrow> reg_wf (r\<lparr>reg_ops := reg_ops r @ [entry (s, t, c)]\<rparr>)"
  by (auto simp: reg_wf_def entry_def map_of_eq_None_iff)

lemma add_all_ok:
  assumes "reg_wf r" and "distinct (map fst (reg_ops r) @ map (\<lambda>(s, t, c). t) es)"
  shows "add_all es r = Ok (r\<lparr>reg_ops := reg_ops r @ map entry es\<rparr>) \<and>
    reg_wf (r\<lparr>reg_ops := reg_ops r @ map entry es\<rparr>)"
  using assms
proof (induction es arbitrary: r)
  case Nil
  then show ?case by simp
next
  case (Cons e es)
  obtain s t c where e: "e = (s, t, c)" by (cases e) auto
  let ?r = "r\<lparr>reg_ops := reg_ops r @ [entry (s, t, c)]\<rparr>"
  have new: "map_of (reg_ops r) t = None" using Cons.prems(2) by (auto simp: e map_of_eq_None_iff)
  then have "reg_add s t c r = Ok ?r" by (simp add: reg_add_def entry_def)
  moreover have "reg_wf ?r" using Cons.prems(1) new by (rule reg_wf_add)
  ultimately show ?case using Cons.IH [of ?r] Cons.prems(2) by (auto simp: e)
qed

text \<open>A duplicate name stops the filling with a panic.\<close>

lemma reg_add_dup: "reg_add s t c r = Panics \<longleftrightarrow> map_of (reg_ops r) t \<noteq> None"
  by (simp add: reg_add_def)

lemma newRegistry_wf: "reg_wf newRegistry"
  by (simp add: reg_wf_def newRegistry_def)

subsection \<open>The agent's registry\<close>

text \<open>The three registrations in the order the agent is wired.\<close>

definition full_registry ::
  "('x agent_state \<Rightarrow> string \<Rightarrow> TenantPolicy option) \<Rightarrow> (string \<Rightarrow> ('i, 'x) lib_tool) \<Rightarrow> ac_env \<Rightarrow> dg_env option \<Rightarrow> 'x Registry go" where
  "full_registry tenants h chain svc =
     go_bind (Registry_New tenants h) (\<lambda>r. go_bind (RegisterAgentChain chain r) (RegisterExecution svc))"

definition lib_entries ::
  "('x agent_state \<Rightarrow> string \<Rightarrow> TenantPolicy option) \<Rightarrow> (string \<Rightarrow> ('i, 'x) lib_tool) \<Rightarrow> (string \<times> string \<times> 'x tool_call) list" where
  "lib_entries tenants h = map (\<lambda>(skill, tool, method). (skill, tool, lib_call tenants (h method))) handler_tools"

definition execution_entries :: "dg_env option \<Rightarrow> (string \<times> string \<times> 'x tool_call) list" where
  "execution_entries svc =
     (case svc of
        None \<Rightarrow> map (\<lambda>tool. (SkillExecution, tool, refusing_call keyless_reason)) executionTools
      | Some env \<Rightarrow> execution_tools env)"

definition all_entries ::
  "('x agent_state \<Rightarrow> string \<Rightarrow> TenantPolicy option) \<Rightarrow> (string \<Rightarrow> ('i, 'x) lib_tool) \<Rightarrow> ac_env \<Rightarrow> dg_env option \<Rightarrow> (string \<times> string \<times> 'x tool_call) list" where
  "all_entries tenants h chain svc = lib_entries tenants h @ chain_tools chain @ execution_entries svc"

text \<open>The names the entries are registered under, with their skills, whatever the services answer.\<close>

definition chain_names :: "(string \<times> string) list" where
  "chain_names =
     map (Pair SkillAgentRegistry)
      [''get_agent'', ''get_agent_by_operator'', ''list_agents'', ''get_agents_by_owner'',
       ''get_agents_by_capability'', ''get_agent_params'', ''broadcast_agent_chain_tx'',
       ''build_register_agent'', ''build_update_agent'', ''build_deposit_bond'',
       ''build_withdraw_bond'', ''build_deregister_agent''] @
     map (Pair SkillDelegation)
      [''get_delegation'', ''get_delegations_by_delegator'', ''get_delegation_epoch'',
       ''get_delegation_spend'', ''get_agentwallet_params'', ''build_create_delegation'',
       ''build_update_delegation'', ''build_pause_delegation'', ''build_resume_delegation'',
       ''build_revoke_delegation'', ''build_revoke_token'']"

definition registered_names :: "(string \<times> string) list" where
  "registered_names = map (\<lambda>(skill, tool, method). (skill, tool)) handler_tools @ chain_names @
     map (Pair SkillExecution) executionTools"

lemma lib_entries_names:
  "map (\<lambda>(s, t, c). (s, t)) (lib_entries tenants h) = map (\<lambda>(skill, tool, method). (skill, tool)) handler_tools"
  by (simp add: lib_entries_def case_prod_unfold comp_def)

lemma chain_tools_names: "map (\<lambda>(s, t, c). (s, t)) (chain_tools chain) = chain_names"
  by (simp add: chain_tools_def chain_names_def)

lemma execution_entries_names:
  "map (\<lambda>(s, t, c). (s, t)) (execution_entries svc) = map (Pair SkillExecution) executionTools"
  by (simp add: execution_entries_def execution_tools_def executionTools_def split: option.split)

lemma all_entries_names: "map (\<lambda>(s, t, c). (s, t)) (all_entries tenants h chain svc) = registered_names"
  by (simp add: all_entries_def registered_names_def lib_entries_names chain_tools_names execution_entries_names)

lemma registered_names_distinct: "distinct (map snd registered_names)"
  by code_simp

lemma all_entries_distinct: "distinct (map (\<lambda>(s, t, c). t) (all_entries tenants h chain svc))"
proof -
  have "map (\<lambda>(s, t, c). t) (all_entries tenants h chain svc) =
      map snd (map (\<lambda>(s, t, c). (s, t)) (all_entries tenants h chain svc))"
    by (simp add: case_prod_unfold comp_def)
  then show ?thesis by (simp add: all_entries_names registered_names_distinct)
qed

lemma add_all_append: "add_all (es @ fs) r = go_bind (add_all es r) (add_all fs)"
  by (induction es arbitrary: r) (auto simp: reg_add_def)

lemma add_all_append_fun: "add_all (es @ fs) = (\<lambda>r. go_bind (add_all es r) (add_all fs))"
  by (rule ext) (rule add_all_append)

lemma RegisterExecution_entries: "RegisterExecution svc = add_all (execution_entries svc)"
  by (rule ext) (simp add: RegisterExecution_def execution_entries_def split: option.split)

lemma full_registry_add_all:
  "full_registry tenants h chain svc = add_all (all_entries tenants h chain svc) newRegistry"
  by (simp add: full_registry_def Registry_New_def RegisterAgentChain_def all_entries_def
      add_all_append_fun lib_entries_def RegisterExecution_entries)

lemma full_registry_eq:
  "full_registry tenants h chain svc = Ok \<lparr>reg_ops = map entry (all_entries tenants h chain svc)\<rparr> \<and>
   reg_wf \<lparr>reg_ops = map entry (all_entries tenants h chain svc)\<rparr>"
proof -
  have "distinct (map fst (reg_ops newRegistry) @ map (\<lambda>(s, t, c). t) (all_entries tenants h chain svc))"
    by (simp add: newRegistry_def all_entries_distinct)
  from add_all_ok [OF newRegistry_wf this] show ?thesis
    by (simp add: full_registry_add_all newRegistry_def)
qed

lemma full_registry_ops:
  assumes "full_registry tenants h chain svc = Ok r"
  shows "reg_ops r = map entry (all_entries tenants h chain svc)" and "reg_wf r"
  using assms full_registry_eq [of tenants h chain svc] by auto

lemma Lookup_entry:
  assumes "full_registry tenants h chain svc = Ok r"
  shows "Lookup r t = Some p \<longleftrightarrow> (\<exists>s c. (s, t, c) \<in> set (all_entries tenants h chain svc) \<and> entry (s, t, c) = (t, p))"
proof -
  note r = full_registry_ops(1) [OF assms]
  have d: "distinct (map fst (reg_ops r))" using full_registry_ops(2) [OF assms] by (simp add: reg_wf_def)
  have "Lookup r t = Some p \<longleftrightarrow> (t, p) \<in> set (reg_ops r)" using d by (simp add: Lookup_def)
  also have "\<dots> \<longleftrightarrow> (\<exists>s c. (s, t, c) \<in> set (all_entries tenants h chain svc) \<and> entry (s, t, c) = (t, p))"
    by (force simp: r entry_def)
  finally show ?thesis .
qed

lemma map_entry_names: "map (\<lambda>(t, p). (op_Skill p, t)) (map entry es) = map (\<lambda>(s, t, c). (s, t)) es"
  by (induction es) (auto simp: entry_def)

subsection \<open>A keyless deployment\<close>

text \<open>
  On a keyless deployment every tool of the execution skill refuses every call with the
  operator-key requirement, and changes nothing.
\<close>

theorem keyless_refuses:
  assumes "full_registry tenants h chain None = Ok r" and "t \<in> set executionTools"
  shows "\<exists>p. Lookup r t = Some p \<and> op_Skill p = SkillExecution \<and>
    op_Call p ctx raw s = (Err (errors_New keyless_reason), s)"
proof -
  have "(SkillExecution, t, refusing_call keyless_reason) \<in> set (all_entries tenants h chain None)"
    using assms(2) by (simp add: all_entries_def execution_entries_def)
  then have "Lookup r t = Some \<lparr>op_Skill = SkillExecution, op_Tool = t, op_Call = refusing_call keyless_reason\<rparr>"
    unfolding Lookup_entry [OF assms(1)] by (auto simp: entry_def)
  then show ?thesis by (simp add: refusing_call_def)
qed

subsection \<open>The tools of a skill\<close>

definition tools_of :: "'x Registry \<Rightarrow> string \<Rightarrow> string set" where
  "tools_of r skill = {t. \<exists>p. Lookup r t = Some p \<and> op_Skill p = skill}"

lemma fold_put_skill:
  "fold put_skill ps out sk =
     (let ts = map op_Tool (filter (\<lambda>p. op_Skill p = sk) ps) in
      if ts = [] then out sk else Some ((case out sk of None \<Rightarrow> [] | Some l \<Rightarrow> l) @ ts))"
  by (induction ps arbitrary: out) (auto simp: put_skill_def Let_def split: option.split)

lemma wf_tools_of:
  assumes "reg_wf r"
  shows "set (map op_Tool (filter (\<lambda>p. op_Skill p = sk) (map snd (reg_ops r)))) = tools_of r sk"
    and "distinct (map op_Tool (filter (\<lambda>p. op_Skill p = sk) (map snd (reg_ops r))))"
proof -
  have d: "distinct (map fst (reg_ops r))" and w: "\<And>t p. (t, p) \<in> set (reg_ops r) \<Longrightarrow> op_Tool p = t"
    using assms by (auto simp: reg_wf_def)
  show "set (map op_Tool (filter (\<lambda>p. op_Skill p = sk) (map snd (reg_ops r)))) = tools_of r sk"
    using d w by (force simp: tools_of_def Lookup_def)
  have "map op_Tool (map snd (reg_ops r)) = map fst (reg_ops r)"
    using w by (auto simp: case_prod_unfold)
  with d have "distinct (map op_Tool (map snd (reg_ops r)))" by metis
  then show "distinct (map op_Tool (filter (\<lambda>p. op_Skill p = sk) (map snd (reg_ops r))))"
    by (auto simp: distinct_map filter_map intro: inj_on_subset distinct_filter)
qed

lemma BySkill_set:
  assumes "reg_wf r"
  shows "BySkill r sk = (if tools_of r sk = {} then None else Some (sorted_list_of_set (tools_of r sk)))"
proof -
  let ?ts = "map op_Tool (filter (\<lambda>p. op_Skill p = sk) (map snd (reg_ops r)))"
  have "sort ?ts = sorted_list_of_set (set ?ts)"
    using wf_tools_of(2) [OF assms] by (simp add: sorted_list_of_set_sort_remdups distinct_remdups_id del: set_map)
  then have "sort ?ts = sorted_list_of_set (tools_of r sk)"
    by (simp only: wf_tools_of(1) [OF assms])
  moreover have "?ts = [] \<longleftrightarrow> tools_of r sk = {}"
    using wf_tools_of(1) [OF assms, of sk] by (metis set_empty)
  ultimately show ?thesis
    by (simp add: BySkill_def fold_put_skill Let_def)
qed

text \<open>
  \<open>BySkill\<close> lists under each skill exactly the tools that \<open>Lookup\<close> finds with that skill, each
  once and in ascending order, and has no entry for a skill without tools: its answer depends on
  the registry's contents only, not on the order in which the map is iterated.
\<close>

theorem BySkill_exact:
  assumes "reg_wf r"
  shows "BySkill r sk = (if tools_of r sk = {} then None else Some (sorted_list_of_set (tools_of r sk)))"
  using assms by (rule BySkill_set)

text \<open>The tools of a skill in the agent's registry are those its entries are registered under.\<close>

lemma full_registry_tools:
  assumes "full_registry tenants h chain svc = Ok r"
  shows "tools_of r sk = {t. (sk, t) \<in> set registered_names}"
proof -
  let ?es = "all_entries tenants h chain svc"
  have "t \<in> tools_of r sk \<longleftrightarrow> (\<exists>c. (sk, t, c) \<in> set ?es)" for t
  proof
    assume "t \<in> tools_of r sk"
    then show "\<exists>c. (sk, t, c) \<in> set ?es"
      by (auto simp: tools_of_def Lookup_entry [OF assms] entry_def)
  next
    assume "\<exists>c. (sk, t, c) \<in> set ?es"
    then obtain c where "(sk, t, c) \<in> set ?es" ..
    then have "Lookup r t = Some \<lparr>op_Skill = sk, op_Tool = t, op_Call = c\<rparr>"
      unfolding Lookup_entry [OF assms] by (auto simp: entry_def)
    then show "t \<in> tools_of r sk" by (simp add: tools_of_def)
  qed
  moreover have "(\<exists>c. (sk, t, c) \<in> set ?es) \<longleftrightarrow> (sk, t) \<in> set (map (\<lambda>(s, t, c). (s, t)) ?es)" for t
    by force
  ultimately show ?thesis by (auto simp: all_entries_names)
qed

subsection \<open>The adapters\<close>

text \<open>The names of the members the caller wrote.\<close>

fun arg_names :: "raw \<Rightarrow> string list" where
  "arg_names (Some (JObj kvs)) = map fst kvs"
| "arg_names _ = []"

lemma keys_jm_of: "fst ` set (jm_of kvs) = fst ` set kvs"
proof -
  have "fst ` set (fold (\<lambda>(k, v). jm_put k v) kvs m) = fst ` set kvs \<union> fst ` set m" for m
  proof (induction kvs arbitrary: m)
    case (Cons kv kvs)
    then show ?case by (cases kv) (simp add: fst_set_jm_put)
  qed simp
  then show ?thesis by (simp add: jm_of_def)
qed

lemma strict_keys_ok:
  "strict_keys keys j = Ok () \<longleftrightarrow> (j = JNull \<or> (\<exists>kvs. j = JObj kvs)) \<and> set (arg_names (Some j)) \<subseteq> set keys"
proof (cases j)
  case (JObj kvs)
  have "find (\<lambda>(k, v). k \<notin> set keys) (jm_of kvs) = None \<longleftrightarrow> fst ` set (jm_of kvs) \<subseteq> set keys"
    by (auto simp: find_None_iff)
  then show ?thesis by (auto simp: JObj strict_keys_def keys_jm_of split: option.split)
qed (auto simp: strict_keys_def)

lemma strict_keys_no_panic: "strict_keys keys j \<noteq> Panics"
  by (auto simp: strict_keys_def go_iff dec_map_no_panic split: gomap.splits option.splits)

text \<open>An adapted call either fails before the handler, changing nothing, or is the handler's run.\<close>

lemma adaptNative_cases:
  assumes "adaptNative dec zero f enc ctx raw s = (r, s')"
  shows "s' = s \<and> \<not> is_ok r \<or>
    (\<exists>inp q. decode_args dec zero raw = Ok inp \<and> f ctx inp s = (q, s') \<and> r = go_bind q (\<lambda>out. Ok (enc out)))"
proof (cases "decode_args dec zero raw")
  case (Ok inp)
  obtain q t where f: "f ctx inp s = (q, t)" by force
  have "t = s' \<and> r = go_bind q (\<lambda>out. Ok (enc out))"
    using assms by (cases q) (simp_all add: adaptNative_def act_bind_def Ok f)
  with f Ok show ?thesis by simp
next
  case (Err e)
  with assms show ?thesis by (auto simp: adaptNative_def act_bind_def)
next
  case Panics
  with assms show ?thesis by (auto simp: adaptNative_def act_bind_def)
qed

lemma strict_cases:
  assumes "adaptStrictNative fs zero f enc ctx raw s = (r, s')"
  shows "s' = s \<and> \<not> is_ok r \<or>
    (\<exists>inp q. set (arg_names raw) \<subseteq> set (jsonKeysOf fs) \<and> decode_args (dec_input fs) zero raw = Ok inp \<and>
       f ctx inp s = (q, s') \<and> r = go_bind q (\<lambda>out. Ok (enc out)))"
proof -
  let ?k = "case raw of None \<Rightarrow> Ok () | Some j \<Rightarrow> strict_keys (jsonKeysOf fs) j"
  show ?thesis
  proof (cases "?k = Ok ()")
    case True
    then have names: "set (arg_names raw) \<subseteq> set (jsonKeysOf fs)"
      by (cases raw) (auto simp: strict_keys_ok)
    have "adaptNative (dec_input fs) zero f enc ctx raw s = (r, s')"
      using assms True by (simp add: adaptStrictNative_def)
    from adaptNative_cases [OF this] names show ?thesis by blast
  next
    case False
    then show ?thesis using assms by (cases ?k) (auto simp: adaptStrictNative_def act_bind_def)
  qed
qed

text \<open>
  C28: A strictly adapted call runs its handler only when every member of the arguments is, letter for
  letter, the JSON name of a field of the input, and then on the input decoded from all of them;
  otherwise it refuses and changes nothing, so flat or misspelt parameters can never reach an
  execute tool as zero values.
\<close>

theorem strict_adapter:
  assumes "adaptStrictNative fs zero f enc ctx raw s = (r, s')"
  shows "s' = s \<and> \<not> is_ok r \<or>
    (\<exists>inp q. set (arg_names raw) \<subseteq> set (jsonKeysOf fs) \<and> decode_args (dec_input fs) zero raw = Ok inp \<and>
       f ctx inp s = (q, s') \<and> r = go_bind q (\<lambda>out. Ok (enc out)))"
  using assms by (rule strict_cases)

subsection \<open>The agent-chain tools need a tenant\<close>

lemmas chain_op_defs = GetAgent_def GetAgentByOperator_def ListAgents_def GetAgentsByOwner_def
  GetAgentsByCapability_def GetAgentParams_def GetDelegation_def GetDelegationsByDelegator_def
  GetDelegationEpoch_def GetDelegationSpend_def GetAgentwalletParams_def build_defs

definition needs_tenant :: "'x tool_call \<Rightarrow> bool" where
  "needs_tenant call \<longleftrightarrow> (\<forall>ctx raw s. cx_Tenant ctx = None \<longrightarrow>
     \<not> is_ok (fst (call ctx raw s)) \<and> snd (call ctx raw s) = s)"

lemma native_needs_tenant:
  assumes "\<And>ctx inp sv. cx_Tenant ctx = None \<Longrightarrow> f ctx inp sv = (Err ErrNoTenant, sv)"
  shows "needs_tenant (native fs zero enc f)"
  unfolding needs_tenant_def
proof (intro allI impI)
  fix ctx :: ToolCtx and raw s
  assume no: "cx_Tenant ctx = None"
  obtain r s' where run: "native fs zero enc f ctx raw s = (r, s')" by force
  then have "adaptNative (dec_input fs) zero (\<lambda>ctx inp. on_service (f ctx inp)) enc ctx raw s = (r, s')"
    by (simp add: native_def)
  from adaptNative_cases [OF this] have "\<not> is_ok r \<and> s' = s"
    by (auto simp: on_service_def assms [OF no])
  with run show "\<not> is_ok (fst (native fs zero enc f ctx raw s)) \<and> snd (native fs zero enc f ctx raw s) = s"
    by simp
qed

lemma chain_queries_refuse:
  assumes "cx_Tenant ctx = None"
  shows "query_agent env ctx q s = (Err ErrNoTenant, s)" "query_wallet env ctx w s = (Err ErrNoTenant, s)"
    "query_root env ctx k inp s = (Err ErrNoTenant, s)" "BroadcastSignedTx env ctx b s = (Err ErrNoTenant, s)"
    "build_for_owner env ctx tool clientID mk summary s = (Err ErrNoTenant, s)"
  by (simp_all add: query_agent_def query_wallet_def query_root_def BroadcastSignedTx_def build_for_owner_def
      authorize_no_tenant assms)

lemma chain_tools_list: "\<forall>e \<in> set (chain_tools env). needs_tenant (snd (snd e))"
  unfolding chain_tools_def list.set ball_simps snd_conv
  by (intro conjI TrueI native_needs_tenant) (simp_all add: chain_op_defs chain_queries_refuse)

text \<open>
  C29: Without a tenant no tool of the agent chain does anything: each of the 23 calls fails, asks
  the chain nothing and leaves the state as it was, whatever the arguments.
\<close>

theorem chain_tools_need_tenant:
  assumes "(skill, tool, call) \<in> set (chain_tools env)" and "cx_Tenant ctx = None"
  shows "\<not> is_ok (fst (call ctx raw s)) \<and> snd (call ctx raw s) = s"
  using chain_tools_list assms unfolding needs_tenant_def by fastforce

end
