(* ===== verification/A2A_Card.thy ===== *)
theory A2A_Card
  imports A2A_Server Tool_Registry
begin

section \<open>The agent card\<close>

text \<open>
  \<open>internal/a2aserver/card.go\<close>: the static half of each skill and the card built over the registry's
  tools. Texts outside ASCII are written by their UTF-8 bytes.
\<close>

definition AgentName :: string where "AgentName = ''svpchain-dex-agent''"
definition AgentVersion :: string where "AgentVersion = ''0.2.0''"

definition AgentDescription :: string where
  "AgentDescription = ''Full-surface agent for an SVP-Chain perpetuals DEX: market data, accounts, unsigned tx '' @
       ''building (trading, funds, agent registry, delegations), broadcast, self-service auth, '' @
       ''faucet, EVM (swap/bridge/ERC), Lendora money market, and delegated execution under SVP-DT '' @
       ''credentials.''"

record skillMeta =
  sk_id :: string
  sk_name :: string
  sk_desc :: string
  sk_tags :: "string list"
  sk_examples :: "string list"

definition meta_MarketData :: skillMeta where
  "meta_MarketData = \<lparr>sk_id = SkillMarketData, sk_name = ''SVP-Chain Market Data'',
     sk_desc = ''Read-only market intelligence: perpetual markets, live orderbooks, candles, trades, '' @
       ''funding, oracle price, and a batch-auction clearing-price estimate for a given order '' @
       ''size. Needs no credential and no account.'',
     sk_tags = [''market-data'', ''orderbook'', ''funding'', ''perpetuals'', ''read-only''],
     sk_examples = [''{\"skill\":\"svpchain-market-data\",\"query\":\"estimate\",\"ticker\":\"BTC-USD\",\"side\":\"buy\",\"size\":\"2.5\"}'',
       ''{\"skill\":\"svpchain-market-data\",\"tool\":\"list_markets\"}'',
       ''{\"skill\":\"svpchain-market-data\",\"tool\":\"get_orderbook\",\"args\":{\"ticker\":\"BTC-USD\"}}'']\<rparr>"

definition meta_Account :: skillMeta where
  "meta_Account = \<lparr>sk_id = SkillAccount, sk_name = ''SVP-Chain Account & Positions'',
     sk_desc = ''Owner-scoped reads: subaccounts (indexer, or live from chain gRPC via '' @
       ''get_live_subaccount, which answers even when the indexer is down), wallet balances, '' @
       ''orders, fills, transfers, PnL, and funding payments. Requires a bearer from the '' @
       ''svpchain-auth skill '' @ [CHR 0xE2, CHR 0x80, CHR 0x94] @ '' or an SVP-DT credential granting the \"query.account\" action, '' @
       ''attached as message.metadata \"svp.delegation/v1\", which covers every owner-scoped read '' @
       ''except the id-only get_order and the session tool whoami; the owner then defaults to the '' @
       ''credential's principal, and the credential stays reusable for polling until it expires.'',
     sk_tags = [''account'', ''positions'', ''pnl'', ''orders''],
     sk_examples = [''{\"skill\":\"svpchain-account\",\"tool\":\"get_subaccount\",\"args\":{\"address\":\"svp1'' @ [CHR 0xE2, CHR 0x80, CHR 0xA6] @ ''\",\"subaccount_number\":0},\"bearer\":\"'' @ [CHR 0xE2, CHR 0x80, CHR 0xA6] @ ''\"}'',
       ''message.metadata: {\"svp.delegation/v1\":{\"tokens\":[\"<base64 token>\", \"'' @ [CHR 0xE2, CHR 0x80, CHR 0xA6] @ ''\"]}} '' @ [CHR 0xC2, CHR 0xB7] @ '' text: '' @
         ''{\"skill\":\"svpchain-account\",\"tool\":\"get_balance\",\"args\":{}}'']\<rparr>"

definition meta_Trading :: skillMeta where
  "meta_Trading = \<lparr>sk_id = SkillTrading, sk_name = ''SVP-Chain Trading (build)'',
     sk_desc = ''Build unsigned order transactions '' @ [CHR 0xE2, CHR 0x80, CHR 0x94] @ '' limit, market, conditional, cancel, batch cancel '' @ [CHR 0xE2, CHR 0x80, CHR 0x94] @ '' as '' @
       ''payloads the caller signs with its own key and lands via broadcast_signed_tx. The agent '' @
       ''never holds the caller's key.'',
     sk_tags = [''trading'', ''orders'', ''unsigned-tx''],
     sk_examples = [''{\"skill\":\"svpchain-trading\",\"tool\":\"build_place_limit_order\",\"args\":{\"owner\":\"svp1'' @ [CHR 0xE2, CHR 0x80, CHR 0xA6] @ ''\",\"subaccount_number\":0,\"ticker\":\"BTC-USD\",\"side\":\"buy\",\"size\":\"0.1\",\"price\":\"60000\"},\"bearer\":\"'' @ [CHR 0xE2, CHR 0x80, CHR 0xA6] @ ''\"}'']\<rparr>"

definition meta_Funds :: skillMeta where
  "meta_Funds = \<lparr>sk_id = SkillFunds, sk_name = ''SVP-Chain Funds (build)'',
     sk_desc = ''Build unsigned funds movements '' @ [CHR 0xE2, CHR 0x80, CHR 0x94] @ '' deposit/withdraw/transfer between subaccounts, bank send '' @
       [CHR 0xE2, CHR 0x80, CHR 0x94] @ '' plus per-symbol daily transfer-out caps. Movements are size-capped by the operator's '' @
       ''limits config.'',
     sk_tags = [''funds'', ''deposit'', ''withdraw'', ''unsigned-tx''],
     sk_examples = []\<rparr>"

definition meta_Broadcast :: skillMeta where
  "meta_Broadcast = \<lparr>sk_id = SkillBroadcast, sk_name = ''SVP-Chain Broadcast'',
     sk_desc = ''Land a signed transaction (the signer must be the authenticated owner) and query '' @
       ''transaction status by hash.'',
     sk_tags = [''broadcast'', ''tx-status''],
     sk_examples = []\<rparr>"

definition meta_Auth :: skillMeta where
  "meta_Auth = \<lparr>sk_id = SkillAuth, sk_name = ''SVP-Chain Self-Service Auth'',
     sk_desc = ''Wallet-signature authentication: auth_challenge issues a challenge bound to an owner '' @
       ''address, auth_verify checks the wallet's signature and mints a bearer token that '' @
       ''authenticates subsequent calls (Authorization header, envelope field, or bound to this '' @
       ''A2A context).'',
     sk_tags = [''auth'', ''bearer'', ''wallet-signature''],
     sk_examples = [''{\"skill\":\"svpchain-auth\",\"tool\":\"auth_challenge\",\"args\":{\"owner\":\"svp1'' @ [CHR 0xE2, CHR 0x80, CHR 0xA6] @ ''\"}}'',
       ''{\"skill\":\"svpchain-auth\",\"tool\":\"auth_verify\",\"args\":{\"nonce\":\"'' @ [CHR 0xE2, CHR 0x80, CHR 0xA6] @ ''\",\"signature\":\"'' @ [CHR 0xE2, CHR 0x80, CHR 0xA6] @ ''\"}}'']\<rparr>"

definition meta_Faucet :: skillMeta where
  "meta_Faucet = \<lparr>sk_id = SkillFaucet, sk_name = ''SVP-Chain Faucet'',
     sk_desc = ''Testnet faucet: list claimable tokens and claim them to an address.'',
     sk_tags = [''faucet'', ''testnet''],
     sk_examples = []\<rparr>"

definition meta_EVM :: skillMeta where
  "meta_EVM = \<lparr>sk_id = SkillEVM, sk_name = ''SVP-Chain EVM'',
     sk_desc = ''EVM-side operations: broadcast raw txs and track status, quote and build Uniswap-style '' @
       ''swaps, build bridge deposits (outbound and inbound from registered foreign chains), and '' @
       ''build ERC-20/ERC-721 transfers and approvals. Served only when the deployment configures '' @
       ''the EVM endpoints.'',
     sk_tags = [''evm'', ''swap'', ''bridge'', ''erc20'', ''erc721''],
     sk_examples = []\<rparr>"

definition meta_Lendora :: skillMeta where
  "meta_Lendora = \<lparr>sk_id = SkillLendora, sk_name = ''Lendora Money Market'',
     sk_desc = ''Lendora (Compound V2 fork) reads '' @ [CHR 0xE2, CHR 0x80, CHR 0x94] @ '' markets, dashboards, account positions, risk '' @
       ''assessment '' @ [CHR 0xE2, CHR 0x80, CHR 0x94] @ '' and unsigned supply/withdraw/borrow/repay/collateral txs. Served only when '' @
       ''the deployment configures the Lendora comptroller.'',
     sk_tags = [''lendora'', ''lending'', ''money-market''],
     sk_examples = []\<rparr>"

definition meta_AgentRegistry :: skillMeta where
  "meta_AgentRegistry = \<lparr>sk_id = SkillAgentRegistry, sk_name = ''SVP-Chain Agent Registry'',
     sk_desc = ''The chain's x/agent module: query registered agents (by id, operator, owner, capability) '' @
       ''and build unsigned registration-lifecycle txs '' @ [CHR 0xE2, CHR 0x80, CHR 0x94] @ '' register, update, bond deposit/withdraw, '' @
       ''deregister '' @ [CHR 0xE2, CHR 0x80, CHR 0x94] @ '' for the owner to sign.'',
     sk_tags = [''agent-registry'', ''x/agent'', ''registration'', ''bond''],
     sk_examples = []\<rparr>"

definition meta_Delegation :: skillMeta where
  "meta_Delegation = \<lparr>sk_id = SkillDelegation, sk_name = ''SVP-Chain Delegations'',
     sk_desc = ''The chain's x/agentwallet module: query root delegations, epochs, and spend ledgers, and '' @
       ''build unsigned delegation-lifecycle txs '' @ [CHR 0xE2, CHR 0x80, CHR 0x94] @ '' create, update, pause, resume, revoke, '' @
       ''revoke-token '' @ [CHR 0xE2, CHR 0x80, CHR 0x94] @ '' for the delegator to sign.'',
     sk_tags = [''delegation'', ''x/agentwallet'', ''svp-dt''],
     sk_examples = []\<rparr>"

definition meta_Execution :: skillMeta where
  "meta_Execution = \<lparr>sk_id = SkillExecution, sk_name = ''SVP-Chain Delegated Execution'',
     sk_desc = ''Place and cancel orders '' @ [CHR 0xE2, CHR 0x80, CHR 0x94] @ '' and deposit the user's own wallet USDC into their subaccount '' @ [CHR 0xE2, CHR 0x80, CHR 0x94] @ '' '' @
       ''on behalf of a user under an SVP-DT delegation credential: the agent verifies the '' @
       ''credential chain, wraps the message in MsgAgentExecDelegated, signs as the registered '' @
       ''operator, and broadcasts. The position lands on the user's subaccount, never the agent's; '' @
       ''a deposit can only move funds from the delegator's wallet into the delegator's subaccount '' @
       ''and debits the delegation budget. Requires a delegation proof whose leaf token is '' @
       ''addressed to this agent, carried in message.metadata under \"svp.delegation/v1\" (or, '' @
       ''deprecated, as the \"proof\" args field). Each execute tool nests its parameters under a '' @
       ''wrapper key '' @ [CHR 0xE2, CHR 0x80, CHR 0x94] @ '' \"order\" (execute_place_order), \"cancel\" (execute_cancel_order, '' @
       ''execute_batch_cancel), \"deposit\" (execute_deposit_to_subaccount) '' @ [CHR 0xE2, CHR 0x80, CHR 0x94] @ '' never flat in args; an '' @
       ''unknown top-level args key is refused.'',
     sk_tags = [''execution'', ''trading'', ''deposit'', ''delegation'', ''svp-dt''],
     sk_examples = [''message.metadata: {\"svp.delegation/v1\":{\"tokens\":[\"<base64 token>\", \"'' @ [CHR 0xE2, CHR 0x80, CHR 0xA6] @ ''\"]}} '' @ [CHR 0xC2, CHR 0xB7] @ '' text: '' @
         ''{\"skill\":\"svpchain-execution\",\"tool\":\"execute_place_order\",\"args\":{\"order\":{\"subaccount_number\":0,\"ticker\":\"BTC-USD\",\"side\":\"BUY\",\"size\":\"0.001\",\"price\":\"60000\",\"good_til_block\":123,\"order_client_id\":7}}}'',
       ''message.metadata: {\"svp.delegation/v1\":{\"tokens\":[\"<base64 token>\", \"'' @ [CHR 0xE2, CHR 0x80, CHR 0xA6] @ ''\"]}} '' @ [CHR 0xC2, CHR 0xB7] @ '' text: '' @
         ''{\"skill\":\"svpchain-execution\",\"tool\":\"execute_deposit_to_subaccount\",\"args\":{\"deposit\":{\"subaccount_number\":1,\"human_usdc\":\"10\"}}}'']\<rparr>"

definition skillMetas :: "skillMeta list" where
  "skillMetas = [meta_MarketData, meta_Account, meta_Trading, meta_Funds, meta_Broadcast, meta_Auth, meta_Faucet, meta_EVM, meta_Lendora, meta_AgentRegistry, meta_Delegation, meta_Execution]"

subsection \<open>Building the card\<close>

record AgentSkill =
  as_ID :: string
  as_Name :: string
  as_Description :: string
  as_Tags :: "string list"
  as_Examples :: "string list"

record AgentExtension =
  ae_URI :: string
  ae_Description :: string
  ae_Params :: "(string \<times> string) list"

record AgentCard =
  ac_Name :: string
  ac_Description :: string
  ac_Version :: string
  ac_InterfaceURLs :: "string list"
  ac_DefaultInputModes :: "string list"
  ac_DefaultOutputModes :: "string list"
  ac_Streaming :: bool
  ac_Extensions :: "AgentExtension list"
  ac_ProviderOrg :: string
  ac_ProviderURL :: string
  ac_Skills :: "AgentSkill list"

text \<open>A nil slice of tools reads as the empty one.\<close>

definition skill_tools :: "'x Registry option \<Rightarrow> string \<Rightarrow> string list" where
  "skill_tools reg skill = (case reg of None \<Rightarrow> [] | Some r \<Rightarrow> (case BySkill r skill of None \<Rightarrow> [] | Some ts \<Rightarrow> ts))"

text \<open>
  Without a registry only market data and execution are listed; with one, the skills that have
  tools.
\<close>

definition skill_listed :: "'x Registry option \<Rightarrow> skillMeta \<Rightarrow> bool" where
  "skill_listed reg m \<longleftrightarrow>
     (if reg = None then sk_id m = SkillMarketData \<or> sk_id m = SkillExecution
      else skill_tools reg (sk_id m) \<noteq> [])"

definition skill_entry :: "'x Registry option \<Rightarrow> skillMeta \<Rightarrow> AgentSkill" where
  "skill_entry reg m =
     (let tools = skill_tools reg (sk_id m) in
      \<lparr>as_ID = sk_id m, as_Name = sk_name m,
       as_Description = (if tools \<noteq> [] then sk_desc m @ '' Tools: '' @ join_with '', '' tools @ ''.'' else sk_desc m),
       as_Tags = sk_tags m, as_Examples = sk_examples m\<rparr>)"

definition delegation_extension :: AgentExtension where
  "delegation_extension = \<lparr>ae_URI = DelegationExtensionURI,
     ae_Description = ''SVP-DT delegated execution and read-only account queries: attach the credential chain as '' @
       ''message.metadata[\"'' @
       DelegationMetadataKey @ ''\"] = {\"tokens\": [<base64 canonical-CBOR>, '' @ [CHR 0xE2, CHR 0x80, CHR 0xA6] @ '']}, root-issued token first, leaf addressed to '' @
       ''this agent. Execution needs the matching execute action '' @ [CHR 0xE2, CHR 0x80, CHR 0x94] @ '' execute_place_order: '' @
       ''\"clob.place_order\" (budget required), execute_cancel_order: \"clob.cancel_order\", '' @
       ''execute_batch_cancel: \"clob.batch_cancel\", execute_deposit_to_subaccount: '' @
       ''\"sending.deposit_to_subaccount\" (budget required); owner-scoped account reads (all but '' @
       ''the id-only get_order and whoami) need the \"query.account\" action (no budget).'',
     ae_Params = [(''metadataKey'', DelegationMetadataKey)]\<rparr>"

definition BuildAgentCard :: "string \<Rightarrow> 'x Registry option \<Rightarrow> AgentCard" where
  "BuildAgentCard publicURL reg =
     \<lparr>ac_Name = AgentName, ac_Description = AgentDescription, ac_Version = AgentVersion,
      ac_InterfaceURLs = [publicURL @ ''/invoke''],
      ac_DefaultInputModes = [''application/json'', ''text/plain''],
      ac_DefaultOutputModes = [''application/json''], ac_Streaming = True,
      ac_Extensions = [delegation_extension], ac_ProviderOrg = ''svpchain'',
      ac_ProviderURL = ''https://www.svpchain.org'',
      ac_Skills = map (skill_entry reg) (filter (skill_listed reg) skillMetas)\<rparr>"

subsection \<open>The card and the registry agree\<close>

lemma meta_ids:
  "sk_id meta_MarketData = SkillMarketData"
  "sk_id meta_Account = SkillAccount"
  "sk_id meta_Trading = SkillTrading"
  "sk_id meta_Funds = SkillFunds"
  "sk_id meta_Broadcast = SkillBroadcast"
  "sk_id meta_Auth = SkillAuth"
  "sk_id meta_Faucet = SkillFaucet"
  "sk_id meta_EVM = SkillEVM"
  "sk_id meta_Lendora = SkillLendora"
  "sk_id meta_AgentRegistry = SkillAgentRegistry"
  "sk_id meta_Delegation = SkillDelegation"
  "sk_id meta_Execution = SkillExecution"
  by (simp_all add: meta_MarketData_def meta_Account_def meta_Trading_def meta_Funds_def meta_Broadcast_def meta_Auth_def meta_Faucet_def meta_EVM_def meta_Lendora_def meta_AgentRegistry_def meta_Delegation_def meta_Execution_def)

lemma skill_ids: "map sk_id skillMetas =
  [SkillMarketData, SkillAccount, SkillTrading, SkillFunds, SkillBroadcast, SkillAuth, SkillFaucet, SkillEVM,
   SkillLendora, SkillAgentRegistry, SkillDelegation, SkillExecution]"
  by (simp add: skillMetas_def meta_ids)

lemma listed_skills:
  "set (map sk_id skillMetas) = fst ` set registered_names"
proof -
  have "(\<forall>sk \<in> set (map sk_id skillMetas). sk \<in> set (map fst registered_names)) \<and>
      (\<forall>sk \<in> set (map fst registered_names). sk \<in> set (map sk_id skillMetas))"
    unfolding skill_ids by code_simp
  then show ?thesis by (metis image_set subsetI subset_antisym)
qed

lemma skill_tools_registry:
  assumes "full_registry tenants h chain svc = Ok r" and "m \<in> set skillMetas"
  shows "skill_tools (Some r) (sk_id m) = sorted_list_of_set (tools_of r (sk_id m))"
    and "tools_of r (sk_id m) \<noteq> {}" and "finite (tools_of r (sk_id m))"
proof -
  have "sk_id m \<in> fst ` set registered_names" using assms(2) listed_skills by auto
  then show ne: "tools_of r (sk_id m) \<noteq> {}"
    by (auto simp: full_registry_tools [OF assms(1)])
  show "finite (tools_of r (sk_id m))"
    by (rule finite_subset [of _ "snd ` set registered_names"])
      (auto simp: full_registry_tools [OF assms(1)] intro: rev_image_eqI)
  show "skill_tools (Some r) (sk_id m) = sorted_list_of_set (tools_of r (sk_id m))"
    using ne by (simp add: skill_tools_def BySkill_set [OF full_registry_ops(2) [OF assms(1)]])
qed

lemma read_only_skills: "filter (skill_listed None) skillMetas = [meta_MarketData, meta_Execution]"
  by (simp add: skillMetas_def skill_listed_def meta_ids SkillMarketData_def SkillAccount_def SkillTrading_def SkillFunds_def SkillBroadcast_def SkillAuth_def SkillFaucet_def SkillEVM_def SkillLendora_def SkillAgentRegistry_def SkillDelegation_def SkillExecution_def)

text \<open>
  C31: Over the agent's registry, keyed or keyless, the card lists all twelve skills in order, each
  with the sorted list of exactly the tools the executor dispatches under that skill appended to
  its description, and every tool of the registry is under a listed skill; the read-only card lists
  market data and execution with their plain descriptions.
\<close>

theorem card_matches_registry:
  assumes "full_registry tenants h chain svc = Ok r"
  shows "ac_Skills (BuildAgentCard url (Some r)) =
      map (\<lambda>m. \<lparr>as_ID = sk_id m, as_Name = sk_name m,
        as_Description = sk_desc m @ '' Tools: '' @ join_with '', '' (sorted_list_of_set (tools_of r (sk_id m))) @ ''.'',
        as_Tags = sk_tags m, as_Examples = sk_examples m\<rparr>) skillMetas \<and>
    (\<forall>t p. Lookup r t = Some p \<longrightarrow> op_Skill p \<in> set (map as_ID (ac_Skills (BuildAgentCard url (Some r))))) \<and>
    map (\<lambda>e. (as_ID e, as_Description e)) (ac_Skills (BuildAgentCard url None)) =
      [(''svpchain-market-data'', sk_desc meta_MarketData), (''svpchain-execution'', sk_desc meta_Execution)]"
proof (intro conjI allI impI)
  have listed: "filter (skill_listed (Some r)) skillMetas = skillMetas"
    by (rule filter_True) (simp add: skill_listed_def skill_tools_registry [OF assms])
  have skills: "ac_Skills (BuildAgentCard url (Some r)) = map (skill_entry (Some r)) skillMetas"
    by (simp add: BuildAgentCard_def listed)
  show "ac_Skills (BuildAgentCard url (Some r)) =
      map (\<lambda>m. \<lparr>as_ID = sk_id m, as_Name = sk_name m,
        as_Description = sk_desc m @ '' Tools: '' @ join_with '', '' (sorted_list_of_set (tools_of r (sk_id m))) @ ''.'',
        as_Tags = sk_tags m, as_Examples = sk_examples m\<rparr>) skillMetas"
    unfolding skills by (rule map_cong [OF refl]) (simp add: skill_entry_def skill_tools_registry [OF assms])
  fix t p
  assume "Lookup r t = Some p"
  then have "t \<in> tools_of r (op_Skill p)" by (auto simp: tools_of_def)
  then have "op_Skill p \<in> set (map sk_id skillMetas)"
    unfolding full_registry_tools [OF assms] listed_skills by force
  moreover have "map as_ID (map (skill_entry (Some r)) skillMetas) = map sk_id skillMetas"
    by (simp add: skill_entry_def Let_def)
  ultimately show "op_Skill p \<in> set (map as_ID (ac_Skills (BuildAgentCard url (Some r))))"
    unfolding skills by simp
next
  show "map (\<lambda>e. (as_ID e, as_Description e)) (ac_Skills (BuildAgentCard url None)) =
      [(''svpchain-market-data'', sk_desc meta_MarketData), (''svpchain-execution'', sk_desc meta_Execution)]"
    by (simp add: BuildAgentCard_def read_only_skills skill_entry_def skill_tools_def meta_ids SkillMarketData_def SkillExecution_def)
qed

end
