(* ===== verification/A2A_Credentials.thy ===== *)
theory A2A_Credentials
  imports A2A_Server Tool_Registry
begin

section \<open>The credential a call carries\<close>

text \<open>
  What the metadata of a message yields, what the merge of the chain into a tool's arguments keeps
  and refuses, and that a strictly adapted execute tool decodes exactly the chain that was merged.
\<close>

subsection \<open>The metadata\<close>

lemma first_empty_None: "first_empty i ts = None \<longleftrightarrow> [] \<notin> set ts"
  by (induction i ts rule: first_empty.induct) auto

lemma equalStrings_iff: "equalStrings a b \<longleftrightarrow> a = b"
  by (induction a b rule: equalStrings.induct) auto

text \<open>
  The members of the metadata object under the names the package compares: case and the two Unicode
  folds do not matter, and of several members for one field the last one counts.
\<close>

definition folded :: "(string \<times> json) list \<Rightarrow> (string \<times> json) list" where
  "folded kvs = map (\<lambda>(k, j). (fold_key k, j)) kvs"

definition last_member :: "string \<Rightarrow> (string \<times> json) list \<Rightarrow> json option" where
  "last_member k kvs = map_of (rev (folded kvs)) k"

definition not_null :: "(string \<times> json) list \<Rightarrow> (string \<times> json) list" where
  "not_null = filter (\<lambda>(k, j). j \<noteq> JNull)"

text \<open>
  A well-formed delegation object and what it says: no member but \<open>tokens\<close>, an array of texts, and
  \<open>settlement\<close>, a text; at least one token, none of them empty.
\<close>

definition carries_chain :: "(string \<times> json) list \<Rightarrow> DelegationMetadata \<Rightarrow> bool" where
  "carries_chain kvs d \<longleftrightarrow>
     (\<forall>(k, j) \<in> set (folded kvs). k = ''TOKENS'' \<and> is_ok (dec_strings j) \<or> k = ''SETTLEMENT'' \<and> is_ok (dec_string [] j)) \<and>
     (\<exists>j. last_member ''TOKENS'' kvs = Some j \<and> dec_strings j = Ok (dm_Tokens d)) \<and>
     dm_Settlement d = (case last_member ''SETTLEMENT'' (not_null kvs) of Some (JStr t) \<Rightarrow> t | _ \<Rightarrow> []) \<and>
     dm_Tokens d \<noteq> [] \<and> [] \<notin> set (dm_Tokens d)"

lemma last_member_Cons:
  "last_member n ((k, j) # kvs) =
     (case last_member n kvs of None \<Rightarrow> if fold_key k = n then Some j else None | Some j' \<Rightarrow> Some j')"
  by (simp add: last_member_def folded_def map_add_def split: option.split)

lemma last_member_Nil [simp]: "last_member n [] = None"
  by (simp add: last_member_def folded_def)

lemma folded_Cons [simp]: "folded ((k, j) # kvs) = (fold_key k, j) # folded kvs" "folded [] = []"
  by (simp_all add: folded_def)

lemma not_null_Cons [simp]:
  "not_null ((k, j) # kvs) = (if j = JNull then not_null kvs else (k, j) # not_null kvs)" "not_null [] = []"
  by (simp_all add: not_null_def)

abbreviation delegation_fields :: "DelegationMetadata field list" where
  "delegation_fields \<equiv> json_fields DelegationMetadata_fields"

lemma delegation_names: "fold_key ''tokens'' = ''TOKENS''" "fold_key ''settlement'' = ''SETTLEMENT''"
  by code_simp+

lemma delegation_field:
  "find_field delegation_fields k =
     (if fold_key k = ''TOKENS'' then Some (in_field dec_texts dm_Tokens dm_Tokens_update)
      else if fold_key k = ''SETTLEMENT'' then Some (in_field dec_string dm_Settlement dm_Settlement_update) else None)"
proof -
  have "delegation_fields = [(''tokens'', in_field dec_texts dm_Tokens dm_Tokens_update),
      (''settlement'', in_field dec_string dm_Settlement dm_Settlement_update)]"
    by (simp add: json_fields_def DelegationMetadata_fields_def)
  then show ?thesis
    using delegation_names by (auto simp: find_field_def simp del: fold_key.simps)
qed

definition settled :: "string \<Rightarrow> (string \<times> json) list \<Rightarrow> string" where
  "settled old kvs = (case last_member ''SETTLEMENT'' (not_null kvs) of None \<Rightarrow> old | Some (JStr t) \<Rightarrow> t | _ \<Rightarrow> [])"

definition known_members :: "(string \<times> json) list \<Rightarrow> bool" where
  "known_members kvs \<longleftrightarrow>
     (\<forall>(k, j) \<in> set (folded kvs). k = ''TOKENS'' \<and> is_ok (dec_strings j) \<or> k = ''SETTLEMENT'' \<and> is_ok (dec_string [] j))"

lemma known_members_Cons:
  "known_members ((k, j) # kvs) \<longleftrightarrow> known_members kvs \<and>
     (fold_key k = ''TOKENS'' \<and> is_ok (dec_strings j) \<or> fold_key k = ''SETTLEMENT'' \<and> is_ok (dec_string [] j))"
  by (auto simp: known_members_def simp del: fold_key.simps dec_slice.simps)

lemma settled_Cons:
  "settled old ((k, j) # kvs) =
     (if fold_key k = ''SETTLEMENT'' then case j of JStr t \<Rightarrow> settled t kvs | JNull \<Rightarrow> settled old kvs | _ \<Rightarrow> settled [] kvs
      else settled old kvs)"
  by (cases j) (auto simp: settled_def last_member_Cons simp del: fold_key.simps split: option.split)

lemma delegation_members:
  assumes "list_all (\<lambda>(k, j). fold_key k \<in> {''TOKENS'', ''SETTLEMENT''}) kvs"
  shows "dec_members delegation_fields kvs s = Ok d \<longleftrightarrow> known_members kvs \<and>
     (case last_member ''TOKENS'' kvs of None \<Rightarrow> dm_Tokens d = dm_Tokens s | Some j \<Rightarrow> dec_strings j = Ok (dm_Tokens d)) \<and>
     dm_Settlement d = settled (dm_Settlement s) kvs"
  using assms
proof (induction kvs arbitrary: s)
  case Nil
  show ?case by (auto simp: known_members_def settled_def)
next
  case (Cons kv kvs)
  obtain k j where kv: "kv = (k, j)" by force
  have "list_all (\<lambda>(k, j). fold_key k \<in> {''TOKENS'', ''SETTLEMENT''}) kvs" using Cons.prems by simp
  note IH = Cons.IH [OF this]
  show ?case
  proof (cases "fold_key k = ''TOKENS''")
    case True
    then show ?thesis
      by (cases "dec_strings j")
        (auto simp: kv delegation_field in_field_def go_iff IH known_members_Cons settled_Cons last_member_Cons
          simp del: fold_key.simps dec_slice.simps split: option.splits)
  next
    case False
    then have k: "fold_key k = ''SETTLEMENT''" using Cons.prems by (simp add: kv)
    show ?thesis
      by (cases j)
        (auto simp: kv delegation_field k in_field_def IH known_members_Cons settled_Cons last_member_Cons
          simp del: fold_key.simps split: option.splits)
  qed
qed

lemma delegation_decoded:
  "delegation_of_value v = Ok d \<longleftrightarrow> (\<exists>kvs. v = Ok (JObj kvs) \<and> carries_chain kvs d)"
proof -
  have strict: "dec_struct_strict delegation_fields zero_DelegationMetadata (JObj kvs) = Ok d \<longleftrightarrow>
      known_members kvs \<and> (case last_member ''TOKENS'' kvs of None \<Rightarrow> dm_Tokens d = [] | Some j \<Rightarrow> dec_strings j = Ok (dm_Tokens d)) \<and>
      dm_Settlement d = settled [] kvs" for kvs
  proof (cases "list_all (\<lambda>(k, j). fold_key k \<in> {''TOKENS'', ''SETTLEMENT''}) kvs")
    case True
    then have "find (\<lambda>(k, v). find_field delegation_fields k = None) kvs = None"
      by (auto simp: find_None_iff delegation_field list_all_iff)
    then show ?thesis by (simp add: delegation_members [OF True] zero_DelegationMetadata_def cong: option.case_cong)
  next
    case False
    then obtain k j where kj: "(k, j) \<in> set kvs" "fold_key k \<noteq> ''TOKENS''" "fold_key k \<noteq> ''SETTLEMENT''"
      by (auto simp: list_all_iff)
    then have "find_field delegation_fields k = None" by (simp add: delegation_field)
    then have "find (\<lambda>(k, v). find_field delegation_fields k = None) kvs \<noteq> None"
      using kj(1) unfolding find_None_iff by blast
    moreover have "\<not> known_members kvs" using kj by (force simp: known_members_def folded_def)
    ultimately show ?thesis by (auto split: option.split)
  qed
  have tail: "(if dm_Tokens m = [] then Err e else case first_empty 0 (dm_Tokens m) of Some i \<Rightarrow> Err (f i) | None \<Rightarrow> Ok m) = Ok d
      \<longleftrightarrow> m = d \<and> dm_Tokens d \<noteq> [] \<and> [] \<notin> set (dm_Tokens d)" for m e f
    using first_empty_None [of 0 "dm_Tokens m"] by (auto split: option.split)
  have chain: "carries_chain kvs d \<longleftrightarrow> dec_struct_strict delegation_fields zero_DelegationMetadata (JObj kvs) = Ok d \<and>
      dm_Tokens d \<noteq> [] \<and> [] \<notin> set (dm_Tokens d)" for kvs
    unfolding strict by (auto simp: carries_chain_def known_members_def settled_def split: option.splits)
  show ?thesis
  proof (cases v)
    case (Ok j)
    show ?thesis
      by (cases j) (auto simp: Ok delegation_of_value_def go_iff chain tail zero_DelegationMetadata_def simp del: dec_struct_strict.simps(1))
  qed (auto simp: delegation_of_value_def)
qed

lemma delegation_no_panic: "delegation_of_value v = Panics \<longleftrightarrow> v = Panics"
proof -
  have "dec_members delegation_fields kvs s \<noteq> Panics" for kvs s
    by (induction delegation_fields kvs s rule: dec_members.induct)
      (auto simp: delegation_field in_field_def go_iff dec_strings_no_panic dec_string_no_panic
        simp del: dec_slice.simps split: option.splits if_splits)
  then have "dec_struct_strict delegation_fields s j \<noteq> Panics" for s j
    by (cases j) (auto split: option.splits)
  then show ?thesis by (auto simp: delegation_of_value_def go_iff split: option.splits if_splits)
qed

text \<open>The value a message has under the delegation key.\<close>

definition delegation_value :: "Message option \<Rightarrow> goany option" where
  "delegation_value msg = Option.bind msg (\<lambda>m. Option.bind (ms_Metadata m) (\<lambda>md. md DelegationMetadataKey))"

lemma delegationFromMessage_value:
  "delegationFromMessage msg =
     (case delegation_value msg of None \<Rightarrow> Ok None | Some v \<Rightarrow> go_bind (delegation_of_value v) (\<lambda>m. Ok (Some m)))"
  by (cases msg) (auto simp: delegationFromMessage_def delegation_value_def split: option.split)

text \<open>
  C19: A message yields no credential exactly when it does not carry the delegation key. Under the key
  it yields a chain exactly when the value is an object with no members but \<open>tokens\<close>, an array of
  texts, and \<open>settlement\<close>, a text, that gives at least one token and no empty one; the chain is then
  those tokens. Every other value, an unknown member included, is an error, and neither silence nor
  a panic (the encoder of the value itself aside).
\<close>

theorem delegation_never_dropped:
  "(delegationFromMessage msg = Ok None \<longleftrightarrow> delegation_value msg = None) \<and>
   (delegationFromMessage msg = Ok (Some d) \<longleftrightarrow>
      (\<exists>kvs. delegation_value msg = Some (Ok (JObj kvs)) \<and> carries_chain kvs d)) \<and>
   (delegationFromMessage msg = Panics \<longleftrightarrow> delegation_value msg = Some Panics)"
  by (cases "delegation_value msg")
    (auto simp: delegationFromMessage_value go_iff delegation_decoded delegation_no_panic)

subsection \<open>The merge\<close>

lemma args_proof_ok:
  "args_proof (GoMap m) = Ok ts \<longleftrightarrow> dec_strings (member_val m ''proof'') = Ok ts"
  by (auto simp: args_proof_def member_val_def go_iff split: option.split)

lemma args_proof_no_panic: "args_proof m \<noteq> Panics"
  by (auto simp: args_proof_def go_iff dec_strings_no_panic split: option.splits)

lemma member_val_put: "member_val (jm_put k v m) k' = (if k' = k then v else member_val m k')"
  by (simp add: member_val_def map_of_jm_put)

lemma args_map_wf: "jm_wf (args_map args)"
  by (cases args rule: args_map.cases) simp_all

text \<open>The two ways a merge succeeds, on the members the caller's arguments have.\<close>

lemma inject_cases:
  assumes "injectProof args tokens = Ok args'"
  obtains (same) "args' = args" "args \<noteq> None" "args \<noteq> Some JNull"
      "dec_strings (member_val (args_map args) ''proof'') = Ok tokens" "tokens \<noteq> []"
    | (merged) "args' = Some (JObj (jm_put ''proof'' (enc_strings tokens) (args_map args)))"
      "dec_strings (member_val (args_map args) ''proof'') = Ok []"
proof -
  obtain m existing where m: "(case args of None \<Rightarrow> Ok (GoMap []) | Some j \<Rightarrow>
        wrap_err (\<lambda>e. Errorf ''decode args: %w'' [AW e]) (dec_map j)) = Ok m"
    and ex: "args_proof m = Ok existing"
    and rest: "(if existing \<noteq> [] then (if \<not> equalStrings existing tokens then Err proof_differs else Ok args)
       else go_bind (gm_put ''proof'' (enc_strings tokens) m) (\<lambda>m. Ok (Some (gm_marshal m)))) = Ok args'"
    using assms unfolding injectProof_def go_bind_eq_Ok by blast
  have "m = NilMap \<longrightarrow> args = Some JNull" and am: "m \<noteq> NilMap \<longrightarrow> m = GoMap (args_map args) \<and> args \<noteq> Some JNull"
    using m by (cases args; cases "the args"; auto simp: go_iff)+
  have nil: "m \<noteq> NilMap"
  proof
    assume "m = NilMap"
    then have "existing = []" using ex by (simp add: args_proof_def)
    with rest \<open>m = NilMap\<close> show False by simp
  qed
  then have dec: "dec_strings (member_val (args_map args) ''proof'') = Ok existing"
    using ex am by (simp add: args_proof_ok)
  show thesis
  proof (cases "existing = []")
    case True
    then show thesis using rest nil am dec by (auto intro: merged)
  next
    case False
    have "args \<noteq> None"
    proof
      assume "args = None"
      then show False using dec False by (simp add: member_val_def)
    qed
    with False show thesis using rest nil am dec
      by (auto simp: equalStrings_iff intro: same split: if_splits)
  qed
qed

lemma args_object: "dec_strings (member_val (args_map args) ''proof'') \<noteq> Ok [] \<Longrightarrow> \<exists>kvs. args = Some (JObj kvs)"
  by (cases args rule: args_map.cases) (auto simp: member_val_def)

lemma inject_members:
  assumes "injectProof args tokens = Ok args'"
  shows "(\<exists>kvs. args' = Some (JObj kvs)) \<and>
    dec_strings (member_val (args_map args') ''proof'') = Ok tokens \<and>
    (\<forall>k. k \<noteq> ''proof'' \<longrightarrow> map_of (args_map args') k = map_of (args_map args) k) \<and>
    dec_strings (member_val (args_map args) ''proof'') \<in> {Ok [], Ok tokens}"
  using assms
proof (cases rule: inject_cases)
  case same
  then show ?thesis using args_object [of args] by auto
next
  case merged
  have "args_map args' = jm_put ''proof'' (enc_strings tokens) (args_map args)"
    by (simp add: merged jm_of_id jm_wf_put args_map_wf)
  then show ?thesis using merged by (simp add: member_val_put map_of_jm_put)
qed

text \<open>
  C18: Merging the chain of the metadata into the arguments gives an object whose proof member decodes
  to exactly that chain and whose other members are the caller's; it succeeds only when the caller
  wrote no proof of his own or the very same one.
\<close>

theorem inject_exact:
  assumes "injectProof args tokens = Ok args'"
  shows "(\<exists>kvs. args' = Some (JObj kvs)) \<and>
    dec_strings (member_val (args_map args') ''proof'') = Ok tokens \<and>
    (\<forall>k. k \<noteq> ''proof'' \<longrightarrow> map_of (args_map args') k = map_of (args_map args) k) \<and>
    dec_strings (member_val (args_map args) ''proof'') \<in> {Ok [], Ok tokens}"
  using assms by (rule inject_members)

text \<open>
  C32: The one way the merge and the pinning of arguments can panic is the JSON value null as the
  arguments: unmarshalling null makes the map nil, and the write of a member then panics; every
  other malformed argument is an error value.
\<close>

theorem null_args_panic:
  "(injectProof args tokens = Panics \<longleftrightarrow> args = Some JNull) \<and>
   (pinArgsToPrincipal env args spec v = Panics \<longleftrightarrow> args = Some JNull)"
proof
  show "pinArgsToPrincipal env args spec v = Panics \<longleftrightarrow> args = Some JNull" by (rule pin_panics_iff)
  show "injectProof args tokens = Panics \<longleftrightarrow> args = Some JNull"
  proof (cases "args = Some JNull")
    case True
    then show ?thesis by (simp add: injectProof_def args_proof_def)
  next
    case False
    have "m \<noteq> NilMap" if "(case args of None \<Rightarrow> Ok (GoMap []) | Some j \<Rightarrow>
        wrap_err (\<lambda>e. Errorf ''decode args: %w'' [AW e]) (dec_map j)) = Ok m" for m
      using that False by (cases args; cases "the args"; auto simp: go_iff)
    then show ?thesis using False
      by (auto simp: injectProof_def go_iff args_proof_no_panic gm_put_no_panic dec_map_no_panic
          split: option.splits if_splits)
  qed
qed

subsection \<open>What an execute tool decodes\<close>

lemma json_names: "set (jsonKeysOf fs) \<subseteq> fst ` set (json_fields fs)"
  by (induction fs rule: jsonKeysOf.induct) (auto simp: json_fields_def Let_def)

interpretation place_proof: struct_field "json_fields ExecPlaceOrderInput_fields" "''proof''" pi_Proof dec_strings
  by unfold_locales (auto simp: json_fields_def ExecPlaceOrderInput_fields_def in_field_def go_iff split: if_splits)

interpretation cancel_proof: struct_field "json_fields ExecCancelOrderInput_fields" "''proof''" ci_Proof dec_strings
  by unfold_locales (auto simp: json_fields_def ExecCancelOrderInput_fields_def in_field_def go_iff split: if_splits)

interpretation batch_proof: struct_field "json_fields ExecBatchCancelInput_fields" "''proof''" bi_Proof dec_strings
  by unfold_locales (auto simp: json_fields_def ExecBatchCancelInput_fields_def in_field_def go_iff split: if_splits)

interpretation deposit_proof: struct_field "json_fields ExecDepositInput_fields" "''proof''" di_Proof dec_strings
  by unfold_locales (auto simp: json_fields_def ExecDepositInput_fields_def in_field_def go_iff split: if_splits)

text \<open>Strictly adapted, the proof an input ends up with is the one its arguments decode to.\<close>

definition reads_proof :: "'i gofield list \<Rightarrow> 'i \<Rightarrow> ('i \<Rightarrow> string list) \<Rightarrow> bool" where
  "reads_proof fs zero get \<longleftrightarrow> (\<forall>kvs inp. set (arg_names (Some (JObj kvs))) \<subseteq> set (jsonKeysOf fs) \<longrightarrow>
     decode_args (dec_input fs) zero (Some (JObj kvs)) = Ok inp \<longrightarrow>
     dec_strings (member_val (jm_of kvs) ''proof'') = Ok (get inp)) \<and> get zero = []"

text \<open>The proof arguments carry: what their member decodes to, and none when there are no members.\<close>

definition args_carry :: "raw \<Rightarrow> string list \<Rightarrow> bool" where
  "args_carry args proofs \<longleftrightarrow> dec_strings (member_val (args_map args) ''proof'') = Ok proofs"

lemma reads_proofI:
  assumes "struct_field (json_fields fs) ''proof'' get dec_strings" and "get zero = []"
  shows "reads_proof fs zero get"
  unfolding reads_proof_def
proof (intro conjI allI impI)
  fix kvs inp
  assume names: "set (arg_names (Some (JObj kvs))) \<subseteq> set (jsonKeysOf fs)"
    and "decode_args (dec_input fs) zero (Some (JObj kvs)) = Ok inp"
  then have "dec_members (json_fields fs) kvs zero = Ok inp"
    by (simp add: decode_args_def dec_input_def go_iff)
  moreover have "fst ` set kvs \<subseteq> fst ` set (json_fields fs)"
    using names json_names [of fs] by auto
  ultimately have "case map_of (rev kvs) ''proof'' of None \<Rightarrow> get inp = get zero | Some j \<Rightarrow> dec_strings j = Ok (get inp)"
    by (intro struct_field.decoded_member [OF assms(1)])
  then show "dec_strings (member_val (jm_of kvs) ''proof'') = Ok (get inp)"
    using assms(2) by (simp add: member_val_def map_of_jm_of split: option.splits)
qed (rule assms(2))

lemma reads_proof_carry:
  assumes "reads_proof fs zero get" and "set (arg_names args) \<subseteq> set (jsonKeysOf fs)"
    and "decode_args (dec_input fs) zero args = Ok inp"
  shows "args_carry args (get inp)"
proof (cases args rule: args_map.cases)
  case (1 kvs)
  with assms show ?thesis unfolding reads_proof_def args_carry_def by simp
qed (use assms in \<open>auto simp: args_carry_def reads_proof_def decode_args_def dec_input_def go_iff member_val_def\<close>)

lemma execute_inputs_read_proof:
  "reads_proof ExecPlaceOrderInput_fields zero_ExecPlaceOrderInput pi_Proof"
  "reads_proof ExecCancelOrderInput_fields zero_ExecCancelOrderInput ci_Proof"
  "reads_proof ExecBatchCancelInput_fields zero_ExecBatchCancelInput bi_Proof"
  "reads_proof ExecDepositInput_fields zero_ExecDepositInput di_Proof"
  by (rule reads_proofI; unfold_locales; simp add: zero_ExecPlaceOrderInput_def zero_ExecCancelOrderInput_def
      zero_ExecBatchCancelInput_def zero_ExecDepositInput_def)+

end
