(* ===== verification/A2A_Dispatch.thy ===== *)
theory A2A_Dispatch
  imports A2A_Credentials
begin

section \<open>What a request can make the agent do\<close>

text \<open>
  The dispatch end to end: what a call is made with and where its tenant comes from, under which
  credential the execute tools send, what a read-only deployment does, and the events of a task.
\<close>

subsection \<open>The stages of a dispatch\<close>

text \<open>Resolving a bearer touches the library's state only.\<close>

definition only_lib :: "'x agent_state \<Rightarrow> 'x agent_state \<Rightarrow> bool" where
  "only_lib s s' \<longleftrightarrow> ag_svc s' = ag_svc s \<and> ag_tenants s' = ag_tenants s"

interpretation only_lib: effect_contract only_lib
  by unfold_locales (auto simp: only_lib_def)

lemma on_lib_only: "keeps only_lib (on_lib m)"
  by (rule keepsI) (simp add: on_lib_def only_lib_def split: prod.split)

lemma act_or_only: "keeps only_lib m \<Longrightarrow> keeps only_lib (act_or m d f)"
  unfolding keeps_def act_or_def by (auto split: prod.splits go.splits) (metis snd_conv)+

lemma find_bearer_only: "keeps only_lib (find_bearer ar xc req)"
  by (auto simp: find_bearer_def Let_def intro!: only_lib.keeps_ret on_lib_only split: option.split)

lemma Attach_only: "keeps only_lib (Attach ar xc req)"
  unfolding Attach_def Let_def
  by (intro only_lib.keeps_bind find_bearer_only)
    (auto intro!: only_lib.keeps_ret act_or_only on_lib_only split: option.split)

lemma attach_tenant_only: "keeps only_lib (attach_tenant ex xc req)"
  by (auto simp: attach_tenant_def intro!: only_lib.keeps_ret Attach_only split: option.split)

text \<open>A delegated read sends nothing before the tool is called.\<close>

definition no_send :: "'x agent_state \<Rightarrow> 'x agent_state \<Rightarrow> bool" where
  "no_send s s' \<longleftrightarrow> w_log (ag_svc s') = w_log (ag_svc s)"

interpretation no_send: effect_contract no_send
  by unfold_locales (auto simp: no_send_def)

lemma no_send_service: "keeps quiet m \<Longrightarrow> keeps no_send (on_service m)"
  unfolding keeps_def on_service_def no_send_def quiet_def by (auto split: prod.splits) (metis snd_conv)

lemma delegated_read_no_send: "keeps no_send (delegated_read ex deleg req ctx)"
proof -
  have "keeps no_send (admit_reader clock v)" for clock v
    by (rule keepsI) (simp add: admit_reader_def no_send_def split: prod.split)
  then have "keeps no_send (act_bind (on_service (AuthorizeRead env tool toks args)) (\<lambda>(verified, newArgs).
      act_bind (admit_reader clock verified) (\<lambda>tc. act_ret (Ok (g tc newArgs)))))" for env tool toks args clock and g :: "TenantContext \<Rightarrow> raw \<Rightarrow> 'b"
    by (intro no_send.keeps_bind no_send_service AuthorizeRead_quiet) 
      (auto intro!: no_send.keeps_bind no_send.keeps_ret split: prod.split)
  then show ?thesis
    by (auto simp: delegated_read_def intro!: no_send.keeps_ret split: option.split)
qed

lemma respond_runs:
  assumes "respond ex req call s = (res, s')"
  obtains q where "call s = (q, s')"
  using assms by (auto simp: respond_def split: prod.splits go.splits)

text \<open>A dispatch is refused before the tool, sending nothing, or is one call of the tool.\<close>

definition calls ::
  "'x Executor \<Rightarrow> 'x Registry \<Rightarrow> ExecutorContext \<Rightarrow> DelegationMetadata option \<Rightarrow> Request \<Rightarrow> 'x agent_state \<Rightarrow>
   'x Op \<Rightarrow> ToolCtx \<Rightarrow> ToolCtx \<Rightarrow> raw \<Rightarrow> 'x agent_state \<Rightarrow> 'x agent_state \<Rightarrow> raw \<Rightarrow> bool" where
  "calls ex r xc deleg req s p ctx0 ctx args0 s1 s2 args \<longleftrightarrow>
     find_op r req = Ok p \<and> attach_tenant ex xc req s = (Ok ctx0, s1) \<and>
     delegated_read ex deleg req ctx0 s1 = (Ok (ctx, args0), s2) \<and> merge_proof deleg args0 = Ok args"

lemma dispatch_cases:
  assumes "dispatch ex r xc deleg req s = (res, s')"
  obtains (refused) "\<not> is_ok res" "no_send s s'"
    | (called) p ctx0 ctx args0 s1 s2 args q where "calls ex r xc deleg req s p ctx0 ctx args0 s1 s2 args"
        "op_Call p ctx args s2 = (q, s')" "only_lib s s1" "no_send s s2"
  using assms unfolding dispatch_def
proof (cases rule: act_bind_cases)
  case (stops q)
  then show thesis by (intro refused) (auto simp: no_send_def)
next
  case (runs p t)
  then have p: "find_op r req = Ok p" and t: "t = s" by auto
  from runs(2) [unfolded t] show thesis
  proof (cases rule: act_bind_cases)
    case (stops q)
    then show thesis using keepsD [OF attach_tenant_only stops(1)]
      by (intro refused) (auto simp: no_send_def only_lib_def)
  next
    case (runs ctx0 s1)
    have o1: "only_lib s s1" by (rule keepsD [OF attach_tenant_only runs(1)])
    note attach = runs(1)
    from runs(2) show thesis
    proof (cases rule: act_bind_cases)
      case (stops q)
      then show thesis using keepsD [OF delegated_read_no_send stops(1)] o1
        by (intro refused) (auto simp: no_send_def only_lib_def)
    next
      case (runs y s2)
      obtain ctx args0 where y: "y = (ctx, args0)" by force
      have n2: "no_send s s2" using keepsD [OF delegated_read_no_send runs(1)] o1
        by (auto simp: no_send_def only_lib_def)
      show thesis
      proof (cases "merge_proof deleg args0")
        case (Ok args)
        then have "respond ex req (op_Call p ctx args) s2 = (res, s')" using runs(2) by (simp add: y)
        then obtain q where "op_Call p ctx args s2 = (q, s')" by (rule respond_runs)
        then show thesis using p attach runs(1) Ok o1 n2 by (intro called) (auto simp: calls_def y)
      qed (use runs(2) y n2 refused in \<open>auto simp: act_bind_def\<close>)
    qed
  qed
qed

subsection \<open>Where a call's tenant comes from\<close>

text \<open>
  The bearer of a request, in order of precedence: the header, the envelope, the session of the
  conversation. \<open>x\<close> and \<open>x1\<close> are the library's state before and after.
\<close>

definition bearer_at :: "'x AuthResolver \<Rightarrow> ExecutorContext \<Rightarrow> Request \<Rightarrow> 'x \<Rightarrow> string \<Rightarrow> 'x \<Rightarrow> bool" where
  "bearer_at ar xc req x b x1 \<longleftrightarrow>
     (if bearerFromHeader xc \<noteq> [] then b = bearerFromHeader xc \<and> x1 = x
      else if rq_Bearer req \<noteq> [] then b = rq_Bearer req \<and> x1 = x
      else xc_ContextID xc \<noteq> [] \<and> (\<exists>sess. ar_Sessions ar = Some sess \<and> sess (xc_ContextID xc) x = (Ok b, x1)))"

definition bearer_tenant :: "'x Executor \<Rightarrow> ExecutorContext \<Rightarrow> Request \<Rightarrow> 'x \<Rightarrow> TenantContext \<Rightarrow> bool" where
  "bearer_tenant ex xc req x tc \<longleftrightarrow>
     (\<exists>ar lookup b x1 rec x2. ex_authr ex = Some ar \<and> ar_Tenants ar = Some lookup \<and>
        bearer_at ar xc req x b x1 \<and> b \<noteq> [] \<and> lookup b x1 = (Ok rec, x2) \<and>
        tc = \<lparr>tc_TenantID = tn_TenantID rec, tc_Owner = tn_Owner rec\<rparr>)"

lemma find_bearer_at:
  assumes "find_bearer ar xc req s = (Ok b, s1)" and "b \<noteq> []"
  shows "bearer_at ar xc req (ag_lib s) b (ag_lib s1)"
  using assms
  by (auto simp: find_bearer_def bearer_at_def on_lib_def Let_def split: if_splits option.splits prod.splits)

lemma Attach_tenant:
  assumes "Attach ar xc req s = (Ok ctx, s1)" and "cx_Tenant ctx = Some tc"
  shows "\<exists>lookup b x1 rec x2. ar_Tenants ar = Some lookup \<and> bearer_at ar xc req (ag_lib s) b x1 \<and> b \<noteq> [] \<and>
    lookup b x1 = (Ok rec, x2) \<and> tc = \<lparr>tc_TenantID = tn_TenantID rec, tc_Owner = tn_Owner rec\<rparr>"
proof -
  let ?ctx = "with_ip xc (with_session xc no_ctx)"
  have none: "cx_Tenant ?ctx = None" by (simp add: with_ip_def with_session_def no_ctx_def Let_def)
  obtain b t where b: "find_bearer ar xc req s = (Ok b, t)"
    and rest: "(case ar_Tenants ar of None \<Rightarrow> act_ret (Ok ?ctx)
      | Some lookup \<Rightarrow> if b = [] then act_ret (Ok ?ctx) else act_or (on_lib (lookup b)) ?ctx
          (\<lambda>rec. ?ctx\<lparr>cx_Tenant := Some \<lparr>tc_TenantID = tn_TenantID rec, tc_Owner = tn_Owner rec\<rparr>\<rparr>)) t = (Ok ctx, s1)"
    using assms(1) unfolding Attach_def Let_def act_bind_Ok_iff by blast
  from rest assms(2) none obtain lookup where l: "ar_Tenants ar = Some lookup" "b \<noteq> []"
    by (auto split: option.splits if_splits)
  then have "act_or (on_lib (lookup b)) ?ctx
      (\<lambda>rec. ?ctx\<lparr>cx_Tenant := Some \<lparr>tc_TenantID = tn_TenantID rec, tc_Owner = tn_Owner rec\<rparr>\<rparr>) t = (Ok ctx, s1)"
    using rest by simp
  then obtain rec x2 where "lookup b (ag_lib t) = (Ok rec, x2)"
      "tc = \<lparr>tc_TenantID = tn_TenantID rec, tc_Owner = tn_Owner rec\<rparr>"
    using assms(2) none by (auto simp: act_or_def on_lib_def split: prod.splits go.splits)
  with l find_bearer_at [OF b l(2)] show ?thesis by blast
qed

lemma attach_tenant_bearer:
  assumes "attach_tenant ex xc req s = (Ok ctx, s1)" and "cx_Tenant ctx = Some tc"
  shows "bearer_tenant ex xc req (ag_lib s) tc"
proof (cases "ex_authr ex")
  case None
  with assms show ?thesis by (auto simp: attach_tenant_def no_ctx_def)
next
  case (Some ar)
  then have "Attach ar xc req s = (Ok ctx, s1)" using assms(1) by (simp add: attach_tenant_def)
  from Attach_tenant [OF this assms(2)] Some show ?thesis by (auto simp: bearer_tenant_def)
qed

lemma bearer_tenant_attached:
  assumes "attach_tenant ex xc req s = (Ok ctx, s1)" and "bearer_tenant ex xc req (ag_lib s) tc"
  shows "cx_Tenant ctx = Some tc"
proof -
  from assms(2) obtain ar lookup b x1 rec x2 where ar: "ex_authr ex = Some ar" "ar_Tenants ar = Some lookup"
    and at: "bearer_at ar xc req (ag_lib s) b x1" and b: "b \<noteq> []" and rec: "lookup b x1 = (Ok rec, x2)"
    and tc: "tc = \<lparr>tc_TenantID = tn_TenantID rec, tc_Owner = tn_Owner rec\<rparr>"
    unfolding bearer_tenant_def by blast
  have "find_bearer ar xc req s = (Ok b, s\<lparr>ag_lib := x1\<rparr>)"
    using at b by (auto simp: find_bearer_def bearer_at_def on_lib_def Let_def split: if_splits)
  then have "Attach ar xc req s = (Ok (with_ip xc (with_session xc no_ctx)\<lparr>cx_Tenant := Some tc\<rparr>), s\<lparr>ag_lib := x2\<rparr>)"
    using ar(2) b rec by (simp add: Attach_def Let_def act_bind_def act_or_def on_lib_def tc)
  with assms(1) ar(1) show ?thesis by (auto simp: attach_tenant_def)
qed

text \<open>The tenant of a delegated read, and the arguments its call is made with.\<close>

definition pinned_to :: "dg_env \<Rightarrow> readSpec \<Rightarrow> Verified \<Rightarrow> raw \<Rightarrow> bool" where
  "pinned_to env spec v args \<longleftrightarrow>
     map_of (args_map args) (rp_ownerField spec) = Some (JStr (vf_Principal v)) \<and>
     (rp_hasSubaccount spec \<longrightarrow> (\<exists>sub. dv_has_subaccount env (vf_Subaccounts v) sub \<and>
        dec_u32 0 (member_val (args_map args) ''subaccount_number'') = Ok sub))"

definition reader_tenant ::
  "'x Executor \<Rightarrow> DelegationMetadata option \<Rightarrow> Request \<Rightarrow> 'x agent_state \<Rightarrow> 'x agent_state \<Rightarrow> TenantContext \<Rightarrow> raw \<Rightarrow> bool" where
  "reader_tenant ex deleg req s s2 tc args \<longleftrightarrow>
     (\<exists>env clock d spec tokens v. ex_reads ex = Some env \<and> ex_readTenants ex = Some clock \<and> deleg = Some d \<and>
        ReadSpecFor (rq_Tool req) = Some spec \<and> verified_chain env (ag_svc s) (dm_Tokens d) tokens v \<and>
        dv_has_action env (vf_Actions v) ''query.account'' \<and> root_live env v (ag_svc s) (ag_svc s2) \<and>
        tc = \<lparr>tc_TenantID = read_tenant_id v, tc_Owner = vf_Principal v\<rparr> \<and>
        ag_tenants s2 = snd (Admit clock v (ag_tenants s)) \<and> pinned_to env spec v args)"

lemma spec_owner_field: "ReadSpecFor tool = Some spec \<Longrightarrow> rp_ownerField spec \<in> {''address'', ''owner''}"
  by (auto simp: ReadSpecFor_def readSpecs_def split: if_splits)

lemma pinned_to_pin:
  assumes "pinArgsToPrincipal env args spec v = Ok args0" and "ReadSpecFor tool = Some spec"
  shows "pinned_to env spec v args0"
proof -
  from pinned_shape [OF assms(1)] obtain m where m: "args0 = Some (JObj m)" "jm_wf m"
      "m = jm_put (rp_ownerField spec) (JStr (vf_Principal v)) (args_map args)"
    and sub: "rp_hasSubaccount spec \<longrightarrow> (\<exists>sub. dv_has_subaccount env (vf_Subaccounts v) sub \<and>
       dec_u32 0 (member_val m ''subaccount_number'') = Ok sub)" by blast
  have "args_map args0 = m" using m(1,2) by (simp add: jm_of_id)
  with sub show ?thesis by (simp add: pinned_to_def m(3) map_of_jm_put)
qed

lemma pinned_to_inject:
  assumes "pinned_to env spec v args0" and "ReadSpecFor tool = Some spec" and "injectProof args0 tokens = Ok args"
  shows "pinned_to env spec v args"
proof -
  have "map_of (args_map args) k = map_of (args_map args0) k" if "k \<noteq> ''proof''" for k
    using inject_members [OF assms(3)] that by blast
  moreover have "rp_ownerField spec \<noteq> ''proof''" using spec_owner_field [OF assms(2)] by auto
  ultimately show ?thesis using assms(1) by (simp add: pinned_to_def member_val_def)
qed

lemma delegated_read_cases:
  assumes "delegated_read ex deleg req ctx0 s1 = (Ok (ctx, args0), s2)"
  shows "ctx = ctx0 \<and> args0 = rq_Args req \<and> s2 = s1 \<or>
    (\<exists>env clock d v sv. ex_reads ex = Some env \<and> ex_readTenants ex = Some clock \<and> deleg = Some d \<and>
       ReadSpecFor (rq_Tool req) \<noteq> None \<and> cx_Tenant ctx0 = None \<and>
       AuthorizeRead env (rq_Tool req) (dm_Tokens d) (rq_Args req) (ag_svc s1) = (Ok (v, args0), sv) \<and>
       ctx = ctx0\<lparr>cx_Tenant := Some (fst (Admit clock v (ag_tenants s1)))\<rparr> \<and>
       ag_tenants s2 = snd (Admit clock v (ag_tenants s1)) \<and> ag_svc s2 = sv)"
proof (cases deleg; cases "ex_reads ex"; cases "ex_readTenants ex";
    cases "ReadSpecFor (rq_Tool req) \<noteq> None \<and> cx_Tenant ctx0 = None")
  fix d env clock
  assume d: "deleg = Some d" "ex_reads ex = Some env" "ex_readTenants ex = Some clock"
    "ReadSpecFor (rq_Tool req) \<noteq> None \<and> cx_Tenant ctx0 = None"
  then have "act_bind (on_service (AuthorizeRead env (rq_Tool req) (dm_Tokens d) (rq_Args req))) (\<lambda>(verified, newArgs).
       act_bind (admit_reader clock verified) (\<lambda>tc. act_ret (Ok (ctx0\<lparr>cx_Tenant := Some tc\<rparr>, newArgs)))) s1
       = (Ok (ctx, args0), s2)" (is "act_bind ?m ?f s1 = _")
    using assms by (simp add: delegated_read_def)
  then obtain y sv where y: "?m s1 = (Ok y, sv)" "?f y sv = (Ok (ctx, args0), s2)"
    unfolding act_bind_Ok_iff by (elim exE conjE) (rule that)
  obtain v newArgs where "y = (v, newArgs)" by force
  with y have a: "on_service (AuthorizeRead env (rq_Tool req) (dm_Tokens d) (rq_Args req)) s1 = (Ok (v, newArgs), sv)"
    and b: "act_bind (admit_reader clock v) (\<lambda>tc. act_ret (Ok (ctx0\<lparr>cx_Tenant := Some tc\<rparr>, newArgs))) sv = (Ok (ctx, args0), s2)"
    by simp_all
  obtain sv' where sv: "AuthorizeRead env (rq_Tool req) (dm_Tokens d) (rq_Args req) (ag_svc s1) = (Ok (v, newArgs), sv')"
      "ag_tenants sv = ag_tenants s1" "ag_svc sv = sv'"
    using a by (auto simp: on_service_def split: prod.splits)
  with b d show ?thesis
    by (auto simp: admit_reader_def act_bind_def split: prod.splits)
qed (use assms in \<open>auto simp: delegated_read_def\<close>)

lemma Admit_context: "fst (Admit clock v t) = \<lparr>tc_TenantID = read_tenant_id v, tc_Owner = vf_Principal v\<rparr>"
  by (simp add: Admit_def Let_def)

lemma calls_tenant:
  assumes "calls ex r xc deleg req s p ctx0 ctx args0 s1 s2 args" and "only_lib s s1" and "cx_Tenant ctx = Some tc"
  shows "bearer_tenant ex xc req (ag_lib s) tc \<or>
    (\<forall>tc'. \<not> bearer_tenant ex xc req (ag_lib s) tc') \<and> reader_tenant ex deleg req s s2 tc args"
proof -
  from assms(1) have attach: "attach_tenant ex xc req s = (Ok ctx0, s1)"
    and dr: "delegated_read ex deleg req ctx0 s1 = (Ok (ctx, args0), s2)"
    and merge: "merge_proof deleg args0 = Ok args" by (simp_all add: calls_def)
  from delegated_read_cases [OF dr] show ?thesis
  proof (elim disjE exE conjE)
    assume "ctx = ctx0"
    with attach assms(3) show ?thesis by (auto intro: attach_tenant_bearer)
  next
    fix env clock d v sv
    assume ex: "ex_reads ex = Some env" "ex_readTenants ex = Some clock" "deleg = Some d"
      and none: "cx_Tenant ctx0 = None"
      and au: "AuthorizeRead env (rq_Tool req) (dm_Tokens d) (rq_Args req) (ag_svc s1) = (Ok (v, args0), sv)"
      and ctx: "ctx = ctx0\<lparr>cx_Tenant := Some (fst (Admit clock v (ag_tenants s1)))\<rparr>"
      and tn: "ag_tenants s2 = snd (Admit clock v (ag_tenants s1))" and sv: "ag_svc s2 = sv"
    have same: "ag_svc s1 = ag_svc s" "ag_tenants s1 = ag_tenants s" using assms(2) by (simp_all add: only_lib_def)
    from AuthorizeRead_facts [OF au] obtain spec tokens where
      spec: "ReadSpecFor (rq_Tool req) = Some spec"
      and vc: "verified_chain env (ag_svc s) (dm_Tokens d) tokens v"
        "dv_has_action env (vf_Actions v) ''query.account''" "root_live env v (ag_svc s) (ag_svc s2)"
      and pin: "pinArgsToPrincipal env (rq_Args req) spec v = Ok args0"
      unfolding same sv by blast
    have "pinned_to env spec v args"
      using pinned_to_inject [OF pinned_to_pin [OF pin spec] spec] merge ex(3) by (simp add: merge_proof_def)
    moreover have "tc = \<lparr>tc_TenantID = read_tenant_id v, tc_Owner = vf_Principal v\<rparr>"
      using assms(3) by (simp add: ctx Admit_context)
    ultimately have "reader_tenant ex deleg req s s2 tc args"
      unfolding reader_tenant_def using ex spec vc tn same by metis
    moreover have "\<not> bearer_tenant ex xc req (ag_lib s) tc'" for tc'
      using bearer_tenant_attached [OF attach, of tc'] none by auto
    ultimately show ?thesis by blast
  qed
qed

lemma calls_bearer:
  assumes "calls ex r xc deleg req s p ctx0 ctx args0 s1 s2 args" and "bearer_tenant ex xc req (ag_lib s) tc"
  shows "cx_Tenant ctx = Some tc"
proof -
  from assms(1) have attach: "attach_tenant ex xc req s = (Ok ctx0, s1)"
    and dr: "delegated_read ex deleg req ctx0 s1 = (Ok (ctx, args0), s2)" by (simp_all add: calls_def)
  have "cx_Tenant ctx0 = Some tc" by (rule bearer_tenant_attached [OF attach assms(2)])
  with delegated_read_cases [OF dr] show ?thesis by auto
qed

text \<open>
  C4: A dispatched request is either refused, having sent nothing, or is one call of the tool the
  registry has under that name and skill. The call runs for the tenant of the request's bearer (the
  header's, else the envelope's, else the session's) whenever that resolves to one; only when no
  bearer does can it have another, on a covered query, namely the tenant of a verified credential
  granting the query whose root was found live during the call, freshly admitted, with the arguments
  pinned to that credential's principal and subaccounts.
\<close>

theorem tenant_provenance:
  assumes "dispatch ex r xc deleg req s = (res, s')"
  shows "\<not> is_ok res \<and> no_send s s' \<or>
    (\<exists>p ctx args s2 q. find_op r req = Ok p \<and> op_Call p ctx args s2 = (q, s') \<and> no_send s s2 \<and>
       (\<forall>tc. bearer_tenant ex xc req (ag_lib s) tc \<longrightarrow> cx_Tenant ctx = Some tc) \<and>
       (\<forall>tc. cx_Tenant ctx = Some tc \<longrightarrow>
          bearer_tenant ex xc req (ag_lib s) tc \<or>
          (\<forall>tc'. \<not> bearer_tenant ex xc req (ag_lib s) tc') \<and> reader_tenant ex deleg req s s2 tc args))"
  using assms
proof (cases rule: dispatch_cases)
  case refused
  then show ?thesis by blast
next
  case (called p ctx0 ctx args0 s1 s2 args q)
  have "find_op r req = Ok p" using called(1) by (simp add: calls_def)
  with called calls_tenant [OF called(1,3)] calls_bearer [OF called(1)] show ?thesis by blast
qed

end
