(* ===== verification/A2A_Safety.thy ===== *)
theory A2A_Safety
  imports A2A_Dispatch
begin

section \<open>Sending, refusing, and the events of a task\<close>

subsection \<open>The execute tools send only under the attached chain\<close>

definition execute_actions :: "(string \<times> string) list" where
  "execute_actions =
    [(''execute_place_order'', ActionPlaceOrder), (''execute_cancel_order'', ActionCancelOrder),
     (''execute_batch_cancel'', ActionBatchCancel), (''execute_deposit_to_subaccount'', ActionDeposit)]"

text \<open>A run of an execute operation under a given chain, on the service's state.\<close>

definition runs_under :: "dg_env \<Rightarrow> string list \<Rightarrow> string \<Rightarrow> Service \<Rightarrow> Service \<Rightarrow> bool" where
  "runs_under env tokens action sv sv' \<longleftrightarrow>
     (\<exists>sub build q. (\<forall>v. keeps quiet (build v)) \<and> guarded env tokens action sub build sv = (q, sv'))"

lemma strict_runs_under:
  assumes "reads_proof fs zero get"
    and ops: "\<And>inp. \<exists>sub build. f inp = guarded env (get inp) action sub build \<and> (\<forall>v. keeps quiet (build v))"
    and "native_strict fs zero enc (\<lambda>_. f) ctx args s = (q, s')"
  shows "ag_svc s' = ag_svc s \<or> (\<exists>proofs. args_carry args proofs \<and> runs_under env proofs action (ag_svc s) (ag_svc s'))"
proof -
  have run: "adaptStrictNative fs zero (\<lambda>ctx inp. on_service (f inp)) enc ctx args s = (q, s')"
    using assms(3) by (simp add: native_strict_def)
  from strict_cases [OF run] show ?thesis
  proof (elim disjE exE conjE)
    assume "s' = s"
    then show ?thesis by simp
  next
    fix inp q'
    assume names: "set (arg_names args) \<subseteq> set (jsonKeysOf fs)"
      and dec: "decode_args (dec_input fs) zero args = Ok inp" and fr: "on_service (f inp) s = (q', s')"
    have carry: "args_carry args (get inp)" using assms(1) names dec by (rule reads_proof_carry)
    obtain sub build where b: "f inp = guarded env (get inp) action sub build" "\<forall>v. keeps quiet (build v)"
      using ops [of inp] by blast
    obtain r v where fv: "f inp (ag_svc s) = (r, v)" by force
    then have "ag_svc s' = v" using fr by (auto simp: on_service_def)
    with b fv have "runs_under env (get inp) action (ag_svc s) (ag_svc s')"
      unfolding runs_under_def by metis
    with carry show ?thesis by blast
  qed
qed

lemma entries_unique:
  assumes "(sk, t, c) \<in> set (all_entries tenants h chain svc)" and "(sk', t, c') \<in> set (all_entries tenants h chain svc)"
  shows "c = c'"
proof -
  have "distinct (map (\<lambda>(s, t, c). t) (all_entries tenants h chain svc))" by (rule all_entries_distinct)
  then have "inj_on (\<lambda>(s, t, c). t) (set (all_entries tenants h chain svc))" by (simp add: distinct_map)
  from inj_onD [OF this _ assms] show ?thesis by simp
qed

lemma execute_entry:
  assumes "full_registry tenants h chain (Some env) = Ok r" and "find_op r req = Ok p"
    and "(sk, rq_Tool req, call) \<in> set (execution_tools env)"
  shows "op_Call p = call"
proof -
  have "Lookup r (rq_Tool req) = Some p"
    using assms(2) by (auto simp: find_op_def split: if_splits option.splits)
  then obtain s' c where e: "(s', rq_Tool req, c) \<in> set (all_entries tenants h chain (Some env))"
      "entry (s', rq_Tool req, c) = (rq_Tool req, p)"
    unfolding Lookup_entry [OF assms(1)] by blast
  have "(sk, rq_Tool req, call) \<in> set (all_entries tenants h chain (Some env))"
    using assms(3) by (simp add: all_entries_def execution_entries_def)
  with e(1) have "c = call" by (rule entries_unique)
  with e(2) show ?thesis by (auto simp: entry_def)
qed

lemma execute_ops_under:
  "\<exists>sub build. ExecutePlaceOrder env a = guarded env (pi_Proof a) ActionPlaceOrder sub build \<and> (\<forall>v. keeps quiet (build v))"
  "\<exists>sub build. ExecuteCancelOrder env b = guarded env (ci_Proof b) ActionCancelOrder sub build \<and> (\<forall>v. keeps quiet (build v))"
  "\<exists>sub build. ExecuteBatchCancel env c = guarded env (bi_Proof c) ActionBatchCancel sub build \<and> (\<forall>v. keeps quiet (build v))"
  "\<exists>sub build. ExecuteDepositToSubaccount env d = guarded env (di_Proof d) ActionDeposit sub build \<and> (\<forall>v. keeps quiet (build v))"
  unfolding execute_ops_guarded by (rule exI conjI refl allI builders_quiet)+

lemma execute_call_under:
  assumes "full_registry tenants h chain (Some env) = Ok r" and "find_op r req = Ok p"
    and "map_of execute_actions (rq_Tool req) = Some action"
    and "op_Call p ctx args s = (q, s')"
  shows "ag_svc s' = ag_svc s \<or> (\<exists>proofs. args_carry args proofs \<and> runs_under env proofs action (ag_svc s) (ag_svc s'))"
proof -
  note entry = execute_entry [OF assms(1,2), of SkillExecution]
  consider "rq_Tool req = ''execute_place_order''" "action = ActionPlaceOrder"
    | "rq_Tool req = ''execute_cancel_order''" "action = ActionCancelOrder"
    | "rq_Tool req = ''execute_batch_cancel''" "action = ActionBatchCancel"
    | "rq_Tool req = ''execute_deposit_to_subaccount''" "action = ActionDeposit"
    using assms(3) by (auto simp: execute_actions_def split: if_splits)
  then show ?thesis
  proof cases
    case 1
    have "op_Call p = native_strict ExecPlaceOrderInput_fields zero_ExecPlaceOrderInput enc_ExecResult (\<lambda>_. ExecutePlaceOrder env)"
      by (rule entry) (simp add: 1 execution_tools_def)
    with assms(4) show ?thesis unfolding 1(2)
      by (intro strict_runs_under [OF execute_inputs_read_proof(1) execute_ops_under(1)]) simp
  next
    case 2
    have "op_Call p = native_strict ExecCancelOrderInput_fields zero_ExecCancelOrderInput enc_ExecResult (\<lambda>_. ExecuteCancelOrder env)"
      by (rule entry) (simp add: 2 execution_tools_def)
    with assms(4) show ?thesis unfolding 2(2)
      by (intro strict_runs_under [OF execute_inputs_read_proof(2) execute_ops_under(2)]) simp
  next
    case 3
    have "op_Call p = native_strict ExecBatchCancelInput_fields zero_ExecBatchCancelInput enc_ExecResult (\<lambda>_. ExecuteBatchCancel env)"
      by (rule entry) (simp add: 3 execution_tools_def)
    with assms(4) show ?thesis unfolding 3(2)
      by (intro strict_runs_under [OF execute_inputs_read_proof(3) execute_ops_under(3)]) simp
  next
    case 4
    have "op_Call p = native_strict ExecDepositInput_fields zero_ExecDepositInput enc_ExecResult (\<lambda>_. ExecuteDepositToSubaccount env)"
      by (rule entry) (simp add: 4 execution_tools_def)
    with assms(4) show ?thesis unfolding 4(2)
      by (intro strict_runs_under [OF execute_inputs_read_proof(4) execute_ops_under(4)]) simp
  qed
qed

lemma execute_not_read: "map_of execute_actions t = Some action \<Longrightarrow> ReadSpecFor t = None"
  by (auto simp: execute_actions_def ReadSpecFor_def readSpecs_def split: if_splits)

lemma runs_under_sent:
  assumes "runs_under env proofs action sv sv'" and "raw \<in> sent (new_events sv sv')"
  shows "\<exists>tokens v sub inner. verified_chain env sv proofs tokens v \<and> dv_has_action env (vf_Actions v) action \<and>
    dv_has_subaccount env (vf_Subaccounts v) sub \<and> operator_tx env sv tokens inner raw"
proof -
  from assms(1) obtain sub build q where b: "\<And>v. keeps quiet (build v)"
    and g: "guarded env proofs action sub build sv = (q, sv')" by (auto simp: runs_under_def)
  from guarded_sent [OF b g assms(2)] show ?thesis by blast
qed

text \<open>
  The proof a request presents: the chain of its metadata, to which a proof of the arguments has to
  be equal when both are given, else the \<open>proof\<close> member of its arguments, the deprecated alias.
\<close>

definition presents :: "DelegationMetadata option \<Rightarrow> raw \<Rightarrow> string list \<Rightarrow> bool" where
  "presents deleg args proofs \<longleftrightarrow>
     (case deleg of
        Some d \<Rightarrow> proofs = dm_Tokens d \<and> dec_strings (member_val (args_map args) ''proof'') \<in> {Ok [], Ok (dm_Tokens d)}
      | None \<Rightarrow> \<exists>kvs. args = Some (JObj kvs) \<and> dec_strings (member_val (jm_of kvs) ''proof'') = Ok proofs)"

lemma merge_presents:
  assumes "merge_proof deleg args0 = Ok args" and "args_carry args proofs" and "proofs \<noteq> []"
  shows "presents deleg args0 proofs"
proof (cases deleg)
  case None
  then show ?thesis using assms args_object [of args]
    by (auto simp: presents_def merge_proof_def args_carry_def)
next
  case (Some d)
  then show ?thesis using assms inject_members [of args0 "dm_Tokens d" args]
    by (auto simp: presents_def merge_proof_def args_carry_def)
qed

lemma sent_under_chain:
  assumes "full_registry tenants h chain (Some env) = Ok r"
    and "map_of execute_actions (rq_Tool req) = Some action"
    and "dispatch ex r xc deleg req s = (res, s')"
    and "raw \<in> sent (new_events (ag_svc s) (ag_svc s'))"
  shows "\<exists>proofs tokens v sub inner. presents deleg (rq_Args req) proofs \<and>
    verified_chain env (ag_svc s) proofs tokens v \<and>
    dv_has_action env (vf_Actions v) action \<and> dv_has_subaccount env (vf_Subaccounts v) sub \<and>
    operator_tx env (ag_svc s) tokens inner raw"
  using assms(3)
proof (cases rule: dispatch_cases)
  case refused
  with assms(4) show ?thesis by (simp add: no_send_def new_events_def)
next
  case (called p ctx0 ctx args0 s1 s2 args q)
  from called(1) have p: "find_op r req = Ok p"
    and dr: "delegated_read ex deleg req ctx0 s1 = (Ok (ctx, args0), s2)"
    and merge: "merge_proof deleg args0 = Ok args" by (simp_all add: calls_def)
  from delegated_read_cases [OF dr] execute_not_read [OF assms(2)]
  have "s2 = s1" and args0: "args0 = rq_Args req" by auto
  then have same: "ag_svc s2 = ag_svc s" using called(3) by (simp add: only_lib_def)
  from execute_call_under [OF assms(1) p assms(2) called(2)] assms(4)
  obtain proofs where proofs: "args_carry args proofs" "runs_under env proofs action (ag_svc s) (ag_svc s')"
    by (auto simp: same new_events_def)
  from runs_under_sent [OF proofs(2) assms(4)] obtain tokens v sub inner where
    v: "verified_chain env (ag_svc s) proofs tokens v" "dv_has_action env (vf_Actions v) action"
      "dv_has_subaccount env (vf_Subaccounts v) sub" "operator_tx env (ag_svc s) tokens inner raw" by blast
  have "proofs \<noteq> []" using v(1) by (simp add: verified_chain_def)
  with merge proofs(1) have "presents deleg (rq_Args req) proofs" unfolding args0 by (rule merge_presents)
  with v show ?thesis by blast
qed

lemma ask_market_effect:
  "ask_market ex q s = (r, s') \<Longrightarrow> ag_lib s' = ag_lib s \<and> ag_tenants s' = ag_tenants s \<and> no_send s s'"
  by (auto simp: ask_market_def on_service_def no_send_def split: prod.splits)

lemma handleMarketData_quiet: "handleMarketData ex req s = (r, s') \<Longrightarrow> no_send s s'"
  by (cases "parseSide (rq_Side req)")
    (auto simp: handleMarketData_def no_send_def act_bind_def split: if_splits dest!: ask_market_effect)

text \<open>A market data query of the old form never sends, whatever tool it names besides.\<close>

lemma handle_sends:
  assumes "handle ex xc s = (res, s')" and "raw \<in> sent (new_events (ag_svc s) (ag_svc s'))"
  shows "\<exists>req deleg r. parse_request ex (messageText (xc_Message xc)) = Ok req \<and>
    delegationFromMessage (xc_Message xc) = Ok deleg \<and> ex_registry ex = Some r \<and>
    dispatch ex r xc deleg req s = (res, s')"
  using assms(1) unfolding handle_def
proof (cases rule: act_bind_cases)
  case (stops q)
  then show ?thesis using assms(2) by (auto simp: new_events_def)
next
  case (runs req t)
  then have req: "parse_request ex (messageText (xc_Message xc)) = Ok req" and t: "t = s" by auto
  from runs(2) [unfolded t] show ?thesis
  proof (cases rule: act_bind_cases)
    case (stops q)
    then show ?thesis using assms(2) by (auto simp: new_events_def)
  next
    case (runs deleg t)
    then have deleg: "delegationFromMessage (xc_Message xc) = Ok deleg" and t: "t = s" by auto
    have "handleMarketData ex req s = (res, s') \<Longrightarrow> no_send s s'"
      by (rule handleMarketData_quiet)
    then show ?thesis using runs(2) req deleg assms(2)
      by (auto simp: t new_events_def no_send_def split: if_splits option.splits)
  qed
qed

lemma message_sends_under:
  assumes "ex_registry ex = Some r" and "full_registry tenants h chain (Some env) = Ok r"
    and "handle ex xc s = (res, s')" and "raw \<in> sent (new_events (ag_svc s) (ag_svc s'))"
    and "parse_request ex (messageText (xc_Message xc)) = Ok req"
    and "map_of execute_actions (rq_Tool req) = Some action"
  shows "\<exists>deleg proofs tokens v sub inner. delegationFromMessage (xc_Message xc) = Ok deleg \<and>
    presents deleg (rq_Args req) proofs \<and> verified_chain env (ag_svc s) proofs tokens v \<and>
    dv_has_action env (vf_Actions v) action \<and> dv_has_subaccount env (vf_Subaccounts v) sub \<and>
    operator_tx env (ag_svc s) tokens inner raw"
proof -
  obtain deleg where deleg: "delegationFromMessage (xc_Message xc) = Ok deleg"
    and run: "dispatch ex r xc deleg req s = (res, s')"
    using handle_sends [OF assms(3,4)] assms(1,5) by auto
  from sent_under_chain [OF assms(2,6) run assms(4)] deleg show ?thesis by blast
qed

text \<open>
  C1: Whatever a message naming one of the four execute tools makes the agent send was sent under the
  credential chain the message presents: the one in its metadata, which a proof in the arguments can
  only repeat, or, when the metadata carries none, the arguments' own proof. That chain verified for
  this agent with every hop allowed, it grants the tool's action and a subaccount, and the
  transaction is the operator's wrapper carrying that chain.
\<close>

theorem sent_under_presented_chain:
  assumes "ex_registry ex = Some r" and "full_registry tenants h chain (Some env) = Ok r"
    and "handle ex xc s = (res, s')" and "raw \<in> sent (new_events (ag_svc s) (ag_svc s'))"
    and "parse_request ex (messageText (xc_Message xc)) = Ok req"
    and "map_of execute_actions (rq_Tool req) = Some action"
  shows "\<exists>deleg proofs tokens v sub inner. delegationFromMessage (xc_Message xc) = Ok deleg \<and>
    presents deleg (rq_Args req) proofs \<and> verified_chain env (ag_svc s) proofs tokens v \<and>
    dv_has_action env (vf_Actions v) action \<and> dv_has_subaccount env (vf_Subaccounts v) sub \<and>
    operator_tx env (ag_svc s) tokens inner raw"
  using assms by (rule message_sends_under)

subsection \<open>A read-only deployment\<close>

text \<open>
  C30: Without a registry the agent only ever asks the market data service: whatever the message, no
  state of the tools, tenants or log changes, and an answer is a market data query's, one of the
  five the service knows.
\<close>

theorem read_only_effects:
  assumes "ex_registry ex = None" and "handle ex xc s = (r, s')"
  shows "ag_lib s' = ag_lib s \<and> ag_tenants s' = ag_tenants s \<and> no_send s s' \<and>
    (is_ok r \<longrightarrow> (\<exists>req. parse_request ex (messageText (xc_Message xc)) = Ok req \<and>
       rq_Skill req = ''svpchain-market-data'' \<and>
       rq_Query req \<in> {''markets'', ''market'', ''orderbook'', ''funding'', ''estimate''}))"
  using assms(2) unfolding handle_def
proof (cases rule: act_bind_cases)
  case (stops q)
  then show ?thesis by (auto simp: no_send_def)
next
  case (runs req t)
  then have req: "parse_request ex (messageText (xc_Message xc)) = Ok req" and t: "t = s" by auto
  from runs(2) [unfolded t] show ?thesis
  proof (cases rule: act_bind_cases)
    case (stops q)
    then show ?thesis by (auto simp: no_send_def)
  next
    case (runs deleg t)
    then have t: "t = s" by auto
    show ?thesis
    proof (cases "rq_Skill req = SkillMarketData \<and> rq_Query req \<noteq> []")
      case False
      then show ?thesis using runs(2) by (auto simp: assms(1) t no_send_def)
    next
      case True
      then have md: "handleMarketData ex req s = (r, s')" using runs(2) by (simp add: t)
      have "ag_lib s' = ag_lib s \<and> ag_tenants s' = ag_tenants s \<and> no_send s s' \<and>
          (is_ok r \<longrightarrow> rq_Query req \<in> {''markets'', ''market'', ''orderbook'', ''funding'', ''estimate''})"
        using md by (cases "parseSide (rq_Side req)")
          (auto simp: handleMarketData_def no_send_def act_bind_def split: if_splits dest!: ask_market_effect)
      with req True show ?thesis by (auto simp: SkillMarketData_def)
    qed
  qed
qed

subsection \<open>The events of a task\<close>

text \<open>The events of a task whose consumer reads to the end.\<close>

definition protocol :: "'x Executor \<Rightarrow> ExecutorContext \<Rightarrow> string go \<Rightarrow> yields" where
  "protocol ex xc r =
     (if xc_StoredTask xc then [] else [Inl SubmittedTask]) @ [Inl StatusWorking] @ completed ex r"

text \<open>
  A task with a message yields the submitted task (unless one is stored), then working, then one
  completed status with the answer or the reason of its refusal, and ends without error; only a
  panic of a tool cuts this short. A consumer that stops reading sees a prefix, and unless working
  was reached and kept, nothing was executed. Without a message there is only the error.
\<close>

theorem execute_events:
  assumes "Execute ex xc keep s = (ys, e, s')"
  shows "(xc_Message xc = None \<longrightarrow> ys = [Inr (Errorf ''empty message'' [])] \<and> s' = s) \<and>
    (xc_Message xc \<noteq> None \<longrightarrow>
       prefix ys (protocol ex xc (fst (handle ex xc s))) \<and>
       (s' = s \<or> s' = snd (handle ex xc s)) \<and>
       ((\<forall>n. keep n) \<longrightarrow> s' = snd (handle ex xc s) \<and> ys = protocol ex xc (fst (handle ex xc s))) \<and>
       (fst (handle ex xc s) \<noteq> Panics \<longrightarrow> e = Ok () \<and>
          (\<exists>text. last (protocol ex xc (fst (handle ex xc s))) = Inl (StatusCompleted text))))"
proof -
  obtain r t where h: "handle ex xc s = (r, t)" by force
  show ?thesis using assms
    by (cases r) (auto simp: Execute_def Let_def h protocol_def completed_def split: if_splits)
qed

end
