(* ===== verification/Delegated_Runs.thy ===== *)
theory Delegated_Runs
  imports Delegated_Safety
begin

section \<open>Traces, caches and completed executions\<close>

text \<open>
  The order of the events of an execution, how stale the verification parameters can be, when a
  redelegation is refused, and the execution that goes through; then the witnesses of this theory
  and of \<open>Delegated_Safety\<close>.
\<close>

subsection \<open>Traces\<close>

lemma guarded_result:
  assumes "\<And>v. keeps quiet (build v)" and "guarded env proofs action sub build s = (r, s')"
  shows "(new_events s s' = [] \<and> \<not> is_ok r) \<or>
    (\<exists>tokens v innerAny.
      verified_chain env s proofs tokens v \<and>
      (let locked = \<not> GasFreeFor (dv_tx env) [exec_wrapper s tokens innerAny];
           opr = sc_Operator (sv_cfg s) in
       (new_events s s' = bracket locked [ReadAccount opr] \<and> \<not> is_ok r) \<or>
       (\<exists>raw answer. new_events s s' = bracket locked [ReadAccount opr, Broadcast raw answer] \<and>
          (is_ok r \<longleftrightarrow> is_ok answer) \<and>
          (\<forall>ex. r = Ok ex \<longrightarrow> (\<exists>res. answer = Ok res \<and>
             ex = \<lparr>ex_TxHash = bc_TxHash res, ex_Code = bc_Code res, ex_RawLog = bc_RawLog res,
                   ex_AgentID = sv_agentID s, ex_Principal = vf_Principal v\<rparr>)))))"
proof -
  from guarded_trace [OF assms] obtain evs where evs: "new_events s s' = evs"
    and cases: "evs = [] \<and> \<not> is_ok r \<or>
     (\<exists>tokens v inner. verified_chain env s proofs tokens v \<and> exec_trace env s tokens v inner r evs)"
    by (auto dest: new_events_append)
  from cases show ?thesis
  proof (elim disjE exE conjE)
    fix tokens v inner
    assume chain: "verified_chain env s proofs tokens v" and tr: "exec_trace env s tokens v inner r evs"
    from tr [unfolded exec_trace_def Let_def] show ?thesis
    proof (elim disjE exE conjE)
      fix innerAny s1 evs0
      assume sc: "same_conf s s1"
        and st: "send_trace env s1 [exec_wrapper s tokens innerAny]
          (GasFreeFor (dv_tx env) [exec_wrapper s tokens innerAny]) (vf_Principal v) r evs0"
        and e: "evs = bracket (\<not> GasFreeFor (dv_tx env) [exec_wrapper s tokens innerAny]) evs0"
      have conf: "sv_cfg s1 = sv_cfg s" "sv_agentID s1 = sv_agentID s"
        using sc by (simp_all add: same_conf_def)
      note here = exI [of _ innerAny, THEN exI [of _ v, THEN exI [of _ tokens]], THEN disjI2]
      from st [unfolded send_trace_def conf] show ?thesis
      proof (elim disjE exE conjE)
        assume "evs0 = [ReadAccount (sc_Operator (sv_cfg s))]" "\<not> is_ok r"
        then show ?thesis using chain by (intro here) (simp add: Let_def evs e)
      next
        fix acct raw answer
        assume "evs0 = [ReadAccount (sc_Operator (sv_cfg s)), Broadcast raw answer]"
          "is_ok r \<longleftrightarrow> is_ok answer"
          "\<forall>ex. r = Ok ex \<longrightarrow> (\<exists>res. answer = Ok res \<and>
             ex = \<lparr>ex_TxHash = bc_TxHash res, ex_Code = bc_Code res, ex_RawLog = bc_RawLog res,
                   ex_AgentID = sv_agentID s, ex_Principal = vf_Principal v\<rparr>)"
        then show ?thesis using chain
          by (intro here) (unfold evs e Let_def, blast)
      qed
    qed (simp add: evs)
  qed (simp add: evs)
qed

lemma is_guarded:
  "(\<And>v. keeps quiet (build v)) \<Longrightarrow>
   \<exists>p a u b. (\<forall>v. keeps quiet (b v)) \<and> guarded env proofs action sub build = guarded env p a u b"
  by blast

lemma exec_op_guarded:
  assumes "m \<in> {ExecutePlaceOrder env a, ExecuteCancelOrder env b, ExecuteBatchCancel env c,
      ExecuteDepositToSubaccount env d}"
  shows "\<exists>proofs action sub build. (\<forall>v. keeps quiet (build v)) \<and> m = guarded env proofs action sub build"
  using assms
proof (elim insertE emptyE)
  assume m: "m = ExecutePlaceOrder env a"
  show ?thesis unfolding m execute_ops_guarded(1) by (rule is_guarded) (rule builders_quiet(1))
next
  assume m: "m = ExecuteCancelOrder env b"
  show ?thesis unfolding m execute_ops_guarded(2) by (rule is_guarded) (rule builders_quiet(2))
next
  assume m: "m = ExecuteBatchCancel env c"
  show ?thesis unfolding m execute_ops_guarded(3) by (rule is_guarded) (rule builders_quiet(2))
next
  assume m: "m = ExecuteDepositToSubaccount env d"
  show ?thesis unfolding m execute_ops_guarded(4) by (rule is_guarded) (rule builders_quiet(3))
qed

text \<open>
  C6: What any of the four operations does to the outside, in order: nothing; or one read of the
  operator's account; or that read and then one broadcast. A wrapper that is not gas-free has the
  account read and the broadcast between taking and releasing the sequence lock, a gas-free one
  takes no lock. A result is returned exactly when the broadcast was answered, and it is that
  answer, under this agent's id and the principal of the verified credential.
\<close>

theorem exec_ops_trace:
  assumes "m \<in> {ExecutePlaceOrder env a, ExecuteCancelOrder env b, ExecuteBatchCancel env c,
      ExecuteDepositToSubaccount env d}"
    and "m s = (r, s')"
  shows "new_events s s' = [] \<and> \<not> is_ok r \<or>
    (\<exists>proofs tokens v innerAny locked.
      verified_chain env s proofs tokens v \<and>
      locked = (\<not> GasFreeFor (dv_tx env) [MsgAgentExecDelegated (sc_Operator (sv_cfg s)) (sv_agentID s) tokens innerAny]) \<and>
      (new_events s s' = bracket locked [ReadAccount (sc_Operator (sv_cfg s))] \<and> \<not> is_ok r \<or>
       (\<exists>raw answer. new_events s s' = bracket locked [ReadAccount (sc_Operator (sv_cfg s)), Broadcast raw answer] \<and>
          (is_ok r \<longleftrightarrow> is_ok answer) \<and>
          (\<forall>ex. r = Ok ex \<longrightarrow> (\<exists>res. answer = Ok res \<and>
             ex = \<lparr>ex_TxHash = bc_TxHash res, ex_Code = bc_Code res, ex_RawLog = bc_RawLog res,
                   ex_AgentID = sv_agentID s, ex_Principal = vf_Principal v\<rparr>)))))"
proof -
  from exec_op_guarded [OF assms(1)] assms(2)
  obtain proofs action sub build where b: "\<And>v. keeps quiet (build v)"
    and g: "guarded env proofs action sub build s = (r, s')"
    by blast
  from guarded_result [OF b g] show ?thesis
    unfolding exec_wrapper_def Let_def by blast
qed

subsection \<open>Redelegation\<close>

lemma redelegation_err:
  "redelegation_from allows i toks = Err e \<longleftrightarrow>
     (\<exists>k. Suc k < length toks \<and> \<not> allows (tk_RedelegateTo (toks ! k)) (tk_Audience (toks ! Suc k)) \<and>
        (\<forall>j < k. allows (tk_RedelegateTo (toks ! j)) (tk_Audience (toks ! Suc j))) \<and>
        e = redelegation_refused (int (i + k) + 2) (tk_Audience (toks ! Suc k)))"
  (is "_ \<longleftrightarrow> (\<exists>k. ?first allows i toks k)")
proof (induction allows i toks rule: redelegation_from.induct)
  case (1 allows i parent child rest)
  show ?case
  proof (cases "allows (tk_RedelegateTo parent) (tk_Audience child)")
    case True
    have "(\<exists>k. ?first allows i (parent # child # rest) k) \<longleftrightarrow> (\<exists>k. ?first allows (Suc i) (child # rest) k)"
    proof
      assume "\<exists>k. ?first allows i (parent # child # rest) k"
      then obtain k where k: "?first allows i (parent # child # rest) k" ..
      with True obtain k' where "k = Suc k'" by (cases k) auto
      with k show "\<exists>k. ?first allows (Suc i) (child # rest) k"
        by (intro exI [of _ k']) auto
    next
      assume "\<exists>k. ?first allows (Suc i) (child # rest) k"
      then obtain k where "?first allows (Suc i) (child # rest) k" ..
      with True show "\<exists>k. ?first allows i (parent # child # rest) k"
        by (intro exI [of _ "Suc k"]) (auto simp: less_Suc_eq_0_disj)
    qed
    with True 1 show ?thesis by simp
  next
    case False
    then have "?first allows i (parent # child # rest) k \<longleftrightarrow>
        k = 0 \<and> e = redelegation_refused (int i + 2) (tk_Audience child)" for k
      by (cases k) (simp_all add: All_less_Suc2)
    with False show ?thesis by auto
  qed
qed auto

text \<open>
  C20: \<open>checkRedelegationTargets\<close> accepts exactly the chains in which every token but the first is
  addressed to a target that its parent's \<open>redelegate_to\<close> allows, whatever the depth; and its
  refusal names the first token that is not, by its depth counted from one.
\<close>

theorem redelegation_exact:
  "(checkRedelegationTargets env v = Ok () \<longleftrightarrow>
      (\<forall>i. 1 \<le> i \<longrightarrow> i < length (vf_Tokens v) \<longrightarrow>
         dv_allows env (tk_RedelegateTo (vf_Tokens v ! (i - 1))) (tk_Audience (vf_Tokens v ! i)))) \<and>
   (\<forall>e. checkRedelegationTargets env v = Err e \<longleftrightarrow>
      (\<exists>i. 1 \<le> i \<and> i < length (vf_Tokens v) \<and>
         \<not> dv_allows env (tk_RedelegateTo (vf_Tokens v ! (i - 1))) (tk_Audience (vf_Tokens v ! i)) \<and>
         (\<forall>j. 1 \<le> j \<longrightarrow> j < i \<longrightarrow> dv_allows env (tk_RedelegateTo (vf_Tokens v ! (j - 1))) (tk_Audience (vf_Tokens v ! j))) \<and>
         e = redelegation_refused (int i + 1) (tk_Audience (vf_Tokens v ! i))))"
proof -
  have shift: "(\<exists>i \<ge> 1. P i) \<longleftrightarrow> (\<exists>k. P (Suc k))" "(\<forall>i. 1 \<le> i \<longrightarrow> P i) \<longleftrightarrow> (\<forall>k. P (Suc k))"
    for P :: "nat \<Rightarrow> bool"
    by (metis Suc_le_D One_nat_def le_add1 plus_1_eq_Suc)+
  show ?thesis
    unfolding checkRedelegationTargets_def redelegation_ok redelegation_err shift
    by (simp add: add.commute)
qed

end
