(* ===== verification/Delegated_Reach.thy ===== *)
theory Delegated_Reach
  imports Delegated_Reads Delegated_Identity Delegated_Runs
begin

section \<open>Reachable states of the service\<close>

text \<open>
  Every state a run of the service's operations can reach, in any order and with any outcomes, and
  what holds in all of them: the two caches never hold anything but an answer the chain gave, with
  the time it was given at. From that follow the bounds on how stale an authorization can be.
\<close>

subsection \<open>The two caches keep the discipline\<close>

text \<open>One question and its bookkeeping, evaluated.\<close>

lemma fetch_params_eval:
  "fetch_params env s = (let t = w_tick s; s1 = s\<lparr>w_tick := Suc t\<rparr> in
     case dv_wallet_params env t of
       Ok p \<Rightarrow> (Ok p, s\<lparr>w_tick := Suc (Suc t), sv_cachedParams := Some p,
                        sv_paramsFetched := dv_clock env (Suc t)\<rparr>)
     | Err e \<Rightarrow> (Err (Errorf ''fetch agentwallet params: %w'' [AW e]), s1)
     | Panics \<Rightarrow> (Panics, s1))"
  by (auto simp: fetch_params_def act_wrap_def act_bind_def Let_def split: go.split)

interpretation params_cache: ttl_cache
  "\<lambda>s. map_option (\<lambda>p. (p, sv_paramsFetched s)) (sv_cachedParams s)" w_tick "dv_clock env"
  "dv_wallet_params env" sv_paramsCacheTTL "walletParams env" for env
proof (unfold_locales, goal_cases)
  case (1 s r s')
  show ?case
  proof (cases "sv_cachedParams s")
    case None
    with 1 show ?thesis
      by (cases "dv_wallet_params env (w_tick s)") (auto simp: walletParams_def fetch_params_eval Let_def)
  next
    case (Some p)
    with 1 show ?thesis
      by (cases "dv_wallet_params env (Suc (w_tick s))")
        (auto simp: walletParams_def fetch_params_eval Let_def split: if_splits)
  qed
next
  case (2 s v t)
  then show ?case by (auto simp: walletParams_def)
qed

abbreviation root_slot :: "bytes \<Rightarrow> Service \<Rightarrow> ((u64 \<times> bool) \<times> int) option" where
  "root_slot root s \<equiv> map_option (\<lambda>e. ((ep_epoch e, ep_paused e), ep_fetched e)) (sv_epochCache s root)"

definition root_state :: "dg_env \<Rightarrow> bytes \<Rightarrow> (Service, u64 \<times> bool) act" where
  "root_state env root = act_bind (root_entry env root) (\<lambda>e. act_ret (Ok (ep_epoch e, ep_paused e)))"

interpretation epoch_cache: ttl_cache "root_slot root" w_tick "dv_clock env"
  "\<lambda>k. dv_epoch env k root" sv_epochCacheTTL "root_state env root" for root env
proof (unfold_locales, goal_cases)
  case (1 s r s')
  show ?case
  proof (cases "sv_epochCache s root")
    case None
    with 1 show ?thesis
      by (cases "dv_epoch env (w_tick s) root")
        (auto simp: root_state_def root_entry_def fetch_epoch_eval act_bind_def Let_def)
  next
    case (Some e)
    with 1 show ?thesis
      by (cases "dv_epoch env (Suc (w_tick s)) root")
        (auto simp: root_state_def root_entry_def fetch_epoch_eval act_bind_def Let_def split: if_splits)
  qed
next
  case (2 s v t)
  then show ?case by (auto simp: root_state_def root_entry_def act_bind_def)
qed

subsection \<open>An invariant of every operation\<close>

definition caches_honest :: "dg_env \<Rightarrow> Service \<Rightarrow> bool" where
  "caches_honest env s \<longleftrightarrow> params_cache.honest env s \<and> (\<forall>root. epoch_cache.honest root env s)"

text \<open>What an operation may do to the caches: nothing but advance time, or a read of one of them.\<close>

definition cache_step :: "dg_env \<Rightarrow> Service \<Rightarrow> Service \<Rightarrow> bool" where
  "cache_step env s s' \<longleftrightarrow> w_tick s \<le> w_tick s' \<and> (caches_honest env s \<longrightarrow> caches_honest env s')"

interpretation cache_step: effect_contract "cache_step env" for env
  by unfold_locales (auto simp: cache_step_def)

lemma same_slots:
  "sv_cachedParams s' = sv_cachedParams s \<Longrightarrow> sv_paramsFetched s' = sv_paramsFetched s \<Longrightarrow>
   sv_epochCache s' = sv_epochCache s \<Longrightarrow> w_tick s \<le> w_tick s' \<Longrightarrow> cache_step env s s'"
  unfolding cache_step_def caches_honest_def
  by (auto intro: params_cache.honest_later epoch_cache.honest_later)

lemma cache_prims:
  "keeps (cache_step env) (act_ret r)" "keeps (cache_step env) (ask q)" "keeps (cache_step env) (now_at c)"
  "keeps (cache_step env) (emit e)"
  by (auto intro!: keepsI same_slots)

lemma cache_look: "(\<And>s. keeps (cache_step env) (g s)) \<Longrightarrow> keeps (cache_step env) (\<lambda>s. g s s)"
  by (simp add: keeps_def)

lemmas cache_rules = cache_step.keeps_bind cache_step.keeps_if keeps_wrap cache_prims

lemma with_seq_cache: "keeps (cache_step env) m \<Longrightarrow> keeps (cache_step env) (with_seq m)"
proof (rule keepsI)
  fix s assume m: "keeps (cache_step env) m"
  obtain r t where run: "m (s\<lparr>w_log := w_log s @ [LockSeq]\<rparr>) = (r, t)" by force
  have "cache_step env s (s\<lparr>w_log := w_log s @ [LockSeq]\<rparr>)" by (rule same_slots) simp_all
  moreover note keepsD [OF m run]
  moreover have "cache_step env t (t\<lparr>w_log := w_log t @ [UnlockSeq]\<rparr>)" by (rule same_slots) simp_all
  ultimately have "cache_step env s (t\<lparr>w_log := w_log t @ [UnlockSeq]\<rparr>)"
    by (blast intro: cache_step.R_trans)
  then show "cache_step env s (snd (with_seq m s))" by (simp add: with_seq_def run)
qed

lemma sign_and_send_cache: "keeps (cache_step env) (sign_and_send env msgs g p)"
  unfolding sign_and_send_def read_account_def broadcast_sync_def Let_def
  by (rule cache_look, intro cache_rules) (rule cache_look, intro cache_rules)

lemma execute_cache: "keeps (cache_step env) (execute env tokens v inner)"
  unfolding execute_def Let_def
  by (intro cache_step.keeps_bind keeps_wrap cache_prims, rule cache_look)
    (intro cache_rules with_seq_cache sign_and_send_cache)

lemma walletParams_cache: "keeps (cache_step env) (walletParams env)"
proof (rule keepsI)
  fix s :: Service
  obtain r s' where run: "walletParams env s = (r, s')" by force
  have eps: "sv_epochCache s' = sv_epochCache s"
    using run by (auto simp: walletParams_def fetch_params_eval Let_def split: option.splits go.splits if_splits)
  have tick: "w_tick s \<le> w_tick s'" using params_cache.read_cases [OF run] by auto
  have "params_cache.honest env s \<Longrightarrow> params_cache.honest env s'"
    using params_cache.read_honest [of env s] run by simp
  moreover have "epoch_cache.honest root env s \<Longrightarrow> epoch_cache.honest root env s'" for root
    by (rule epoch_cache.honest_later [OF _ _ tick]) (simp_all add: eps)
  ultimately show "cache_step env s (snd (walletParams env s))"
    using run tick by (simp add: cache_step_def caches_honest_def)
qed

lemma root_entry_cache: "keeps (cache_step env) (root_entry env root)"
proof (rule keepsI)
  fix s :: Service
  obtain r s' where run: "root_entry env root s = (r, s')" by force
  then have st: "snd (root_state env root s) = s'" by (cases r) (simp_all add: root_state_def)
  then obtain r' where run': "root_state env root s = (r', s')" by (metis prod.collapse)
  have same: "sv_cachedParams s' = sv_cachedParams s" "sv_paramsFetched s' = sv_paramsFetched s"
    and other: "\<And>root'. root' \<noteq> root \<Longrightarrow> sv_epochCache s' root' = sv_epochCache s root'"
    using run by (auto simp: root_entry_def fetch_epoch_eval Let_def split: option.splits go.splits if_splits prod.splits)
  have tick: "w_tick s \<le> w_tick s'" using epoch_cache.read_cases [OF run'] by auto
  have "epoch_cache.honest root' env s'" if "epoch_cache.honest root' env s" for root'
  proof (cases "root' = root")
    case True
    with epoch_cache.read_honest [of root env s] that st show ?thesis by simp
  next
    case False
    show ?thesis by (rule epoch_cache.honest_later [OF that _ tick]) (simp add: other [OF False])
  qed
  moreover have "params_cache.honest env s \<Longrightarrow> params_cache.honest env s'"
    by (rule params_cache.honest_later [OF _ _ tick]) (simp_all add: same)
  ultimately show "cache_step env s (snd (root_entry env root s))"
    using run tick by (simp add: cache_step_def caches_honest_def)
qed

lemma verifyProof_cache: "keeps (cache_step env) (verifyProof env proofs)"
  unfolding verifyProof_def
  by (intro cache_rules walletParams_cache) (rule cache_look, intro cache_rules)

lemma builders_cache:
  "keeps (cache_step env) (\<lambda>s. ask (q s) s)" "keeps (cache_step env) (\<lambda>s. act_ret (g s) s)"
  by (rule cache_look, rule cache_prims)+

lemma guarded_cache:
  "(\<And>v. keeps (cache_step env) (build v)) \<Longrightarrow> keeps (cache_step env) (guarded env proofs action sub build)"
  unfolding guarded_def
  by (auto split: prod.split intro!: cache_rules verifyProof_cache execute_cache)

lemma execute_ops_cache:
  "keeps (cache_step env) (ExecutePlaceOrder env a)" "keeps (cache_step env) (ExecuteCancelOrder env b)"
  "keeps (cache_step env) (ExecuteBatchCancel env c)" "keeps (cache_step env) (ExecuteDepositToSubaccount env d)"
  unfolding execute_ops_guarded
  by (rule guarded_cache, rule builders_cache)+
    (rule guarded_cache, intro cache_rules builders_cache)

lemma AuthorizeRead_cache: "keeps (cache_step env) (AuthorizeRead env tool proofs args)"
  unfolding AuthorizeRead_def checkRootState_def
  by (auto split: option.split prod.split intro!: cache_rules verifyProof_cache root_entry_cache)

lemma requireOperator_cache: "keeps (cache_step env) (requireOperator env tenant what)"
proof (rule keepsI)
  fix s :: Service
  have "keeps (cache_step env) (act_bind (ask q) (\<lambda>x. act_ret (g x)))"
    for q :: "nat \<Rightarrow> string go" and g :: "string \<Rightarrow> unit go"
    by (intro cache_rules)
  then show "cache_step env s (snd (requireOperator env tenant what s))"
    by (simp add: requireOperator_def keeps_def cache_step.R_refl split: option.split)
qed

lemma publish_cache: "keeps (cache_step env) (publish env msg)"
  unfolding publish_def signAndBroadcastOwn_def
  by (rule cache_look, intro cache_rules) (rule cache_look, intro with_seq_cache sign_and_send_cache)

lemma self_ops_cache:
  "keeps (cache_step env) (SelfRegister env tenant bond)" "keeps (cache_step env) (SelfUpdate env tenant)"
proof -
  have "keeps (cache_step env) (initial_bond env bond)"
    unfolding initial_bond_def by (cases bond) (auto intro: cache_rules)
  then show "keeps (cache_step env) (SelfRegister env tenant bond)"
    unfolding publish_eq by (intro cache_rules requireOperator_cache publish_cache)
  show "keeps (cache_step env) (SelfUpdate env tenant)"
    unfolding publish_eq by (intro cache_rules requireOperator_cache publish_cache)
qed

lemma Identity_cache: "keeps (cache_step env) (Identity env)"
  by (rule keepsI, rule same_slots)
    (auto simp: Identity_def Let_def split: go.split option.split)

subsection \<open>Runs\<close>

text \<open>One step: any operation of the service, ending in any way, or the wiring of the card.\<close>

inductive service_step :: "dg_env \<Rightarrow> Service \<Rightarrow> Service \<Rightarrow> bool" for env where
  place: "ExecutePlaceOrder env a s = (r, s') \<Longrightarrow> service_step env s s'"
| cancel: "ExecuteCancelOrder env b s = (r, s') \<Longrightarrow> service_step env s s'"
| batch: "ExecuteBatchCancel env c s = (r, s') \<Longrightarrow> service_step env s s'"
| deposit: "ExecuteDepositToSubaccount env d s = (r, s') \<Longrightarrow> service_step env s s'"
| reading: "AuthorizeRead env tool proofs args s = (x, s') \<Longrightarrow> service_step env s s'"
| identity: "Identity env s = (y, s') \<Longrightarrow> service_step env s s'"
| register: "SelfRegister env tenant bond s = (r, s') \<Longrightarrow> service_step env s s'"
| update: "SelfUpdate env tenant s = (r, s') \<Longrightarrow> service_step env s s'"
| wire_card: "service_step env s (SetCapabilityCard env cardJSON s)"

inductive reachable :: "dg_env \<Rightarrow> SvcConfig \<Rightarrow> Service \<Rightarrow> bool" for env cfg where
  start: "Service_New env cfg = Ok s \<Longrightarrow> reachable env cfg s"
| step: "reachable env cfg s \<Longrightarrow> service_step env s s' \<Longrightarrow> reachable env cfg s'"

inductive_cases service_stepE: "service_step env s s'"

lemma step_cache: "service_step env s s' \<Longrightarrow> cache_step env s s'"
proof (induction rule: service_step.induct)
  case (wire_card s c)
  show ?case by (rule same_slots) (simp_all add: SetCapabilityCard_def)
qed (auto intro: keepsD execute_ops_cache AuthorizeRead_cache Identity_cache self_ops_cache)

interpretation conf: effect_contract same_conf
  by unfold_locales (auto simp: same_conf_def)

lemma quiet_conf: "keeps quiet m \<Longrightarrow> keeps same_conf m"
  by (simp add: keeps_def quiet_def)

lemma guarded_conf: "(\<And>v. keeps quiet (build v)) \<Longrightarrow> keeps same_conf (guarded env proofs action sub build)"
proof (rule keepsI)
  fix s assume b: "\<And>v. keeps quiet (build v)"
  obtain r s' where "guarded env proofs action sub build s = (r, s')" by force
  with guarded_trace [OF b this] show "same_conf s (snd (guarded env proofs action sub build s))" by auto
qed

lemma exec_ops_conf:
  "keeps same_conf (ExecutePlaceOrder env a)" "keeps same_conf (ExecuteCancelOrder env b)"
  "keeps same_conf (ExecuteBatchCancel env c)" "keeps same_conf (ExecuteDepositToSubaccount env d)"
  unfolding execute_ops_guarded by (rule guarded_conf, rule builders_quiet)+

lemma publish_conf: "keeps same_conf (publish env msg)"
proof -
  have own: "keeps same_conf (signAndBroadcastOwn env m)" for m
  proof (rule keepsI)
    fix s :: Service
    obtain r s' where "with_seq (sign_and_send env [m] False (sc_Operator (sv_cfg s))) s = (r, s')" by force
    with with_seq_trace(2) [OF this] show "same_conf s (snd (signAndBroadcastOwn env m s))"
      by (simp add: signAndBroadcastOwn_def)
  qed
  show ?thesis
  proof (rule keepsI)
    fix s :: Service
    have "keeps same_conf (act_bind (act_ret (capabilityHash s)) (\<lambda>h. act_bind (act_ret (dv_validate_basic env (msg s h)))
        (\<lambda>_. signAndBroadcastOwn env (msg s h))))"
      by (intro conf.keeps_bind conf.keeps_ret own)
    then show "same_conf s (snd (publish env msg s))" by (simp add: publish_def keeps_def)
  qed
qed

lemma self_ops_conf: "keeps same_conf (SelfRegister env tenant bond)" "keeps same_conf (SelfUpdate env tenant)"
  unfolding publish_eq
  by (intro conf.keeps_bind publish_conf quiet_conf requireOperator_quiet initial_bond_quiet)+

lemma Identity_conf: "keeps same_conf (Identity env)"
  by (rule keepsI) (auto simp: Identity_def same_conf_def Let_def split: go.split option.split)

lemma step_conf: "service_step env s s' \<Longrightarrow> same_conf s s'"
proof (induction rule: service_step.induct)
  case (wire_card s c)
  show ?case by (simp add: same_conf_def SetCapabilityCard_def)
qed (auto intro: keepsD exec_ops_conf self_ops_conf Identity_conf quiet_conf [OF AuthorizeRead_quiet])

lemma reachable_inv:
  assumes "reachable env cfg s"
  shows "caches_honest env s \<and> sv_cfg s = cfg \<and> sv_paramsCacheTTL s = 60 \<and> sv_epochCacheTTL s = 10 \<and>
    (\<exists>addr. dv_acc_address env (sc_Operator cfg) = Ok addr \<and> sv_agentID s = dv_agent_id env addr)"
  using assms
proof (induction rule: reachable.induct)
  case (start s)
  then show ?case
    by (auto simp: Service_New_def caches_honest_def intro: params_cache.honest_empty epoch_cache.honest_empty
        split: go.splits)
next
  case (step s s')
  then show ?case
    using step_cache [of env s s'] step_conf [of env s s'] by (auto simp: cache_step_def same_conf_def)
qed

text \<open>
  C27: In every state the service can reach, the parameters a verification is run with are an answer
  the chain gave: within this very call, or at a time whose stamp is less than 60 seconds before the
  clock of this call. The configuration and the agent id are still those the service was built with.
\<close>

theorem params_at_most_a_minute_old:
  assumes "reachable env cfg s" and "walletParams env s = (Ok params, s')"
  shows "sv_cfg s = cfg \<and>
    (\<exists>k. dv_wallet_params env k = Ok params \<and>
      (w_tick s \<le> k \<and> k < w_tick s' \<or>
       Suc k < w_tick s \<and> dv_clock env (w_tick s) - dv_clock env (Suc k) < 60))"
  using params_cache.read_fresh [OF _ assms(2)] reachable_inv [OF assms(1)]
  by (auto simp: caches_honest_def)

text \<open>
  C5: The revocation bound of delegated reads: whenever a read is authorized in a reachable state, the
  chain said that the credential's root was at the credential's epoch and not paused, at a step of
  this call or at one whose stamp is less than ten seconds before a clock reading of this call. A
  root paused or rotated for longer than that cannot be read with old credentials.
\<close>

theorem read_revocation_bound:
  assumes "reachable env cfg s" and "AuthorizeRead env tool proofs args s = (Ok (v, newArgs), s')"
  shows "\<exists>k. dv_epoch env k (vf_Root v) = Ok (vf_RootEpoch v, False) \<and>
    (w_tick s \<le> k \<and> k < w_tick s' \<or>
     (\<exists>n. w_tick s \<le> n \<and> n < w_tick s' \<and> dv_clock env n - dv_clock env (Suc k) < 10))"
proof -
  from assms(2) obtain spec where spec: "ReadSpecFor tool = Some spec"
    by (auto simp: AuthorizeRead_def split: option.splits)
  with assms(2) obtain tokens s1 where vp: "verifyProof env proofs s = (Ok (tokens, v), s1)"
    and root: "checkRootState env v s1 = (Ok (), s')"
    by (auto simp: AuthorizeRead_def go_iff split: if_splits prod.splits)
  then obtain entry where re: "root_entry env (vf_Root v) s1 = (Ok entry, s')"
    and ok: "\<not> ep_paused entry" "ep_epoch entry = vf_RootEpoch v"
    by (auto simp: checkRootState_def go_iff root_verdict_def split: if_splits)
  then have rs: "root_state env (vf_Root v) s1 = (Ok (vf_RootEpoch v, False), s')"
    by (simp add: root_state_def)
  note inv = reachable_inv [OF assms(1)]
  have step1: "cache_step env s s1" by (rule keepsD [OF verifyProof_cache vp])
  with inv have h: "epoch_cache.honest (vf_Root v) env s1" and le: "w_tick s \<le> w_tick s1"
    by (auto simp: cache_step_def caches_honest_def)
  have ttl: "sv_epochCacheTTL s1 = 10"
    using verifyProof_ok(2) [OF vp] inv by (simp add: quiet_def same_conf_def)
  have "w_tick s1 < w_tick s'" using epoch_cache.read_cases [OF rs] by auto
  with epoch_cache.read_fresh [OF h rs, unfolded ttl] le show ?thesis by (meson order_trans)
qed

end
