(* ===== verification/Delegated_Examples.thy ===== *)
theory Delegated_Examples
  imports Delegated_Reach Read_Tenants
begin

section \<open>Concrete runs of the delegated service\<close>

text \<open>
  A small environment in which every hypothesis of the service's properties is met, and the
  properties applied to runs in it.
\<close>

definition example_verified :: Verified where
  "example_verified = \<lparr>vf_Tokens = [\<lparr>tk_Audience = ''a'', tk_RedelegateTo = [''b'']\<rparr>,
       \<lparr>tk_Audience = ''b'', tk_RedelegateTo = []\<rparr>],
     vf_Principal = ''svp1user'', vf_Root = ''root'', vf_RootEpoch = 0,
     vf_Actions = [''clob.place_order'', ''clob.cancel_order'', ''clob.batch_cancel'',
       ''sending.deposit_to_subaccount'', ''query.account''],
     vf_Subaccounts = [0], vf_ChainHash = ''hashbyteshashbytes'', vf_LeafExp = 100\<rparr>"

definition example_agent :: registered_agent where
  "example_agent = \<lparr>rg_AgentId = ''did:svp:op'', rg_PublicKey = ''key'', rg_Status = ''ACTIVE'',
     rg_Bond = ''5asvp'', rg_Endpoint = ''http://a'', rg_CapabilityHash = ''digest''\<rparr>"

definition example_env :: dg_env where
  "example_env =
     \<lparr>dv_clock = int, dv_agent = (\<lambda>t i. Ok None), dv_agent_by_operator = (\<lambda>t i. Ok (Some example_agent)),
      dv_min_bond = (\<lambda>t. Ok \<lparr>co_Denom = ''asvp'', co_Amount = 5\<rparr>), dv_auth = None,
      dv_wallet_params = (\<lambda>t. Ok \<lparr>wp_MaxDelegationDepth = 0, wp_MaxTokenTtlSeconds = 0\<rparr>),
      dv_epoch = (\<lambda>t r. Ok (0, False)), dv_account = (\<lambda>t a. Ok \<lparr>ai_AccountNumber = 0, ai_Sequence = 0\<rparr>),
      dv_broadcast = (\<lambda>t raw. Ok \<lparr>bc_TxHash = ''H'', bc_Code = 0, bc_RawLog = []\<rparr>),
      dv_tenant_owner = (\<lambda>t i. Ok i), dv_verify_chain = (\<lambda>toks keys opts. Ok example_verified),
      dv_has_action = (\<lambda>as a. a \<in> set as), dv_has_subaccount = (\<lambda>ns n. n \<in> set ns),
      dv_allows = (\<lambda>ts a. a \<in> set ts),
      dv_place = (\<lambda>t i asm x y. Ok (OtherMsg ''/short'' (po_Owner i))),
      dv_cancel = (\<lambda>i asm x y. Ok (OtherMsg ''/short'' (co_Owner i))),
      dv_batch_cancel = (\<lambda>i asm x y. Ok (OtherMsg ''/short'' (bo_Owner i))),
      dv_deposit = (\<lambda>i asm x y. Ok (OtherMsg ''/deposit'' (do_Owner i))),
      dv_human_to_quantums = (\<lambda>h. Ok 0), dv_ToolDeposit = ''deposit'', dv_check_per_tx = (\<lambda>l t q. Ok ()),
      dv_validate_basic = (\<lambda>m. Ok ()), dv_tx = example_tx_lib, dv_acc_address = (\<lambda>a. Ok a),
      dv_agent_id = (\<lambda>a. ''did:svp:'' @ a), dv_sha256 = (\<lambda>b. ''digest'')\<rparr>"

definition example_cfg :: SvcConfig where
  "example_cfg = \<lparr>sc_Priv = ''k'', sc_Operator = ''op'', sc_ChainID = ''svp-1'', sc_Fee = example_fee,
     sc_Limits = \<lparr>li_DepositMaxUSDC = 0, li_WithdrawMaxUSDC = 0, li_TransferMaxUSDC = 0, li_DailyWithdrawCapUSDC = 0\<rparr>,
     sc_Endpoint = ''http://a'', sc_Capabilities = [''trading''], sc_Metadata = []\<rparr>"

definition example_service :: Service where
  "example_service = the_ok (Service_New example_env example_cfg)"

definition example_order :: ExecPlaceOrderInput where
  "example_order = \<lparr>pi_Proof = [''QQ==''], pi_Order = \<lparr>op_SubaccountNumber = 0, op_Ticker = ''BTC-USD'',
     op_Side = ''BUY'', op_Size = ''1'', op_Price = ''2'', op_TimeInForce = [], op_ReduceOnly = False,
     op_GoodTilBlock = 0, op_OrderClientID = 0\<rparr>\<rparr>"

definition example_deposit :: ExecDepositInput where
  "example_deposit = \<lparr>di_Proof = [''QQ==''], di_Deposit = \<lparr>dp_SubaccountNumber = 0, dp_HumanUSDC = ''1''\<rparr>\<rparr>"

definition example_cancel :: ExecCancelOrderInput where
  "example_cancel = \<lparr>ci_Proof = [''QQ==''], ci_Cancel = \<lparr>cp_SubaccountNumber = 0, cp_ClobPairID = 0,
     cp_OrderClientID = 0, cp_OrderFlags = 0, cp_GoodTilBlock = 0, cp_GoodTilBlockTime = 0\<rparr>\<rparr>"

definition example_batch :: ExecBatchCancelInput where
  "example_batch = \<lparr>bi_Proof = [''QQ==''], bi_Cancel = \<lparr>bp_SubaccountNumber = 0,
     bp_Batches = [\<lparr>bt_ClobPairID = 0, bt_ClientIDs = [0]\<rparr>], bp_GoodTilBlock = 0\<rparr>\<rparr>"

definition example_answer :: "BroadcastResult go" where
  "example_answer = Ok \<lparr>bc_TxHash = ''H'', bc_Code = 0, bc_RawLog = []\<rparr>"

lemma example_events:
  "new_events example_service (snd (ExecutePlaceOrder example_env example_order example_service))
     = [ReadAccount ''op'', Broadcast ''xkxsvp-1'' example_answer]"
  "new_events example_service (snd (ExecuteCancelOrder example_env example_cancel example_service))
     = [ReadAccount ''op'', Broadcast ''xkxsvp-1'' example_answer]"
  "new_events example_service (snd (ExecuteBatchCancel example_env example_batch example_service))
     = [ReadAccount ''op'', Broadcast ''xkxsvp-1'' example_answer]"
  "new_events example_service (snd (ExecuteDepositToSubaccount example_env example_deposit example_service))
     = [LockSeq, ReadAccount ''op'', Broadcast ''xasvpkxasvpsvp-1'' example_answer, UnlockSeq]"
  by code_simp+

lemmas run = prod.collapse [symmetric]

theorem place_order_sent_witness:
  "\<exists>tokens v inner. verified_chain example_env example_service [''QQ==''] tokens v \<and>
     operator_tx example_env example_service tokens inner ''xkxsvp-1''"
  using place_order_sent [OF run, of "''xkxsvp-1''" example_service example_env example_order]
  by (simp add: example_events) (auto simp: example_order_def)

theorem cancel_order_sent_witness:
  "\<exists>tokens v inner. verified_chain example_env example_service [''QQ==''] tokens v \<and>
     operator_tx example_env example_service tokens inner ''xkxsvp-1''"
  using cancel_order_sent [OF run, of "''xkxsvp-1''" example_service example_env example_cancel]
  by (simp add: example_events) (auto simp: example_cancel_def)

theorem batch_cancel_sent_witness:
  "\<exists>tokens v inner. verified_chain example_env example_service [''QQ==''] tokens v \<and>
     operator_tx example_env example_service tokens inner ''xkxsvp-1''"
  using batch_cancel_sent [OF run, of "''xkxsvp-1''" example_service example_env example_batch]
  by (simp add: example_events) (auto simp: example_batch_def)

theorem deposit_sent_witness:
  "\<exists>tokens v quantums. verified_chain example_env example_service [''QQ==''] tokens v \<and>
     dv_check_per_tx example_env (sc_Limits (sv_cfg example_service)) ''deposit'' quantums = Ok ()"
  using deposit_sent [OF run, of "''xasvpkxasvpsvp-1''" example_service example_env example_deposit]
  by (simp add: example_events) (auto simp: example_deposit_def example_env_def)

theorem exec_ops_trace_witness:
  "\<exists>raw answer locked. new_events example_service
       (snd (ExecuteDepositToSubaccount example_env example_deposit example_service))
     = bracket locked [ReadAccount ''op'', Broadcast raw answer] \<and> locked"
  using exec_ops_trace [OF _ run, of "ExecuteDepositToSubaccount example_env example_deposit" example_env
      example_order example_cancel example_batch example_deposit example_service]
  by (auto simp: example_events bracket_def)

theorem redelegation_exact_witness:
  "checkRedelegationTargets example_env example_verified = Ok ()"
proof -
  have "i = 1" if "1 \<le> i" "i < length (vf_Tokens example_verified)" for i
    using that by (simp add: example_verified_def)
  then show ?thesis
    using redelegation_exact [of example_env example_verified]
    by (auto simp: example_env_def example_verified_def)
qed

definition example_args :: raw where
  "example_args = Some (JObj [(''Address'', JStr ''svp1victim''), (''limit'', JNum ''5'')])"

definition example_pinned :: json where
  "example_pinned = JObj [(''Address'', JStr ''svp1victim''), (''address'', JStr ''svp1user''), (''limit'', JNum ''5'')]"

definition example_spec :: readSpec where
  "example_spec = \<lparr>rp_ownerField = ''address'', rp_hasSubaccount = True\<rparr>"

lemma example_pin: "pinArgsToPrincipal example_env example_args example_spec example_verified = Ok (Some example_pinned)"
  by code_simp

theorem pinned_args_witness:
  "\<exists>m. example_pinned = JObj m \<and> jm_wf m \<and> map_of m ''address'' = Some (JStr ''svp1user'')"
  using pinned_args [OF example_pin]
  by (auto simp: map_of_jm_put example_spec_def example_verified_def)

theorem pinned_owner_is_read_witness:
  "read_string_field ''address'' example_pinned = Ok ''svp1user''"
proof -
  have spec: "ReadSpecFor ''get_orders'' = Some example_spec" by code_simp
  obtain x where x: "read_string_field ''address'' example_pinned = Ok x"
    by (simp add: example_pinned_def read_string_field_def find_field_single)
  then have "x = vf_Principal example_verified"
    by (intro pinned_owner_is_read [OF example_pin spec])
      (auto simp: example_args_def example_spec_def ascii_def jm_of_def)
  with x show ?thesis by (simp add: example_verified_def)
qed

lemma example_read:
  "fst (AuthorizeRead example_env ''get_orders'' [''QQ==''] example_args example_service)
     = Ok (example_verified, Some example_pinned)"
  by code_simp

theorem AuthorizeRead_grants_witness:
  "\<exists>tokens. verified_chain example_env example_service [''QQ==''] tokens example_verified"
  using AuthorizeRead_grants [of example_env "''get_orders''" "[''QQ=='']" example_args example_service, OF run] example_read
  by auto

lemma example_reachable: "reachable example_env example_cfg example_service"
proof -
  have "Service_New example_env example_cfg = Ok example_service"
    by (simp add: example_service_def Service_New_def example_env_def)
  then show ?thesis by (rule reachable.start)
qed

theorem params_at_most_a_minute_old_witness:
  "\<exists>k. dv_wallet_params example_env k = Ok \<lparr>wp_MaxDelegationDepth = 0, wp_MaxTokenTtlSeconds = 0\<rparr>"
proof -
  have "fst (walletParams example_env example_service) = Ok \<lparr>wp_MaxDelegationDepth = 0, wp_MaxTokenTtlSeconds = 0\<rparr>"
    by code_simp
  then obtain s' where "walletParams example_env example_service
      = (Ok \<lparr>wp_MaxDelegationDepth = 0, wp_MaxTokenTtlSeconds = 0\<rparr>, s')"
    by (metis prod.collapse)
  from params_at_most_a_minute_old [OF example_reachable this] show ?thesis by blast
qed

theorem read_revocation_bound_witness:
  "\<exists>k. dv_epoch example_env k ''root'' = Ok (0, False)"
proof -
  obtain s' where "AuthorizeRead example_env ''get_orders'' [''QQ==''] example_args example_service
      = (Ok (example_verified, Some example_pinned), s')"
    using example_read by (metis prod.collapse)
  from read_revocation_bound [OF example_reachable this] show ?thesis by (auto simp: example_verified_def)
qed

theorem Identity_report_witness:
  "\<exists>out. fst (Identity example_env (SetCapabilityCard example_env ''card'' example_service)) = Ok out \<and> io_CardHashMatches out"
proof -
  let ?s = "SetCapabilityCard example_env ''card'' example_service"
  obtain out where out: "fst (Identity example_env ?s) = Ok out"
    by (auto simp: Identity_def Let_def example_env_def example_agent_def)
  have "sv_cardHash ?s = ''digest''" "dv_agent_by_operator example_env (w_tick ?s) (sc_Operator (sv_cfg ?s)) = Ok (Some example_agent)"
    by (simp_all add: SetCapabilityCard_def example_env_def)
  then have "io_CardHashMatches out"
    using Identity_report [OF run, of example_env ?s] out by (simp add: example_agent_def)
  with out show ?thesis by blast
qed

lemma example_self_events:
  "new_events example_service (snd (SelfRegister example_env (Some ''op'') None (SetCapabilityCard example_env ''card'' example_service)))
     = [LockSeq, ReadAccount ''op'', Broadcast ''xasvpkxasvpsvp-1'' example_answer, UnlockSeq]"
  "new_events example_service (snd (SelfUpdate example_env (Some ''op'') (SetCapabilityCard example_env ''card'' example_service)))
     = [LockSeq, ReadAccount ''op'', Broadcast ''xasvpkxasvpsvp-1'' example_answer, UnlockSeq]"
  by code_simp+

theorem SelfRegister_sent_witness:
  "\<exists>t0. dv_tenant_owner example_env t0 ''op'' = Ok ''op''"
proof -
  have "sc_Operator (sv_cfg example_service) = ''op''" by code_simp
  then show ?thesis
    using SelfRegister_sent [OF run, of "''xasvpkxasvpsvp-1''" example_service example_env "Some ''op''" None "''card''"]
    by (simp add: example_self_events)
qed

theorem SelfUpdate_sent_witness:
  "\<exists>t0. dv_tenant_owner example_env t0 ''op'' = Ok ''op''"
proof -
  have "sc_Operator (sv_cfg example_service) = ''op''" by code_simp
  then show ?thesis
    using SelfUpdate_sent [OF run, of "''xasvpkxasvpsvp-1''" example_service example_env "Some ''op''" "''card''"]
    by (simp add: example_self_events)
qed

abbreviation example_tenants :: ReadTenantSource where
  "example_tenants \<equiv> tenant_run int [OpAdmit example_verified] NewReadTenantSource"

theorem tenant_table_sound_witness:
  "\<exists>policy. fst (LookupTenantPolicy int (read_tenant_id example_verified) example_tenants) = Some policy \<and>
     tp_Owner policy = ''svp1user''"
proof -
  have "fst (LookupTenantPolicy int (read_tenant_id example_verified) example_tenants) \<noteq> None"
    by code_simp
  then obtain policy where "fst (LookupTenantPolicy int (read_tenant_id example_verified) example_tenants) = Some policy"
    by blast
  moreover from this tenant_table_sound [of int "[OpAdmit example_verified]"] obtain v where
    "OpAdmit v \<in> set [OpAdmit example_verified]" "tp_Owner policy = vf_Principal v"
    by (metis TenantPolicy.select_convs(2))
  moreover have "vf_Principal example_verified = ''svp1user''" by (simp add: example_verified_def)
  ultimately show ?thesis by simp
qed

text \<open>A table already in use; then the credential is admitted, another one, and the first again.\<close>

definition other_verified :: Verified where
  "other_verified = example_verified\<lparr>vf_ChainHash := ''otherhashotherhash'', vf_LeafExp := 3\<rparr>"

definition polling_ops :: "tenant_op list" where
  "polling_ops = [OpLookup (read_tenant_id example_verified), OpAdmit other_verified, OpAdmit example_verified]"

definition used_table :: ReadTenantSource where
  "used_table = tenant_run int [OpAdmit other_verified] NewReadTenantSource"

theorem admitted_until_expiry_witness:
  "fst (LookupTenantPolicy int (read_tenant_id example_verified)
     (tenant_run int (OpAdmit example_verified # polling_ops) used_table)) = Some (read_policy example_verified)"
proof -
  have "table_ok used_table" unfolding used_table_def
    by (rule run_ok) (simp add: table_ok_def NewReadTenantSource_def distinct_keys_def)
  moreover have "has_room int (read_tenant_id example_verified) used_table"
  proof -
    have "length (rt_byID (sweepLocked int used_table)) = 1" by code_simp
    then show ?thesis by (simp add: has_room_def maxReadTenants_def)
  qed
  moreover have "mono int" by (simp add: mono_def)
  moreover have "read_policy u = read_policy example_verified \<and> vf_LeafExp u = vf_LeafExp example_verified"
    if "OpAdmit u \<in> set polling_ops" "read_tenant_id u = read_tenant_id example_verified" for u
  proof -
    have "read_tenant_id other_verified \<noteq> read_tenant_id example_verified" by code_simp
    with that show ?thesis by (auto simp: polling_ops_def)
  qed
  moreover have "int (rt_tick (tenant_run int (OpAdmit example_verified # polling_ops) used_table)) < vf_LeafExp example_verified"
    by code_simp
  ultimately show ?thesis
    using admitted_until_expiry [of used_table int example_verified polling_ops] by simp
qed

theorem pin_sidestepped_witness:
  "\<exists>newArgs. pinArgsToPrincipal example_env (respelled_args ''svp1other'' ''7'')
       \<lparr>rp_ownerField = ''address'', rp_hasSubaccount = True\<rparr> example_verified = Ok (Some newArgs) \<and>
     read_string_field ''address'' newArgs = Ok ''svp1other'' \<and>
     read_u32_field ''subaccount_number'' newArgs = Ok 7"
proof -
  have "ReadSpecFor ''get_orders'' = Some \<lparr>rp_ownerField = ''address'', rp_hasSubaccount = True\<rparr>"
    by code_simp
  moreover have "dv_has_subaccount example_env (vf_Subaccounts example_verified) 0" by code_simp
  moreover have "dec_u32 0 (JNum ''7'') = Ok 7" by code_simp
  ultimately show ?thesis
    using pin_sidestepped [of "''get_orders''" "\<lparr>rp_ownerField = ''address'', rp_hasSubaccount = True\<rparr>"
        example_env example_verified "''svp1other''" "''7''"] by simp
qed

end
