(* ===== verification/Chain_Examples.thy ===== *)
theory Chain_Examples
  imports Agent_Chain_Safety
begin

section \<open>Concrete runs of the agent-chain operations\<close>

text \<open>
  A concrete environment for the agent chain and the instances of the properties on it: a chain
  with two-byte root ids whose policy engine knows every tenant as owned by \<open>own\<close>.
\<close>

definition example_ac :: ac_env where
  "example_ac =
     \<lparr>ac_agentQ = (\<lambda>t q. Ok (Ok (JStr ''agents''))), ac_walletQ = (\<lambda>t q. Ok (Ok (JStr ''delegations''))),
      ac_assemble = (\<lambda>a. Ok (Ok (JStr (ba_SignerAddress a)))),
      ac_account = (\<lambda>t a. Ok \<lparr>ai_AccountNumber = 0, ai_Sequence = 0\<rparr>),
      ac_check_tenant = (\<lambda>t i. Ok ()),
      ac_tenant = (\<lambda>t i. Ok \<lparr>tp_TenantID = i, tp_Owner = ''own'', tp_AllowedSubaccounts = {}, tp_KillSwitch = False\<rparr>),
      ac_broadcast = (\<lambda>t raw. Ok \<lparr>bc_TxHash = ''hash'', bc_Code = 0, bc_RawLog = []\<rparr>),
      ac_validate_basic = (\<lambda>m. Ok ()), ac_type_url = (\<lambda>m. ''url''), ac_new_int = (\<lambda>s. None),
      ac_acc_address = (\<lambda>s. Ok s), ac_agent_id = (\<lambda>b. ''did:svp:'' @ b), ac_RootIDLen = 2,
      ac_enc_BroadcastResult = (\<lambda>b. Ok (JStr (bc_TxHash b))),
      ac_dec_SignedTx = (\<lambda>old j. Ok old),
      ac_unmarshal_TxRaw = (\<lambda>raw. Ok \<lparr>tr_BodyBytes = [], tr_AuthInfoBytes = raw, tr_Signatures = []\<rparr>),
      ac_unmarshal_AuthInfo = (\<lambda>b. Ok [Some (Any ''key'' b b)]), ac_unpack_key = (\<lambda>a. Ok (any_bytes a)),
      ac_key_address = (\<lambda>k. k)\<rparr>"

definition example_ctx :: ToolCtx where
  "example_ctx = \<lparr>cx_Tenant = Some \<lparr>tc_TenantID = ''auto-1'', tc_Owner = ''own''\<rparr>, cx_Session = None, cx_IP = None\<rparr>"

definition example_world :: world where
  "example_world = \<lparr>w_tick = 0, w_log = []\<rparr>"

definition example_request :: build_request where
  "example_request = PauseDelegation \<lparr>bdr_RootID = ''aB0f'', bdr_PayloadClientID = ''c''\<rparr>"

definition example_landing :: BroadcastInput where
  "example_landing = \<lparr>bi_SignedTx = \<lparr>st_TxRawBytesB64 = ''b3du''\<rparr>\<rparr>"

lemma example_build_run:
  "build example_ac example_ctx example_request example_world =
     (Ok \<lparr>po_Payload = Ok (JStr ''own'')\<rparr>, \<lparr>w_tick = 3, w_log = []\<rparr>)"
  by code_simp

lemma example_landing_run:
  "BroadcastSignedTx example_ac example_ctx example_landing example_world =
     (Ok \<lparr>bo_Result = \<lparr>bc_TxHash = ''hash'', bc_Code = 0, bc_RawLog = []\<rparr>\<rparr>,
      \<lparr>w_tick = 3, w_log = [Broadcast ''own'' (Ok \<lparr>bc_TxHash = ''hash'', bc_Code = 0, bc_RawLog = []\<rparr>)]\<rparr>)"
  by code_simp

theorem build_signs_as_owner_witness:
  "\<exists>owner msg. tenant_owner example_ac (w_tick example_world) example_ctx owner \<and> msg_signer msg = owner \<and>
    asks_for example_ac example_request msg \<and>
    assembled example_ac (w_tick example_world + 2) (build_tool example_request) owner msg
      \<lparr>po_Payload = Ok (JStr ''own'')\<rparr> \<and>
    w_log \<lparr>w_tick = 3, w_log = []\<rparr> = w_log example_world"
  by (rule build_signs_as_owner [OF example_build_run])

theorem broadcast_signer_pinned_witness:
  "\<exists>raw res. lands example_ac (w_tick example_world) example_ctx example_landing raw \<and>
    w_log (snd (BroadcastSignedTx example_ac example_ctx example_landing example_world)) =
      w_log example_world @ [Broadcast raw res]"
proof -
  have "w_log (snd (BroadcastSignedTx example_ac example_ctx example_landing example_world)) \<noteq> w_log example_world"
    by (simp only: example_landing_run) (simp add: example_world_def)
  with broadcast_signer_pinned [OF prod.collapse [symmetric], of example_ac example_ctx example_landing example_world]
  show ?thesis by blast
qed

end
