(* ===== verification/A2A_Examples.thy ===== *)
theory A2A_Examples
  imports A2A_Safety A2A_Card Delegated_Examples Chain_Examples
begin

section \<open>Concrete runs of the registry and the executor\<close>

text \<open>
  A library whose handlers answer null, the registries over it, an executor, and the properties of
  the tool bridge and the A2A surface on them.
\<close>

definition example_tool :: "(unit, unit) lib_tool" where
  "example_tool = \<lparr>lt_zero = (), lt_decode = (\<lambda>i j. Ok ()), lt_handle = (\<lambda>tenants ctx i. act_ret (Ok (None, Ok JNull)))\<rparr>"

definition example_registry :: "dg_env option \<Rightarrow> unit Registry" where
  "example_registry svc = \<lparr>reg_ops = map entry (all_entries (\<lambda>s t. None) (\<lambda>m. example_tool) example_ac svc)\<rparr>"

lemma example_registry_full:
  "full_registry (\<lambda>s t. None) (\<lambda>m. example_tool) example_ac svc = Ok (example_registry svc)"
  by (simp add: full_registry_eq example_registry_def)

lemma example_registry_wf: "reg_wf (example_registry svc)"
  by (rule full_registry_ops(2) [OF example_registry_full])

definition example_state :: "unit agent_state" where
  "example_state = \<lparr>ag_svc = example_service, ag_tenants = NewReadTenantSource, ag_lib = ()\<rparr>"

definition example_executor :: "unit Executor" where
  "example_executor =
     \<lparr>ex_market = (\<lambda>t. \<lparr>mr_list_markets = Ok (Ok (JStr ''markets'')), mr_market = (\<lambda>s. Ok (Ok JNull)),
        mr_orderbook = (\<lambda>s. Err (Foreign ''down'')), mr_funding = (\<lambda>s. Ok (Ok JNull))\<rparr>),
      ex_registry = None, ex_authr = None,
      ex_reads = Some example_env, ex_readTenants = Some int,
      ex_parse = (\<lambda>s. Ok (JObj [(''skill'', JStr ''svpchain-market-data''), (''query'', JStr s)])),
      ex_print = (\<lambda>j. ''json''), ex_err_text = (\<lambda>e. ''refused''), ex_rat_set = (\<lambda>s. None),
      ex_enc_orderbook = (\<lambda>ob. Ok JNull)\<rparr>"

definition example_delegation :: DelegationMetadata where
  "example_delegation = \<lparr>dm_Tokens = [''QQ==''], dm_Settlement = []\<rparr>"

definition example_call :: "string \<Rightarrow> string \<Rightarrow> raw \<Rightarrow> Request" where
  "example_call skill tool args = zero_Request\<lparr>rq_Skill := skill, rq_Tool := tool, rq_Args := args\<rparr>"

definition example_xc :: ExecutorContext where
  "example_xc = \<lparr>xc_Message = Some \<lparr>ms_Parts = [Some ''markets''],
       ms_Metadata = Some [DelegationMetadataKey \<mapsto> Ok (JObj [(''tokens'', JArr [JStr ''QQ=='' ])])]\<rparr>,
     xc_StoredTask = False, xc_ContextID = [], xc_ServiceParams = None\<rparr>"

definition example_place :: Request where
  "example_place = example_call SkillExecution ''execute_place_order''
     (Some (JObj [(''order'', JObj [(''ticker'', JStr ''BTC-USD'')])]))"

definition example_read :: Request where
  "example_read = example_call SkillAccount ''get_balance'' (Some (JObj []))"

text \<open>The two tools of the runs below, found in the registry.\<close>

definition place_op :: "unit Op" where
  "place_op = \<lparr>op_Skill = SkillExecution, op_Tool = ''execute_place_order'',
     op_Call = native_strict ExecPlaceOrderInput_fields zero_ExecPlaceOrderInput enc_ExecResult
       (\<lambda>_. ExecutePlaceOrder example_env)\<rparr>"

definition balance_op :: "unit Op" where
  "balance_op = \<lparr>op_Skill = SkillAccount, op_Tool = ''get_balance'', op_Call = lib_call (\<lambda>s t. None) example_tool\<rparr>"

lemma find_place: "find_op (example_registry (Some example_env)) example_place = Ok place_op"
proof -
  have "Lookup (example_registry (Some example_env)) ''execute_place_order'' = Some place_op"
    unfolding Lookup_entry [OF example_registry_full]
    by (intro exI [of _ SkillExecution] exI [of _ "op_Call place_op"])
      (simp add: all_entries_def execution_entries_def execution_tools_def entry_def place_op_def)
  then show ?thesis
    by (simp add: find_op_def example_place_def example_call_def place_op_def zero_Request_def)
qed

lemma find_balance: "find_op (example_registry (Some example_env)) example_read = Ok balance_op"
proof -
  have "(SkillAccount, ''get_balance'', ''GetBalance'') \<in> set handler_tools"
    by (simp add: handler_tools_def)
  then have "(SkillAccount, ''get_balance'', op_Call balance_op) \<in> set (lib_entries (\<lambda>s t. None) (\<lambda>m. example_tool))"
    by (force simp: lib_entries_def balance_op_def)
  then have "Lookup (example_registry (Some example_env)) ''get_balance'' = Some balance_op"
    unfolding Lookup_entry [OF example_registry_full]
    by (intro exI [of _ SkillAccount] exI [of _ "op_Call balance_op"])
      (simp add: all_entries_def entry_def balance_op_def)
  then show ?thesis
    by (simp add: find_op_def example_read_def example_call_def balance_op_def zero_Request_def SkillAccount_def)
qed

definition run_op :: "Request \<Rightarrow> unit Op \<Rightarrow> (unit agent_state, string) act" where
  "run_op req p =
     act_bind (attach_tenant example_executor example_xc req) (\<lambda>ctx.
     act_bind (delegated_read example_executor (Some example_delegation) req ctx) (\<lambda>(ctx, args).
     act_bind (act_ret (merge_proof (Some example_delegation) args)) (\<lambda>args.
     respond example_executor req (op_Call p ctx args))))"

lemma dispatch_run:
  "find_op (example_registry (Some example_env)) req = Ok p \<Longrightarrow>
   dispatch example_executor (example_registry (Some example_env)) example_xc (Some example_delegation) req = run_op req p"
  by (simp add: dispatch_def run_op_def)

lemma example_place_run:
  "new_events (ag_svc example_state) (ag_svc (snd (run_op example_place place_op example_state))) =
   [ReadAccount ''op'', Broadcast ''xkxsvp-1'' example_answer]"
  by code_simp

lemma example_read_run: "is_ok (fst (run_op example_read balance_op example_state))"
  by code_simp


subsection \<open>The properties on these runs\<close>

text \<open>The whole way of a message: an executor over a registry, to which every text is the same request.\<close>

definition example_body :: json where
  "example_body = JObj [(''skill'', JStr SkillExecution), (''tool'', JStr ''execute_place_order''),
     (''args'', JObj [(''order'', JObj [(''ticker'', JStr ''BTC-USD'')])])]"

definition example_full :: "unit Registry \<Rightarrow> unit Executor" where
  "example_full r = example_executor\<lparr>ex_registry := Some r, ex_parse := (\<lambda>s. Ok example_body)\<rparr>"

lemma example_body_read: "dec_input Request_fields zero_Request example_body = Ok example_place"
  by code_simp

lemma example_delegation_read: "delegationFromMessage (xc_Message example_xc) = Ok (Some example_delegation)"
  by code_simp

lemma example_parse: "parse_request (example_full r) raw = Ok example_place"
  by (simp add: parse_request_def example_full_def example_body_read)
    (simp add: example_place_def example_call_def SkillExecution_def)

lemma full_fields:
  "ex_authr (example_full r) = ex_authr example_executor" "ex_reads (example_full r) = ex_reads example_executor"
  "ex_readTenants (example_full r) = ex_readTenants example_executor" "ex_print (example_full r) = ex_print example_executor"
  "ex_err_text (example_full r) = ex_err_text example_executor"
  by (simp_all add: example_full_def)

lemma dispatch_full: "dispatch (example_full r) = dispatch example_executor"
  by (intro ext) (unfold dispatch_def attach_tenant_def delegated_read_def respond_def encode_result_def full_fields, rule refl)

lemma handle_place:
  assumes "find_op r example_place = Ok place_op"
  shows "handle (example_full r) example_xc s = run_op example_place place_op s"
proof -
  have "rq_Skill example_place \<noteq> SkillMarketData" by code_simp
  then have "handle (example_full r) example_xc s =
      dispatch (example_full r) r example_xc (Some example_delegation) example_place s"
    by (simp add: handle_def act_bind_def example_parse example_delegation_read) (simp add: example_full_def)
  also have "\<dots> = run_op example_place place_op s"
    by (simp add: dispatch_full dispatch_def run_op_def assms)
  finally show ?thesis .
qed

lemma handle_place_run:
  assumes "find_op r example_place = Ok place_op"
  shows "handle (example_full r) example_xc s = (fst (run_op example_place place_op s), snd (run_op example_place place_op s))"
  by (simp add: handle_place [OF assms])

lemma example_place_action: "map_of execute_actions (rq_Tool example_place) = Some ActionPlaceOrder"
  by (simp add: execute_actions_def example_place_def example_call_def)

lemma example_place_sent:
  "''xkxsvp-1'' \<in> sent (new_events (ag_svc example_state) (ag_svc (snd (run_op example_place place_op example_state))))"
  by (simp add: example_place_run)

theorem sent_under_presented_chain_witness:
  "\<exists>tokens v sub inner. verified_chain example_env (ag_svc example_state) [''QQ==''] tokens v \<and>
     dv_has_action example_env (vf_Actions v) ActionPlaceOrder \<and> dv_has_subaccount example_env (vf_Subaccounts v) sub \<and>
     operator_tx example_env (ag_svc example_state) tokens inner ''xkxsvp-1''"
proof -
  have ex: "ex_registry (example_full r) = Some r" for r by (simp add: example_full_def)
  from sent_under_presented_chain [OF ex example_registry_full handle_place_run [OF find_place] example_place_sent
      example_parse example_place_action]
  obtain deleg proofs tokens v sub inner where "delegationFromMessage (xc_Message example_xc) = Ok deleg"
    "presents deleg (rq_Args example_place) proofs"
    "verified_chain example_env (ag_svc example_state) proofs tokens v"
    "dv_has_action example_env (vf_Actions v) ActionPlaceOrder" "dv_has_subaccount example_env (vf_Subaccounts v) sub"
    "operator_tx example_env (ag_svc example_state) tokens inner ''xkxsvp-1''" by blast
  moreover from this have "proofs = [''QQ=='']"
    by (auto simp: example_delegation_read presents_def example_delegation_def)
  ultimately show ?thesis by blast
qed

theorem tenant_provenance_witness:
  "\<exists>p ctx args s2 q. find_op (example_registry (Some example_env)) example_read = Ok p \<and>
     op_Call p ctx args s2 = (q, snd (run_op example_read balance_op example_state)) \<and> no_send example_state s2"
proof -
  have run: "dispatch example_executor (example_registry (Some example_env)) example_xc (Some example_delegation)
      example_read example_state = (fst (run_op example_read balance_op example_state), snd (run_op example_read balance_op example_state))"
    by (simp add: dispatch_run [OF find_balance])
  from tenant_provenance [OF run] example_read_run show ?thesis by blast
qed

theorem delegation_never_dropped_witness:
  "\<exists>kvs. delegation_value (xc_Message example_xc) = Some (Ok (JObj kvs)) \<and> carries_chain kvs example_delegation"
  using delegation_never_dropped [of "xc_Message example_xc" example_delegation] example_delegation_read by blast

theorem inject_exact_witness:
  "dec_strings (member_val (args_map (the_ok (injectProof (Some (JObj [(''bond'', JStr ''5'')])) [''QQ=='']))) ''proof'') = Ok [''QQ=='']"
proof -
  have "injectProof (Some (JObj [(''bond'', JStr ''5'')])) [''QQ==''] =
      Ok (the_ok (injectProof (Some (JObj [(''bond'', JStr ''5'')])) [''QQ=='']))" by code_simp
  from inject_exact [OF this] show ?thesis by simp
qed

theorem read_only_effects_witness:
  "\<exists>req. parse_request example_executor ''markets'' = Ok req \<and> rq_Skill req = ''svpchain-market-data''"
proof -
  have ex: "ex_registry example_executor = None" by (simp add: example_executor_def)
  have ok: "is_ok (fst (handle example_executor example_xc example_state))" by code_simp
  have mt: "messageText (xc_Message example_xc) = ''markets''" by code_simp
  from read_only_effects [OF ex prod.collapse [symmetric], of example_xc example_state] ok
  show ?thesis unfolding mt by blast
qed

theorem execute_events_witness:
  "fst (Execute example_executor example_xc (\<lambda>n. True) example_state) =
     [Inl SubmittedTask, Inl StatusWorking, Inl (StatusCompleted ''json'')]"
proof -
  obtain ys e s' where run: "Execute example_executor example_xc (\<lambda>n. True) example_state = (ys, e, s')"
    by (rule prod_cases3)
  have msg: "xc_Message example_xc \<noteq> None" by (simp add: example_xc_def)
  have p: "protocol example_executor example_xc (fst (handle example_executor example_xc example_state)) =
      [Inl SubmittedTask, Inl StatusWorking, Inl (StatusCompleted ''json'')]" by code_simp
  from execute_events [OF run] msg have "ys = protocol example_executor example_xc (fst (handle example_executor example_xc example_state))"
    by simp
  with run p show ?thesis by simp
qed

theorem card_matches_registry_witness:
  "\<exists>p. Lookup (example_registry None) ''execute_place_order'' = Some p \<and>
     op_Skill p \<in> set (map as_ID (ac_Skills (BuildAgentCard ''http://a'' (Some (example_registry None)))))"
proof -
  have "(SkillExecution, ''execute_place_order'', refusing_call keyless_reason) \<in> set (execution_entries None :: (string \<times> string \<times> unit tool_call) list)"
    by (simp add: execution_entries_def executionTools_def)
  then have "Lookup (example_registry None) ''execute_place_order'' =
      Some \<lparr>op_Skill = SkillExecution, op_Tool = ''execute_place_order'', op_Call = refusing_call keyless_reason\<rparr>"
    unfolding Lookup_entry [OF example_registry_full]
    by (intro exI [of _ SkillExecution] exI [of _ "refusing_call keyless_reason"])
      (simp add: all_entries_def entry_def)
  with card_matches_registry [OF example_registry_full [of None], where url = "''http://a''"] show ?thesis by blast
qed

theorem chain_tools_need_tenant_witness:
  "\<not> is_ok (fst (native BuildDelegationRefInput_fields zero_BuildDelegationRefInput enc_PayloadOutput
     (BuildRevokeDelegation example_ac) no_ctx None example_state))"
proof -
  have "(SkillDelegation, ''build_revoke_delegation'',
      native BuildDelegationRefInput_fields zero_BuildDelegationRefInput enc_PayloadOutput (BuildRevokeDelegation example_ac))
      \<in> set (chain_tools example_ac)" by (simp add: chain_tools_def)
  moreover have "cx_Tenant no_ctx = None" by (simp add: no_ctx_def)
  ultimately show ?thesis using chain_tools_need_tenant by blast
qed

definition example_args :: raw where
  "example_args = Some (JObj [(''order'', JObj [(''ticker'', JStr ''BTC-USD'')]), (''proof'', JArr [JStr ''QQ==''])])"

theorem strict_adapter_witness:
  "\<exists>inp. set (arg_names example_args) \<subseteq> set (jsonKeysOf ExecPlaceOrderInput_fields) \<and>
     decode_args (dec_input ExecPlaceOrderInput_fields) zero_ExecPlaceOrderInput example_args = Ok inp"
proof -
  have ok: "is_ok (fst (adaptStrictNative ExecPlaceOrderInput_fields zero_ExecPlaceOrderInput
      (\<lambda>ctx inp. on_service (ExecutePlaceOrder example_env inp)) enc_ExecResult no_ctx example_args example_state))"
    by code_simp
  from strict_adapter [OF prod.collapse [symmetric], of ExecPlaceOrderInput_fields zero_ExecPlaceOrderInput
      "\<lambda>ctx inp. on_service (ExecutePlaceOrder example_env inp)" enc_ExecResult no_ctx example_args example_state] ok
  show ?thesis by blast
qed

end
