(* ===== verification/Agent_Rest.thy ===== *)
theory Agent_Rest
  imports Agent_Chain
begin

section \<open>The agent chain over REST\<close>

text \<open>
  \<open>internal/agentrest/client.go\<close>: the client that asks the agent chain's gateway over HTTP instead
  of gRPC. The transport, the parsing of a URL, the JSON syntax and the codec of the chain's own
  messages are fields of the client; \<open>'m\<close> is a decoded message, and an answer depends on the step
  at which it is asked for.
\<close>

subsection \<open>The client\<close>

record http_request =
  hr_Method :: string
  hr_URL :: string
  hr_ContentType :: "string option"
  hr_Body :: "json option"

text \<open>A response: the status, the bytes the body yields, and the error that ends it before its end.\<close>

record http_response =
  hp_Status :: int
  hp_Body :: bytes
  hp_BodyErr :: "err option"

record 'm rest_client =
  rc_base :: string
  rc_url_path :: "string \<Rightarrow> string go"
  rc_http :: "nat \<Rightarrow> http_request \<Rightarrow> http_response go"
  rc_parse :: "bytes \<Rightarrow> json go"
  rc_unmarshal :: "string \<Rightarrow> bytes \<Rightarrow> 'm go"
  rc_unpack_account :: "'m \<Rightarrow> AccountInfo go"
  rc_tx_response :: "'m \<Rightarrow> BroadcastResult option"

function trim_base :: "string \<Rightarrow> string" where
  "trim_base s = (if 0 < length s \<and> s ! (length s - 1) = CHR ''/'' then trim_base (take (length s - 1) s) else s)"
  by pat_completeness auto
termination
  by (relation "measure length") auto

declare trim_base.simps [simp del]

text \<open>\<open>New\<close>, on a client that holds the codec and the transport.\<close>

definition Rest_New :: "string \<Rightarrow> 'm rest_client \<Rightarrow> 'm rest_client" where
  "Rest_New baseURL lib = lib\<lparr>rc_base := trim_base baseURL\<rparr>"

text \<open>\<open>io.ReadAll(io.LimitReader(body, 1<<20))\<close>: what comes after the limit is not looked at.\<close>

definition read_limited :: "http_response \<Rightarrow> bytes go" where
  "read_limited resp =
     (if 1048576 \<le> int (length (hp_Body resp)) then Ok (take (nat 1048576) (hp_Body resp))
      else case hp_BodyErr resp of None \<Rightarrow> Ok (hp_Body resp) | Some e \<Rightarrow> Err e)"

definition gateway_message :: "'m rest_client \<Rightarrow> bytes \<Rightarrow> string" where
  "gateway_message rc body =
     (case go_bind (rc_parse rc body)
        (dec_input [(''Message'', ''message'', in_field dec_string (\<lambda>m. m) (\<lambda>f m. f m))] []) of
        Ok msg \<Rightarrow> msg | _ \<Rightarrow> [])"

definition refused :: "'m rest_client \<Rightarrow> string \<Rightarrow> int \<Rightarrow> bytes \<Rightarrow> err" where
  "refused rc path status body =
     (let msg = gateway_message rc body in
      if msg \<noteq> [] then Errorf ''agent chain REST %s: %s (HTTP %d)'' [AS path, AS msg, AD status]
      else Errorf ''agent chain REST %s: HTTP %d'' [AS path, AD status])"

definition rest_do :: "'m rest_client \<Rightarrow> nat \<Rightarrow> http_request \<Rightarrow> string \<Rightarrow> string \<Rightarrow> 'm go" where
  "rest_do rc t req path ty =
     go_bind (wrap_err (\<lambda>e. Errorf ''agent chain REST %s: %w'' [AS path, AW e]) (rc_http rc t req)) (\<lambda>resp.
     go_bind (wrap_err (\<lambda>e. Errorf ''agent chain REST %s: read body: %w'' [AS path, AW e]) (read_limited resp)) (\<lambda>body.
     if hp_Status resp \<noteq> 200 then Err (refused rc path (hp_Status resp) body)
     else wrap_err (\<lambda>e. Errorf ''agent chain REST %s: decode response: %w'' [AS path, AW e]) (rc_unmarshal rc ty body)))"

definition get_request :: "'m rest_client \<Rightarrow> string \<Rightarrow> http_request" where
  "get_request rc path = \<lparr>hr_Method = ''GET'', hr_URL = rc_base rc @ path, hr_ContentType = None, hr_Body = None\<rparr>"

text \<open>\<open>get\<close>: making the request fails when its URL does not parse.\<close>

definition rest_get :: "'m rest_client \<Rightarrow> nat \<Rightarrow> string \<Rightarrow> string \<Rightarrow> 'm go" where
  "rest_get rc t path ty =
     go_bind (rc_url_path rc (hr_URL (get_request rc path))) (\<lambda>p. rest_do rc t (get_request rc path) p ty)"

subsection \<open>The queries\<close>

definition limitQuery :: "PageRequest \<Rightarrow> string" where
  "limitQuery p =
     (case p of None \<Rightarrow> []
      | Some l \<Rightarrow> if 0 < l then ''?pagination.limit='' @ dec_digits (uint l) else [])"

definition rootID :: "bytes \<Rightarrow> string" where
  "rootID b = b64_encode b64_url b"

text \<open>The paths of \<open>x/agent\<close>, after \<open>/dydxprotocol/agent/\<close>.\<close>

fun agent_route :: "agent_query \<Rightarrow> string" where
  "agent_route (QueryAgent i) = path_escape i"
| "agent_route (QueryAgentByOperator op) = ''agent_by_operator/'' @ path_escape op"
| "agent_route (QueryAllAgents p) = ''agents'' @ limitQuery p"
| "agent_route (QueryAgentsByOwner ow p) = ''agents_by_owner/'' @ path_escape ow @ limitQuery p"
| "agent_route (QueryAgentsByCapability cap act p) = ''agents_by_capability/'' @ path_escape cap @ limitQuery p"
| "agent_route QueryAgentParams = ''params''"

definition agent_path :: "agent_query \<Rightarrow> string" where
  "agent_path q = ''/dydxprotocol/agent/'' @ agent_route q"

text \<open>The paths of \<open>x/agentwallet\<close>, after \<open>/dydxprotocol/agentwallet/\<close>.\<close>

fun wallet_route :: "wallet_query \<Rightarrow> string" where
  "wallet_route (QueryDelegation r) = ''delegation/'' @ rootID r"
| "wallet_route (QueryDelegationsByDelegator d p) = ''delegations_by_delegator/'' @ path_escape d @ limitQuery p"
| "wallet_route (QueryEpoch r) = ''epoch/'' @ rootID r"
| "wallet_route (QuerySpend r) = ''spend/'' @ rootID r"
| "wallet_route QueryWalletParams = ''params''"

definition wallet_path :: "wallet_query \<Rightarrow> string" where
  "wallet_path q = ''/dydxprotocol/agentwallet/'' @ wallet_route q"

fun agent_response :: "agent_query \<Rightarrow> string" where
  "agent_response (QueryAgent i) = ''agent.QueryAgentResponse''"
| "agent_response (QueryAgentByOperator op) = ''agent.QueryAgentByOperatorResponse''"
| "agent_response (QueryAllAgents p) = ''agent.QueryAllAgentsResponse''"
| "agent_response (QueryAgentsByOwner ow p) = ''agent.QueryAgentsByOwnerResponse''"
| "agent_response (QueryAgentsByCapability cap act p) = ''agent.QueryAgentsByCapabilityResponse''"
| "agent_response QueryAgentParams = ''agent.QueryParamsResponse''"

fun wallet_response :: "wallet_query \<Rightarrow> string" where
  "wallet_response (QueryDelegation r) = ''agentwallet.QueryDelegationResponse''"
| "wallet_response (QueryDelegationsByDelegator d p) = ''agentwallet.QueryDelegationsByDelegatorResponse''"
| "wallet_response (QueryEpoch r) = ''agentwallet.QueryEpochResponse''"
| "wallet_response (QuerySpend r) = ''agentwallet.QuerySpendResponse''"
| "wallet_response QueryWalletParams = ''agentwallet.QueryParamsResponse''"

definition rest_agent :: "'m rest_client \<Rightarrow> nat \<Rightarrow> agent_query \<Rightarrow> 'm go" where
  "rest_agent rc t q = rest_get rc t (agent_path q) (agent_response q)"

definition rest_wallet :: "'m rest_client \<Rightarrow> nat \<Rightarrow> wallet_query \<Rightarrow> 'm go" where
  "rest_wallet rc t q = rest_get rc t (wallet_path q) (wallet_response q)"

definition rest_account :: "'m rest_client \<Rightarrow> nat \<Rightarrow> string \<Rightarrow> 'm go" where
  "rest_account rc t address =
     rest_get rc t (''/cosmos/auth/v1beta1/accounts/'' @ path_escape address) ''auth.QueryAccountResponse''"

definition accountAdapter_Account :: "'m rest_client \<Rightarrow> nat \<Rightarrow> string \<Rightarrow> AccountInfo go" where
  "accountAdapter_Account rc t address =
     go_bind (rest_account rc t address) (\<lambda>resp.
     wrap_err (\<lambda>e. Errorf ''unpack account %s: %w'' [AS address, AW e]) (rc_unpack_account rc resp))"

subsection \<open>The broadcast\<close>

definition broadcast_request :: "'m rest_client \<Rightarrow> bytes \<Rightarrow> http_request" where
  "broadcast_request rc txBytes =
     \<lparr>hr_Method = ''POST'', hr_URL = rc_base rc @ ''/cosmos/tx/v1beta1/txs'',
      hr_ContentType = Some ''application/json'',
      hr_Body = Some (JObj [(''mode'', JStr ''BROADCAST_MODE_SYNC''), (''tx_bytes'', JStr (b64_encode b64_std txBytes))])\<rparr>"

definition BroadcastSync :: "'m rest_client \<Rightarrow> nat \<Rightarrow> bytes \<Rightarrow> BroadcastResult go" where
  "BroadcastSync rc t txBytes =
     go_bind (rc_url_path rc (hr_URL (broadcast_request rc txBytes))) (\<lambda>p.
     go_bind (rest_do rc t (broadcast_request rc txBytes) p ''tx.BroadcastTxResponse'') (\<lambda>resp.
     case rc_tx_response rc resp of
       None \<Rightarrow> Err (Errorf ''agent chain REST broadcast: empty tx_response'' [])
     | Some r \<Rightarrow> Ok r))"

end
