(* ===== verification/Wire.thy ===== *)
theory Wire
  imports Tool_Registry Agent_Rest
begin

section \<open>Wiring the agent\<close>

text \<open>
  \<open>internal/wire/wire.go\<close>: the construction of the agent from its configuration. Constructors of
  other packages that can fail are fields of a library record; what they build is represented by
  what it was built from. The gRPC connection's opening and closing are logged.
\<close>

subsection \<open>The two populations of tenants\<close>

text \<open>A source answers for an id or not; the store's errors are its not answering.\<close>

definition dynamicTenantAdapter :: "(string \<Rightarrow> TenantRecord option) \<Rightarrow> string \<Rightarrow> TenantPolicy option" where
  "dynamicTenantAdapter lookup tenantID =
     (case lookup tenantID of
        None \<Rightarrow> None
      | Some rec \<Rightarrow> Some \<lparr>tp_TenantID = tn_TenantID rec, tp_Owner = tn_Owner rec,
          tp_AllowedSubaccounts = tn_AllowedSubaccounts rec, tp_KillSwitch = tn_KillSwitch rec\<rparr>)"

fun multiDynamicSource :: "(string \<Rightarrow> TenantPolicy option) list \<Rightarrow> string \<Rightarrow> TenantPolicy option" where
  "multiDynamicSource [] tenantID = None"
| "multiDynamicSource (src # m) tenantID =
     (case src tenantID of Some tp \<Rightarrow> Some tp | None \<Rightarrow> multiDynamicSource m tenantID)"

definition read_source :: "(nat \<Rightarrow> int) \<Rightarrow> ReadTenantSource \<Rightarrow> string \<Rightarrow> TenantPolicy option" where
  "read_source clock t tenantID = fst (LookupTenantPolicy clock tenantID t)"

text \<open>What the policy engine falls back to; \<open>lookup\<close> is the library's store of auto-issued tenants.\<close>

definition dynamic_source ::
  "('x \<Rightarrow> string \<Rightarrow> TenantRecord option) \<Rightarrow> (nat \<Rightarrow> int) \<Rightarrow> 'x agent_state \<Rightarrow> string \<Rightarrow> TenantPolicy option" where
  "dynamic_source lookup clock s =
     multiDynamicSource [dynamicTenantAdapter (lookup (ag_lib s)), read_source clock (ag_tenants s)]"

subsection \<open>What is built\<close>

record ForeignChain =
  fo_Client :: string
  fo_Assembler :: string
  fo_Bridge :: bytes

text \<open>An EVM client is the URL it was made for, an assembler its client, a binding its addresses.\<close>

record 'rt EVMDeps =
  ed_Assembler :: "string option"
  ed_Uniswap :: "(bytes \<times> bytes) option"
  ed_Oracle :: "bytes option"
  ed_Lendora :: "bytes option"
  ed_Bridge :: "bytes option"
  ed_BridgeRoutes :: "'rt option"
  ed_BridgeSourceChainID :: u64
  ed_HomeChainID :: u64
  ed_ForeignChains :: "(u64 \<Rightarrow> ForeignChain option) option"

definition no_evm :: "'rt EVMDeps" where
  "no_evm = \<lparr>ed_Assembler = None, ed_Uniswap = None, ed_Oracle = None, ed_Lendora = None, ed_Bridge = None,
     ed_BridgeRoutes = None, ed_BridgeSourceChainID = 0, ed_HomeChainID = 0, ed_ForeignChains = None\<rparr>"

text \<open>The lendora cache is its client, its binding and its refresh period.\<close>

record LendoraCache =
  lc_Client :: string
  lc_Comptroller :: bytes
  lc_Refresh :: int

text \<open>What \<open>tools.New\<close> gets of the configuration.\<close>

record 'rt ToolDeps =
  td_ChainID :: string
  td_GrpcAddr :: string
  td_CometRPCURL :: string
  td_Indexer :: string
  td_MarketsRefresh :: int
  td_EVM :: "'rt EVMDeps"
  td_Lendora :: "LendoraCache option"
  td_Builder :: Assembler
  td_Faucet :: "string option"
  td_Limits :: LimitsConfig
  td_TransferOut :: string
  td_BroadcastMode :: string

record ('x, 'i, 'm, 'rt) wire_lib =
  wl_dial :: "string \<Rightarrow> unit go"
  wl_comet :: "string \<Rightarrow> unit go"
  wl_evm_client :: "string \<Rightarrow> unit go"
  wl_hex_address :: "string \<Rightarrow> bytes"
  wl_uniswap :: "bytes \<Rightarrow> bytes \<Rightarrow> unit go"
  wl_oracle :: "bytes \<Rightarrow> unit go"
  wl_lendora :: "bytes \<Rightarrow> unit go"
  wl_bridge :: "bytes \<Rightarrow> unit go"
  wl_routes :: "string \<Rightarrow> 'rt go"
  wl_has_source :: "'rt \<Rightarrow> u64 \<Rightarrow> bool"
  wl_resolve_source :: "'rt \<Rightarrow> string \<Rightarrow> u64 \<Rightarrow> unit go"
  wl_transfer_out :: "string \<Rightarrow> unit go"
  wl_tools :: "'rt ToolDeps \<Rightarrow> string \<Rightarrow> ('i, 'x) lib_tool"
  wl_tenant_store :: "'x \<Rightarrow> string \<Rightarrow> TenantRecord option"
  wl_clock :: "nat \<Rightarrow> int"
  wl_key :: key_env
  wl_account :: "nat \<Rightarrow> string \<Rightarrow> AccountInfo go"
  wl_broadcast :: "nat \<Rightarrow> bytes \<Rightarrow> BroadcastResult go"
  wl_ac :: ac_env
  wl_dg :: dg_env
  wl_assemble :: "Assembler \<Rightarrow> BuilderArgs \<Rightarrow> goany go"
  wl_rest :: "'m rest_client"
  wl_json :: "'m \<Rightarrow> goany"
  wl_agent_of :: "'m \<Rightarrow> registered_agent option"
  wl_min_bond_of :: "'m \<Rightarrow> sdk_coin"
  wl_wallet_params_of :: "'m \<Rightarrow> WalletParams"
  wl_epoch_of :: "'m \<Rightarrow> u64 \<times> bool"
  wl_account_any :: "'m \<Rightarrow> bytes any"

text \<open>\<open>App\<close>; the caches, stores and clients it carries are in \<open>ap_Deps\<close>.\<close>

record ('x, 'rt) App =
  ap_Registry :: "'x Registry"
  ap_Deps :: "'rt ToolDeps"
  ap_GrpcConn :: "string option"
  ap_Delegated :: "(dg_env \<times> Service) option"

subsection \<open>The connection\<close>

datatype conn_event = ConnOpened string | ConnClosed

type_synonym conn_log = "conn_event list"

definition dial :: "('x, 'i, 'm, 'rt) wire_lib \<Rightarrow> string \<Rightarrow> (conn_log, unit) act" where
  "dial lib addr = (\<lambda>l. case wrap_err (\<lambda>e. Errorf ''dial chain gRPC: %w'' [AW e]) (wl_dial lib addr) of
     Ok u \<Rightarrow> (Ok u, l @ [ConnOpened addr]) | r \<Rightarrow> (r, l))"

text \<open>\<open>if err != nil { grpcConn.Close(); return nil, fmt.Errorf(...) }\<close>\<close>

definition or_close :: "(err \<Rightarrow> err) \<Rightarrow> 'a go \<Rightarrow> (conn_log, 'a) act" where
  "or_close w r = (\<lambda>l. case r of Err e \<Rightarrow> (Err (w e), l @ [ConnClosed]) | _ \<Rightarrow> (r, l))"

definition App_Close :: "('x, 'rt) App \<Rightarrow> conn_log \<Rightarrow> conn_log" where
  "App_Close a l = (if ap_GrpcConn a \<noteq> None then l @ [ConnClosed] else l)"

subsection \<open>The EVM families\<close>

definition build_swap :: "('x, 'i, 'm, 'rt) wire_lib \<Rightarrow> SwapConfig \<Rightarrow> 'rt EVMDeps \<Rightarrow> (conn_log, 'rt EVMDeps) act" where
  "build_swap lib c deps =
     (if sw_UniswapRouterAddr c = [] then act_ret (Ok deps) else
      let router = wl_hex_address lib (sw_UniswapRouterAddr c); wsvp = wl_hex_address lib (sw_WSVPAddr c) in
      act_bind (or_close (\<lambda>e. Errorf ''uniswap binding: %w'' [AW e]) (wl_uniswap lib router wsvp)) (\<lambda>_.
      act_ret (Ok (deps\<lparr>ed_Uniswap := Some (router, wsvp)\<rparr>))))"

definition build_oracle :: "('x, 'i, 'm, 'rt) wire_lib \<Rightarrow> OracleConfig \<Rightarrow> 'rt EVMDeps \<Rightarrow> (conn_log, 'rt EVMDeps) act" where
  "build_oracle lib c deps =
     (if or_FeedAddr c = [] then act_ret (Ok deps) else
      let feed = wl_hex_address lib (or_FeedAddr c) in
      act_bind (or_close (\<lambda>e. Errorf ''oracle feed binding: %w'' [AW e]) (wl_oracle lib feed)) (\<lambda>_.
      act_ret (Ok (deps\<lparr>ed_Oracle := Some feed\<rparr>))))"

definition build_lendora ::
  "('x, 'i, 'm, 'rt) wire_lib \<Rightarrow> Config \<Rightarrow> 'rt EVMDeps \<Rightarrow> (conn_log, 'rt EVMDeps \<times> LendoraCache option) act" where
  "build_lendora lib cfg deps =
     (let addr = le_ComptrollerAddr (ev_Lendora (cf_EVM cfg)) in
      if addr = [] then act_ret (Ok (deps, None)) else
      let comp = wl_hex_address lib addr in
      act_bind (or_close (\<lambda>e. Errorf ''lendora binding: %w'' [AW e]) (wl_lendora lib comp)) (\<lambda>_.
      act_ret (Ok (deps\<lparr>ed_Lendora := Some comp\<rparr>,
        Some \<lparr>lc_Client = dc_EVMRPCURL (cf_DEXChain cfg), lc_Comptroller = comp,
              lc_Refresh = ca_MarketsRefresh (cf_Cache cfg)\<rparr>))))"

text \<open>The loop over the foreign chains, filling the map.\<close>

fun build_foreign ::
  "('x, 'i, 'm, 'rt) wire_lib \<Rightarrow> 'rt \<Rightarrow> u64 \<Rightarrow> EVMForeignChain list \<Rightarrow> (u64 \<Rightarrow> ForeignChain option) \<Rightarrow>
   (conn_log, u64 \<Rightarrow> ForeignChain option) act" where
  "build_foreign lib routes home [] m = act_ret (Ok m)"
| "build_foreign lib routes home (fc # fcs) m =
     (let n = AD (uint (fc_ChainID fc)); addr = wl_hex_address lib (fc_BridgeAddr fc) in
      act_bind (or_close (\<lambda>e. Errorf ''evm.bridge.foreign_chain %d: %w'' [n, AW e])
          (wl_resolve_source lib routes (dec_digits (uint (fc_ChainID fc))) home)) (\<lambda>_.
      act_bind (or_close (\<lambda>e. Errorf ''foreign bridge binding (chain %d): %w'' [n, AW e]) (wl_bridge lib addr)) (\<lambda>_.
      act_bind (or_close (\<lambda>e. Errorf ''foreign evm client (chain %d): %w'' [n, AW e]) (wl_evm_client lib (fc_RPCURL fc))) (\<lambda>_.
      build_foreign lib routes home fcs
        (m(fc_ChainID fc \<mapsto> \<lparr>fo_Client = fc_RPCURL fc, fo_Assembler = fc_RPCURL fc, fo_Bridge = addr\<rparr>))))))"

definition build_bridge :: "('x, 'i, 'm, 'rt) wire_lib \<Rightarrow> BridgeConfig \<Rightarrow> 'rt EVMDeps \<Rightarrow> (conn_log, 'rt EVMDeps) act" where
  "build_bridge lib c deps =
     (if br_Addr c = [] then act_ret (Ok deps) else
      let addr = wl_hex_address lib (br_Addr c); home = br_SourceChainID c in
      act_bind (or_close (\<lambda>e. Errorf ''bridge binding: %w'' [AW e]) (wl_bridge lib addr)) (\<lambda>_.
      act_bind (or_close (\<lambda>e. Errorf ''bridge routes: %w'' [AW e]) (wl_routes lib (br_RoutesPath c))) (\<lambda>routes.
      act_bind (or_close (\<lambda>e. e) (if wl_has_source lib routes home then Ok ()
          else Err (Errorf ''bridge routes %s has no routes originating from evm.bridge.source_chain_id %d''
                      [AS (br_RoutesPath c), AD (uint home)]))) (\<lambda>_.
      let deps = deps\<lparr>ed_Bridge := Some addr, ed_BridgeRoutes := Some routes,
                       ed_BridgeSourceChainID := home, ed_HomeChainID := home\<rparr>
      in if br_ForeignChains c = [] then act_ret (Ok deps)
         else act_bind (build_foreign lib routes home (br_ForeignChains c) (\<lambda>_. None)) (\<lambda>m.
              act_ret (Ok (deps\<lparr>ed_ForeignChains := Some m\<rparr>)))))))"

definition build_evm ::
  "('x, 'i, 'm, 'rt) wire_lib \<Rightarrow> Config \<Rightarrow> (conn_log, 'rt EVMDeps \<times> LendoraCache option) act" where
  "build_evm lib cfg =
     (let url = dc_EVMRPCURL (cf_DEXChain cfg); ev = cf_EVM cfg in
      if url = [] then act_ret (Ok (no_evm, None)) else
      act_bind (or_close (\<lambda>e. Errorf ''evm client: %w'' [AW e]) (wl_evm_client lib url)) (\<lambda>_.
      act_bind (build_swap lib (ev_Swap ev) (no_evm\<lparr>ed_Assembler := Some url\<rparr>)) (\<lambda>deps.
      act_bind (build_oracle lib (ev_Oracle ev) deps) (\<lambda>deps.
      act_bind (build_lendora lib cfg deps) (\<lambda>(deps, cache).
      act_bind (build_bridge lib (ev_Bridge ev) deps) (\<lambda>deps.
      act_ret (Ok (deps, cache))))))))"

subsection \<open>The chain of the agent identity\<close>

definition agentChainID :: "Config \<Rightarrow> string" where
  "agentChainID cfg =
     (if AgentChain_Enabled (cf_AgentChain cfg) then ac_ID (cf_AgentChain cfg) else dc_ID (cf_DEXChain cfg))"

definition assembler_for :: "string \<Rightarrow> FeeConfig \<Rightarrow> Assembler" where
  "assembler_for chainID fee = \<lparr>as_ChainID = chainID, as_FeeDenom = fe_Denom fee, as_FeeAmount = fe_Amount fee,
     as_FeeGasLimit = fe_GasLimit fee\<rparr>"

definition rest_of :: "('x, 'i, 'm, 'rt) wire_lib \<Rightarrow> Config \<Rightarrow> 'm rest_client" where
  "rest_of lib cfg = Rest_New (ac_RestURL (cf_AgentChain cfg)) (wl_rest lib)"

text \<open>The account and the broadcast client both services share: the DEX chain's, or the REST client.\<close>

definition agentAccount :: "('x, 'i, 'm, 'rt) wire_lib \<Rightarrow> Config \<Rightarrow> nat \<Rightarrow> string \<Rightarrow> AccountInfo go" where
  "agentAccount lib cfg =
     (if AgentChain_Enabled (cf_AgentChain cfg) then accountAdapter_Account (rest_of lib cfg) else wl_account lib)"

definition agentBroadcast :: "('x, 'i, 'm, 'rt) wire_lib \<Rightarrow> Config \<Rightarrow> nat \<Rightarrow> bytes \<Rightarrow> BroadcastResult go" where
  "agentBroadcast lib cfg =
     (if AgentChain_Enabled (cf_AgentChain cfg) then BroadcastSync (rest_of lib cfg) else wl_broadcast lib)"

text \<open>
  The services' environments over these; the queries are the DEX chain's own over gRPC, as the
  library's environments have them, or the REST client's.
\<close>

definition agent_chain_env :: "('x, 'i, 'm, 'rt) wire_lib \<Rightarrow> Config \<Rightarrow> ac_env" where
  "agent_chain_env lib cfg =
     (let rest = rest_of lib cfg;
          env = (wl_ac lib)\<lparr>ac_assemble := wl_assemble lib (assembler_for (agentChainID cfg) (cf_Fee cfg)),
                  ac_account := agentAccount lib cfg, ac_broadcast := agentBroadcast lib cfg\<rparr>
      in if AgentChain_Enabled (cf_AgentChain cfg)
         then env\<lparr>ac_agentQ := \<lambda>t q. go_bind (rest_agent rest t q) (\<lambda>m. Ok (wl_json lib m)),
                  ac_walletQ := \<lambda>t q. go_bind (rest_wallet rest t q) (\<lambda>m. Ok (wl_json lib m))\<rparr>
         else env)"

definition delegated_env :: "('x, 'i, 'm, 'rt) wire_lib \<Rightarrow> Config \<Rightarrow> dg_env" where
  "delegated_env lib cfg =
     (let rest = rest_of lib cfg;
          env = (wl_dg lib)\<lparr>dv_account := agentAccount lib cfg, dv_broadcast := agentBroadcast lib cfg\<rparr> in
      if AgentChain_Enabled (cf_AgentChain cfg)
      then env\<lparr>dv_agent := \<lambda>t i. go_bind (rest_agent rest t (QueryAgent i)) (\<lambda>m. Ok (wl_agent_of lib m)),
               dv_agent_by_operator := \<lambda>t i. go_bind (rest_agent rest t (QueryAgentByOperator i)) (\<lambda>m. Ok (wl_agent_of lib m)),
               dv_min_bond := \<lambda>t. go_bind (rest_agent rest t QueryAgentParams) (\<lambda>m. Ok (wl_min_bond_of lib m)),
               dv_auth := map_option (\<lambda>c. c\<lparr>ak_account := \<lambda>t a. go_bind (rest_account rest t a) (\<lambda>m. Ok (wl_account_any lib m))\<rparr>) (dv_auth env),
               dv_wallet_params := \<lambda>t. go_bind (rest_wallet rest t QueryWalletParams) (\<lambda>m. Ok (wl_wallet_params_of lib m)),
               dv_epoch := \<lambda>t r. go_bind (rest_wallet rest t (QueryEpoch r)) (\<lambda>m. Ok (wl_epoch_of lib m))\<rparr>
      else env)"

definition service_config :: "Config \<Rightarrow> bytes \<Rightarrow> string \<Rightarrow> SvcConfig" where
  "service_config cfg priv addr =
     \<lparr>sc_Priv = priv, sc_Operator = addr, sc_ChainID = agentChainID cfg,
      sc_Fee = \<lparr>fs_Denom = fe_Denom (cf_Fee cfg), fs_Amount = fe_Amount (cf_Fee cfg), fs_GasLimit = fe_GasLimit (cf_Fee cfg)\<rparr>,
      sc_Limits = cf_Limits cfg, sc_Endpoint = cf_PublicURL cfg,
      sc_Capabilities = op_Capabilities (cf_Operator cfg), sc_Metadata = op_Metadata (cf_Operator cfg)\<rparr>"

definition build_delegated ::
  "('x, 'i, 'm, 'rt) wire_lib \<Rightarrow> Config \<Rightarrow> bytes option \<times> string \<Rightarrow> (dg_env \<times> Service) option go" where
  "build_delegated lib cfg key =
     (case fst key of
        None \<Rightarrow> Ok None
      | Some priv \<Rightarrow> go_bind (Service_New (delegated_env lib cfg) (service_config cfg priv (snd key)))
          (\<lambda>svc. Ok (Some (delegated_env lib cfg, svc))))"

subsection \<open>\<open>Build\<close>\<close>

definition tool_deps :: "Config \<Rightarrow> 'rt EVMDeps \<times> LendoraCache option \<Rightarrow> 'rt ToolDeps" where
  "tool_deps cfg evm =
     \<lparr>td_ChainID = dc_ID (cf_DEXChain cfg), td_GrpcAddr = dc_GrpcAddr (cf_DEXChain cfg),
      td_CometRPCURL = dc_CometRPCURL (cf_DEXChain cfg), td_Indexer = dc_IndexerBaseURL (cf_DEXChain cfg),
      td_MarketsRefresh = ca_MarketsRefresh (cf_Cache cfg), td_EVM = fst evm, td_Lendora = snd evm,
      td_Builder = assembler_for (dc_ID (cf_DEXChain cfg)) (cf_Fee cfg),
      td_Faucet = (if cf_FaucetBaseURL cfg \<noteq> [] then Some (cf_FaucetBaseURL cfg) else None),
      td_Limits = cf_Limits cfg, td_TransferOut = cf_TransferOutCapPath cfg,
      td_BroadcastMode = cf_BroadcastMode cfg\<rparr>"

definition Build :: "('x, 'i, 'm, 'rt) wire_lib \<Rightarrow> Config \<Rightarrow> (conn_log, ('x, 'rt) App) act" where
  "Build lib cfg =
     act_bind (dial lib (dc_GrpcAddr (cf_DEXChain cfg))) (\<lambda>_.
     act_bind (or_close (\<lambda>e. Errorf ''cometbft client: %w'' [AW e]) (wl_comet lib (dc_CometRPCURL (cf_DEXChain cfg)))) (\<lambda>_.
     act_bind (build_evm lib cfg) (\<lambda>evm.
     act_bind (or_close (\<lambda>e. Errorf ''load transfer-out cap state: %w'' [AW e]) (wl_transfer_out lib (cf_TransferOutCapPath cfg))) (\<lambda>_.
     let deps = tool_deps cfg evm in
     act_bind (act_ret (Registry_New (dynamic_source (wl_tenant_store lib) (wl_clock lib)) (wl_tools lib deps))) (\<lambda>registry.
     act_bind (act_ret (RegisterAgentChain (agent_chain_env lib cfg) registry)) (\<lambda>registry.
     act_bind (or_close (\<lambda>e. e) (Key_Load (wl_key lib) (cf_Operator cfg))) (\<lambda>key.
     act_bind (act_ret (build_delegated lib cfg key)) (\<lambda>svc.
     act_bind (act_ret (RegisterExecution (map_option fst svc) registry)) (\<lambda>registry.
     act_ret (Ok \<lparr>ap_Registry = registry, ap_Deps = deps,
       ap_GrpcConn = Some (dc_GrpcAddr (cf_DEXChain cfg)), ap_Delegated = svc\<rparr>))))))))))"

end
