(* ===== verification/Agent_Life.thy ===== *)
theory Agent_Life
  imports Wire A2A_Card
begin

section \<open>Serving, running and stopping\<close>

text \<open>
  \<open>internal/a2aserver/server.go\<close>, \<open>App.Run\<close> of \<open>internal/wire/wire.go\<close> and
  \<open>cmd/svpchain-dex-agent/main.go\<close>: what is served, and how the goroutines of a running agent end.
  The encoding of the card, the listener and the HTTP server are arguments or steps that may fail.
\<close>

subsection \<open>What is served\<close>

datatype route = RpcRoute | CardRoute AgentCard | HealthRoute

definition WellKnownAgentCardPath :: string where
  "WellKnownAgentCardPath = ''/.well-known/agent-card.json''"

text \<open>The mux of \<open>serve\<close>.\<close>

definition serve_mux :: "string \<Rightarrow> 'x Registry option \<Rightarrow> string \<Rightarrow> route option" where
  "serve_mux publicURL reg =
     [''/invoke'' \<mapsto> RpcRoute, WellKnownAgentCardPath \<mapsto> CardRoute (BuildAgentCard publicURL reg),
      ''/healthz'' \<mapsto> HealthRoute]"

text \<open>The bytes a GET of the card answers; \<open>marshal\<close> is \<open>json.Marshal\<close> of a card.\<close>

definition served_card :: "(AgentCard \<Rightarrow> bytes go) \<Rightarrow> (string \<Rightarrow> route option) \<Rightarrow> bytes go option" where
  "served_card marshal mux = (case mux WellKnownAgentCardPath of Some (CardRoute c) \<Rightarrow> Some (marshal c) | _ \<Rightarrow> None)"

record ServerConfig =
  sr_ListenAddr :: string
  sr_PublicURL :: string
  sr_IndexerURL :: string

text \<open>An agent about to serve: its executor and its routes.\<close>

record 'x serving =
  sg_Addr :: string
  sg_Executor :: "'x Executor"
  sg_Mux :: "string \<Rightarrow> route option"

text \<open>\<open>market url\<close> is the market data service over an indexer client of that URL.\<close>

definition StartServer_serving ::
  "(string \<Rightarrow> nat \<Rightarrow> (goany, goany, goany) market_reader) \<Rightarrow> 'x Executor \<Rightarrow> ServerConfig \<Rightarrow> 'x serving" where
  "StartServer_serving market lib cfg =
     \<lparr>sg_Addr = sr_ListenAddr cfg, sg_Executor = NewExecutor (market (sr_IndexerURL cfg)) lib,
      sg_Mux = serve_mux (sr_PublicURL cfg) (None :: 'x Registry option)\<rparr>"

definition full_executor ::
  "(string \<Rightarrow> nat \<Rightarrow> (goany, goany, goany) market_reader) \<Rightarrow> 'x Executor \<Rightarrow> 'x AuthResolver \<Rightarrow> (nat \<Rightarrow> int) \<Rightarrow>
   ('x, 'rt) App \<Rightarrow> 'x Executor" where
  "full_executor market lib authr clock app =
     NewFullExecutor (market (td_Indexer (ap_Deps app))) (ap_Registry app) authr
       (map_option fst (ap_Delegated app)) (Some clock) lib"

text \<open>The card's bytes are handed to the delegated service before anything is served.\<close>

definition wire_card :: "(AgentCard \<Rightarrow> bytes go) \<Rightarrow> Config \<Rightarrow> ('x, 'rt) App \<Rightarrow> ('x, 'rt) App go" where
  "wire_card marshal cfg app =
     (case ap_Delegated app of
        None \<Rightarrow> Ok app
      | Some (env, svc) \<Rightarrow>
          go_bind (wrap_err (\<lambda>e. Errorf ''marshal agent card: %w'' [AW e])
            (marshal (BuildAgentCard (cf_PublicURL cfg) (Some (ap_Registry app))))) (\<lambda>cardJSON.
          Ok (app\<lparr>ap_Delegated := Some (env, SetCapabilityCard env cardJSON svc)\<rparr>)))"

definition StartFull_serving ::
  "(string \<Rightarrow> nat \<Rightarrow> (goany, goany, goany) market_reader) \<Rightarrow> 'x Executor \<Rightarrow> 'x AuthResolver \<Rightarrow> (nat \<Rightarrow> int) \<Rightarrow>
   (AgentCard \<Rightarrow> bytes go) \<Rightarrow> Config \<Rightarrow> ('x, 'rt) App \<Rightarrow> ('x serving \<times> ('x, 'rt) App) go" where
  "StartFull_serving market lib authr clock marshal cfg app =
     go_bind (wire_card marshal cfg app) (\<lambda>app.
     Ok (\<lparr>sg_Addr = cf_ListenAddr cfg, sg_Executor = full_executor market lib authr clock app,
          sg_Mux = serve_mux (cf_PublicURL cfg) (Some (ap_Registry app))\<rparr>, app))"

subsection \<open>The goroutines of a running agent\<close>

text \<open>
  \<open>StartFull\<close> starts \<open>app.Run\<close> and \<open>serve\<close>; \<open>app.Run\<close> starts the markets cache and, when there is
  one, the lendora cache; \<open>serve\<close> starts a watcher that closes the server when the context is
  cancelled. Every goroutine ends by one send on a buffered channel, so a result waiting in a
  channel is a process that returned. \<open>None\<close> is a nil error.
\<close>

type_synonym result = "err option"

datatype cache_proc = CacheRunning | CacheAbsent | CacheEnded

datatype run_proc = RunWaiting | RunReturned result | RunTaken

datatype serve_proc = ServeStarting | ServeListening | ServeReturned result

datatype main_proc = MainSelecting | MainDraining result | MainReturned result

record life =
  lf_signalled :: bool
  lf_cancelled :: bool
  lf_markets :: cache_proc
  lf_lendora :: cache_proc
  lf_errc :: "result list"
  lf_run :: run_proc
  lf_closed :: bool
  lf_serve :: serve_proc
  lf_main :: main_proc

definition life_init :: "bool \<Rightarrow> life" where
  "life_init has_lendora =
     \<lparr>lf_signalled = False, lf_cancelled = False, lf_markets = CacheRunning,
      lf_lendora = (if has_lendora then CacheRunning else CacheAbsent), lf_errc = [], lf_run = RunWaiting,
      lf_closed = False, lf_serve = ServeStarting, lf_main = MainSelecting\<rparr>"

definition listen_error :: "string \<Rightarrow> err \<Rightarrow> err" where
  "listen_error addr e = Errorf ''listen %s: %w'' [AS addr, AW e]"

definition cache_error :: "err \<Rightarrow> err" where
  "cache_error e = Errorf ''markets cache: %w'' [AW e]"

text \<open>
  What the outside does (a signal, the end of a cache, a failing server), and what the code does by
  itself. A \<open>select\<close> takes any of its ready cases.
\<close>

inductive outside :: "life \<Rightarrow> life \<Rightarrow> bool" where
  signal: "\<not> lf_signalled s \<Longrightarrow> outside s (s\<lparr>lf_signalled := True, lf_cancelled := True\<rparr>)"
| markets_end: "lf_markets s = CacheRunning \<Longrightarrow>
    outside s (s\<lparr>lf_markets := CacheEnded, lf_errc := lf_errc s @ [r]\<rparr>)"
| lendora_end: "lf_lendora s = CacheRunning \<Longrightarrow>
    outside s (s\<lparr>lf_lendora := CacheEnded, lf_errc := lf_errc s @ [r]\<rparr>)"
| serve_fails: "lf_serve s = ServeListening \<Longrightarrow> outside s (s\<lparr>lf_serve := ServeReturned (Some e)\<rparr>)"

text \<open>The \<open>select\<close> of \<open>app.Run\<close>.\<close>

inductive run_step :: "life \<Rightarrow> life \<Rightarrow> bool" where
  run_receives: "lf_run s = RunWaiting \<Longrightarrow> lf_errc s = r # rs \<Longrightarrow>
    run_step s (s\<lparr>lf_errc := rs, lf_run := RunReturned (if r \<noteq> None \<and> \<not> lf_cancelled s then r else None)\<rparr>)"
| run_cancelled: "lf_run s = RunWaiting \<Longrightarrow> lf_cancelled s \<Longrightarrow> run_step s (s\<lparr>lf_run := RunReturned None\<rparr>)"

text \<open>\<open>serve\<close> and its watcher.\<close>

inductive serve_step :: "string \<Rightarrow> life \<Rightarrow> life \<Rightarrow> bool" for addr where
  listens: "lf_serve s = ServeStarting \<Longrightarrow> serve_step addr s (s\<lparr>lf_serve := ServeListening\<rparr>)"
| listen_fails: "lf_serve s = ServeStarting \<Longrightarrow>
    serve_step addr s (s\<lparr>lf_serve := ServeReturned (Some (listen_error addr e))\<rparr>)"
| watcher_closes: "lf_serve s = ServeListening \<Longrightarrow> lf_cancelled s \<Longrightarrow> \<not> lf_closed s \<Longrightarrow>
    serve_step addr s (s\<lparr>lf_closed := True\<rparr>)"
| server_closed: "lf_serve s = ServeListening \<Longrightarrow> lf_closed s \<Longrightarrow> serve_step addr s (s\<lparr>lf_serve := ServeReturned None\<rparr>)"

text \<open>The \<open>select\<close> of \<open>StartFull\<close>.\<close>

inductive main_step :: "life \<Rightarrow> life \<Rightarrow> bool" where
  main_cache: "lf_main s = MainSelecting \<Longrightarrow> lf_run s = RunReturned r \<Longrightarrow>
    main_step s (s\<lparr>lf_main := MainDraining r, lf_run := RunTaken, lf_cancelled := True\<rparr>)"
| main_drains: "lf_main s = MainDraining r \<Longrightarrow> lf_serve s = ServeReturned q \<Longrightarrow>
    main_step s (s\<lparr>lf_main := MainReturned (map_option cache_error r)\<rparr>)"
| main_serve: "lf_main s = MainSelecting \<Longrightarrow> lf_serve s = ServeReturned q \<Longrightarrow>
    main_step s (s\<lparr>lf_main := MainReturned q, lf_cancelled := True\<rparr>)"

definition inside :: "string \<Rightarrow> life \<Rightarrow> life \<Rightarrow> bool" where
  "inside addr s t \<longleftrightarrow> run_step s t \<or> serve_step addr s t \<or> main_step s t"

definition life_step :: "string \<Rightarrow> life \<Rightarrow> life \<Rightarrow> bool" where
  "life_step addr s t \<longleftrightarrow> outside s t \<or> inside addr s t"

inductive life_reach :: "string \<Rightarrow> bool \<Rightarrow> life \<Rightarrow> bool" for addr has_lendora where
  start: "life_reach addr has_lendora (life_init has_lendora)"
| step: "life_reach addr has_lendora s \<Longrightarrow> life_step addr s t \<Longrightarrow> life_reach addr has_lendora t"

lemma inside_intros:
  "run_step s t \<Longrightarrow> inside addr s t" "serve_step addr s t \<Longrightarrow> inside addr s t" "main_step s t \<Longrightarrow> inside addr s t"
  by (simp_all add: inside_def)

text \<open>The ways a step can have been made, for proofs by cases on a step.\<close>

lemmas step_kinds = outside.cases run_step.cases serve_step.cases main_step.cases

subsection \<open>The command\<close>

definition envOr :: "(string \<Rightarrow> string) \<Rightarrow> string \<Rightarrow> string \<Rightarrow> string" where
  "envOr getenv key fallback = (if getenv key \<noteq> [] then getenv key else fallback)"

record flags =
  fl_config :: string
  fl_listen :: string
  fl_public_url :: string
  fl_indexer_url :: "string option"

definition read_only_config :: "string \<Rightarrow> string \<Rightarrow> string \<Rightarrow> ServerConfig go" where
  "read_only_config listenAddr publicURL indexerURL =
     (if indexerURL = [] then Err (Errorf ''either -config or --indexer-url (or DEX_INDEXER_URL) is required'' [])
      else Ok \<lparr>sr_ListenAddr = listenAddr,
        sr_PublicURL = (if publicURL = [] then ''http://localhost'' @ listenAddr else publicURL),
        sr_IndexerURL = indexerURL\<rparr>)"

datatype 'a mode = FullMode 'a | ReadOnlyMode ServerConfig

text \<open>
  \<open>main\<close>: the flag for the indexer defaults to the environment's; the full mode's configuration and
  construction are \<open>load\<close> and \<open>wire\<close>.
\<close>

definition main_mode :: "(string \<Rightarrow> string) \<Rightarrow> (string \<Rightarrow> Config go) \<Rightarrow> (Config \<Rightarrow> 'a go) \<Rightarrow> flags \<Rightarrow> (Config \<times> 'a) mode go" where
  "main_mode getenv load wire f =
     (if fl_config f \<noteq> []
      then go_bind (load (fl_config f)) (\<lambda>cfg. go_bind (wire cfg) (\<lambda>app. Ok (FullMode (cfg, app))))
      else go_bind (read_only_config (fl_listen f) (fl_public_url f)
             (case fl_indexer_url f of Some u \<Rightarrow> u | None \<Rightarrow> envOr getenv ''DEX_INDEXER_URL'' []))
             (\<lambda>c. Ok (ReadOnlyMode c)))"

end
