(* ===== verification/Life_Safety.thy ===== *)
theory Life_Safety
  imports Agent_Life
begin

section \<open>How a running agent ends\<close>

subsection \<open>The registered hash is the served card's\<close>

text \<open>
  C22: In a full agent the capability hash the delegated service holds, and so registers, is the hash
  of exactly the bytes its card route answers: the card is built from the same URL and the same
  registry on both sides, and a card that cannot be encoded stops the agent before it serves.
\<close>

theorem registered_hash_is_served:
  assumes "StartFull_serving market lib authr clock marshal cfg app = Ok (sv, app')"
    and "ap_Delegated app' = Some (env, svc)"
  shows "\<exists>cardJSON. served_card marshal (sg_Mux sv) = Some (Ok cardJSON) \<and>
    sv_cardHash svc = dv_sha256 env cardJSON \<and> ap_Registry app' = ap_Registry app \<and>
    ex_registry (sg_Executor sv) = Some (ap_Registry app) \<and> ex_reads (sg_Executor sv) = Some env"
proof -
  have w: "wire_card marshal cfg app = Ok app'"
    and sv: "sv = \<lparr>sg_Addr = cf_ListenAddr cfg, sg_Executor = full_executor market lib authr clock app',
        sg_Mux = serve_mux (cf_PublicURL cfg) (Some (ap_Registry app'))\<rparr>"
    using assms(1) unfolding StartFull_serving_def go_bind_eq_Ok by (elim exE conjE, simp)+
  from w assms(2) obtain svc0 where d: "ap_Delegated app = Some (env, svc0)"
    unfolding wire_card_def by (cases "ap_Delegated app") (auto simp: go_iff split: prod.splits)
  with w obtain cardJSON where c: "marshal (BuildAgentCard (cf_PublicURL cfg) (Some (ap_Registry app))) = Ok cardJSON"
    and app: "app' = app\<lparr>ap_Delegated := Some (env, SetCapabilityCard env cardJSON svc0)\<rparr>"
    unfolding wire_card_def by (auto simp: go_iff)
  have r: "ap_Registry app' = ap_Registry app" by (simp add: app)
  have "served_card marshal (sg_Mux sv) = Some (Ok cardJSON)"
    by (simp add: sv r served_card_def serve_mux_def WellKnownAgentCardPath_def c)
  moreover have "svc = SetCapabilityCard env cardJSON svc0" using assms(2) by (simp add: app)
  then have "sv_cardHash svc = dv_sha256 env cardJSON" by (simp add: SetCapabilityCard_def)
  moreover have "ex_registry (sg_Executor sv) = Some (ap_Registry app)" "ex_reads (sg_Executor sv) = Some env"
    using assms(2) by (simp_all add: sv full_executor_def NewFullExecutor_def r)
  ultimately show ?thesis using r by blast
qed

subsection \<open>The invariant of the goroutines\<close>

text \<open>
  The context is cancelled exactly by a signal or by \<open>StartFull\<close> having taken a result; it returns
  only after the server did; and while it has taken nothing yet, a nil result of the server means a
  signal, and a result of \<open>app.Run\<close> a signal or a cache that ended.
\<close>

definition main_decided :: "life \<Rightarrow> bool" where
  "main_decided s \<longleftrightarrow> lf_main s \<noteq> MainSelecting"

definition cause :: "life \<Rightarrow> bool" where
  "cause s \<longleftrightarrow> lf_signalled s \<or> lf_markets s = CacheEnded \<or> lf_lendora s = CacheEnded"

definition life_ok :: "life \<Rightarrow> bool" where
  "life_ok s \<longleftrightarrow>
     (lf_cancelled s \<longleftrightarrow> lf_signalled s \<or> main_decided s) \<and>
     (lf_run s = RunTaken \<longrightarrow> main_decided s) \<and>
     (\<forall>r. lf_main s = MainReturned r \<longrightarrow> (\<exists>q. lf_serve s = ServeReturned q) \<and> (r = None \<longrightarrow> cause s)) \<and>
     (lf_closed s \<longrightarrow> lf_cancelled s) \<and>
     (lf_serve s = ServeReturned None \<longrightarrow> lf_closed s) \<and>
     (lf_errc s \<noteq> [] \<longrightarrow> cause s) \<and>
     (\<forall>r. lf_run s = RunReturned r \<longrightarrow> cause s \<or> main_decided s) \<and>
     (\<forall>r. lf_main s = MainDraining r \<longrightarrow> cause s)"

lemma life_ok_init: "life_ok (life_init l)"
  by (simp add: life_ok_def life_init_def main_decided_def)

lemma life_ok_step: "life_step addr s t \<Longrightarrow> life_ok s \<Longrightarrow> life_ok t"
  unfolding life_step_def inside_def
  by (elim disjE; erule step_kinds) (auto simp: life_ok_def main_decided_def cause_def)

lemma life_reach_ok: "life_reach addr l s \<Longrightarrow> life_ok s"
  by (induction rule: life_reach.induct) (auto intro: life_ok_init life_ok_step)

text \<open>
  C15: When \<open>StartFull\<close> returns, the HTTP server has returned and the caches' context is cancelled;
  and it reports success only if the process was signalled or a cache ended: a server that fails to
  listen or stops serving by itself is always an error.
\<close>

theorem agent_result:
  assumes "life_reach addr has_lendora s" and "lf_main s = MainReturned r"
  shows "lf_cancelled s \<and> (\<exists>q. lf_serve s = ServeReturned q) \<and>
    (r = None \<longrightarrow> lf_signalled s \<or> lf_markets s = CacheEnded \<or> lf_lendora s = CacheEnded)"
  using life_reach_ok [OF assms(1)] assms(2) by (simp add: life_ok_def main_decided_def cause_def)

subsection \<open>Termination\<close>

text \<open>How much is left: every step lets one process move on, and none moves back.\<close>

fun run_left :: "run_proc \<Rightarrow> nat" where
  "run_left RunWaiting = 2" | "run_left (RunReturned r) = 1" | "run_left RunTaken = 0"

fun serve_left :: "serve_proc \<Rightarrow> nat" where
  "serve_left ServeStarting = 2" | "serve_left ServeListening = 1" | "serve_left (ServeReturned r) = 0"

fun main_left :: "main_proc \<Rightarrow> nat" where
  "main_left MainSelecting = 2" | "main_left (MainDraining r) = 1" | "main_left (MainReturned r) = 0"

definition caches_left :: "life \<Rightarrow> nat" where
  "caches_left s = (if lf_markets s = CacheRunning then 1 else 0) + (if lf_lendora s = CacheRunning then 1 else 0)"

definition life_left :: "life \<Rightarrow> nat" where
  "life_left s = (if lf_signalled s then 0 else 1) + caches_left s + run_left (lf_run s) + serve_left (lf_serve s) +
     main_left (lf_main s) + (if lf_closed s then 0 else 1)"

lemma life_step_left: "life_step addr s t \<Longrightarrow> life_left t < life_left s"
  unfolding life_step_def inside_def
  by (elim disjE; erule step_kinds) (auto simp: life_left_def caches_left_def)

lemma life_left_init: "life_left (life_init l) \<le> 10"
  by (simp add: life_left_def life_init_def caches_left_def)

text \<open>A run of \<open>n\<close> steps.\<close>

primrec life_steps :: "string \<Rightarrow> nat \<Rightarrow> life \<Rightarrow> life \<Rightarrow> bool" where
  "life_steps addr 0 s t \<longleftrightarrow> s = t"
| "life_steps addr (Suc n) s t \<longleftrightarrow> (\<exists>u. life_step addr s u \<and> life_steps addr n u t)"

lemma life_steps_left: "life_steps addr n s t \<Longrightarrow> n + life_left t \<le> life_left s"
  by (induction n arbitrary: s) (fastforce dest: life_step_left)+

text \<open>Once one half has ended or the context is cancelled, the code can go on by itself.\<close>

definition stopping :: "life \<Rightarrow> bool" where
  "stopping s \<longleftrightarrow> lf_cancelled s \<or> lf_errc s \<noteq> [] \<or> (\<exists>r. lf_run s = RunReturned r) \<or> (\<exists>q. lf_serve s = ServeReturned q)"

definition main_returned :: "life \<Rightarrow> bool" where
  "main_returned s \<longleftrightarrow> (\<exists>r. lf_main s = MainReturned r)"

lemma stopping_moves:
  assumes "life_ok s" and "stopping s" and "\<not> main_returned s"
  shows "\<exists>t. inside addr s t"
proof (cases "lf_main s")
  case MainSelecting
  show ?thesis
  proof (cases "lf_run s")
    case RunWaiting
    show ?thesis
    proof (cases "lf_serve s")
      case (ServeReturned q)
      with MainSelecting show ?thesis by (blast intro: inside_intros main_step.main_serve)
    next
      case ServeStarting
      then show ?thesis by (blast intro: inside_intros serve_step.listens)
    next
      case ServeListening
      with assms(2) RunWaiting have "lf_cancelled s \<or> lf_errc s \<noteq> []" by (simp add: stopping_def)
      with RunWaiting show ?thesis
        by (metis inside_intros(1) run_step.run_cancelled run_step.run_receives list.exhaust)
    qed
  next
    case (RunReturned r)
    with MainSelecting show ?thesis by (blast intro: inside_intros main_step.main_cache)
  next
    case RunTaken
    with assms(1) MainSelecting show ?thesis by (simp add: life_ok_def main_decided_def)
  qed
next
  case (MainDraining r)
  then have c: "lf_cancelled s" using assms(1) by (simp add: life_ok_def main_decided_def)
  show ?thesis
  proof (cases "lf_serve s")
    case ServeStarting
    then show ?thesis by (blast intro: inside_intros serve_step.listens)
  next
    case ServeListening
    with c show ?thesis by (cases "lf_closed s") (blast intro: inside_intros serve_step.server_closed serve_step.watcher_closes)+
  next
    case (ServeReturned q)
    with MainDraining show ?thesis by (blast intro: inside_intros main_step.main_drains)
  qed
next
  case (MainReturned r)
  with assms(3) show ?thesis by (simp add: main_returned_def)
qed

lemma stopping_step: "life_step addr s t \<Longrightarrow> stopping s \<Longrightarrow> stopping t"
  unfolding life_step_def inside_def
  by (elim disjE; erule step_kinds) (auto simp: stopping_def)

lemma life_steps_from:
  "life_steps addr n s t \<Longrightarrow> life_ok s \<Longrightarrow> stopping s \<Longrightarrow> life_ok t \<and> stopping t"
proof (induction n arbitrary: s)
  case (Suc n)
  then obtain u where "life_step addr s u" "life_steps addr n u t" by auto
  with Suc show ?case by (meson life_ok_step stopping_step)
qed simp

lemma life_reach_left: "life_reach addr l s \<Longrightarrow> life_left s \<le> 10"
  by (induction rule: life_reach.induct) (use life_left_init in \<open>auto dest: life_step_left\<close>)

text \<open>
  C14: A running agent ends when it should. From every reachable state no schedule of its goroutines is
  longer than ten steps; and once a signal has arrived, a cache has ended or the server has returned,
  every schedule goes on by the code's own steps until \<open>StartFull\<close> has returned: whatever the
  order of events, none of its goroutines waits for a message that never comes.
\<close>

theorem agent_stops:
  assumes "life_reach addr has_lendora s"
  shows "(\<forall>n t. life_steps addr n s t \<longrightarrow> n \<le> 10) \<and>
    (stopping s \<longrightarrow> (\<forall>n t. life_steps addr n s t \<longrightarrow> (\<nexists>u. inside addr t u) \<longrightarrow> main_returned t))"
proof -
  have "n \<le> 10" if "life_steps addr n s t" for n t
    using life_steps_left [OF that] life_reach_left [OF assms] by simp
  moreover have "main_returned t" if "stopping s" "life_steps addr n s t" "\<nexists>u. inside addr t u" for n t
    using life_steps_from [OF that(2) life_reach_ok [OF assms] that(1)] stopping_moves that(3) by blast
  ultimately show ?thesis by blast
qed

end
