(* ===== verification/Tenant_Spec.thy ===== *)
theory Tenant_Spec
  imports Read_Tenants
begin

section \<open>The read tenants as a promise\<close>

text \<open>
  What the table of read tenants promises, without lists, sweeps or ticks: a partial map from ids to
  a policy and its end. Admitting drops what has ended and, if there is room, takes the newcomer;
  looking up answers what has not ended. The table implements it.
\<close>

type_synonym promise = "string \<Rightarrow> readTenant option"

definition live_at :: "int \<Rightarrow> promise \<Rightarrow> promise" where
  "live_at now m = (\<lambda>i. case m i of None \<Rightarrow> None | Some t \<Rightarrow> if now < rt_expires t then Some t else None)"

definition spec_admit :: "int \<Rightarrow> Verified \<Rightarrow> promise \<Rightarrow> promise" where
  "spec_admit now v m =
     (let m' = live_at now m; i = read_tenant_id v in
      if i \<in> dom m' \<or> card (dom m') < 4096
      then m'(i \<mapsto> \<lparr>rt_policy = read_policy v, rt_expires = vf_LeafExp v\<rparr>) else m')"

definition spec_lookup :: "int \<Rightarrow> string \<Rightarrow> promise \<Rightarrow> TenantPolicy option" where
  "spec_lookup now i m = map_option rt_policy (live_at now m i)"

text \<open>The abstraction of a table, and its invariant.\<close>

definition tenants_abs :: "ReadTenantSource \<Rightarrow> promise" where
  "tenants_abs s = map_of (rt_byID s)"

lemma card_dom_table: "distinct_keys m \<Longrightarrow> card (dom (map_of m)) = length m"
  by (simp add: distinct_keys_def dom_map_of_conv_image_fst) (metis distinct_card length_map set_map)

lemma abs_sweep:
  "table_ok s \<Longrightarrow> tenants_abs (sweepLocked clock s) = live_at (clock (rt_tick s)) (tenants_abs s)"
  by (auto simp: tenants_abs_def sweepLocked_def live_at_def table_ok_def map_of_filter_distinct not_le fun_eq_iff
      split: option.split)

lemma abs_admit:
  assumes "table_ok s"
  shows "tenants_abs (snd (Admit clock v s)) = spec_admit (clock (rt_tick s)) v (tenants_abs s)"
proof -
  let ?m = "rt_byID (sweepLocked clock s)"
  have abs: "map_of ?m = live_at (clock (rt_tick s)) (tenants_abs s)"
    using abs_sweep [OF assms, of clock] by (simp add: tenants_abs_def)
  have "distinct_keys ?m" using sweep_ok [OF assms, of clock] by (simp add: table_ok_def)
  then have "has_room clock (read_tenant_id v) s \<longleftrightarrow>
      read_tenant_id v \<in> dom (map_of ?m) \<or> card (dom (map_of ?m)) < 4096"
    by (simp add: has_room_def card_dom_table maxReadTenants_def domIff)
  then show ?thesis
    by (simp add: tenants_abs_def Admit_table spec_admit_def Let_def update_conv' flip: abs [unfolded tenants_abs_def])
qed

lemma abs_lookup:
  "fst (LookupTenantPolicy clock i s) = spec_lookup (clock (rt_tick s)) i (tenants_abs s)"
  "tenants_abs (snd (LookupTenantPolicy clock i s)) = tenants_abs s"
  by (auto simp: LookupTenantPolicy_def spec_lookup_def live_at_def tenants_abs_def split: option.split)

fun spec_step :: "int \<Rightarrow> tenant_op \<Rightarrow> promise \<Rightarrow> promise" where
  "spec_step now (OpAdmit v) m = spec_admit now v m"
| "spec_step now (OpLookup i) m = m"

text \<open>
  C13: The table of read tenants implements the promise: seen through its abstraction, every admission
  and every lookup of the association list with its sweeps is the one on the map at the clock it
  reads, answers included; so the order of the list, and when entries are swept, cannot be observed.
\<close>

theorem tenant_table_refines:
  assumes "table_ok s"
  shows "tenants_abs (tenant_step clock op s) = spec_step (clock (rt_tick s)) op (tenants_abs s) \<and>
    fst (LookupTenantPolicy clock i s) = spec_lookup (clock (rt_tick s)) i (tenants_abs s) \<and>
    table_ok (tenant_step clock op s) \<and> tenants_abs NewReadTenantSource = Map.empty"
proof (intro conjI)
  show "tenants_abs (tenant_step clock op s) = spec_step (clock (rt_tick s)) op (tenants_abs s)"
    by (cases op) (simp_all add: abs_admit [OF assms] abs_lookup)
qed (simp_all add: abs_lookup step_ok [OF assms] tenants_abs_def NewReadTenantSource_def)

definition example_tenant :: Verified where
  "example_tenant = \<lparr>vf_Tokens = [], vf_Principal = ''svp1user'', vf_Root = [], vf_RootEpoch = 0, vf_Actions = [],
     vf_Subaccounts = [0], vf_ChainHash = ''hashhash'', vf_LeafExp = 100\<rparr>"

theorem tenant_table_refines_witness:
  "tenants_abs (tenant_step int (OpAdmit example_tenant) NewReadTenantSource) =
     spec_admit 0 example_tenant (tenants_abs NewReadTenantSource)"
proof -
  have "table_ok NewReadTenantSource" by (simp add: table_ok_def NewReadTenantSource_def distinct_keys_def)
  from tenant_table_refines [OF this, of int "OpAdmit example_tenant"] show ?thesis
    by (simp add: NewReadTenantSource_def)
qed

end
