(* ===== verification/Wire_Safety.thy ===== *)
theory Wire_Safety
  imports Wire A2A_Safety
begin

section \<open>What the wired agent is\<close>

subsection \<open>Two sources, one slot\<close>

text \<open>
  C25: The policy engine's single fallback never confuses the two populations. With the store's
  documented promise (it only knows ids that start with \<open>auto-\<close>) and a table of read tenants as
  admissions leave it, asking the two sources in either order is the same, an \<open>auto-\<close> id is the
  store's alone, and every live read tenant is found.
\<close>

theorem tenant_sources_disjoint:
  assumes "\<And>x i rec. lookup x i = Some rec \<Longrightarrow> has_prefix i ''auto-''"
    and "ag_tenants s = tenant_run clock ops NewReadTenantSource"
  shows "dynamic_source lookup clock s i =
      multiDynamicSource [read_source clock (ag_tenants s), dynamicTenantAdapter (lookup (ag_lib s))] i \<and>
    (has_prefix i ''auto-'' \<longrightarrow> dynamic_source lookup clock s i = dynamicTenantAdapter (lookup (ag_lib s)) i) \<and>
    (\<forall>p. fst (LookupTenantPolicy clock i (ag_tenants s)) = Some p \<longrightarrow> dynamic_source lookup clock s i = Some p)"
proof -
  have "\<not> has_prefix i ''auto-''" if read: "read_source clock (ag_tenants s) i = Some p" for p
  proof -
    obtain t where "map_of (rt_byID (ag_tenants s)) i = Some t"
      using read by (auto simp: read_source_def LookupTenantPolicy_def split: option.splits)
    then obtain v where "i = read_tenant_id v" unfolding assms(2) using run_entry by blast
    then show ?thesis by (simp add: read_tenant_id_def has_prefix_def)
  qed
  moreover have "has_prefix i ''auto-''" if "dynamicTenantAdapter (lookup (ag_lib s)) i = Some p" for p
    using that assms(1) by (auto simp: dynamicTenantAdapter_def split: option.splits)
  ultimately show ?thesis
    unfolding dynamic_source_def by (auto simp: read_source_def split: option.splits) 
qed

subsection \<open>The connection\<close>

text \<open>
  A step of \<open>Build\<close> after the dialling: it leaves the connection alone when it succeeds and closes
  it, once, when it fails.
\<close>

definition closes :: "(conn_log, 'a) act \<Rightarrow> bool" where
  "closes m \<longleftrightarrow> (\<forall>l. snd (m l) = (case fst (m l) of Err e \<Rightarrow> l @ [ConnClosed] | _ \<Rightarrow> l))"

lemma or_close_Ok [simp]: "or_close w r l = (Ok a, l') \<longleftrightarrow> r = Ok a \<and> l' = l"
  by (cases r) (auto simp: or_close_def)

lemma closes_ret [keeps_intros]: "(\<And>e. r \<noteq> Err e) \<Longrightarrow> closes (act_ret r)"
  by (cases r) (auto simp: closes_def)

lemma closes_or_close [keeps_intros]: "closes (or_close w r)"
  by (cases r) (auto simp: closes_def or_close_def)

lemma closes_bind [keeps_intros]: "closes m \<Longrightarrow> (\<And>a. closes (g a)) \<Longrightarrow> closes (act_bind m g)"
  unfolding closes_def act_bind_def by (auto split: prod.splits go.splits) (metis fst_conv snd_conv)+

lemma closesD: "closes m \<Longrightarrow> m l = (r, l') \<Longrightarrow> l' = (case r of Err e \<Rightarrow> l @ [ConnClosed] | _ \<Rightarrow> l)"
  unfolding closes_def by (metis fst_conv snd_conv)

lemma closes_evm [keeps_intros]:
  "closes (build_swap lib c deps)" "closes (build_oracle lib oc deps)" "closes (build_lendora lib cfg deps)"
  by (auto simp: build_swap_def build_oracle_def build_lendora_def Let_def intro!: keeps_intros)

lemma closes_foreign [keeps_intros]: "closes (build_foreign lib routes home fcs m)"
proof (induction fcs arbitrary: m)
  case Nil
  then show ?case by (simp only: build_foreign.simps) (intro keeps_intros, simp)
next
  case (Cons fc fcs)
  then show ?case by (simp only: build_foreign.simps Let_def) (intro keeps_intros)
qed

lemma closes_bridge [keeps_intros]: "closes (build_bridge lib c deps)"
  by (auto simp: build_bridge_def Let_def intro!: keeps_intros)

lemma closes_build_evm [keeps_intros]: "closes (build_evm lib cfg)"
  by (auto simp: build_evm_def Let_def intro!: keeps_intros split: prod.split)

text \<open>Filling the registry and making the service panic or succeed.\<close>

lemma add_all_not_err: "add_all es r \<noteq> Err e"
  by (induction es r rule: add_all.induct) (auto simp: go_iff reg_add_def)

lemma registrations_not_err:
  "Registry_New tenants h \<noteq> Err e" "RegisterAgentChain env r \<noteq> Err e" "RegisterExecution svc r \<noteq> Err e"
  "build_delegated lib cfg key \<noteq> Err e"
  by (auto simp: Registry_New_def RegisterAgentChain_def RegisterExecution_def add_all_not_err build_delegated_def
      go_iff Service_New_def split: option.splits go.splits)

definition after_dial :: "('x, 'i, 'm, 'rt) wire_lib \<Rightarrow> Config \<Rightarrow> (conn_log, ('x, 'rt) App) act" where
  "after_dial lib cfg =
     act_bind (or_close (\<lambda>e. Errorf ''cometbft client: %w'' [AW e]) (wl_comet lib (dc_CometRPCURL (cf_DEXChain cfg)))) (\<lambda>_.
     act_bind (build_evm lib cfg) (\<lambda>evm.
     act_bind (or_close (\<lambda>e. Errorf ''load transfer-out cap state: %w'' [AW e]) (wl_transfer_out lib (cf_TransferOutCapPath cfg))) (\<lambda>_.
     let deps = tool_deps cfg evm in
     act_bind (act_ret (Registry_New (dynamic_source (wl_tenant_store lib) (wl_clock lib)) (wl_tools lib deps))) (\<lambda>registry.
     act_bind (act_ret (RegisterAgentChain (agent_chain_env lib cfg) registry)) (\<lambda>registry.
     act_bind (or_close (\<lambda>e. e) (Key_Load (wl_key lib) (cf_Operator cfg))) (\<lambda>key.
     act_bind (act_ret (build_delegated lib cfg key)) (\<lambda>svc.
     act_bind (act_ret (RegisterExecution (map_option fst svc) registry)) (\<lambda>registry.
     act_ret (Ok \<lparr>ap_Registry = registry, ap_Deps = deps,
       ap_GrpcConn = Some (dc_GrpcAddr (cf_DEXChain cfg)), ap_Delegated = svc\<rparr>)))))))))"

lemma Build_after_dial: "Build lib cfg = act_bind (dial lib (dc_GrpcAddr (cf_DEXChain cfg))) (\<lambda>_. after_dial lib cfg)"
  by (simp add: Build_def after_dial_def)

lemma closes_after_dial: "closes (after_dial lib cfg)"
  unfolding after_dial_def Let_def by (intro keeps_intros registrations_not_err) simp

lemma after_dial_conn: "after_dial lib cfg l = (Ok app, l') \<Longrightarrow> ap_GrpcConn app = Some (dc_GrpcAddr (cf_DEXChain cfg))"
  unfolding after_dial_def Let_def act_bind_Ok_iff by auto

text \<open>
  C24: The connection to the chain is never leaked and never closed twice: \<open>Build\<close> opens it at most
  once; when it succeeds the connection is open and the app's \<open>Close\<close> closes it; when it returns an
  error, whichever of its steps failed, what was opened has been closed.
\<close>

theorem build_connection:
  assumes "Build lib cfg [] = (r, l)"
  shows "(\<forall>app. r = Ok app \<longrightarrow> l = [ConnOpened (dc_GrpcAddr (cf_DEXChain cfg))] \<and>
      App_Close app l = [ConnOpened (dc_GrpcAddr (cf_DEXChain cfg)), ConnClosed]) \<and>
    (\<forall>e. r = Err e \<longrightarrow> l = (if wl_dial lib (dc_GrpcAddr (cf_DEXChain cfg)) = Ok ()
       then [ConnOpened (dc_GrpcAddr (cf_DEXChain cfg)), ConnClosed] else []))"
proof -
  let ?a = "dc_GrpcAddr (cf_DEXChain cfg)"
  have after: "l = (case r of Err e \<Rightarrow> [ConnOpened ?a, ConnClosed] | _ \<Rightarrow> [ConnOpened ?a])"
    if "after_dial lib cfg [ConnOpened ?a] = (r, l)"
    using closesD [OF closes_after_dial that] by (cases r) simp_all
  show ?thesis
    using assms after after_dial_conn [of lib cfg "[ConnOpened ?a]" _ l]
    by (cases "wl_dial lib ?a") (auto simp: Build_after_dial act_bind_def dial_def App_Close_def)
qed

subsection \<open>What a successful build wires\<close>

lemma Build_ok:
  assumes "Build lib cfg [] = (Ok app, l)"
  shows "full_registry (dynamic_source (wl_tenant_store lib) (wl_clock lib)) (wl_tools lib (ap_Deps app))
      (agent_chain_env lib cfg) (map_option fst (ap_Delegated app)) = Ok (ap_Registry app)"
    and "\<exists>evm l1 l2. build_evm lib cfg l1 = (Ok evm, l2) \<and> ap_Deps app = tool_deps cfg evm"
    and "\<exists>key. Key_Load (wl_key lib) (cf_Operator cfg) = Ok key \<and> build_delegated lib cfg key = Ok (ap_Delegated app)"
  using assms unfolding Build_after_dial after_dial_def Let_def act_bind_Ok_iff
  by (auto simp: full_registry_def) blast

text \<open>\<open>Build\<close> succeeds when the steps that can fail do: filling the registry cannot.\<close>

lemma Build_succeeds:
  assumes "wl_dial lib (dc_GrpcAddr (cf_DEXChain cfg)) = Ok ()"
    and "wl_comet lib (dc_CometRPCURL (cf_DEXChain cfg)) = Ok ()"
    and "\<And>l. build_evm lib cfg l = (Ok evm, l)"
    and "wl_transfer_out lib (cf_TransferOutCapPath cfg) = Ok ()"
    and "Key_Load (wl_key lib) (cf_Operator cfg) = Ok key" and "build_delegated lib cfg key = Ok svc"
  shows "\<exists>app. Build lib cfg [] = (Ok app, [ConnOpened (dc_GrpcAddr (cf_DEXChain cfg))]) \<and>
    ap_Delegated app = svc \<and> ap_Deps app = tool_deps cfg evm"
proof -
  obtain r where "full_registry (dynamic_source (wl_tenant_store lib) (wl_clock lib)) (wl_tools lib (tool_deps cfg evm))
      (agent_chain_env lib cfg) (map_option fst svc) = Ok r"
    using full_registry_eq by blast
  then obtain r0 r1 where
    "Registry_New (dynamic_source (wl_tenant_store lib) (wl_clock lib)) (wl_tools lib (tool_deps cfg evm)) = Ok r0"
    "RegisterAgentChain (agent_chain_env lib cfg) r0 = Ok r1" "RegisterExecution (map_option fst svc) r1 = Ok r"
    unfolding full_registry_def go_bind_eq_Ok by blast
  with assms show ?thesis
    unfolding Build_def by (simp add: act_bind_def dial_def or_close_def Let_def)
qed

lemma delegated_is:
  "build_delegated lib cfg key = Ok (Some (env, svc)) \<Longrightarrow>
   env = delegated_env lib cfg \<and> (\<exists>priv. fst key = Some priv \<and> sv_cfg svc = service_config cfg priv (snd key) \<and>
     sv_agentID svc = dv_agent_id env (the_ok (dv_acc_address env (snd key))))"
  by (auto simp: build_delegated_def go_iff Service_New_def service_config_def split: option.splits go.splits)

lemma delegated_env_of:
  assumes "Build lib cfg [] = (Ok app, l)" and "ap_Delegated app = Some (env, svc)"
  shows "env = delegated_env lib cfg"
  using Build_ok(3) [OF assms(1)] assms(2) by (auto dest: delegated_is)

lemma shared_clients:
  "dv_account (delegated_env lib cfg) = agentAccount lib cfg" "ac_account (agent_chain_env lib cfg) = agentAccount lib cfg"
  "dv_broadcast (delegated_env lib cfg) = agentBroadcast lib cfg" "ac_broadcast (agent_chain_env lib cfg) = agentBroadcast lib cfg"
  by (simp_all add: delegated_env_def agent_chain_env_def Let_def)

lemma operator_tx_signed:
  assumes "operator_tx env s tokens inner raw" and "sv_cfg s = service_config cfg priv addr"
  shows "\<exists>innerAny acct. SignTx (dv_tx env) priv (if AgentChain_Enabled (cf_AgentChain cfg) then ac_ID (cf_AgentChain cfg) else dc_ID (cf_DEXChain cfg))
      acct [MsgAgentExecDelegated addr (sv_agentID s) tokens innerAny]
      \<lparr>fs_Denom = fe_Denom (cf_Fee cfg), fs_Amount = fe_Amount (cf_Fee cfg), fs_GasLimit = fe_GasLimit (cf_Fee cfg)\<rparr>
      (GasFreeFor (dv_tx env) [MsgAgentExecDelegated addr (sv_agentID s) tokens innerAny]) = Ok raw"
proof -
  have chain: "agentChainID cfg = (if AgentChain_Enabled (cf_AgentChain cfg) then ac_ID (cf_AgentChain cfg)
      else dc_ID (cf_DEXChain cfg))"
    by (simp add: agentChainID_def)
  from assms(1) obtain innerAny acct where
    "SignTx (dv_tx env) priv (agentChainID cfg) acct [MsgAgentExecDelegated addr (sv_agentID s) tokens innerAny]
      \<lparr>fs_Denom = fe_Denom (cf_Fee cfg), fs_Amount = fe_Amount (cf_Fee cfg), fs_GasLimit = fe_GasLimit (cf_Fee cfg)\<rparr>
      (GasFreeFor (dv_tx env) [MsgAgentExecDelegated addr (sv_agentID s) tokens innerAny]) = Ok raw"
    unfolding operator_tx_def assms(2) service_config_def Let_def by auto
  then show ?thesis unfolding chain by (intro exI)
qed

text \<open>
  C3: In a wired agent whatever a message naming an execute tool makes it send is a transaction of the
  loaded operator key, signed for the agent chain (the configured one, else the DEX chain itself)
  with the configured fee, under the credential chain the message presents in its metadata or, when
  there is none, in its arguments. And the service sends and reads accounts through the very clients
  the agent-chain tools use: the REST client exactly when an agent chain is configured, else the DEX
  chain's own.
\<close>

theorem wired_execution:
  assumes "Build lib cfg [] = (Ok app, l)" and "ap_Delegated app = Some (env, svc)"
    and "ex_registry ex = Some (ap_Registry app)" and "handle ex xc s = (res, s')"
    and "parse_request ex (messageText (xc_Message xc)) = Ok req"
    and "map_of execute_actions (rq_Tool req) = Some action"
    and "sv_cfg (ag_svc s) = sv_cfg svc" and "raw \<in> sent (new_events (ag_svc s) (ag_svc s'))"
  shows "(\<exists>priv addr deleg proofs tokens v inner acct wrapper. Key_Load (wl_key lib) (cf_Operator cfg) = Ok (Some priv, addr) \<and>
    delegationFromMessage (xc_Message xc) = Ok deleg \<and> presents deleg (rq_Args req) proofs \<and>
    verified_chain env (ag_svc s) proofs tokens v \<and> dv_has_action env (vf_Actions v) action \<and>
    wrapper = MsgAgentExecDelegated addr (sv_agentID (ag_svc s)) tokens inner \<and>
    SignTx (dv_tx env) priv (if AgentChain_Enabled (cf_AgentChain cfg) then ac_ID (cf_AgentChain cfg) else dc_ID (cf_DEXChain cfg))
      acct [wrapper] \<lparr>fs_Denom = fe_Denom (cf_Fee cfg), fs_Amount = fe_Amount (cf_Fee cfg), fs_GasLimit = fe_GasLimit (cf_Fee cfg)\<rparr>
      (GasFreeFor (dv_tx env) [wrapper]) = Ok raw) \<and>
    dv_broadcast env = (if AgentChain_Enabled (cf_AgentChain cfg) then BroadcastSync (rest_of lib cfg) else wl_broadcast lib) \<and>
    dv_account env = (if AgentChain_Enabled (cf_AgentChain cfg) then accountAdapter_Account (rest_of lib cfg) else wl_account lib) \<and>
    ac_broadcast (agent_chain_env lib cfg) = dv_broadcast env \<and> ac_account (agent_chain_env lib cfg) = dv_account env"
proof (intro conjI)
  obtain key where key: "Key_Load (wl_key lib) (cf_Operator cfg) = Ok key"
      "build_delegated lib cfg key = Ok (Some (env, svc))"
    using Build_ok(3) [OF assms(1)] assms(2) by auto
  from delegated_is [OF key(2)] obtain priv where env: "env = delegated_env lib cfg"
    and priv: "fst key = Some priv" "sv_cfg svc = service_config cfg priv (snd key)" by blast
  have load: "Key_Load (wl_key lib) (cf_Operator cfg) = Ok (Some priv, snd key)"
    using key(1) priv(1) by (metis prod.collapse)
  have "full_registry (dynamic_source (wl_tenant_store lib) (wl_clock lib)) (wl_tools lib (ap_Deps app))
      (agent_chain_env lib cfg) (Some env) = Ok (ap_Registry app)"
    using Build_ok(1) [OF assms(1)] assms(2) by simp
  from message_sends_under [OF assms(3) this assms(4,8,5,6)] obtain deleg proofs tokens v sub inner where
    v: "delegationFromMessage (xc_Message xc) = Ok deleg" "presents deleg (rq_Args req) proofs"
      "verified_chain env (ag_svc s) proofs tokens v" "dv_has_action env (vf_Actions v) action"
    and tx: "operator_tx env (ag_svc s) tokens inner raw" by blast
  from operator_tx_signed [OF tx assms(7) [unfolded priv(2)]]
  show "\<exists>priv addr deleg proofs tokens v inner acct wrapper. Key_Load (wl_key lib) (cf_Operator cfg) = Ok (Some priv, addr) \<and>
    delegationFromMessage (xc_Message xc) = Ok deleg \<and> presents deleg (rq_Args req) proofs \<and>
    verified_chain env (ag_svc s) proofs tokens v \<and> dv_has_action env (vf_Actions v) action \<and>
    wrapper = MsgAgentExecDelegated addr (sv_agentID (ag_svc s)) tokens inner \<and>
    SignTx (dv_tx env) priv (if AgentChain_Enabled (cf_AgentChain cfg) then ac_ID (cf_AgentChain cfg) else dc_ID (cf_DEXChain cfg))
      acct [wrapper] \<lparr>fs_Denom = fe_Denom (cf_Fee cfg), fs_Amount = fe_Amount (cf_Fee cfg), fs_GasLimit = fe_GasLimit (cf_Fee cfg)\<rparr>
      (GasFreeFor (dv_tx env) [wrapper]) = Ok raw"
    using load v by blast
qed (simp_all add: shared_clients agentBroadcast_def agentAccount_def delegated_env_of [OF assms(1,2)])

subsection \<open>The EVM families\<close>

lemma build_swap_ok:
  "build_swap lib c deps l = (Ok d, l') \<Longrightarrow> d = deps\<lparr>ed_Uniswap := (if sw_UniswapRouterAddr c = [] then ed_Uniswap deps
     else Some (wl_hex_address lib (sw_UniswapRouterAddr c), wl_hex_address lib (sw_WSVPAddr c)))\<rparr>"
  by (auto simp: build_swap_def Let_def act_bind_Ok_iff split: if_splits)

lemma build_oracle_ok:
  "build_oracle lib c deps l = (Ok d, l') \<Longrightarrow> d = deps\<lparr>ed_Oracle := (if or_FeedAddr c = [] then ed_Oracle deps
     else Some (wl_hex_address lib (or_FeedAddr c)))\<rparr>"
  by (auto simp: build_oracle_def Let_def act_bind_Ok_iff split: if_splits)

lemma build_lendora_ok:
  "build_lendora lib cfg deps l = (Ok (d, c), l') \<Longrightarrow>
   d = deps\<lparr>ed_Lendora := (if le_ComptrollerAddr (ev_Lendora (cf_EVM cfg)) = [] then ed_Lendora deps
     else Some (wl_hex_address lib (le_ComptrollerAddr (ev_Lendora (cf_EVM cfg)))))\<rparr>"
  by (auto simp: build_lendora_def Let_def act_bind_Ok_iff split: if_splits)

definition wired_chain :: "('x, 'i, 'm, 'rt) wire_lib \<Rightarrow> EVMForeignChain \<Rightarrow> ForeignChain" where
  "wired_chain lib fc = \<lparr>fo_Client = fc_RPCURL fc, fo_Assembler = fc_RPCURL fc, fo_Bridge = wl_hex_address lib (fc_BridgeAddr fc)\<rparr>"

lemma build_foreign_ok:
  assumes "build_foreign lib routes home fcs m l = (Ok m', l')" and "distinct (map fc_ChainID fcs)"
  shows "m' = m ++ map_of (map (\<lambda>fc. (fc_ChainID fc, wired_chain lib fc)) fcs)"
  using assms
proof (induction fcs arbitrary: m l)
  case (Cons fc fcs)
  then obtain l1 where "build_foreign lib routes home fcs (m(fc_ChainID fc \<mapsto> wired_chain lib fc)) l1 = (Ok m', l')"
    by (auto simp: act_bind_Ok_iff Let_def wired_chain_def)
  from Cons.prems(2) have "distinct (map fc_ChainID fcs)" by simp
  with \<open>build_foreign lib routes home fcs (m(fc_ChainID fc \<mapsto> wired_chain lib fc)) l1 = (Ok m', l')\<close>
  have "m' = m(fc_ChainID fc \<mapsto> wired_chain lib fc) ++ map_of (map (\<lambda>fc. (fc_ChainID fc, wired_chain lib fc)) fcs)"
    by (rule Cons.IH)
  also have "\<dots> = (m ++ map_of (map (\<lambda>fc. (fc_ChainID fc, wired_chain lib fc)) fcs))(fc_ChainID fc \<mapsto> wired_chain lib fc)"
    using Cons.prems(2) by (intro map_add_upd_left) (auto simp: dom_map_of_conv_image_fst)
  finally show ?case unfolding list.map map_of.simps fst_conv snd_conv map_add_upd .
qed simp

lemma build_bridge_ok:
  assumes "build_bridge lib c deps l = (Ok d, l')" and "distinct (map fc_ChainID (br_ForeignChains c))"
  shows "if br_Addr c = [] then d = deps
    else ed_Bridge d = Some (wl_hex_address lib (br_Addr c)) \<and> ed_Assembler d = ed_Assembler deps \<and> ed_Uniswap d = ed_Uniswap deps \<and>
      ed_Oracle d = ed_Oracle deps \<and> ed_Lendora d = ed_Lendora deps \<and>
      (\<exists>routes. ed_BridgeRoutes d = Some routes \<and> wl_has_source lib routes (br_SourceChainID c)) \<and>
      ed_ForeignChains d = (if br_ForeignChains c = [] then ed_ForeignChains deps
        else Some (map_of (map (\<lambda>fc. (fc_ChainID fc, wired_chain lib fc)) (br_ForeignChains c))))"
proof (cases "br_Addr c = []")
  case True
  then show ?thesis using assms(1) by (simp add: build_bridge_def)
next
  case False
  let ?deps = "\<lambda>routes. deps\<lparr>ed_Bridge := Some (wl_hex_address lib (br_Addr c)), ed_BridgeRoutes := Some routes,
      ed_BridgeSourceChainID := br_SourceChainID c, ed_HomeChainID := br_SourceChainID c\<rparr>"
  obtain routes u l1 where src: "(if wl_has_source lib routes (br_SourceChainID c) then Ok ()
        else Err (Errorf ''bridge routes %s has no routes originating from evm.bridge.source_chain_id %d''
                    [AS (br_RoutesPath c), AD (uint (br_SourceChainID c))])) = Ok u"
    and rest: "(if br_ForeignChains c = [] then act_ret (Ok (?deps routes))
       else act_bind (build_foreign lib routes (br_SourceChainID c) (br_ForeignChains c) (\<lambda>_. None)) (\<lambda>m.
            act_ret (Ok ((?deps routes)\<lparr>ed_ForeignChains := Some m\<rparr>)))) l1 = (Ok d, l')"
    using assms(1) unfolding build_bridge_def Let_def if_not_P [OF False] act_bind_Ok_iff or_close_Ok
    by (elim exE conjE) (rule that)
  have has: "wl_has_source lib routes (br_SourceChainID c)" using src by (simp split: if_splits)
  show ?thesis
  proof (cases "br_ForeignChains c = []")
    case True
    then have "d = ?deps routes" using rest by simp
    then show ?thesis using False True has by simp
  next
    case nonempty: False
    then obtain m l2 where m: "build_foreign lib routes (br_SourceChainID c) (br_ForeignChains c) (\<lambda>_. None) l1 = (Ok m, l2)"
      and d: "d = (?deps routes)\<lparr>ed_ForeignChains := Some m\<rparr>"
      using rest by (auto simp: act_bind_Ok_iff)
    from build_foreign_ok [OF m assms(2)] show ?thesis using False nonempty has d by simp
  qed
qed

lemma Validate_bridge:
  assumes "Validate is_hex new_int c = Ok ()"
  shows "br_ForeignChains (ev_Bridge (cf_EVM c)) \<noteq> [] \<longrightarrow> br_Addr (ev_Bridge (cf_EVM c)) \<noteq> []"
    and "distinct (map fc_ChainID (br_ForeignChains (ev_Bridge (cf_EVM c))))"
proof -
  have v: "validateForeignChains is_hex c = Ok ()" using assms by (auto simp: Validate_def go_iff split: if_splits)
  show "br_ForeignChains (ev_Bridge (cf_EVM c)) \<noteq> [] \<longrightarrow> br_Addr (ev_Bridge (cf_EVM c)) \<noteq> []"
    using v by (auto simp: validateForeignChains_def Let_def)
  show "distinct (map fc_ChainID (br_ForeignChains (ev_Bridge (cf_EVM c))))"
    using v by (auto simp: validateForeignChains_def Let_def foreign_chains_from_ok split: if_splits)
qed

text \<open>
  C36: Each EVM family is wired exactly when it is configured. Without an EVM endpoint none is; with
  one, the swap router, the oracle feed, the lending comptroller and the home bridge are bound to
  their configured addresses when these are given and absent otherwise; and for a validated
  configuration the foreign chains known are exactly the declared ones, each with its own endpoint
  and bridge.
\<close>

theorem evm_families_exact:
  assumes "Build lib cfg [] = (Ok app, l)" and "Validate is_hex new_int cfg = Ok ()"
    and "e = td_EVM (ap_Deps app)" and "ev = cf_EVM cfg"
  shows "if dc_EVMRPCURL (cf_DEXChain cfg) = [] then e = no_evm
    else ed_Assembler e = Some (dc_EVMRPCURL (cf_DEXChain cfg)) \<and>
      ed_Uniswap e = (if sw_UniswapRouterAddr (ev_Swap ev) = [] then None
        else Some (wl_hex_address lib (sw_UniswapRouterAddr (ev_Swap ev)), wl_hex_address lib (sw_WSVPAddr (ev_Swap ev)))) \<and>
      ed_Oracle e = (if or_FeedAddr (ev_Oracle ev) = [] then None else Some (wl_hex_address lib (or_FeedAddr (ev_Oracle ev)))) \<and>
      ed_Lendora e = (if le_ComptrollerAddr (ev_Lendora ev) = [] then None
        else Some (wl_hex_address lib (le_ComptrollerAddr (ev_Lendora ev)))) \<and>
      ed_Bridge e = (if br_Addr (ev_Bridge ev) = [] then None else Some (wl_hex_address lib (br_Addr (ev_Bridge ev)))) \<and>
      ed_ForeignChains e = (if br_ForeignChains (ev_Bridge ev) = [] then None
        else Some (map_of (map (\<lambda>fc. (fc_ChainID fc, wired_chain lib fc)) (br_ForeignChains (ev_Bridge ev)))))"
proof -
  obtain evm l1 l2 where evm: "build_evm lib cfg l1 = (Ok evm, l2)" and deps: "ap_Deps app = tool_deps cfg evm"
    using Build_ok(2) [OF assms(1)] by blast
  have e: "e = fst evm" by (simp add: assms(3) deps tool_deps_def)
  note bridge = build_bridge_ok [OF _ Validate_bridge(2) [OF assms(2)], where lib = lib]
  show ?thesis
    using evm Validate_bridge(1) [OF assms(2)] unfolding build_evm_def Let_def assms(4) e
    by (auto simp: act_bind_Ok_iff no_evm_def split: if_splits prod.splits
        dest!: build_swap_ok build_oracle_ok build_lendora_ok bridge)
qed

end
