(* ===== verification/Wire_Examples.thy ===== *)
theory Wire_Examples
  imports Wire_Safety Life_Safety A2A_Examples
begin

section \<open>A wired agent\<close>

text \<open>
  A configuration that is accepted and a library in which every constructor succeeds; the agent that
  is built from them, served, run and stopped, and the properties of the wiring on it.
\<close>

definition example_wired :: Config where
  "example_wired = example_config\<lparr>cf_PublicURL := ''http://a'',
     cf_Fee := \<lparr>fe_Denom = ''asvp'', fe_Amount = ''5'', fe_GasLimit = 1\<rparr>,
     cf_Operator := \<lparr>op_KeyFile = [], op_Capabilities = [''trading''], op_Metadata = []\<rparr>\<rparr>"

definition example_rest :: "unit rest_client" where
  "example_rest = \<lparr>rc_base = ''http://r'', rc_url_path = (\<lambda>u. Ok u), rc_http = (\<lambda>t req. Err (Foreign ''refused'')),
     rc_parse = (\<lambda>b. Ok JNull), rc_unmarshal = (\<lambda>ty b. Ok ()),
     rc_unpack_account = (\<lambda>m. Ok \<lparr>ai_AccountNumber = 0, ai_Sequence = 0\<rparr>), rc_tx_response = (\<lambda>m. None)\<rparr>"

definition example_lib :: "(unit, unit, unit, unit) wire_lib" where
  "example_lib =
     \<lparr>wl_dial = (\<lambda>a. Ok ()), wl_comet = (\<lambda>u. Ok ()), wl_evm_client = (\<lambda>u. Ok ()), wl_hex_address = (\<lambda>s. s),
      wl_uniswap = (\<lambda>r w. Ok ()), wl_oracle = (\<lambda>a. Ok ()), wl_lendora = (\<lambda>a. Ok ()), wl_bridge = (\<lambda>a. Ok ()),
      wl_routes = (\<lambda>p. Ok ()), wl_has_source = (\<lambda>r c. True), wl_resolve_source = (\<lambda>r c h. Ok ()),
      wl_transfer_out = (\<lambda>p. Ok ()), wl_tools = (\<lambda>d m. example_tool), wl_tenant_store = (\<lambda>x i. None),
      wl_clock = int,
      wl_key = \<lparr>ke_getenv = (\<lambda>_. ''k''), ke_read_file = (\<lambda>_. Err (Foreign ''no file'')),
        ke_parse_priv = (\<lambda>s. Ok s), ke_derive_address = (\<lambda>p. ''op'')\<rparr>,
      wl_account = dv_account example_env, wl_broadcast = dv_broadcast example_env,
      wl_ac = example_ac, wl_dg = example_env, wl_assemble = (\<lambda>asm a. Ok (Ok JNull)), wl_rest = example_rest,
      wl_json = (\<lambda>m. Ok JNull), wl_agent_of = (\<lambda>m. None), wl_min_bond_of = (\<lambda>m. \<lparr>co_Denom = [], co_Amount = 0\<rparr>),
      wl_wallet_params_of = (\<lambda>m. \<lparr>wp_MaxDelegationDepth = 0, wp_MaxTokenTtlSeconds = 0\<rparr>),
      wl_epoch_of = (\<lambda>m. (0, False)), wl_account_any = (\<lambda>m. Any [] [] [])\<rparr>"

definition example_evm :: "unit EVMDeps \<times> LendoraCache option" where
  "example_evm = the_ok (fst (build_evm example_lib example_wired []))"

lemma example_build_evm: "build_evm example_lib example_wired l = (Ok example_evm, l)"
  unfolding example_evm_def
  by (simp add: build_evm_def build_swap_def build_oracle_def build_lendora_def build_bridge_def act_bind_def or_close_def
      example_lib_def example_wired_def example_config_def Let_def)

lemma example_key: "Key_Load (wl_key example_lib) (cf_Operator example_wired) = Ok (Some ''k'', ''op'')"
  by code_simp

lemma example_delegated:
  "build_delegated example_lib example_wired (Some ''k'', ''op'') = Ok (Some (example_env, example_service))"
proof -
  have "delegated_env example_lib example_wired = example_env"
    by (simp add: delegated_env_def agentAccount_def agentBroadcast_def example_wired_def example_config_def
        AgentChain_Enabled_def example_lib_def Let_def)
  moreover have "service_config example_wired ''k'' ''op'' = example_cfg"
    by (simp add: service_config_def example_wired_def example_config_def example_cfg_def example_fee_def agentChainID_def
        AgentChain_Enabled_def)
  moreover have "Service_New example_env example_cfg = Ok example_service"
    by (simp add: example_service_def Service_New_def example_env_def)
  ultimately show ?thesis by (simp add: build_delegated_def)
qed

definition example_app :: "(unit, unit) App" where
  "example_app = the_ok (fst (Build example_lib example_wired []))"

lemma example_build:
  "Build example_lib example_wired [] = (Ok example_app, [ConnOpened ''a:9090''])"
  "ap_Delegated example_app = Some (example_env, example_service)"
proof -
  have addr: "dc_GrpcAddr (cf_DEXChain example_wired) = ''a:9090''" by (simp add: example_wired_def example_config_def)
  have "\<exists>app. Build example_lib example_wired [] = (Ok app, [ConnOpened (dc_GrpcAddr (cf_DEXChain example_wired))]) \<and>
      ap_Delegated app = Some (example_env, example_service) \<and> ap_Deps app = tool_deps example_wired example_evm"
    by (rule Build_succeeds [OF _ _ example_build_evm _ example_key example_delegated]) (simp_all add: example_lib_def)
  then show "Build example_lib example_wired [] = (Ok example_app, [ConnOpened ''a:9090''])"
    "ap_Delegated example_app = Some (example_env, example_service)"
    by (auto simp: example_app_def addr)
qed

lemma example_validated:
  "Validate example_hex (\<lambda>s. Some 5) example_wired = Ok ()"
  by code_simp

text \<open>The execute tool of any registry over the example's service.\<close>

lemma find_place_any:
  assumes "full_registry tenants (h :: string \<Rightarrow> (unit, unit) lib_tool) chain (Some example_env) = Ok r"
  shows "find_op r example_place = Ok place_op"
proof -
  have "Lookup r ''execute_place_order'' = Some place_op"
    unfolding Lookup_entry [OF assms]
    by (intro exI [of _ SkillExecution] exI [of _ "op_Call place_op"])
      (simp add: all_entries_def execution_entries_def execution_tools_def entry_def place_op_def)
  then show ?thesis
    by (simp add: find_op_def example_place_def example_call_def place_op_def zero_Request_def)
qed

subsection \<open>The properties of the wiring\<close>

theorem wired_execution_witness:
  "\<exists>acct wrapper. SignTx (dv_tx example_env) ''k'' ''svp-1'' acct [wrapper] \<lparr>fs_Denom = ''asvp'', fs_Amount = ''5'', fs_GasLimit = 1\<rparr>
     (GasFreeFor (dv_tx example_env) [wrapper]) = Ok ''xkxsvp-1''"
proof -
  have reg: "find_op (ap_Registry example_app) example_place = Ok place_op"
    using Build_ok(1) [OF example_build(1)] by (intro find_place_any) (simp add: example_build(2))
  have ex: "ex_registry (example_full r) = Some r" for r by (simp add: example_full_def)
  have same: "sv_cfg (ag_svc example_state) = sv_cfg example_service" by (simp add: example_state_def)
  have cfg: "\<not> AgentChain_Enabled (cf_AgentChain example_wired)" "dc_ID (cf_DEXChain example_wired) = ''svp-1''"
    "fe_Denom (cf_Fee example_wired) = ''asvp''" "fe_Amount (cf_Fee example_wired) = ''5''" "fe_GasLimit (cf_Fee example_wired) = 1"
    by (simp_all add: example_wired_def example_config_def AgentChain_Enabled_def)
  from wired_execution [OF example_build ex handle_place_run [OF reg] example_parse example_place_action same example_place_sent]
  show ?thesis unfolding example_key by (auto simp: cfg)
qed

theorem build_connection_witness:
  "App_Close example_app (snd (Build example_lib example_wired [])) = [ConnOpened ''a:9090'', ConnClosed]"
proof -
  have "dc_GrpcAddr (cf_DEXChain example_wired) = ''a:9090''" by (simp add: example_wired_def example_config_def)
  with build_connection [OF example_build(1)] show ?thesis by (simp add: example_build)
qed

theorem evm_families_exact_witness:
  "ed_ForeignChains (td_EVM (ap_Deps example_app)) =
     Some [1 \<mapsto> \<lparr>fo_Client = ''http://f'', fo_Assembler = ''http://f'', fo_Bridge = ''0xf''\<rparr>] \<and>
   ed_Oracle (td_EVM (ap_Deps example_app)) = Some ''0xfeed'' \<and> ed_Uniswap (td_EVM (ap_Deps example_app)) = None"
  using evm_families_exact [OF example_build(1) example_validated refl refl]
  by (simp add: example_wired_def example_config_def example_lib_def wired_chain_def)

theorem tenant_sources_disjoint_witness:
  "\<exists>i p. dynamic_source (\<lambda>x i. None) int (example_state\<lparr>ag_tenants := tenant_run int [OpAdmit example_verified] NewReadTenantSource\<rparr>) i = Some p"
proof -
  let ?s = "example_state\<lparr>ag_tenants := tenant_run int [OpAdmit example_verified] NewReadTenantSource\<rparr>"
  have "fst (LookupTenantPolicy int (read_tenant_id example_verified) (ag_tenants ?s)) \<noteq> None" by code_simp
  then show ?thesis
    using tenant_sources_disjoint [of "\<lambda>x i. None" ?s int "[OpAdmit example_verified]" "read_tenant_id example_verified"]
    by auto
qed

subsection \<open>The properties of the running agent\<close>

theorem registered_hash_is_served_witness:
  "\<exists>sv cardJSON. served_card (\<lambda>c. Ok ''card'') (sg_Mux sv) = Some (Ok cardJSON) \<and>
     ex_registry (sg_Executor (sv :: unit serving)) = Some (ap_Registry example_app)"
proof -
  let ?start = "StartFull_serving (\<lambda>u. ex_market example_executor) example_executor \<lparr>ar_Tenants = None, ar_Sessions = None\<rparr> int
      (\<lambda>c. Ok ''card'') example_wired example_app"
  let ?app = "example_app\<lparr>ap_Delegated := Some (example_env, SetCapabilityCard example_env ''card'' example_service)\<rparr>"
  obtain sv where start: "?start = Ok (sv, ?app)"
    by (simp add: StartFull_serving_def wire_card_def example_build(2))
  from registered_hash_is_served [OF start, of example_env "SetCapabilityCard example_env ''card'' example_service"]
  show ?thesis by auto
qed

definition example_signalled :: life where
  "example_signalled = (life_init True)\<lparr>lf_signalled := True, lf_cancelled := True\<rparr>"

lemma example_signalled_reach: "life_reach '':8081'' True example_signalled"
  unfolding example_signalled_def life_init_def
  by (rule life_reach.step [OF life_reach.start])
    (auto simp: life_step_def life_init_def intro!: outside.signal [of "life_init True", unfolded life_init_def, simplified])

text \<open>A run from there to the end: the server listens, is closed and returns, and then so does the agent.\<close>

lemma example_stop:
  "\<exists>n t. life_steps '':8081'' n example_signalled t \<and> lf_main t = MainReturned None"
proof -
  let ?s0 = "example_signalled"
  let ?s1 = "?s0\<lparr>lf_serve := ServeListening\<rparr>"
  let ?s2 = "?s1\<lparr>lf_closed := True\<rparr>"
  let ?s3 = "?s2\<lparr>lf_serve := ServeReturned None\<rparr>"
  let ?s4 = "?s3\<lparr>lf_main := MainReturned None, lf_cancelled := True\<rparr>"
  have "inside '':8081'' ?s0 ?s1" "inside '':8081'' ?s1 ?s2" "inside '':8081'' ?s2 ?s3" "inside '':8081'' ?s3 ?s4"
    by (rule inside_intros serve_step.listens serve_step.watcher_closes serve_step.server_closed main_step.main_serve;
        (rule serve_step.listens serve_step.watcher_closes serve_step.server_closed main_step.main_serve)?;
        simp add: example_signalled_def life_init_def)+
  then have "life_steps '':8081'' 4 ?s0 ?s4" by (auto simp: life_step_def numeral_eq_Suc)
  then show ?thesis by force
qed

theorem agent_stops_witness:
  "\<exists>n t. life_steps '':8081'' n example_signalled t \<and> n \<le> 10 \<and> lf_main t = MainReturned None"
  using agent_stops [OF example_signalled_reach] example_stop by blast

lemma life_reach_steps: "life_reach addr l s \<Longrightarrow> life_steps addr n s t \<Longrightarrow> life_reach addr l t"
  by (induction n arbitrary: s) (auto intro: life_reach.step)

theorem agent_result_witness:
  "\<exists>t. life_reach '':8081'' True t \<and> lf_cancelled t \<and> (\<exists>q. lf_serve t = ServeReturned q)"
proof -
  obtain n t where t: "life_steps '':8081'' n example_signalled t" "lf_main t = MainReturned None"
    using example_stop by blast
  have "life_reach '':8081'' True t" using life_reach_steps [OF example_signalled_reach t(1)] .
  from agent_result [OF this t(2)] this show ?thesis by blast
qed

end
