(* ===== verification/Spec2Isabelle.thy ===== *)
theory Spec2Isabelle
  imports A2A_Card A2A_Credentials A2A_Dispatch A2A_Examples A2A_Messages A2A_Safety A2A_Server Agent_Chain Agent_Chain_Safety Agent_Config Agent_Life Agent_Rest Agent_World Chain_Examples Chain_Msgs Delegated_Examples Delegated_Exec Delegated_Identity Delegated_Inputs Delegated_Reach Delegated_Reads Delegated_Runs Delegated_Safety Dex_Prelude Go_Json Go_Text Key_Resolver Life_Safety Market_Data Operator_Tx Read_Tenants Rest_Routes Tenant_Spec Tool_Bridge Tool_Registry Wire Wire_Examples Wire_Safety
begin

section \<open>The svpchain DEX agent\<close>

text \<open>
  A verification development of the Go program \<open>svpchain-dex-agent\<close>: an A2A agent that reads a
  perpetuals exchange, builds unsigned transactions for its callers and, under a delegation
  credential, signs and sends orders itself. Names are the source's; each definition is translated
  from the code under \<open>src/\<close> that its theory names.

  The parts and how they meet. \<open>cmd/svpchain-dex-agent/main.go\<close> loads a configuration, has
  \<open>internal/wire\<close> build the agent and \<open>internal/a2aserver\<close> serve it. A message reaches the executor,
  which reads the envelope and the delegation in the metadata, finds the tool in the registry of
  \<open>internal/toolbridge\<close>, decides in whose name the call runs (a bearer's tenant, or for a covered
  query the principal of a verified credential), puts the attached credential into the arguments
  and calls the tool: one of the 64 handlers of the MCP library (parameters here), of the 23
  operations of \<open>internal/agentchain\<close>, or of the 7 of \<open>internal/delegated\<close>. The last sign with the
  operator's key (\<open>internal/operator\<close>) and broadcast, by gRPC or over \<open>internal/agentrest\<close>.
\<close>

subsection \<open>Theories\<close>

text \<open>
  \<^item> \<open>Dex_Prelude\<close>: results (\<open>go\<close>: a value, an error or a panic) with their binds, error values with
    their format, operations on a state (\<open>act\<close>) and the contract locales for what an operation may
    change. \<open>Go_Text\<close>: hex, base64, URL segments, strings, decimal digits and file paths as the
    standard library has them, with their round trips. \<open>Go_Json\<close>: JSON trees and the decoding rules
    of \<open>encoding/json\<close> (null, duplicate and case-folded members, struct tags, unknown fields).
  \<^item> \<open>Market_Data\<close> (\<open>internal/marketdata\<close>): the clearing estimate over exact rationals, its
    optimality and rounding, and the read service.
  \<^item> \<open>Agent_Config\<close> (\<open>internal/config\<close>): defaults, validation, paths.
  \<^item> \<open>Chain_Msgs\<close>, \<open>Operator_Tx\<close> (\<open>internal/operator\<close>): messages, the key and the signing path.
  \<^item> \<open>Agent_World\<close>: time as a step counter, the log of effects, tenants, and the locale of a cache
    that trusts an answer for a bounded time.
  \<^item> \<open>Key_Resolver\<close>, \<open>Delegated_Exec\<close>, \<open>Delegated_Identity\<close>, \<open>Delegated_Reads\<close>, \<open>Read_Tenants\<close>,
    \<open>Delegated_Inputs\<close> (\<open>internal/delegated\<close>): the service's state and operations; \<open>Delegated_Safety\<close>
    and \<open>Delegated_Runs\<close> show what is sent and in which order, \<open>Delegated_Reach\<close> the caches' bounds
    over every reachable state, \<open>Tenant_Spec\<close> that the table of tenants implements a map.
    \<open>Delegated_Reads\<close> also shows where the pinning of arguments ends: member names that only fold to
    a field's name pass unread, so that a handler's own checks decide.
  \<^item> \<open>Agent_Chain\<close>, \<open>Agent_Chain_Safety\<close> (\<open>internal/agentchain\<close>): queries, unsigned builds, the landing
    of a caller's own transaction, and that each acts for the tenant's owner.
  \<^item> \<open>Tool_Bridge\<close>, \<open>Tool_Registry\<close> (\<open>internal/toolbridge\<close>): adapters, registry, the tables of tools.
  \<^item> \<open>A2A_Messages\<close>, \<open>A2A_Server\<close>, \<open>A2A_Card\<close> (\<open>internal/a2aserver\<close>): envelope and delegation metadata,
    callers and executor, the agent card; \<open>A2A_Credentials\<close>, \<open>A2A_Dispatch\<close>, \<open>A2A_Safety\<close> show what a
    dispatched request can do.
  \<^item> \<open>Agent_Rest\<close>, \<open>Rest_Routes\<close> (\<open>internal/agentrest\<close>): the REST client, and what its requests say.
  \<^item> \<open>Wire\<close>, \<open>Wire_Safety\<close> (\<open>internal/wire\<close>): the construction of the agent. \<open>Agent_Life\<close>,
    \<open>Life_Safety\<close> (\<open>server.go\<close>, \<open>App.Run\<close>, \<open>main.go\<close>): what is served, and how the goroutines end.
  \<^item> \<open>Delegated_Examples\<close>, \<open>Chain_Examples\<close>, \<open>A2A_Examples\<close>, \<open>Wire_Examples\<close>: concrete runs on which
    the properties' hypotheses hold.
\<close>

subsection \<open>Conventions\<close>

text \<open>
  Fixed-width integers are words; Go maps are association lists with distinct keys, or functions
  where only lookups matter; a nil pointer is \<open>None\<close>. Errors carry the format and the arguments of
  the code's \<open>fmt.Errorf\<close>, never their rendering. Code outside \<open>src/\<close> (the chain's clients and
  codecs, the svpdt and MCP libraries, the HTTP transport, the clock) is a field of an environment
  record or an argument; what is asked of the outside at two moments may differ, so every such call
  has a step of its own, and its answer is a function of that step. What an operation sends, the
  account it reads and the lock it holds are events of a log. A mutex makes the operation it guards
  one step; the agent's goroutines are a step relation in which a \<open>select\<close> takes any ready case. The
  measure of that relation starts at ten, which bounds every run; no other definition needs fuel,
  the loops of the code being recursions on lists or on a shrinking text.

  Where Go leaves the order of a map's iteration open, the model goes by byte order
  (\<open>strict_keys\<close>) or shows that the order cannot be observed (\<open>Tenant_Spec\<close>). Text that is encoded
  as JSON is taken to be valid UTF-8; JSON members given twice with array values do not reuse the
  elements of the first, as the package may.
\<close>

subsection \<open>Not modelled\<close>

text \<open>
  Logging, flag parsing, timeouts and contexts other than cancellation; the HTTP server and the
  JSON-RPC handler of the A2A library; the Go tests and build files. The constructors that only
  store their arguments (\<open>agentchain.New\<close>, \<open>NewAuthKeyClient\<close>) have no definition of their own. The
  64 handlers of the MCP library are parameters: what their own tools do is not claimed.
  How the agent chain's gateway routes a REST request is not modelled either; \<open>Rest_Routes\<close> speaks of
  the client's URLs only.
\<close>

end
